(* ===== verification/Prelude.thy ===== *)
theory Prelude
  imports Main "HOL-Library.State_Monad"
begin

text \<open>
  Shared vocabulary of the development: the effect of a computation in the library's state
  monad as a relation between the state before and after it (one locale for every reflexive and
  transitive relation, so that preservation of an invariant, a frame condition and a monotone
  history are three interpretations of the same rules), and the lemmas on tables (lists of rows)
  that every repository uses.
\<close>

section \<open>Collections\<close>

named_theorems table_simps \<open>rewriting of queries and updates over tables\<close>

named_theorems run_simps \<open>evaluation of computations in the state monad\<close>

lemmas [run_simps] = State_Monad.run_state_bind State_Monad.run_state_return


section \<open>Effects of a computation\<close>

definition modify :: "('s \<Rightarrow> 's) \<Rightarrow> ('s, unit) state" where
  "modify f = State (\<lambda>s. ((), f s))"

definition gets :: "('s \<Rightarrow> 'a) \<Rightarrow> ('s, 'a) state" where
  "gets f = State (\<lambda>s. (f s, s))"

lemma run_modify [simp, run_simps]: "run_state (modify f) s = ((), f s)"
  by (simp add: modify_def)

lemma run_gets [simp, run_simps]: "run_state (gets f) s = (f s, s)"
  by (simp add: gets_def)

text \<open>
  A relation that every computation of a family respects. It has to be closed under doing
  nothing and under sequencing; then it follows the structure of the code.
\<close>

locale effect_order =
  fixes R :: "'s \<Rightarrow> 's \<Rightarrow> bool"
  assumes R_refl: "R s s"
    and R_trans: "R s t \<Longrightarrow> R t u \<Longrightarrow> R s u"
begin

lemma eff_return: "state_io_rel R (State_Monad.return x)"
  by (auto simp: R_refl intro!: state_io_relI)

lemma eff_gets: "state_io_rel R (gets f)"
  by (auto simp: R_refl intro!: state_io_relI)

lemma eff_bind:
  assumes "state_io_rel R m" and "\<And>x. state_io_rel R (f x)"
  shows "state_io_rel R (State_Monad.bind m f)"
proof (rule state_io_relI)
  fix a s s'
  assume run: "run_state (State_Monad.bind m f) s = (a, s')"
  obtain x t where m: "run_state m s = (x, t)" by fastforce
  with run have f: "run_state (f x) t = (a, s')" by simp
  from assms(1) m have "R s t" by blast
  moreover from assms(2) f have "R t s'" by blast
  ultimately show "R s s'" by (rule R_trans)
qed

lemma eff_if:
  "(b \<Longrightarrow> state_io_rel R m) \<Longrightarrow> (\<not> b \<Longrightarrow> state_io_rel R n) \<Longrightarrow>
   state_io_rel R (if b then m else n)"
  by simp

lemma eff_case_option:
  "(x = None \<Longrightarrow> state_io_rel R m) \<Longrightarrow> (\<And>y. x = Some y \<Longrightarrow> state_io_rel R (f y)) \<Longrightarrow>
   state_io_rel R (case x of None \<Rightarrow> m | Some y \<Rightarrow> f y)"
  by (cases x) auto

lemma eff_case_sum:
  "(\<And>y. x = Inl y \<Longrightarrow> state_io_rel R (f y)) \<Longrightarrow> (\<And>y. x = Inr y \<Longrightarrow> state_io_rel R (g y)) \<Longrightarrow>
   state_io_rel R (case x of Inl y \<Rightarrow> f y | Inr y \<Rightarrow> g y)"
  by (cases x) auto

lemma eff_case_prod:
  "(\<And>y z. x = (y, z) \<Longrightarrow> state_io_rel R (f y z)) \<Longrightarrow>
   state_io_rel R (case x of (y, z) \<Rightarrow> f y z)"
  by (cases x) auto

lemma eff_case_list:
  "(x = [] \<Longrightarrow> state_io_rel R m) \<Longrightarrow> (\<And>y ys. x = y # ys \<Longrightarrow> state_io_rel R (f y ys)) \<Longrightarrow>
   state_io_rel R (case x of [] \<Rightarrow> m | y # ys \<Rightarrow> f y ys)"
  by (cases x) auto

lemma eff_let: "state_io_rel R (f x) \<Longrightarrow> state_io_rel R (Let x f)"
  by simp

lemmas eff_rules =
  eff_return eff_gets eff_bind eff_if eff_case_option eff_case_sum eff_case_prod
  eff_case_list eff_let

end

lemma modify_io_rel: "(\<And>s. R s (f s)) \<Longrightarrow> state_io_rel R (modify f)"
  by (auto intro!: state_io_relI)

lemma io_rel_run: "state_io_rel R m \<Longrightarrow> R s (snd (run_state m s))"
  by (simp add: state_io_rel_def)

lemma io_relI_snd: "(\<And>s. R s (snd (run_state m s))) \<Longrightarrow> state_io_rel R m"
  by (simp add: state_io_rel_def)


section \<open>Tables\<close>

text \<open>
  A table is a list of rows. \<open>upd_where\<close> and \<open>del_where\<close> are UPDATE and DELETE with their
  WHERE clause; \<open>find_row\<close> is the row a single-row SELECT returns.
\<close>

definition upd_where :: "('r \<Rightarrow> bool) \<Rightarrow> ('r \<Rightarrow> 'r) \<Rightarrow> 'r list \<Rightarrow> 'r list" where
  "upd_where P f rows = map (\<lambda>r. if P r then f r else r) rows"

definition del_where :: "('r \<Rightarrow> bool) \<Rightarrow> 'r list \<Rightarrow> 'r list" where
  "del_where P rows = filter (\<lambda>r. \<not> P r) rows"

abbreviation find_row :: "('r \<Rightarrow> bool) \<Rightarrow> 'r list \<Rightarrow> 'r option" where
  "find_row \<equiv> List.find"

lemma length_upd_where [simp]: "length (upd_where P f rows) = length rows"
  by (simp add: upd_where_def)

lemma upd_where_Nil [simp]: "upd_where P f [] = []"
  by (simp add: upd_where_def)

lemma set_upd_where:
  "set (upd_where P f rows) = f ` {r \<in> set rows. P r} \<union> {r \<in> set rows. \<not> P r}"
  by (auto simp: upd_where_def)

lemma set_del_where [simp, table_simps]: "set (del_where P rows) = {r \<in> set rows. \<not> P r}"
  by (auto simp: del_where_def)

lemma map_upd_where_frame [table_simps]:
  "(\<And>r. g (f r) = g r) \<Longrightarrow> map g (upd_where P f rows) = map g rows"
  by (simp add: upd_where_def)

lemma distinct_del_where: "distinct (map g rows) \<Longrightarrow> distinct (map g (del_where P rows))"
  by (simp add: del_where_def distinct_map_filter)

lemma find_row_SomeD: "find_row P rows = Some r \<Longrightarrow> r \<in> set rows \<and> P r"
  by (auto simp: find_Some_iff)

lemma find_row_NoneD: "find_row P rows = None \<Longrightarrow> r \<in> set rows \<Longrightarrow> \<not> P r"
  by (auto simp: find_None_iff)

lemma find_row_key:
  "distinct (map key rows) \<Longrightarrow> r \<in> set rows \<Longrightarrow> find_row (\<lambda>x. key x = key r) rows = Some r"
  by (induction rows) (auto simp: rev_image_eqI)

lemma find_row_snoc_fresh:
  "k \<notin> key ` set rows \<Longrightarrow> key r = k \<Longrightarrow> find_row (\<lambda>x. key x = k) (rows @ [r]) = Some r"
  by (induction rows) auto

lemma find_row_append:
  "find_row P (xs @ ys) = (case find_row P xs of Some r \<Rightarrow> Some r | None \<Rightarrow> find_row P ys)"
  by (induction xs) auto

lemma distinct_map_eqD:
  "distinct (map key rows) \<Longrightarrow> r \<in> set rows \<Longrightarrow> r' \<in> set rows \<Longrightarrow> key r = key r' \<Longrightarrow> r = r'"
  by (auto simp: distinct_map dest: inj_onD)

lemma nth_upd: "i < length xs \<Longrightarrow> xs[i := x] ! j = (if j = i then x else xs ! j)"
  by (cases "j = i") simp_all

text \<open>
  The contract of an UPDATE statement: it never changes the column the table is keyed by.
  Everything the repositories rely on after an UPDATE follows from it.
\<close>

locale keyed_update =
  fixes key :: "'r \<Rightarrow> 'k" and upd :: "'r \<Rightarrow> 'r"
  assumes key_upd: "key (upd r) = key r"
begin

lemma map_key_upd: "map key (upd_where P upd rows) = map key rows"
  by (rule map_upd_where_frame) (rule key_upd)

lemma keys_upd: "key ` set (upd_where P upd rows) = key ` set rows"
  by (metis map_key_upd set_map)

lemma distinct_upd: "distinct (map key rows) \<Longrightarrow> distinct (map key (upd_where P upd rows))"
  by (simp add: map_key_upd)

lemma find_upd_same:
  "find_row (\<lambda>r. key r = k) (upd_where (\<lambda>r. key r = k \<and> P r) upd rows) =
   map_option (\<lambda>r. if P r then upd r else r) (find_row (\<lambda>r. key r = k) rows)"
  by (induction rows) (auto simp: upd_where_def key_upd)

lemma find_upd_key:
  "find_row (\<lambda>r. key r = k) (upd_where (\<lambda>r. key r = k) upd rows) =
   map_option upd (find_row (\<lambda>r. key r = k) rows)"
  by (induction rows) (auto simp: upd_where_def key_upd)

lemma find_upd_other:
  "k \<noteq> k' \<Longrightarrow>
   find_row (\<lambda>r. key r = k) (upd_where (\<lambda>r. key r = k' \<and> P r) upd rows) =
   find_row (\<lambda>r. key r = k) rows"
  by (induction rows) (auto simp: upd_where_def key_upd)

lemma find_upd_key_other:
  "k \<noteq> k' \<Longrightarrow>
   find_row (\<lambda>r. key r = k) (upd_where (\<lambda>r. key r = k') upd rows) =
   find_row (\<lambda>r. key r = k) rows"
  by (induction rows) (auto simp: upd_where_def key_upd)

end

end
