(* ===== verification/GoLib.thy ===== *)
theory GoLib
  imports Prelude
begin

text \<open>
  What the source uses of Go and its standard library: byte strings with the functions of
  package strings, strconv, instants of package time, error values, JSON documents and HTTP
  responses. A Go string is a list of bytes (\<^typ>\<open>string\<close>, one \<^typ>\<open>char\<close> per byte). The Unicode
  tables behind strings.ToUpper on non-ASCII text are a parameter.
\<close>

section \<open>Package strings\<close>

definition HasPrefix :: "string \<Rightarrow> string \<Rightarrow> bool" where
  "HasPrefix s p \<longleftrightarrow> take (length p) s = p"

definition HasSuffix :: "string \<Rightarrow> string \<Rightarrow> bool" where
  "HasSuffix s p \<longleftrightarrow> length p \<le> length s \<and> drop (length s - length p) s = p"

lemma HasPrefix_iff: "HasPrefix s p \<longleftrightarrow> (\<exists>t. s = p @ t)"
  by (auto simp: HasPrefix_def) (metis append_take_drop_id)

lemma HasSuffix_iff: "HasSuffix s p \<longleftrightarrow> (\<exists>t. s = t @ p)"
proof
  assume "HasSuffix s p"
  then show "\<exists>t. s = t @ p"
    by (auto simp: HasSuffix_def) (metis append_take_drop_id)
qed (auto simp: HasSuffix_def)

text \<open>The UTF-8 encodings of the runes unicode.IsSpace accepts.\<close>

definition space_runes :: "string list" where
  "space_runes =
     [[CHR 0x20], [CHR 0x09], [CHR 0x0A], [CHR 0x0B], [CHR 0x0C], [CHR 0x0D],
      [CHR 0xC2, CHR 0x85], [CHR 0xC2, CHR 0xA0],
      [CHR 0xE1, CHR 0x9A, CHR 0x80],
      [CHR 0xE2, CHR 0x80, CHR 0x80], [CHR 0xE2, CHR 0x80, CHR 0x81],
      [CHR 0xE2, CHR 0x80, CHR 0x82], [CHR 0xE2, CHR 0x80, CHR 0x83],
      [CHR 0xE2, CHR 0x80, CHR 0x84], [CHR 0xE2, CHR 0x80, CHR 0x85],
      [CHR 0xE2, CHR 0x80, CHR 0x86], [CHR 0xE2, CHR 0x80, CHR 0x87],
      [CHR 0xE2, CHR 0x80, CHR 0x88], [CHR 0xE2, CHR 0x80, CHR 0x89],
      [CHR 0xE2, CHR 0x80, CHR 0x8A],
      [CHR 0xE2, CHR 0x80, CHR 0xA8], [CHR 0xE2, CHR 0x80, CHR 0xA9],
      [CHR 0xE2, CHR 0x80, CHR 0xAF],
      [CHR 0xE2, CHR 0x81, CHR 0x9F], [CHR 0xE3, CHR 0x80, CHR 0x80]]"

lemma drop_rune_shorter:
  assumes "List.find (\<lambda>r. r \<noteq> [] \<and> HasPrefix s r) rs = Some r"
  shows "length (drop (length r) s) < length s"
proof -
  from assms have r: "r \<noteq> []" "HasPrefix s r" by (auto simp: find_Some_iff)
  then obtain t where "s = r @ t" by (auto simp: HasPrefix_iff)
  with r(1) show ?thesis by simp
qed

function trim_left :: "string list \<Rightarrow> string \<Rightarrow> string" where
  "trim_left rs s =
     (case List.find (\<lambda>r. r \<noteq> [] \<and> HasPrefix s r) rs of
        None \<Rightarrow> s
      | Some r \<Rightarrow> trim_left rs (drop (length r) s))"
  by pat_completeness auto
termination
  by (relation "measure (\<lambda>(rs, s). length s)") (auto dest!: drop_rune_shorter)

declare trim_left.simps [simp del]

definition TrimSpace :: "string \<Rightarrow> string" where
  "TrimSpace s = rev (trim_left (map rev space_runes) (rev (trim_left space_runes s)))"

abbreviation byte :: "char \<Rightarrow> nat" where
  "byte c \<equiv> of_char c"

definition upper_char :: "char \<Rightarrow> char" where
  "upper_char c = (if 97 \<le> byte c \<and> byte c \<le> 122 then char_of (byte c - 32) else c)"

definition lower_char :: "char \<Rightarrow> char" where
  "lower_char c = (if 65 \<le> byte c \<and> byte c \<le> 90 then char_of (byte c + 32) else c)"

definition is_ascii :: "string \<Rightarrow> bool" where
  "is_ascii s \<longleftrightarrow> list_all (\<lambda>c. byte c < 128) s"

text \<open>
  strings.ToUpper and strings.ToLower: bytewise on ASCII text, by the Unicode tables (the
  parameter \<open>tab\<close>) otherwise.
\<close>

definition ToUpper :: "(string \<Rightarrow> string) \<Rightarrow> string \<Rightarrow> string" where
  "ToUpper tab s = (if is_ascii s then map upper_char s else tab s)"

definition ToLower :: "(string \<Rightarrow> string) \<Rightarrow> string \<Rightarrow> string" where
  "ToLower tab s = (if is_ascii s then map lower_char s else tab s)"

text \<open>strings.Split with a separator of one byte.\<close>

fun split_byte :: "char \<Rightarrow> string \<Rightarrow> string list" where
  "split_byte c [] = [[]]"
| "split_byte c (x # xs) =
     (if x = c then [] # split_byte c xs
      else (case split_byte c xs of [] \<Rightarrow> [[x]] | y # ys \<Rightarrow> (x # y) # ys))"

lemma split_byte_nonempty [simp]: "split_byte c s \<noteq> []"
  by (induction s) (auto split: list.splits)

lemma split_byte_absent: "c \<notin> set s \<Longrightarrow> split_byte c s = [s]"
  by (induction s) auto

lemma split_byte_append:
  "c \<notin> set s \<Longrightarrow> split_byte c (s @ c # t) = s # split_byte c t"
  by (induction s) auto


section \<open>Package strconv\<close>

fun digits_of_nat :: "nat \<Rightarrow> string" where
  "digits_of_nat n =
     (if n < 10 then [char_of (48 + n)] else digits_of_nat (n div 10) @ [char_of (48 + n mod 10)])"

declare digits_of_nat.simps [simp del]

definition Itoa :: "int \<Rightarrow> string" where
  "Itoa i = (if i < 0 then CHR ''-'' # digits_of_nat (nat (- i)) else digits_of_nat (nat i))"

definition is_digit :: "char \<Rightarrow> bool" where
  "is_digit c \<longleftrightarrow> 48 \<le> byte c \<and> byte c \<le> 57"

definition digits_value :: "string \<Rightarrow> nat" where
  "digits_value ds = foldl (\<lambda>a c. 10 * a + (byte c - 48)) 0 ds"

text \<open>strconv.Atoi on a 64-bit platform; \<^const>\<open>None\<close> is its error (syntax or range).\<close>

definition Atoi :: "string \<Rightarrow> int option" where
  "Atoi s =
     (let (neg, ds) =
        (case s of
           [] \<Rightarrow> (False, [])
         | c # cs \<Rightarrow> if c = CHR ''-'' then (True, cs)
                    else if c = CHR ''+'' then (False, cs) else (False, c # cs))
      in if ds = [] \<or> \<not> list_all is_digit ds then None
         else let n = int (digits_value ds)
              in if neg then (if n \<le> 2 ^ 63 then Some (- n) else None)
                 else (if n < 2 ^ 63 then Some n else None))"

lemma digits_value_snoc: "digits_value (ds @ [c]) = 10 * digits_value ds + (byte c - 48)"
  by (simp add: digits_value_def)

lemma byte_char_of_small: "n < 256 \<Longrightarrow> byte (char_of n) = n"
  by (simp add: of_char_of)

lemma digits_of_nat_digits:
  "digits_of_nat n \<noteq> [] \<and> list_all is_digit (digits_of_nat n) \<and> digits_value (digits_of_nat n) = n"
proof (induction n rule: digits_of_nat.induct)
  case (1 n)
  show ?case
  proof (cases "n < 10")
    case True
    then show ?thesis
      by (subst (1 2 3) digits_of_nat.simps) (simp add: is_digit_def digits_value_def byte_char_of_small)
  next
    case False
    have d: "is_digit (char_of (48 + n mod 10))" "byte (char_of (48 + n mod 10)) - 48 = n mod 10"
      by (simp_all add: is_digit_def byte_char_of_small)
    from 1 False d show ?thesis
      by (subst (1 2 3) digits_of_nat.simps) (simp add: digits_value_snoc)
  qed
qed

lemma Atoi_Itoa:
  assumes "- (2 ^ 63) \<le> i" and "i < 2 ^ 63"
  shows "Atoi (Itoa i) = Some i"
proof (cases "i < 0")
  case True
  with assms(1) digits_of_nat_digits[of "nat (- i)"] show ?thesis
    by (simp add: Atoi_def Itoa_def Let_def)
next
  case False
  obtain c cs where cs: "digits_of_nat (nat i) = c # cs" "is_digit c"
    using digits_of_nat_digits[of "nat i"] by (cases "digits_of_nat (nat i)") auto
  then have "c \<noteq> CHR ''-''" "c \<noteq> CHR ''+''"
    by (auto simp: is_digit_def)
  with False assms(2) cs digits_of_nat_digits[of "nat i"] show ?thesis
    by (simp add: Atoi_def Itoa_def Let_def)
qed


section \<open>Package time\<close>

text \<open>
  An instant (time.Time) and a time.Duration are counted in nanoseconds, an instant from the
  Unix epoch.
\<close>

type_synonym time = int

definition second :: time where "second = 1000000000"

definition minute :: time where "minute = 60 * second"

text \<open>A product of durations is computed in 64 bits and wraps around.\<close>

definition wrap64 :: "int \<Rightarrow> int" where
  "wrap64 n = (n + 2 ^ 63) mod 2 ^ 64 - 2 ^ 63"

lemma wrap64_bounds: "- (2 ^ 63) \<le> wrap64 n" "wrap64 n < 2 ^ 63"
  by (simp_all add: wrap64_def)

lemma wrap64_id: "wrap64 n = n \<longleftrightarrow> - (2 ^ 63) \<le> n \<and> n < 2 ^ 63"
proof
  assume "wrap64 n = n"
  then show "- (2 ^ 63) \<le> n \<and> n < 2 ^ 63" using wrap64_bounds[of n] by simp
next
  assume "- (2 ^ 63) \<le> n \<and> n < 2 ^ 63"
  then show "wrap64 n = n" unfolding wrap64_def by (subst mod_pos_pos_trivial) auto
qed

definition Unix :: "time \<Rightarrow> int" where
  "Unix t = t div second"

definition UnixMilli :: "time \<Rightarrow> int" where
  "UnixMilli t = t div 1000000"


section \<open>JSON documents\<close>

text \<open>
  The value of a json.RawMessage or of an \<open>any\<close>: an object is the list of its members, in the
  order encoding/json writes them (a Go map sorted by key, a struct in field order). Numbers are
  integers that a float64 holds exactly, so that decoding into an \<open>any\<close> keeps them.
\<close>

datatype json =
    JNull
  | JBool bool
  | JInt int
  | JStr string
  | JArr "json list"
  | JObj "(string \<times> json) list"

definition json_error :: "string \<Rightarrow> json" where
  "json_error msg = JObj [(''error'', JStr msg)]"

text \<open>
  json.Unmarshal into a map[string]string: null leaves the nil map, a null member stores the
  empty string, any other member that is not a string is an error. Later members win.
\<close>

fun string_members :: "(string \<times> json) list \<Rightarrow> (string \<rightharpoonup> string) option" where
  "string_members [] = Some Map.empty"
| "string_members ((k, v) # ms) =
     (case (string_members ms, v) of
        (Some m, JStr x) \<Rightarrow> Some (if m k = None then m(k \<mapsto> x) else m)
      | (Some m, JNull) \<Rightarrow> Some (if m k = None then m(k \<mapsto> []) else m)
      | _ \<Rightarrow> None)"

definition unmarshal_string_map :: "json \<Rightarrow> (string \<rightharpoonup> string) option" where
  "unmarshal_string_map j =
     (case j of JNull \<Rightarrow> Some Map.empty | JObj ms \<Rightarrow> string_members ms | _ \<Rightarrow> None)"


section \<open>UTF-8 text of string literals\<close>

definition utf8_rune :: "nat \<Rightarrow> string" where
  "utf8_rune cp =
     (if cp < 0x80 then [char_of cp]
      else if cp < 0x800 then [char_of (0xC0 + cp div 0x40), char_of (0x80 + cp mod 0x40)]
      else if cp < 0x10000 then
        [char_of (0xE0 + cp div 0x1000), char_of (0x80 + cp div 0x40 mod 0x40),
         char_of (0x80 + cp mod 0x40)]
      else
        [char_of (0xF0 + cp div 0x40000), char_of (0x80 + cp div 0x1000 mod 0x40),
         char_of (0x80 + cp div 0x40 mod 0x40), char_of (0x80 + cp mod 0x40)])"

definition utf8 :: "nat list \<Rightarrow> string" where
  "utf8 cps = concat (map utf8_rune cps)"

end
