(* ===== verification/Crypto.thy ===== *)
theory Crypto
  imports GoLib "HOL-Library.Word"
begin

unbundle bit_operations_syntax

text \<open>
  internal/util/crypto.go and internal/util/validation.go, over a model of the standard library's
  crypto/sha256, crypto/hmac, crypto/subtle and encoding/hex that computes: bytes are characters,
  the compression function works on 32-bit words. The randomness of crypto/rand is an argument
  (the bytes read, or the failure to read them).
\<close>

section \<open>encoding/hex\<close>

definition hex_digit :: "nat \<Rightarrow> char" where
  "hex_digit n = char_of (if n < 10 then 48 + n else 87 + n)"

fun hex_encode :: "string \<Rightarrow> string" where
  "hex_encode [] = []"
| "hex_encode (c # cs) = hex_digit (byte c div 16) # hex_digit (byte c mod 16) # hex_encode cs"

definition hex_value :: "char \<Rightarrow> nat option" where
  "hex_value c =
     (if 48 \<le> byte c \<and> byte c \<le> 57 then Some (byte c - 48)
      else if 97 \<le> byte c \<and> byte c \<le> 102 then Some (byte c - 87)
      else if 65 \<le> byte c \<and> byte c \<le> 70 then Some (byte c - 55)
      else None)"

fun hex_decode :: "string \<Rightarrow> string option" where
  "hex_decode [] = Some []"
| "hex_decode [c] = None"
| "hex_decode (c # d # cs) =
     (case (hex_value c, hex_value d, hex_decode cs) of
        (Some h, Some l, Some bs) \<Rightarrow> Some (char_of (16 * h + l) # bs)
      | _ \<Rightarrow> None)"

definition is_hex_char :: "char \<Rightarrow> bool" where
  "is_hex_char c \<longleftrightarrow> (48 \<le> byte c \<and> byte c \<le> 57) \<or> (97 \<le> byte c \<and> byte c \<le> 102)"

lemma byte_less_256 [simp]: "byte c < 256"
  by (rule nat_of_char_less_256)

lemma hex_digit_value: "n < 16 \<Longrightarrow> hex_value (hex_digit n) = Some n \<and> is_hex_char (hex_digit n)"
  by (auto simp: hex_value_def hex_digit_def is_hex_char_def byte_char_of_small)

lemma hex_decode_encode: "hex_decode (hex_encode bs) = Some bs"
proof (induction bs)
  case (Cons c cs)
  have "byte c div 16 < 16" "byte c mod 16 < 16"
    using byte_less_256[of c] by (auto simp: less_mult_imp_div_less)
  with Cons hex_digit_value show ?case by simp
qed simp

lemma length_hex_encode [simp]: "length (hex_encode bs) = 2 * length bs"
  by (induction bs) auto

lemma hex_encode_chars: "list_all is_hex_char (hex_encode bs)"
proof (induction bs)
  case (Cons c cs)
  have "byte c div 16 < 16" "byte c mod 16 < 16"
    using byte_less_256[of c] by (auto simp: less_mult_imp_div_less)
  with Cons hex_digit_value show ?case by simp
qed simp

lemma hex_encode_inject [simp]: "hex_encode a = hex_encode b \<longleftrightarrow> a = b"
  by (metis hex_decode_encode option.inject)


section \<open>crypto/sha256 and crypto/hmac\<close>

type_synonym w32 = "32 word"

text \<open>The round constants and the initial hash value, in decimal.\<close>

definition sha256_k :: "w32 list" where
  "sha256_k =
     [1116352408, 1899447441, 3049323471, 3921009573, 961987163, 1508970993, 2453635748,
      2870763221, 3624381080, 310598401, 607225278, 1426881987, 1925078388, 2162078206,
      2614888103, 3248222580, 3835390401, 4022224774, 264347078, 604807628, 770255983,
      1249150122, 1555081692, 1996064986, 2554220882, 2821834349, 2952996808, 3210313671,
      3336571891, 3584528711, 113926993, 338241895, 666307205, 773529912, 1294757372, 1396182291,
      1695183700, 1986661051, 2177026350, 2456956037, 2730485921, 2820302411, 3259730800,
      3345764771, 3516065817, 3600352804, 4094571909, 275423344, 430227734, 506948616, 659060556,
      883997877, 958139571, 1322822218, 1537002063, 1747873779, 1955562222, 2024104815,
      2227730452, 2361852424, 2428436474, 2756734187, 3204031479, 3329325298]"

definition sha256_init :: "w32 list" where
  "sha256_init =
     [1779033703, 3144134277, 1013904242, 2773480762, 1359893119, 2600822924, 528734635,
      1541459225]"

definition rotr :: "nat \<Rightarrow> w32 \<Rightarrow> w32" where
  "rotr n x = (drop_bit n x) OR (push_bit (32 - n) x)"

fun be_word :: "string \<Rightarrow> w32" where
  "be_word cs = foldl (\<lambda>a c. push_bit 8 a OR of_char c) 0 cs"

fun be_words :: "nat \<Rightarrow> string \<Rightarrow> w32 list" where
  "be_words 0 cs = []"
| "be_words (Suc n) cs = be_word (take 4 cs) # be_words n (drop 4 cs)"

definition word_bytes :: "w32 \<Rightarrow> string" where
  "word_bytes w = map (\<lambda>i. char_of (uint (drop_bit (8 * i) w AND 255))) [3, 2, 1, 0]"

text \<open>The message schedule, kept with the newest word first.\<close>

fun schedule :: "nat \<Rightarrow> w32 list \<Rightarrow> w32 list" where
  "schedule 0 ws = ws"
| "schedule (Suc n) ws =
     (let w15 = ws ! 14; w2 = ws ! 1;
          s0 = rotr 7 w15 XOR rotr 18 w15 XOR drop_bit 3 w15;
          s1 = rotr 17 w2 XOR rotr 19 w2 XOR drop_bit 10 w2
      in schedule n ((ws ! 15 + s0 + ws ! 6 + s1) # ws))"

fun sha_rounds :: "(w32 \<times> w32) list \<Rightarrow> w32 \<Rightarrow> w32 \<Rightarrow> w32 \<Rightarrow> w32 \<Rightarrow> w32 \<Rightarrow> w32 \<Rightarrow> w32 \<Rightarrow> w32 \<Rightarrow> w32 list"
where
  "sha_rounds [] a b c d e f g h = [a, b, c, d, e, f, g, h]"
| "sha_rounds ((k, w) # kws) a b c d e f g h =
     (let s1 = rotr 6 e XOR rotr 11 e XOR rotr 25 e;
          ch = (e AND f) XOR (NOT e AND g);
          t1 = h + s1 + ch + k + w;
          s0 = rotr 2 a XOR rotr 13 a XOR rotr 22 a;
          maj = (a AND b) XOR (a AND c) XOR (b AND c);
          t2 = s0 + maj
      in sha_rounds kws (t1 + t2) a b c (d + t1) e f g)"

definition sha_block :: "w32 list \<Rightarrow> string \<Rightarrow> w32 list" where
  "sha_block hs blk =
     (let ws = rev (schedule 48 (rev (be_words 16 blk)))
      in map2 (+) hs
           (sha_rounds (zip sha256_k ws)
              (hs ! 0) (hs ! 1) (hs ! 2) (hs ! 3) (hs ! 4) (hs ! 5) (hs ! 6) (hs ! 7)))"

fun sha_blocks :: "nat \<Rightarrow> w32 list \<Rightarrow> string \<Rightarrow> w32 list" where
  "sha_blocks 0 hs m = hs"
| "sha_blocks (Suc n) hs m = sha_blocks n (sha_block hs (take 64 m)) (drop 64 m)"

definition be_length :: "nat \<Rightarrow> string" where
  "be_length n = map (\<lambda>i. char_of (drop_bit (8 * i) (int n))) [7, 6, 5, 4, 3, 2, 1, 0]"

definition sha_pad :: "string \<Rightarrow> string" where
  "sha_pad m =
     m @ [CHR 0x80] @ replicate ((119 - length m mod 64) mod 64) (CHR 0x00) @ be_length (8 * length m)"

definition Sum256 :: "string \<Rightarrow> string" where
  "Sum256 m =
     (let p = sha_pad m in concat (map word_bytes (sha_blocks (length p div 64) sha256_init p)))"

definition xor_pad :: "int \<Rightarrow> string \<Rightarrow> string" where
  "xor_pad b key = map (\<lambda>c. char_of (of_char c XOR b)) (key @ replicate (64 - length key) (CHR 0x00))"

definition hmac_sum :: "string \<Rightarrow> string \<Rightarrow> string" where
  "hmac_sum secret data =
     (let key = (if length secret > 64 then Sum256 secret else secret)
      in Sum256 (xor_pad 0x5C key @ Sum256 (xor_pad 0x36 key @ data)))"

lemma length_map2_rounds: "length (sha_rounds kws a b c d e f g h) = 8"
  by (induction kws a b c d e f g h rule: sha_rounds.induct) (auto simp: Let_def)

lemma length_sha_block: "length hs = 8 \<Longrightarrow> length (sha_block hs blk) = 8"
  by (simp add: sha_block_def Let_def length_map2_rounds)

lemma length_sha_blocks: "length hs = 8 \<Longrightarrow> length (sha_blocks n hs m) = 8"
  by (induction n hs m rule: sha_blocks.induct) (auto simp: length_sha_block)

lemma length_word_bytes [simp]: "length (word_bytes w) = 4"
  by (simp add: word_bytes_def)

lemma length_concat_word_bytes: "length (concat (map word_bytes ws)) = 4 * length ws"
  by (induction ws) auto

lemma length_Sum256 [simp]: "length (Sum256 m) = 32"
  by (simp add: Sum256_def Let_def length_concat_word_bytes length_sha_blocks sha256_init_def)


section \<open>internal/util/crypto.go\<close>

definition tokenBytes :: nat where "tokenBytes = 32"

text \<open>
  The argument is what rand.Read delivers: \<^const>\<open>None\<close> when it fails, else the entropy from
  which the buffer is filled. The result also holds the entropy that is left.
\<close>

definition rand_Read :: "nat \<Rightarrow> string \<Rightarrow> (string \<times> string) option" where
  "rand_Read n entropy =
     (if length entropy < n then None else Some (take n entropy, drop n entropy))"

definition GenerateToken :: "string \<Rightarrow> (string \<times> string) option" where
  "GenerateToken entropy =
     (case rand_Read tokenBytes entropy of
        None \<Rightarrow> None
      | Some (bytes, rest) \<Rightarrow> Some (hex_encode bytes, rest))"

definition HashToken :: "string \<Rightarrow> string" where
  "HashToken token = hex_encode (Sum256 token)"

definition HmacSHA256 :: "string \<Rightarrow> string \<Rightarrow> string" where
  "HmacSHA256 secret data = hex_encode (hmac_sum secret data)"

text \<open>subtle.ConstantTimeCompare: 0 for different lengths, else the OR of all byte differences.\<close>

fun ct_diff :: "string \<Rightarrow> string \<Rightarrow> nat" where
  "ct_diff (x # xs) (y # ys) = (byte x XOR byte y) OR ct_diff xs ys"
| "ct_diff _ _ = 0"

definition ConstantTimeCompare :: "string \<Rightarrow> string \<Rightarrow> int" where
  "ConstantTimeCompare a b =
     (if length a \<noteq> length b then 0 else if ct_diff a b = 0 then 1 else 0)"

definition ConstantTimeEqual :: "string \<Rightarrow> string \<Rightarrow> bool" where
  "ConstantTimeEqual a b \<longleftrightarrow> ConstantTimeCompare a b = 1"

definition MaskCode :: "string \<Rightarrow> string" where
  "MaskCode code = (if length code \<le> 4 then ''****'' else take 4 code @ ''-****'')"

lemma GenerateToken_Some:
  "GenerateToken e = Some (t, e') \<longleftrightarrow>
   tokenBytes \<le> length e \<and> t = hex_encode (take tokenBytes e) \<and> e' = drop tokenBytes e"
  by (auto simp: GenerateToken_def rand_Read_def)

lemma GenerateToken_None: "GenerateToken e = None \<longleftrightarrow> length e < tokenBytes"
  by (simp add: GenerateToken_def rand_Read_def)

lemma GenerateToken_shape:
  "GenerateToken e = Some (t, e') \<Longrightarrow> length t = 64 \<and> list_all is_hex_char t"
  by (auto simp: GenerateToken_Some tokenBytes_def hex_encode_chars)

lemma HashToken_shape: "length (HashToken t) = 64 \<and> list_all is_hex_char (HashToken t)"
  by (simp add: HashToken_def hex_encode_chars)

lemma ct_diff_eq_0: "length a = length b \<Longrightarrow> ct_diff a b = 0 \<longleftrightarrow> a = b"
proof (induction a b rule: list_induct2)
  case (Cons x xs y ys)
  have "(byte x XOR byte y) OR ct_diff xs ys = 0 \<longleftrightarrow> byte x XOR byte y = 0 \<and> ct_diff xs ys = 0"
    by (simp add: or_eq_0_iff)
  also have "byte x XOR byte y = 0 \<longleftrightarrow> byte x = byte y"
    by (metis xor_self_eq xor.assoc xor.left_neutral xor.right_neutral)
  also have "byte x = byte y \<longleftrightarrow> x = y"
    by (metis char_of_char)
  finally show ?case using Cons.IH by simp
qed simp

lemma ConstantTimeEqual_iff: "ConstantTimeEqual a b \<longleftrightarrow> a = b"
  by (auto simp: ConstantTimeEqual_def ConstantTimeCompare_def ct_diff_eq_0)

lemma MaskCode_hides:
  "length code > 4 \<Longrightarrow> take 4 code = take 4 code' \<Longrightarrow> length code' > 4 \<Longrightarrow> MaskCode code = MaskCode code'"
  by (simp add: MaskCode_def)


section \<open>internal/util/validation.go\<close>

text \<open>The regular expression: groups of lower-case hexadecimal digits joined by hyphens.\<close>

fun match_hex_groups :: "nat list \<Rightarrow> string \<Rightarrow> bool" where
  "match_hex_groups [] s = (s = [])"
| "match_hex_groups [n] s = (length s = n \<and> list_all is_hex_char s)"
| "match_hex_groups (n # m # ns) s =
     (n < length s \<and> list_all is_hex_char (take n s) \<and> s ! n = CHR ''-''
      \<and> match_hex_groups (m # ns) (drop (Suc n) s))"

definition IsValidUUID :: "string \<Rightarrow> bool" where
  "IsValidUUID s = (if s = [] then False else match_hex_groups [8, 4, 4, 4, 12] s)"

definition IsValidEnum :: "string \<Rightarrow> string list \<Rightarrow> bool" where
  "IsValidEnum value validValues =
     (if value = [] then True else list_ex (\<lambda>v. value = v) validValues)"

lemma match_hex_groups_length:
  "ns \<noteq> [] \<Longrightarrow> match_hex_groups ns s \<Longrightarrow> length s = sum_list ns + (length ns - 1)"
proof (induction ns s rule: match_hex_groups.induct)
  case (3 n m ns s)
  then have "length (drop (Suc n) s) = sum_list (m # ns) + length ns" and "n < length s"
    by simp_all
  then show ?case by simp
qed simp_all

lemma IsValidUUID_length: "IsValidUUID s \<Longrightarrow> length s = 36"
  using match_hex_groups_length[of "[8, 4, 4, 4, 12]" s]
  by (simp add: IsValidUUID_def split: if_splits)

end
