(* ===== verification/AppErrors.thy ===== *)
theory AppErrors
  imports GoLib
begin

text \<open>
  internal/errors/errors.go and internal/httputil/response.go: Go error values, the application
  error with its codes and constructors, errors.As along the chain of wrapped errors, and the
  HTTP response an error becomes.
\<close>

section \<open>Error values\<close>

text \<open>
  \<open>ErrCodeOther\<close> is any other value of the string type ErrorCode, the default branch of the
  status mapping.
\<close>

datatype error_code =
    ErrCodeUnauthorized | ErrCodeForbidden | ErrCodeInvalidToken | ErrCodeTokenExpired
  | ErrCodeSessionNotPaired | ErrCodeValidation | ErrCodeInvalidInput | ErrCodeMissingRequired
  | ErrCodeNotFound | ErrCodeAlreadyExists | ErrCodeConflict | ErrCodeInvalidPairingCode
  | ErrCodePairingExpired | ErrCodeAlreadyPaired | ErrCodeRateLimitExceeded | ErrCodeCallbackExpired
  | ErrCodeCallbackFailed | ErrCodeInternal | ErrCodeDatabase | ErrCodeExternal
  | ErrCodeOther string

fun code_text :: "error_code \<Rightarrow> string" where
  "code_text ErrCodeUnauthorized = ''UNAUTHORIZED''"
| "code_text ErrCodeForbidden = ''FORBIDDEN''"
| "code_text ErrCodeInvalidToken = ''INVALID_TOKEN''"
| "code_text ErrCodeTokenExpired = ''TOKEN_EXPIRED''"
| "code_text ErrCodeSessionNotPaired = ''SESSION_NOT_PAIRED''"
| "code_text ErrCodeValidation = ''VALIDATION_ERROR''"
| "code_text ErrCodeInvalidInput = ''INVALID_INPUT''"
| "code_text ErrCodeMissingRequired = ''MISSING_REQUIRED''"
| "code_text ErrCodeNotFound = ''NOT_FOUND''"
| "code_text ErrCodeAlreadyExists = ''ALREADY_EXISTS''"
| "code_text ErrCodeConflict = ''CONFLICT''"
| "code_text ErrCodeInvalidPairingCode = ''INVALID_PAIRING_CODE''"
| "code_text ErrCodePairingExpired = ''PAIRING_EXPIRED''"
| "code_text ErrCodeAlreadyPaired = ''ALREADY_PAIRED''"
| "code_text ErrCodeRateLimitExceeded = ''RATE_LIMIT_EXCEEDED''"
| "code_text ErrCodeCallbackExpired = ''CALLBACK_EXPIRED''"
| "code_text ErrCodeCallbackFailed = ''CALLBACK_FAILED''"
| "code_text ErrCodeInternal = ''INTERNAL_ERROR''"
| "code_text ErrCodeDatabase = ''DATABASE_ERROR''"
| "code_text ErrCodeExternal = ''EXTERNAL_SERVICE_ERROR''"
| "code_text (ErrCodeOther s) = s"

text \<open>
  \<open>Errorf\<close> is an error of fmt.Errorf without a wrapped one, \<open>Wrapf pre e post\<close> one with a wrapped
  error printed between two texts, \<open>Foreign\<close> the error of a library with its text, \<open>ErrNoRows\<close> is
  sql.ErrNoRows and \<open>AppError\<close> the struct with its Code, Message, Details and cause.
\<close>

datatype goerror =
    Errorf string
  | Wrapf string goerror string
  | Foreign string
  | ErrNoRows
  | AppError error_code string "json option" "goerror option"

primrec Error :: "goerror \<Rightarrow> string" where
  "Error (Errorf s) = s"
| "Error (Wrapf pre e post) = pre @ Error e @ post"
| "Error (Foreign s) = s"
| "Error ErrNoRows = ''sql: no rows in result set''"
| "Error (AppError code msg details cause) =
     (case map_option Error cause of
        None \<Rightarrow> code_text code @ '': '' @ msg
      | Some c \<Rightarrow> code_text code @ '': '' @ msg @ '' (cause: '' @ c @ '')'')"

primrec Unwrap :: "goerror \<Rightarrow> goerror option" where
  "Unwrap (Errorf s) = None"
| "Unwrap (Wrapf pre e post) = Some e"
| "Unwrap (Foreign s) = None"
| "Unwrap ErrNoRows = None"
| "Unwrap (AppError code msg details cause) = cause"

text \<open>errors.Is(err, sql.ErrNoRows): some error of the chain is the sentinel.\<close>

primrec Is_ErrNoRows :: "goerror \<Rightarrow> bool" where
  "Is_ErrNoRows (Errorf s) = False"
| "Is_ErrNoRows (Wrapf pre e post) = Is_ErrNoRows e"
| "Is_ErrNoRows (Foreign s) = False"
| "Is_ErrNoRows ErrNoRows = True"
| "Is_ErrNoRows (AppError code msg details cause) = (map_option Is_ErrNoRows cause = Some True)"

text \<open>errors.As(err, &appErr): the first application error of the chain.\<close>

primrec AsAppError :: "goerror \<Rightarrow> goerror option" where
  "AsAppError (Errorf s) = None"
| "AsAppError (Wrapf pre e post) = AsAppError e"
| "AsAppError (Foreign s) = None"
| "AsAppError ErrNoRows = None"
| "AsAppError (AppError code msg details cause) = Some (AppError code msg details cause)"

definition IsAppError :: "goerror \<Rightarrow> bool" where
  "IsAppError e \<longleftrightarrow> AsAppError e \<noteq> None"

fun app_code :: "goerror \<Rightarrow> error_code" where
  "app_code (AppError code msg details cause) = code"
| "app_code _ = ErrCodeInternal"

definition GetCode :: "goerror \<Rightarrow> error_code" where
  "GetCode e = (case AsAppError e of Some a \<Rightarrow> app_code a | None \<Rightarrow> ErrCodeInternal)"

text \<open>WithCause and WithDetails are methods of an application error only.\<close>

fun WithCause :: "goerror \<Rightarrow> goerror \<Rightarrow> goerror" where
  "WithCause (AppError code msg details cause) e = AppError code msg details (Some e)"
| "WithCause a e = a"

fun WithDetails :: "goerror \<Rightarrow> json \<Rightarrow> goerror" where
  "WithDetails (AppError code msg details cause) d = AppError code msg (Some d) cause"
| "WithDetails a d = a"

definition NewErr :: "error_code \<Rightarrow> string \<Rightarrow> goerror" where
  "NewErr code msg = AppError code msg None None"

definition WrapErr :: "error_code \<Rightarrow> string \<Rightarrow> goerror \<Rightarrow> goerror" where
  "WrapErr code msg cause = AppError code msg None (Some cause)"


section \<open>Constructors\<close>

definition Unauthorized :: "string \<Rightarrow> goerror" where
  "Unauthorized msg = NewErr ErrCodeUnauthorized msg"

definition Forbidden :: "string \<Rightarrow> goerror" where
  "Forbidden msg = NewErr ErrCodeForbidden msg"

definition InvalidToken :: "string \<Rightarrow> goerror" where
  "InvalidToken msg = NewErr ErrCodeInvalidToken msg"

definition SessionNotPaired :: goerror where
  "SessionNotPaired = NewErr ErrCodeSessionNotPaired ''Session not paired''"

definition NotFound :: "string \<Rightarrow> goerror" where
  "NotFound resource = NewErr ErrCodeNotFound (resource @ '' not found'')"

definition AlreadyExists :: "string \<Rightarrow> goerror" where
  "AlreadyExists resource = NewErr ErrCodeAlreadyExists (resource @ '' already exists'')"

definition ValidationError :: "string \<Rightarrow> goerror" where
  "ValidationError msg = NewErr ErrCodeValidation msg"

definition InvalidInput :: "string \<Rightarrow> string \<Rightarrow> goerror" where
  "InvalidInput field reason =
     NewErr ErrCodeInvalidInput (''Invalid '' @ field @ '': '' @ reason)"

definition MissingRequired :: "string \<Rightarrow> goerror" where
  "MissingRequired field = NewErr ErrCodeMissingRequired (field @ '' is required'')"

definition InvalidPairingCode :: goerror where
  "InvalidPairingCode = NewErr ErrCodeInvalidPairingCode ''Invalid or expired pairing code''"

definition PairingExpired :: goerror where
  "PairingExpired = NewErr ErrCodePairingExpired ''Pairing code has expired''"

definition AlreadyPaired :: goerror where
  "AlreadyPaired = NewErr ErrCodeAlreadyPaired ''Session is already paired''"

definition RateLimitExceeded :: goerror where
  "RateLimitExceeded = NewErr ErrCodeRateLimitExceeded ''Rate limit exceeded''"

definition CallbackExpired :: goerror where
  "CallbackExpired = NewErr ErrCodeCallbackExpired ''Callback URL expired or not available''"

definition CallbackFailed :: "string \<Rightarrow> goerror" where
  "CallbackFailed reason =
     NewErr ErrCodeCallbackFailed (''Failed to send callback: '' @ reason)"

definition Internal :: "string \<Rightarrow> goerror" where
  "Internal msg = NewErr ErrCodeInternal msg"

definition Database :: "goerror \<Rightarrow> goerror" where
  "Database cause = WrapErr ErrCodeDatabase ''Database error'' cause"

definition External :: "string \<Rightarrow> goerror \<Rightarrow> goerror" where
  "External service cause =
     WrapErr ErrCodeExternal (''External service error: '' @ service) cause"

lemmas constructor_defs =
  Unauthorized_def Forbidden_def InvalidToken_def SessionNotPaired_def NotFound_def
  AlreadyExists_def ValidationError_def InvalidInput_def MissingRequired_def
  InvalidPairingCode_def PairingExpired_def AlreadyPaired_def RateLimitExceeded_def
  CallbackExpired_def CallbackFailed_def Internal_def Database_def External_def
  NewErr_def WrapErr_def


section \<open>HTTP responses\<close>

record 'b response =
  status :: int
  headers :: "(string \<times> string) list"
  body :: 'b

definition WriteJSON :: "int \<Rightarrow> 'b \<Rightarrow> 'b response" where
  "WriteJSON st data =
     \<lparr>status = st, headers = [(''Content-Type'', ''application/json'')], body = data\<rparr>"

fun statusFromCode :: "error_code \<Rightarrow> int" where
  "statusFromCode ErrCodeValidation = 400"
| "statusFromCode ErrCodeInvalidInput = 400"
| "statusFromCode ErrCodeMissingRequired = 400"
| "statusFromCode ErrCodeInvalidPairingCode = 400"
| "statusFromCode ErrCodePairingExpired = 400"
| "statusFromCode ErrCodeCallbackExpired = 400"
| "statusFromCode ErrCodeUnauthorized = 401"
| "statusFromCode ErrCodeInvalidToken = 401"
| "statusFromCode ErrCodeTokenExpired = 401"
| "statusFromCode ErrCodeSessionNotPaired = 401"
| "statusFromCode ErrCodeForbidden = 403"
| "statusFromCode ErrCodeNotFound = 404"
| "statusFromCode ErrCodeAlreadyExists = 409"
| "statusFromCode ErrCodeConflict = 409"
| "statusFromCode ErrCodeAlreadyPaired = 409"
| "statusFromCode ErrCodeRateLimitExceeded = 429"
| "statusFromCode ErrCodeCallbackFailed = 502"
| "statusFromCode ErrCodeExternal = 502"
| "statusFromCode ErrCodeInternal = 500"
| "statusFromCode ErrCodeDatabase = 500"
| "statusFromCode (ErrCodeOther s) = 500"

definition ErrorResponse :: "error_code \<Rightarrow> string \<Rightarrow> json option \<Rightarrow> json" where
  "ErrorResponse code msg details =
     JObj ([(''error'', JStr msg), (''code'', JStr (code_text code))]
           @ (case details of None \<Rightarrow> [] | Some d \<Rightarrow> [(''details'', d)]))"

fun write_app_error :: "goerror \<Rightarrow> json response" where
  "write_app_error (AppError code msg details cause) =
     WriteJSON (statusFromCode code) (ErrorResponse code msg details)"
| "write_app_error _ =
     WriteJSON (statusFromCode ErrCodeInternal)
       (ErrorResponse ErrCodeInternal ''An unexpected error occurred'' None)"

definition WriteError :: "goerror \<Rightarrow> json response" where
  "WriteError err =
     (let appErr = (case AsAppError err of
                      Some a \<Rightarrow> a
                    | None \<Rightarrow> Internal ''An unexpected error occurred'')
      in write_app_error appErr)"

fun WriteErrorWithStatus :: "int \<Rightarrow> goerror \<Rightarrow> json response" where
  "WriteErrorWithStatus st (AppError code msg details cause) =
     WriteJSON st (ErrorResponse code msg details)"
| "WriteErrorWithStatus st e = WriteJSON st (ErrorResponse (GetCode e) [] None)"

lemma AsAppError_idem: "AsAppError e = Some a \<Longrightarrow> AsAppError a = Some a"
  by (induction e) auto

lemma AsAppError_shape:
  "AsAppError e = Some a \<Longrightarrow> \<exists>code msg details cause. a = AppError code msg details cause"
  by (induction e) auto

lemma status_WriteJSON [simp]: "status (WriteJSON st d) = st"
  by (simp add: WriteJSON_def)

lemma body_WriteJSON [simp]: "body (WriteJSON st d) = d"
  by (simp add: WriteJSON_def)

lemma status_WriteError: "status (WriteError e) = statusFromCode (GetCode e)"
proof (cases "AsAppError e")
  case (Some a)
  then obtain code msg details cause where "a = AppError code msg details cause"
    using AsAppError_shape by blast
  with Some show ?thesis by (simp add: WriteError_def GetCode_def)
qed (simp add: WriteError_def GetCode_def Internal_def NewErr_def)

lemma statusFromCode_range: "statusFromCode c \<in> {400, 401, 403, 404, 409, 429, 500, 502}"
  by (cases c) auto

end
