(* ===== verification/Broker.thy ===== *)
theory Broker
  imports GoLib "HOL-Library.AList"
begin

text \<open>
  internal/sse/broker.go with the channel names of internal/redis/client.go: the clients of the
  broker by account, the goroutines that listen to a Redis channel for an account, and the buffers
  through which an event reaches the connection of a client. A pointer to a client is its index in
  the heap. Closing a closed channel panics; an operation that may panic returns an option.
\<close>

section \<open>State\<close>

record Event =
  ev_Type :: string
  ev_Data :: json

record Client =
  cl_AccountID :: string
  cl_Events :: "Event list"
  cl_Done :: bool

text \<open>
  A goroutine running subscribeToRedis: whether its subscription is in force, and the messages
  Redis has delivered to it that it has not broadcast yet.
\<close>

record Listener =
  li_AccountID :: string
  li_Ready :: bool
  li_Queue :: "Event list"

record Broker =
  br_heap :: "Client list"
  br_clients :: "(string \<times> nat list) list"
  br_listeners :: "Listener list"
  br_cancelled :: bool

text \<open>What the event handler writes to a connection: the two lines of an event, or a heartbeat.\<close>

datatype sse_chunk = EventLine string | DataLine json | PingLine

definition event_buffer :: nat where "event_buffer = 100"

definition MessageChannel :: "string \<Rightarrow> string" where
  "MessageChannel accountID = ''messages:'' @ accountID"

definition NewBroker :: Broker where
  "NewBroker = \<lparr>br_heap = [], br_clients = [], br_listeners = [], br_cancelled = False\<rparr>"

definition NewClient :: "string \<Rightarrow> Client" where
  "NewClient accountID = \<lparr>cl_AccountID = accountID, cl_Events = [], cl_Done = False\<rparr>"

definition NewListener :: "string \<Rightarrow> Listener" where
  "NewListener accountID = \<lparr>li_AccountID = accountID, li_Ready = False, li_Queue = []\<rparr>"


section \<open>Operations\<close>

text \<open>Reading a key a Go map does not hold gives the nil map, without clients.\<close>

definition clients_of :: "Broker \<Rightarrow> string \<Rightarrow> nat list" where
  "clients_of b accountID = (case map_of (br_clients b) accountID of None \<Rightarrow> [] | Some cs \<Rightarrow> cs)"

definition Subscribe :: "string \<Rightarrow> Broker \<Rightarrow> nat \<times> Broker" where
  "Subscribe accountID b =
     (let client = length (br_heap b);
          b1 = b\<lparr>br_heap := br_heap b @ [NewClient accountID]\<rparr>;
          b2 = (if map_of (br_clients b1) accountID = None
                then b1\<lparr>br_clients := AList.update accountID [] (br_clients b1),
                        br_listeners := br_listeners b1 @ [NewListener accountID]\<rparr>
                else b1)
      in (client,
          b2\<lparr>br_clients := AList.update accountID (clients_of b2 accountID @ [client]) (br_clients b2)\<rparr>))"

definition close_done :: "nat \<Rightarrow> Broker \<Rightarrow> Broker option" where
  "close_done client b =
     (if cl_Done (br_heap b ! client) then None
      else Some (b\<lparr>br_heap := (br_heap b)[client := (br_heap b ! client)\<lparr>cl_Done := True\<rparr>]\<rparr>))"

definition Unsubscribe :: "nat \<Rightarrow> Broker \<Rightarrow> Broker option" where
  "Unsubscribe client b =
     (let accountID = cl_AccountID (br_heap b ! client)
      in case map_of (br_clients b) accountID of
           None \<Rightarrow> Some b
         | Some cs \<Rightarrow>
             (let cs' = filter (\<lambda>c. c \<noteq> client) cs
              in case close_done client b of
                   None \<Rightarrow> None
                 | Some b1 \<Rightarrow>
                     Some (b1\<lparr>br_clients :=
                       (if cs' = [] then AList.delete accountID (br_clients b1)
                        else AList.update accountID cs' (br_clients b1))\<rparr>)))"

text \<open>
  PUBLISH reaches every listener whose subscription to the channel is in force.
\<close>

definition redis_deliver :: "string \<Rightarrow> Event \<Rightarrow> Broker \<Rightarrow> Broker" where
  "redis_deliver channel event b =
     b\<lparr>br_listeners := map
        (\<lambda>l. if li_Ready l \<and> MessageChannel (li_AccountID l) = channel
             then l\<lparr>li_Queue := li_Queue l @ [event]\<rparr> else l) (br_listeners b)\<rparr>"

text \<open>The select of broadcast: a full buffer drops the event.\<close>

definition offer :: "Event \<Rightarrow> Client \<Rightarrow> Client" where
  "offer event c =
     (if length (cl_Events c) < event_buffer then c\<lparr>cl_Events := cl_Events c @ [event]\<rparr> else c)"

definition broadcast :: "string \<Rightarrow> Event \<Rightarrow> Broker \<Rightarrow> Broker" where
  "broadcast accountID event b =
     b\<lparr>br_heap := fold (\<lambda>c heap. heap[c := offer event (heap ! c)]) (clients_of b accountID) (br_heap b)\<rparr>"

text \<open>One turn of the loop of subscribeToRedis on a message of its channel.\<close>

definition subscribeToRedis_step :: "nat \<Rightarrow> Broker \<Rightarrow> Broker" where
  "subscribeToRedis_step i b =
     (let l = br_listeners b ! i
      in case li_Queue l of
           [] \<Rightarrow> b
         | event # rest \<Rightarrow>
             broadcast (li_AccountID l) event
               (b\<lparr>br_listeners := (br_listeners b)[i := l\<lparr>li_Queue := rest\<rparr>]\<rparr>))"

definition subscribeToRedis_start :: "nat \<Rightarrow> Broker \<Rightarrow> Broker" where
  "subscribeToRedis_start i b =
     b\<lparr>br_listeners := (br_listeners b)[i := (br_listeners b ! i)\<lparr>li_Ready := True\<rparr>]\<rparr>"

text \<open>The listener ends when the context of the broker is done.\<close>

definition subscribeToRedis_exit :: "nat \<Rightarrow> Broker \<Rightarrow> Broker" where
  "subscribeToRedis_exit i b =
     b\<lparr>br_listeners := (br_listeners b)[i := (br_listeners b ! i)\<lparr>li_Ready := False, li_Queue := []\<rparr>]\<rparr>"

text \<open>Close closes the Done channel of every registered client and forgets them.\<close>

fun close_all :: "nat list \<Rightarrow> Broker \<Rightarrow> Broker option" where
  "close_all [] b = Some b"
| "close_all (c # cs) b =
     (case close_done c b of None \<Rightarrow> None | Some b' \<Rightarrow> close_all cs b')"

definition Close :: "Broker \<Rightarrow> Broker option" where
  "Close b =
     map_option (\<lambda>b'. b'\<lparr>br_clients := []\<rparr>)
       (close_all (concat (map snd (br_clients b))) (b\<lparr>br_cancelled := True\<rparr>))"

definition ClientCount :: "Broker \<Rightarrow> string \<Rightarrow> int" where
  "ClientCount b accountID = int (length (clients_of b accountID))"

definition TotalClients :: "Broker \<Rightarrow> int" where
  "TotalClients b = (\<Sum>(_, cs) \<leftarrow> br_clients b. int (length cs))"

text \<open>Receiving from the Events channel of a client.\<close>

definition receive :: "nat \<Rightarrow> Broker \<Rightarrow> (Event \<times> Broker) option" where
  "receive client b =
     (case cl_Events (br_heap b ! client) of
        [] \<Rightarrow> None
      | e # es \<Rightarrow> Some (e, b\<lparr>br_heap :=
          (br_heap b)[client := (br_heap b ! client)\<lparr>cl_Events := es\<rparr>]\<rparr>))"

lemma MessageChannel_inject [simp]: "MessageChannel a = MessageChannel a' \<longleftrightarrow> a = a'"
  by (simp add: MessageChannel_def)


section \<open>Invariant\<close>

text \<open>
  The registered clients: every entry of the map is non-empty and holds, once each, clients of its
  account whose Done channel is open.
\<close>

definition registered :: "Broker \<Rightarrow> nat set" where
  "registered b = (\<Union>(a, cs) \<in> set (br_clients b). set cs)"

definition broker_inv :: "Broker \<Rightarrow> bool" where
  "broker_inv b \<longleftrightarrow>
     distinct (map fst (br_clients b))
     \<and> (\<forall>(a, cs) \<in> set (br_clients b). cs \<noteq> [] \<and> distinct cs
          \<and> (\<forall>c \<in> set cs. c < length (br_heap b) \<and> cl_AccountID (br_heap b ! c) = a
               \<and> \<not> cl_Done (br_heap b ! c)))
     \<and> (\<forall>cl \<in> set (br_heap b). length (cl_Events cl) \<le> event_buffer)"

lemma broker_inv_entry:
  assumes "broker_inv b" "(a, cs) \<in> set (br_clients b)"
  shows "cs \<noteq> []" "distinct cs" "map_of (br_clients b) a = Some cs"
    and "\<And>c. c \<in> set cs \<Longrightarrow>
      c < length (br_heap b) \<and> cl_AccountID (br_heap b ! c) = a \<and> \<not> cl_Done (br_heap b ! c)"
  using assms unfolding broker_inv_def by (auto dest!: bspec)

lemma registered_iff:
  assumes "broker_inv b"
  shows "c \<in> registered b \<longleftrightarrow>
    (\<exists>cs. map_of (br_clients b) (cl_AccountID (br_heap b ! c)) = Some cs \<and> c \<in> set cs)"
proof
  assume "c \<in> registered b"
  then obtain a cs where e: "(a, cs) \<in> set (br_clients b)" "c \<in> set cs"
    by (auto simp: registered_def)
  with broker_inv_entry[OF assms e(1)]
  show "\<exists>cs. map_of (br_clients b) (cl_AccountID (br_heap b ! c)) = Some cs \<and> c \<in> set cs" by auto
next
  assume "\<exists>cs. map_of (br_clients b) (cl_AccountID (br_heap b ! c)) = Some cs \<and> c \<in> set cs"
  then show "c \<in> registered b" by (auto simp: registered_def dest: map_of_SomeD)
qed

lemma registeredD:
  assumes "broker_inv b" "c \<in> registered b"
  shows "c < length (br_heap b)" "\<not> cl_Done (br_heap b ! c)"
  using assms broker_inv_entry(4)[OF assms(1)] by (auto simp: registered_def)

lemma mem_clients_of:
  "c \<in> set (clients_of b a) \<longleftrightarrow> (\<exists>cs. map_of (br_clients b) a = Some cs \<and> c \<in> set cs)"
  by (cases "map_of (br_clients b) a") (auto simp: clients_of_def)

lemma clients_of_registered:
  assumes "broker_inv b"
  shows "set (clients_of b a) = {c \<in> registered b. cl_AccountID (br_heap b ! c) = a}"
    and "distinct (clients_of b a)"
proof -
  show "distinct (clients_of b a)"
    using broker_inv_entry[OF assms] by (auto simp: clients_of_def dest: map_of_SomeD split: option.splits)
  show "set (clients_of b a) = {c \<in> registered b. cl_AccountID (br_heap b ! c) = a}"
  proof (intro set_eqI iffI)
    fix c assume "c \<in> set (clients_of b a)"
    then obtain cs where "map_of (br_clients b) a = Some cs" "c \<in> set cs"
      by (auto simp: mem_clients_of)
    with broker_inv_entry(4)[OF assms map_of_SomeD[OF this(1)]] registered_iff[OF assms, of c]
    show "c \<in> {c \<in> registered b. cl_AccountID (br_heap b ! c) = a}" by auto
  next
    fix c assume "c \<in> {c \<in> registered b. cl_AccountID (br_heap b ! c) = a}"
    with registered_iff[OF assms, of c] show "c \<in> set (clients_of b a)" by (auto simp: mem_clients_of)
  qed
qed

lemma broker_inv_new: "broker_inv NewBroker"
  by (simp add: broker_inv_def NewBroker_def)

lemma set_AList_update:
  "distinct (map fst al) \<Longrightarrow>
   set (AList.update k v al) = {(k, v)} \<union> {(k', v') \<in> set al. k' \<noteq> k}"
  by (induction al) (auto simp: image_iff)

lemma registered_split:
  assumes "broker_inv b"
  shows "registered b = set (clients_of b a) \<union> (\<Union>(k, v) \<in> {(k, v) \<in> set (br_clients b). k \<noteq> a}. set v)"
  using broker_inv_entry(3)[OF assms]
  by (fastforce simp: registered_def mem_clients_of dest: map_of_SomeD)

lemma Subscribe_result:
  assumes inv: "broker_inv b"
  shows "broker_inv (snd (Subscribe a b))"
    and "registered (snd (Subscribe a b)) = insert (length (br_heap b)) (registered b)"
proof -
  let ?n = "length (br_heap b)" and ?cs = "clients_of b a"
  have dist: "distinct (map fst (br_clients b))" using inv by (simp add: broker_inv_def)
  have heap: "br_heap (snd (Subscribe a b)) = br_heap b @ [NewClient a]"
    by (simp add: Subscribe_def Let_def)
  have clients: "set (br_clients (snd (Subscribe a b))) =
      {(a, ?cs @ [?n])} \<union> {(k, v) \<in> set (br_clients b). k \<noteq> a}"
    and keys: "distinct (map fst (br_clients (snd (Subscribe a b))))"
    using dist
    by (auto simp: Subscribe_def Let_def clients_of_def set_AList_update distinct_update update_conv'
             split: option.splits if_splits)
  have cs: "\<forall>c \<in> set ?cs. c < ?n \<and> cl_AccountID (br_heap b ! c) = a \<and> \<not> cl_Done (br_heap b ! c)"
    using clients_of_registered(1)[OF inv, of a] registeredD[OF inv] by auto
  have rest: "\<forall>(k, v) \<in> set (br_clients b). v \<noteq> [] \<and> distinct v
      \<and> (\<forall>c \<in> set v. c < ?n \<and> cl_AccountID (br_heap b ! c) = k \<and> \<not> cl_Done (br_heap b ! c))"
    and small: "\<forall>cl \<in> set (br_heap b). length (cl_Events cl) \<le> event_buffer"
    using inv by (simp_all add: broker_inv_def)
  show "broker_inv (snd (Subscribe a b))"
    unfolding broker_inv_def clients heap
    using keys cs small clients_of_registered(2)[OF inv, of a]
    by (auto simp: nth_append NewClient_def dest!: bspec[OF rest])
  show "registered (snd (Subscribe a b)) = insert ?n (registered b)"
    unfolding registered_split[OF inv, of a] unfolding registered_def clients by auto
qed


text \<open>Operations that only touch clients or listeners leave the registration alone.\<close>

lemma registered_cong: "br_clients b' = br_clients b \<Longrightarrow> registered b' = registered b"
  by (simp add: registered_def)

lemma close_done_Some:
  "close_done c b = Some b' \<longleftrightarrow>
   \<not> cl_Done (br_heap b ! c)
   \<and> b' = b\<lparr>br_heap := (br_heap b)[c := (br_heap b ! c)\<lparr>cl_Done := True\<rparr>]\<rparr>"
  by (auto simp: close_done_def)

lemma Unsubscribe_result:
  assumes inv: "broker_inv b" and c: "c \<in> registered b"
  obtains b' where "Unsubscribe c b = Some b'" "broker_inv b'" "registered b' = registered b - {c}"
    "length (br_heap b') = length (br_heap b)"
    "\<forall>i. cl_AccountID (br_heap b' ! i) = cl_AccountID (br_heap b ! i)
          \<and> cl_Events (br_heap b' ! i) = cl_Events (br_heap b ! i)"
    "br_listeners b' = br_listeners b" "br_cancelled b' = br_cancelled b"
proof -
  let ?a = "cl_AccountID (br_heap b ! c)"
  from c registered_iff[OF inv] obtain cs where cs: "map_of (br_clients b) ?a = Some cs" "c \<in> set cs"
    by blast
  note entry = broker_inv_entry[OF inv map_of_SomeD[OF cs(1)]]
  have open_c: "\<not> cl_Done (br_heap b ! c)" "c < length (br_heap b)"
    using registeredD[OF inv c] by simp_all
  define cs' where "cs' = filter (\<lambda>x. x \<noteq> c) cs"
  define heap' where "heap' = (br_heap b)[c := (br_heap b ! c)\<lparr>cl_Done := True\<rparr>]"
  define al where "al = (if cs' = [] then AList.delete ?a (br_clients b) else AList.update ?a cs' (br_clients b))"
  define b' where "b' = b\<lparr>br_heap := heap', br_clients := al\<rparr>"
  have run: "Unsubscribe c b = Some b'"
    using cs open_c
    by (simp add: Unsubscribe_def Let_def close_done_def b'_def al_def heap'_def cs'_def)
  have dist: "distinct (map fst (br_clients b))" using inv by (simp add: broker_inv_def)
  have al: "set al = (if cs' = [] then {} else {(?a, cs')}) \<union> {(k, v) \<in> set (br_clients b). k \<noteq> ?a}"
    "distinct (map fst al)"
    using dist by (auto simp: al_def set_AList_update distinct_update AList.delete_eq distinct_map_filter)
  have in_cs': "set cs' = set cs - {c}" "distinct cs'" using entry by (auto simp: cs'_def)
  have only: "(k, v) \<in> set (br_clients b) \<Longrightarrow> k \<noteq> ?a \<Longrightarrow> c \<notin> set v" for k v
    using broker_inv_entry(4)[OF inv] by blast
  have small: "\<forall>cl \<in> set heap'. length (cl_Events cl) \<le> event_buffer"
    using inv open_c(2) by (auto simp: broker_inv_def heap'_def dest!: set_update_subset_insert[THEN subsetD])
  have "broker_inv b'"
    unfolding broker_inv_def b'_def
    using al(2) small in_cs' entry(4) only open_c(2) broker_inv_entry(1,2,4)[OF inv]
    by (auto simp: al(1) heap'_def nth_upd split: if_splits dest: broker_inv_entry(1)[OF inv])
  moreover have "registered b' = registered b - {c}"
    unfolding registered_split[OF inv, of ?a] clients_of_def cs(1) option.case
    using only in_cs' by (auto simp: registered_def b'_def al(1) split: if_splits)
  ultimately show ?thesis
    using that[OF run] open_c(2) by (simp add: b'_def heap'_def nth_upd)
qed

lemma Unsubscribe_forgotten:
  "br_clients b = [] \<Longrightarrow> Unsubscribe c b = Some b"
  by (simp add: Unsubscribe_def Let_def)

lemma close_all_ok:
  "distinct cs \<Longrightarrow> \<forall>c \<in> set cs. c < length (br_heap b) \<and> \<not> cl_Done (br_heap b ! c) \<Longrightarrow>
   \<exists>heap. close_all cs b = Some (b\<lparr>br_heap := heap\<rparr>) \<and> length heap = length (br_heap b)
     \<and> (\<forall>i. cl_AccountID (heap ! i) = cl_AccountID (br_heap b ! i) \<and> cl_Events (heap ! i) = cl_Events (br_heap b ! i))"
proof (induction cs arbitrary: b)
  case Nil
  show ?case by (intro exI[of _ "br_heap b"]) simp
next
  case (Cons c cs)
  let ?b = "b\<lparr>br_heap := (br_heap b)[c := (br_heap b ! c)\<lparr>cl_Done := True\<rparr>]\<rparr>"
  have "\<forall>c' \<in> set cs. c' < length (br_heap ?b) \<and> \<not> cl_Done (br_heap ?b ! c')"
    using Cons.prems by (auto simp: nth_upd)
  with Cons.IH[of ?b] Cons.prems(1) obtain heap where h:
    "close_all cs ?b = Some (?b\<lparr>br_heap := heap\<rparr>)" "length heap = length (br_heap ?b)"
    "\<forall>i. cl_AccountID (heap ! i) = cl_AccountID (br_heap ?b ! i) \<and> cl_Events (heap ! i) = cl_Events (br_heap ?b ! i)"
    by auto
  have "close_all (c # cs) b = Some (b\<lparr>br_heap := heap\<rparr>)"
    using h(1) Cons.prems(2) by (simp add: close_done_def)
  with h(2,3) Cons.prems(2) show ?case
    by (intro exI[of _ heap]) (auto simp: nth_upd)
qed

lemma distinct_all_clients:
  assumes inv: "broker_inv b"
  shows "distinct (concat (map snd (br_clients b)))"
proof -
  have dist: "distinct (map fst (br_clients b))" using inv by (simp add: broker_inv_def)
  have "distinct (concat (map snd al))"
    if "set al \<subseteq> set (br_clients b)" "distinct (map fst al)" for al
    using that
  proof (induction al)
    case (Cons p al)
    obtain k v where p: "p = (k, v)" by force
    have v: "distinct v" "\<forall>c \<in> set v. cl_AccountID (br_heap b ! c) = k"
      using broker_inv_entry[OF inv, of k v] Cons.prems p by auto
    have "cl_AccountID (br_heap b ! c) \<noteq> k" if "c \<in> set (concat (map snd al))" for c
    proof -
      from that obtain k' v' where k': "(k', v') \<in> set al" "c \<in> set v'" by auto
      with Cons.prems(1) broker_inv_entry(4)[OF inv, of k' v'] have "cl_AccountID (br_heap b ! c) = k'" by auto
      moreover have "k' \<noteq> k" using Cons.prems(2) p k'(1) by force
      ultimately show ?thesis by simp
    qed
    with v Cons p show ?case by auto
  qed simp
  from this[OF subset_refl dist] show ?thesis .
qed

lemma Close_result:
  assumes inv: "broker_inv b"
  obtains b' where "Close b = Some b'" "br_clients b' = []" "broker_inv b'" "br_cancelled b'"
    "length (br_heap b') = length (br_heap b)" "br_listeners b' = br_listeners b"
    "\<forall>i. cl_AccountID (br_heap b' ! i) = cl_AccountID (br_heap b ! i)
          \<and> cl_Events (br_heap b' ! i) = cl_Events (br_heap b ! i)"
proof -
  have "set (concat (map snd (br_clients b))) = registered b" by (auto simp: registered_def)
  then have "\<forall>c \<in> set (concat (map snd (br_clients b))). c < length (br_heap b) \<and> \<not> cl_Done (br_heap b ! c)"
    using registeredD[OF inv] by simp
  with close_all_ok[of "concat (map snd (br_clients b))" "b\<lparr>br_cancelled := True\<rparr>"] distinct_all_clients[OF inv]
  obtain heap where h: "close_all (concat (map snd (br_clients b))) (b\<lparr>br_cancelled := True\<rparr>)
      = Some (b\<lparr>br_cancelled := True, br_heap := heap\<rparr>)" "length heap = length (br_heap b)"
    "\<forall>i. cl_AccountID (heap ! i) = cl_AccountID (br_heap b ! i) \<and> cl_Events (heap ! i) = cl_Events (br_heap b ! i)"
    by auto
  have "\<forall>cl \<in> set heap. length (cl_Events cl) \<le> event_buffer"
    using inv h(2,3) by (metis (no_types, lifting) broker_inv_def in_set_conv_nth)
  with h that[of "b\<lparr>br_cancelled := True, br_heap := heap, br_clients := []\<rparr>"]
  show ?thesis by (simp add: Close_def broker_inv_def)
qed

lemma heap_only:
  assumes "broker_inv b" "length heap = length (br_heap b)"
    and "\<And>i. i < length heap \<Longrightarrow> cl_AccountID (heap ! i) = cl_AccountID (br_heap b ! i)
          \<and> cl_Done (heap ! i) = cl_Done (br_heap b ! i) \<and> length (cl_Events (heap ! i)) \<le> event_buffer"
  shows "broker_inv (b\<lparr>br_heap := heap\<rparr>)"
  using assms unfolding broker_inv_def
  by (auto simp: in_set_conv_nth dest!: bspec split: prod.splits) 



section \<open>Broadcasting\<close>

lemma fold_offer:
  "distinct cs \<Longrightarrow> \<forall>c \<in> set cs. c < length heap \<Longrightarrow>
   length (fold (\<lambda>c heap. heap[c := offer e (heap ! c)]) cs heap) = length heap
   \<and> (\<forall>i. fold (\<lambda>c heap. heap[c := offer e (heap ! c)]) cs heap ! i =
          (if i \<in> set cs then offer e (heap ! i) else heap ! i))"
proof (induction cs arbitrary: heap)
  case (Cons c cs)
  from Cons.prems have "distinct cs" "\<forall>x \<in> set cs. x < length (heap[c := offer e (heap ! c)])" "c < length heap"
    by auto
  with Cons.IH[OF this(1,2)] Cons.prems(1) show ?case by (auto simp: nth_upd)
qed simp

text \<open>A broadcast offers the event to exactly the registered clients of the account.\<close>

lemma broadcast_heap:
  assumes "broker_inv b"
  shows "length (br_heap (broadcast a e b)) = length (br_heap b)"
    and "br_heap (broadcast a e b) ! i =
      (if i \<in> registered b \<and> cl_AccountID (br_heap b ! i) = a then offer e (br_heap b ! i)
       else br_heap b ! i)"
  using fold_offer[of "clients_of b a" "br_heap b" e] clients_of_registered[OF assms, of a]
    registeredD(1)[OF assms]
  by (auto simp: broadcast_def)

lemma offer_frame [simp]:
  "cl_AccountID (offer e c) = cl_AccountID c" "cl_Done (offer e c) = cl_Done c"
  by (simp_all add: offer_def)

lemma offer_bound: "length (cl_Events c) \<le> event_buffer \<Longrightarrow> length (cl_Events (offer e c)) \<le> event_buffer"
  by (simp add: offer_def)

lemma broker_inv_listeners [simp]: "broker_inv (b\<lparr>br_listeners := ls\<rparr>) = broker_inv b"
  by (simp add: broker_inv_def)

lemma registered_listeners [simp]: "registered (b\<lparr>br_listeners := ls\<rparr>) = registered b"
  by (simp add: registered_def)

lemma broadcast_frame [simp]:
  "br_clients (broadcast a e b) = br_clients b" "br_listeners (broadcast a e b) = br_listeners b"
  "br_cancelled (broadcast a e b) = br_cancelled b"
  by (simp_all add: broadcast_def)

lemma broker_inv_broadcast:
  assumes inv: "broker_inv b"
  shows "broker_inv (broadcast a e b)"
proof -
  have "broker_inv (b\<lparr>br_heap := br_heap (broadcast a e b)\<rparr>)"
  proof (rule heap_only[OF inv])
    fix i assume "i < length (br_heap (broadcast a e b))"
    then have "length (cl_Events (br_heap b ! i)) \<le> event_buffer"
      using inv broadcast_heap(1)[OF inv] by (simp add: broker_inv_def)
    then show "cl_AccountID (br_heap (broadcast a e b) ! i) = cl_AccountID (br_heap b ! i)
        \<and> cl_Done (br_heap (broadcast a e b) ! i) = cl_Done (br_heap b ! i)
        \<and> length (cl_Events (br_heap (broadcast a e b) ! i)) \<le> event_buffer"
      by (simp add: broadcast_heap(2)[OF inv] offer_bound)
  qed (rule broadcast_heap(1)[OF inv])
  then show ?thesis by (simp add: broadcast_def)
qed

lemma broker_inv_redis_deliver [simp]: "broker_inv (redis_deliver ch e b) = broker_inv b"
  by (simp add: redis_deliver_def)

lemma broker_inv_listener_step: "broker_inv b \<Longrightarrow> broker_inv (subscribeToRedis_step i b)"
  by (auto simp: subscribeToRedis_step_def Let_def broker_inv_broadcast split: list.split)


section \<open>The broker among its users\<close>

text \<open>
  \<open>bs_conns\<close> holds the clients of the event handlers that are running: each handler subscribes once
  and unsubscribes its client when it returns. \<open>bs_log\<close> is what was published, \<open>bs_got\<close> what the
  handlers received. The flag tells whether a handler may still subscribe after Close; the server
  closes the broker only after it stopped accepting requests. A step to \<^const>\<open>None\<close> is a panic.
\<close>

record broker_sys =
  bs_broker :: Broker
  bs_conns :: "nat set"
  bs_log :: "(string \<times> Event) list"
  bs_got :: "(nat \<times> Event) list"

definition broker_init :: broker_sys where
  "broker_init = \<lparr>bs_broker = NewBroker, bs_conns = {}, bs_log = [], bs_got = []\<rparr>"

inductive broker_step :: "bool \<Rightarrow> broker_sys \<Rightarrow> broker_sys option \<Rightarrow> bool" for late where
  subscribe:
    "br_cancelled (bs_broker s) \<longrightarrow> late \<Longrightarrow> Subscribe a (bs_broker s) = (c, b) \<Longrightarrow>
     broker_step late s (Some (s\<lparr>bs_broker := b, bs_conns := insert c (bs_conns s)\<rparr>))"
| unsubscribe:
    "c \<in> bs_conns s \<Longrightarrow> Unsubscribe c (bs_broker s) = Some b \<Longrightarrow>
     broker_step late s (Some (s\<lparr>bs_broker := b, bs_conns := bs_conns s - {c}\<rparr>))"
| unsubscribe_panic:
    "c \<in> bs_conns s \<Longrightarrow> Unsubscribe c (bs_broker s) = None \<Longrightarrow> broker_step late s None"
| publish:
    "broker_step late s (Some (s\<lparr>bs_broker := redis_deliver (MessageChannel a) e (bs_broker s),
       bs_log := bs_log s @ [(MessageChannel a, e)]\<rparr>))"
| start:
    "i < length (br_listeners (bs_broker s)) \<Longrightarrow>
     broker_step late s (Some (s\<lparr>bs_broker := subscribeToRedis_start i (bs_broker s)\<rparr>))"
| listen:
    "i < length (br_listeners (bs_broker s)) \<Longrightarrow>
     broker_step late s (Some (s\<lparr>bs_broker := subscribeToRedis_step i (bs_broker s)\<rparr>))"
| exit:
    "br_cancelled (bs_broker s) \<Longrightarrow> i < length (br_listeners (bs_broker s)) \<Longrightarrow>
     broker_step late s (Some (s\<lparr>bs_broker := subscribeToRedis_exit i (bs_broker s)\<rparr>))"
| receive:
    "c \<in> bs_conns s \<Longrightarrow> receive c (bs_broker s) = Some (e, b) \<Longrightarrow>
     broker_step late s (Some (s\<lparr>bs_broker := b, bs_got := bs_got s @ [(c, e)]\<rparr>))"
| close:
    "\<not> br_cancelled (bs_broker s) \<Longrightarrow> Close (bs_broker s) = Some b \<Longrightarrow>
     broker_step late s (Some (s\<lparr>bs_broker := b\<rparr>))"
| close_panic:
    "\<not> br_cancelled (bs_broker s) \<Longrightarrow> Close (bs_broker s) = None \<Longrightarrow> broker_step late s None"

inductive_cases broker_stepE: "broker_step late s t"
inductive_simps broker_step_panic: "broker_step late s None"

inductive broker_reach :: "bool \<Rightarrow> broker_sys \<Rightarrow> bool" for late where
  init: "broker_reach late broker_init"
| step: "broker_reach late s \<Longrightarrow> broker_step late s (Some t) \<Longrightarrow> broker_reach late t"

definition conns_inv :: "broker_sys \<Rightarrow> bool" where
  "conns_inv s \<longleftrightarrow>
     broker_inv (bs_broker s)
     \<and> (\<forall>c \<in> bs_conns s. c < length (br_heap (bs_broker s)))
     \<and> (if br_cancelled (bs_broker s) then br_clients (bs_broker s) = []
        else bs_conns s = registered (bs_broker s))"

lemma receive_inv:
  assumes inv: "broker_inv b" and r: "receive c b = Some (e, b')" and c: "c < length (br_heap b)"
  shows "broker_inv b'" "br_clients b' = br_clients b" "br_cancelled b' = br_cancelled b"
    "length (br_heap b') = length (br_heap b)"
proof -
  from r obtain es where es: "cl_Events (br_heap b ! c) = e # es"
    and b': "b' = b\<lparr>br_heap := (br_heap b)[c := (br_heap b ! c)\<lparr>cl_Events := es\<rparr>]\<rparr>"
    by (auto simp: receive_def split: list.splits)
  have small: "i < length (br_heap b) \<Longrightarrow> length (cl_Events (br_heap b ! i)) \<le> event_buffer" for i
    using inv by (simp add: broker_inv_def)
  show "broker_inv b'" unfolding b'
    using c small es small[OF c] by (intro heap_only[OF inv]) (auto simp: nth_upd)
  show "br_clients b' = br_clients b" "br_cancelled b' = br_cancelled b"
    "length (br_heap b') = length (br_heap b)" by (simp_all add: b')
qed

lemma step_frame:
  assumes "broker_inv b"
  shows "broker_inv (subscribeToRedis_step i b)" "br_clients (subscribeToRedis_step i b) = br_clients b"
    "br_cancelled (subscribeToRedis_step i b) = br_cancelled b"
    "length (br_heap (subscribeToRedis_step i b)) = length (br_heap b)"
  using assms
  by (auto simp: subscribeToRedis_step_def Let_def broker_inv_broadcast broadcast_heap(1) split: list.split)

lemma conns_inv_step:
  assumes inv: "conns_inv s" and step: "broker_step False s (Some t)"
  shows "conns_inv t"
  using step
proof cases
  case (subscribe a c b)
  then have c: "c = length (br_heap (bs_broker s))" and heap: "br_heap b = br_heap (bs_broker s) @ [NewClient a]"
    and cancelled: "br_cancelled b = br_cancelled (bs_broker s)"
    by (auto simp: Subscribe_def Let_def split: if_splits)
  have t: "t = s\<lparr>bs_broker := b, bs_conns := insert c (bs_conns s)\<rparr>" using subscribe by simp
  have open_s: "\<not> br_cancelled (bs_broker s)" using subscribe by simp
  from inv have "broker_inv (bs_broker s)" by (simp add: conns_inv_def)
  from Subscribe_result[OF this, of a] subscribe(3)
  have "broker_inv b" "registered b = insert c (registered (bs_broker s))" by (simp_all add: c)
  with inv open_s show ?thesis unfolding t
    by (auto simp: conns_inv_def heap cancelled c intro: less_SucI)
next
  case (unsubscribe c b)
  show ?thesis
  proof (cases "br_cancelled (bs_broker s)")
    case True
    with inv unsubscribe show ?thesis by (auto simp: conns_inv_def Unsubscribe_forgotten)
  next
    case False
    with inv unsubscribe have "broker_inv (bs_broker s)" "c \<in> registered (bs_broker s)"
      by (auto simp: conns_inv_def)
    then obtain b' where "Unsubscribe c (bs_broker s) = Some b'" "broker_inv b'"
      "registered b' = registered (bs_broker s) - {c}"
      "length (br_heap b') = length (br_heap (bs_broker s))"
      "br_cancelled b' = br_cancelled (bs_broker s)"
      by (rule Unsubscribe_result)
    with unsubscribe False inv show ?thesis by (simp add: conns_inv_def)
  qed
next
  case (publish a e)
  with inv show ?thesis by (simp add: conns_inv_def redis_deliver_def)
next
  case (start i)
  with inv show ?thesis by (simp add: conns_inv_def subscribeToRedis_start_def)
next
  case (listen i)
  with inv step_frame[of "bs_broker s" i] registered_cong[of "subscribeToRedis_step i (bs_broker s)" "bs_broker s"]
  show ?thesis by (simp add: conns_inv_def)
next
  case (exit i)
  with inv show ?thesis by (simp add: conns_inv_def subscribeToRedis_exit_def)
next
  case (receive c e b)
  with inv have "broker_inv (bs_broker s)" "c < length (br_heap (bs_broker s))" by (auto simp: conns_inv_def)
  from receive_inv[OF this(1) receive(3) this(2)] receive inv registered_cong[of b "bs_broker s"]
  show ?thesis by (simp add: conns_inv_def)
next
  case (close b)
  with inv have "broker_inv (bs_broker s)" by (simp add: conns_inv_def)
  then obtain b' where "Close (bs_broker s) = Some b'" "br_clients b' = []" "broker_inv b'"
    "br_cancelled b'" "length (br_heap b') = length (br_heap (bs_broker s))"
    by (rule Close_result) 
  with close inv show ?thesis by (simp add: conns_inv_def)
qed

lemma conns_inv_reach: "broker_reach False s \<Longrightarrow> conns_inv s"
proof (induction rule: broker_reach.induct)
  case init
  show ?case by (simp add: conns_inv_def broker_init_def broker_inv_new) (simp add: NewBroker_def registered_def)
next
  case (step s t)
  from conns_inv_step[OF step.IH step.hyps(2)] show ?case .
qed


text \<open>Whatever waits for or reached a client was published to the channel of its account.\<close>

definition published :: "broker_sys \<Rightarrow> string \<Rightarrow> Event \<Rightarrow> bool" where
  "published s a e \<longleftrightarrow> (MessageChannel a, e) \<in> set (bs_log s)"

definition isolation_inv :: "broker_sys \<Rightarrow> bool" where
  "isolation_inv s \<longleftrightarrow>
     (\<forall>l \<in> set (br_listeners (bs_broker s)). \<forall>e \<in> set (li_Queue l). published s (li_AccountID l) e)
     \<and> (\<forall>cl \<in> set (br_heap (bs_broker s)). \<forall>e \<in> set (cl_Events cl). published s (cl_AccountID cl) e)
     \<and> (\<forall>(c, e) \<in> set (bs_got s). c < length (br_heap (bs_broker s))
          \<and> published s (cl_AccountID (br_heap (bs_broker s) ! c)) e)"

lemma isolation_heap:
  assumes iso: "isolation_inv s" and len: "length (br_heap b) = length (br_heap (bs_broker s))"
    and acc: "\<And>i. cl_AccountID (br_heap b ! i) = cl_AccountID (br_heap (bs_broker s) ! i)"
    and ev: "\<And>i e. i < length (br_heap b) \<Longrightarrow> e \<in> set (cl_Events (br_heap b ! i)) \<Longrightarrow>
      e \<in> set (cl_Events (br_heap (bs_broker s) ! i)) \<or> published s (cl_AccountID (br_heap b ! i)) e"
    and li: "\<And>l e. l \<in> set (br_listeners b) \<Longrightarrow> e \<in> set (li_Queue l) \<Longrightarrow> published s (li_AccountID l) e"
    and t: "bs_broker t = b" "bs_log t = bs_log s"
      "\<And>c e. (c, e) \<in> set (bs_got t) \<Longrightarrow> (c, e) \<in> set (bs_got s) \<or>
         c < length (br_heap b) \<and> published s (cl_AccountID (br_heap b ! c)) e"
  shows "isolation_inv t"
proof -
  have p: "published t = published s" by (simp add: published_def t(2) fun_eq_iff)
  have "published s (cl_AccountID cl) e" if "cl \<in> set (br_heap b)" "e \<in> set (cl_Events cl)" for cl e
  proof -
    from that(1) obtain i where i: "i < length (br_heap b)" "cl = br_heap b ! i"
      by (auto simp: in_set_conv_nth)
    with iso len have "\<forall>e \<in> set (cl_Events (br_heap (bs_broker s) ! i)).
        published s (cl_AccountID (br_heap (bs_broker s) ! i)) e"
      by (simp add: isolation_inv_def)
    with ev[OF i(1)] that(2) i(2) acc show ?thesis by auto
  qed
  moreover have "c < length (br_heap b) \<and> published s (cl_AccountID (br_heap b ! c)) e"
    if "(c, e) \<in> set (bs_got t)" for c e
    using t(3)[OF that] iso by (auto simp: isolation_inv_def len acc)
  ultimately show ?thesis
    using li by (auto simp: isolation_inv_def p t(1))
qed

lemma isolation_listeners:
  "isolation_inv s \<Longrightarrow> l \<in> set (br_listeners (bs_broker s)) \<Longrightarrow> e \<in> set (li_Queue l)
     \<Longrightarrow> published s (li_AccountID l) e"
  by (simp add: isolation_inv_def)

lemma isolation_subscribe:
  assumes iso: "isolation_inv s" and sub: "Subscribe a (bs_broker s) = (c, b)"
    and t: "bs_broker t = b" "bs_log t = bs_log s" "bs_got t = bs_got s"
  shows "isolation_inv t"
proof -
  have b: "br_heap b = br_heap (bs_broker s) @ [NewClient a]"
    "\<And>l. l \<in> set (br_listeners b) \<Longrightarrow> l \<in> set (br_listeners (bs_broker s)) \<or> li_Queue l = []"
    using sub by (auto simp: Subscribe_def Let_def NewListener_def split: if_splits)
  have p: "published t = published s" by (simp add: published_def t fun_eq_iff)
  show ?thesis
    unfolding isolation_inv_def p t
  proof (intro conjI ballI)
    fix l e assume "l \<in> set (br_listeners b)" "e \<in> set (li_Queue l)"
    with b(2) isolation_listeners[OF iso] show "published s (li_AccountID l) e" by fastforce
  next
    fix cl e assume "cl \<in> set (br_heap b)" "e \<in> set (cl_Events cl)"
    with b(1) iso show "published s (cl_AccountID cl) e" by (auto simp: isolation_inv_def NewClient_def)
  next
    fix x assume "x \<in> set (bs_got s)"
    with iso show "case x of (c, e) \<Rightarrow> c < length (br_heap b) \<and> published s (cl_AccountID (br_heap b ! c)) e"
      by (fastforce simp: isolation_inv_def b(1) nth_append)
  qed
qed

lemma Unsubscribe_frame:
  assumes conns: "conns_inv s" and c: "c \<in> bs_conns s" and unsub: "Unsubscribe c (bs_broker s) = Some b"
  shows "length (br_heap b) = length (br_heap (bs_broker s)) \<and> br_listeners b = br_listeners (bs_broker s)
    \<and> (\<forall>i. cl_AccountID (br_heap b ! i) = cl_AccountID (br_heap (bs_broker s) ! i)
        \<and> cl_Events (br_heap b ! i) = cl_Events (br_heap (bs_broker s) ! i))"
proof (cases "br_cancelled (bs_broker s)")
  case True
  with conns unsub have "b = bs_broker s" by (auto simp: conns_inv_def Unsubscribe_forgotten)
  then show ?thesis by simp
next
  case False
  with conns c have "broker_inv (bs_broker s)" "c \<in> registered (bs_broker s)" by (auto simp: conns_inv_def)
  from Unsubscribe_result[OF this] unsub show ?thesis by (metis option.inject)
qed

lemma isolation_listen:
  assumes conns: "conns_inv s" and iso: "isolation_inv s" and i: "i < length (br_listeners (bs_broker s))"
  shows "isolation_inv (s\<lparr>bs_broker := subscribeToRedis_step i (bs_broker s)\<rparr>)"
proof -
  let ?l = "br_listeners (bs_broker s) ! i" and ?b = "subscribeToRedis_step i (bs_broker s)"
  note li = isolation_listeners[OF iso]
  have l: "?l \<in> set (br_listeners (bs_broker s))" using i by simp
  show ?thesis
  proof (cases "li_Queue ?l")
    case Nil
    with iso show ?thesis by (simp add: subscribeToRedis_step_def)
  next
    case (Cons e rest)
    let ?rest = "bs_broker s\<lparr>br_listeners := (br_listeners (bs_broker s))[i := ?l\<lparr>li_Queue := rest\<rparr>]\<rparr>"
    have b: "?b = broadcast (li_AccountID ?l) e ?rest" using Cons by (simp add: subscribeToRedis_step_def Let_def)
    have inv0: "broker_inv ?rest" using conns by (simp add: conns_inv_def)
    from li[OF l] Cons have pub: "published s (li_AccountID ?l) e"
      "\<forall>e' \<in> set rest. published s (li_AccountID ?l) e'" by simp_all
    have heap: "length (br_heap ?b) = length (br_heap (bs_broker s))"
      "\<And>j. br_heap ?b ! j = (if j \<in> registered (bs_broker s) \<and> cl_AccountID (br_heap (bs_broker s) ! j) = li_AccountID ?l
         then offer e (br_heap (bs_broker s) ! j) else br_heap (bs_broker s) ! j)"
      using broadcast_heap[OF inv0, of "li_AccountID ?l" e] by (simp_all add: b)
    have ls: "br_listeners ?b = (br_listeners (bs_broker s))[i := ?l\<lparr>li_Queue := rest\<rparr>]"
      by (simp add: b)
    show ?thesis
      using pub
      by (intro isolation_heap[OF iso heap(1)])
         (auto simp: heap(2) ls offer_def split: if_splits
               dest!: set_update_subset_insert[THEN subsetD] intro: li)
  qed
qed

lemma isolation_receive:
  assumes conns: "conns_inv s" and iso: "isolation_inv s" and c: "c \<in> bs_conns s"
    and recv: "receive c (bs_broker s) = Some (e, b)"
    and t: "bs_broker t = b" "bs_log t = bs_log s" "bs_got t = bs_got s @ [(c, e)]"
  shows "isolation_inv t"
proof -
  have len: "c < length (br_heap (bs_broker s))" using conns c by (simp add: conns_inv_def)
  from recv obtain es where es: "cl_Events (br_heap (bs_broker s) ! c) = e # es"
    and b: "b = bs_broker s\<lparr>br_heap := (br_heap (bs_broker s))[c := (br_heap (bs_broker s) ! c)\<lparr>cl_Events := es\<rparr>]\<rparr>"
    by (auto simp: receive_def split: list.splits)
  have "published s (cl_AccountID (br_heap (bs_broker s) ! c)) e"
    using iso len es by (auto simp: isolation_inv_def dest!: bspec[OF _ nth_mem])
  then show ?thesis
    using len es t isolation_listeners[OF iso]
    by (intro isolation_heap[OF iso, of b]) (auto simp: b nth_upd split: if_splits)
qed

lemma isolation_step:
  assumes conns: "conns_inv s" and iso: "isolation_inv s" and step: "broker_step False s (Some t)"
  shows "isolation_inv t"
  using step
proof cases
  case (subscribe a c b)
  then show ?thesis by (intro isolation_subscribe[OF iso, of a c b]) simp_all
next
  case (unsubscribe c b)
  from Unsubscribe_frame[OF conns unsubscribe(2,3)] isolation_listeners[OF iso] unsubscribe(1) show ?thesis
    by (intro isolation_heap[OF iso, of b]) auto
next
  case (publish a e)
  with iso show ?thesis
    by (fastforce simp: isolation_inv_def redis_deliver_def published_def split: if_splits)
next
  case (start i)
  with iso show ?thesis
    by (auto simp: isolation_inv_def published_def subscribeToRedis_start_def
             dest!: set_update_subset_insert[THEN subsetD])
next
  case (listen i)
  with isolation_listen[OF conns iso] show ?thesis by simp
next
  case (exit i)
  with iso show ?thesis
    by (auto simp: isolation_inv_def published_def subscribeToRedis_exit_def
             dest!: set_update_subset_insert[THEN subsetD])
next
  case (receive c e b)
  then show ?thesis by (intro isolation_receive[OF conns iso, of c e b]) simp_all
next
  case (close b)
  have "broker_inv (bs_broker s)" using conns by (simp add: conns_inv_def)
  then obtain b' where "Close (bs_broker s) = Some b'" "length (br_heap b') = length (br_heap (bs_broker s))"
    "br_listeners b' = br_listeners (bs_broker s)"
    "\<forall>i. cl_AccountID (br_heap b' ! i) = cl_AccountID (br_heap (bs_broker s) ! i)
        \<and> cl_Events (br_heap b' ! i) = cl_Events (br_heap (bs_broker s) ! i)"
    by (rule Close_result)
  with close isolation_listeners[OF iso] show ?thesis by (intro isolation_heap[OF iso, of b]) auto
qed

lemma isolation_reach: "broker_reach False s \<Longrightarrow> isolation_inv s"
proof (induction rule: broker_reach.induct)
  case init
  show ?case by (simp add: isolation_inv_def broker_init_def NewBroker_def)
next
  case (step s t)
  from isolation_step[OF conns_inv_reach[OF step.hyps(1)] step.IH step.hyps(2)] show ?case .
qed



section \<open>Properties\<close>

lemma no_panic_reach:
  assumes "broker_reach False s"
  shows "\<not> broker_step False s None"
proof
  assume "broker_step False s None"
  then show False
  proof cases
    case (unsubscribe_panic c)
    have inv: "conns_inv s" using assms by (rule conns_inv_reach)
    show False
    proof (cases "br_cancelled (bs_broker s)")
      case True
      with inv unsubscribe_panic show False by (simp add: conns_inv_def Unsubscribe_forgotten)
    next
      case False
      with inv unsubscribe_panic have "broker_inv (bs_broker s)" "c \<in> registered (bs_broker s)"
        by (auto simp: conns_inv_def)
      then obtain b' where "Unsubscribe c (bs_broker s) = Some b'" by (rule Unsubscribe_result)
      with unsubscribe_panic show False by simp
    qed
  next
    case close_panic
    have "broker_inv (bs_broker s)" using conns_inv_reach[OF assms] by (simp add: conns_inv_def)
    then obtain b' where "Close (bs_broker s) = Some b'" by (rule Close_result)
    with close_panic show False by simp
  qed
qed

text \<open>
  As long as no handler subscribes after Close, no interleaving of subscriptions,
  unsubscriptions, publications, broadcasts, receipts and Close panics by closing a Done channel
  twice: each handler may unsubscribe its client whenever it returns.
\<close>

theorem broker_never_panics:
  assumes "broker_reach False s"
  shows "\<not> broker_step False s None"
  by (rule no_panic_reach[OF assms])

definition demo_event :: Event where
  "demo_event = \<lparr>ev_Type = ''message'', ev_Data = JNull\<rparr>"

lemma demo_subscribed:
  "broker_reach late \<lparr>bs_broker = snd (Subscribe ''a'' NewBroker), bs_conns = {0}, bs_log = [], bs_got = []\<rparr>"
proof -
  have "broker_step late broker_init
      (Some \<lparr>bs_broker = snd (Subscribe ''a'' NewBroker), bs_conns = {0}, bs_log = [], bs_got = []\<rparr>)"
    using broker_step.subscribe[of broker_init late "''a''" 0 "snd (Subscribe ''a'' NewBroker)"]
    by (simp add: broker_init_def NewBroker_def Subscribe_def Let_def)
  with broker_reach.init show ?thesis by (rule broker_reach.step)
qed

theorem broker_never_panics_witness:
  "\<not> broker_step False
     \<lparr>bs_broker = snd (Subscribe ''a'' NewBroker), bs_conns = {0}, bs_log = [], bs_got = []\<rparr> None"
  using broker_never_panics[OF demo_subscribed] .

text \<open>
  Tenant isolation of the broker: every event a handler ever received was published to the
  channel of the account its client subscribed for, and no buffer ever exceeds its 100 slots.
\<close>

theorem broker_isolation:
  assumes "broker_reach False s"
  shows "((c, e) \<in> set (bs_got s) \<longrightarrow>
            (MessageChannel (cl_AccountID (br_heap (bs_broker s) ! c)), e) \<in> set (bs_log s))
         \<and> (\<forall>cl \<in> set (br_heap (bs_broker s)). length (cl_Events cl) \<le> event_buffer)"
  using isolation_reach[OF assms] conns_inv_reach[OF assms]
  by (auto simp: isolation_inv_def conns_inv_def published_def broker_inv_def)

lemma demo_received:
  obtains s where "broker_reach False s" "(0, demo_event) \<in> set (bs_got s)"
    "cl_AccountID (br_heap (bs_broker s) ! 0) = ''a''"
proof -
  define s1 where "s1 = \<lparr>bs_broker = snd (Subscribe ''a'' NewBroker), bs_conns = {0}, bs_log = [], bs_got = []\<rparr>"
  define s2 where "s2 = s1\<lparr>bs_broker := subscribeToRedis_start 0 (bs_broker s1)\<rparr>"
  define s3 where "s3 = s2\<lparr>bs_broker := redis_deliver (MessageChannel ''a'') demo_event (bs_broker s2),
       bs_log := bs_log s2 @ [(MessageChannel ''a'', demo_event)]\<rparr>"
  define s4 where "s4 = s3\<lparr>bs_broker := subscribeToRedis_step 0 (bs_broker s3)\<rparr>"
  note defs = s1_def s2_def s3_def s4_def Subscribe_def NewBroker_def NewClient_def NewListener_def Let_def
    subscribeToRedis_start_def subscribeToRedis_step_def redis_deliver_def broadcast_def clients_of_def
    offer_def event_buffer_def
  have r1: "broker_reach False s1" unfolding s1_def by (rule demo_subscribed)
  have r2: "broker_reach False s2" unfolding s2_def
    by (rule broker_reach.step[OF r1], rule broker_step.start) (simp add: defs)
  have r3: "broker_reach False s3" unfolding s3_def
    by (rule broker_reach.step[OF r2], rule broker_step.publish)
  have r4: "broker_reach False s4" unfolding s4_def
    by (rule broker_reach.step[OF r3], rule broker_step.listen) (simp add: defs)
  obtain b where b: "receive 0 (bs_broker s4) = Some (demo_event, b)"
    and id: "cl_AccountID (br_heap b ! 0) = ''a''"
    by (simp add: defs receive_def)
  have "0 \<in> bs_conns s4" by (simp add: defs)
  from broker_reach.step[OF r4 broker_step.receive[OF this b]] show thesis
    by (rule that) (simp_all add: id)
qed

theorem broker_isolation_witness:
  "\<exists>s. broker_reach False s \<and> (0, demo_event) \<in> set (bs_got s)
     \<and> (MessageChannel ''a'', demo_event) \<in> set (bs_log s)"
proof -
  obtain s where "broker_reach False s" "(0, demo_event) \<in> set (bs_got s)"
    "cl_AccountID (br_heap (bs_broker s) ! 0) = ''a''" by (rule demo_received)
  with broker_isolation[of s 0 demo_event] show ?thesis by auto
qed

text \<open>
  A broadcast reaches every registered client of the account that has room in its buffer, at
  the end of the buffer, and nobody else; a full buffer drops the event and keeps the rest.
\<close>

theorem broadcast_delivers:
  assumes "broker_inv b" and "c < length (br_heap b)"
  shows "cl_Events (br_heap (broadcast a e b) ! c) =
    (if c \<in> registered b \<and> cl_AccountID (br_heap b ! c) = a
        \<and> length (cl_Events (br_heap b ! c)) < event_buffer
     then cl_Events (br_heap b ! c) @ [e] else cl_Events (br_heap b ! c))"
  using broadcast_heap(2)[OF assms(1)] by (simp add: offer_def)

theorem broadcast_delivers_witness:
  "cl_Events (br_heap (broadcast ''a'' demo_event (snd (Subscribe ''a'' NewBroker))) ! 0) =
    (if 0 \<in> registered (snd (Subscribe ''a'' NewBroker))
        \<and> cl_AccountID (br_heap (snd (Subscribe ''a'' NewBroker)) ! 0) = ''a''
        \<and> length (cl_Events (br_heap (snd (Subscribe ''a'' NewBroker)) ! 0)) < event_buffer
     then cl_Events (br_heap (snd (Subscribe ''a'' NewBroker)) ! 0) @ [demo_event]
     else cl_Events (br_heap (snd (Subscribe ''a'' NewBroker)) ! 0))"
  by (rule broadcast_delivers[OF Subscribe_result(1)[OF broker_inv_new]])
     (simp add: Subscribe_def NewBroker_def Let_def)


text \<open>
  If a handler may subscribe after Close (no request does once the server stopped accepting
  them), the Unsubscribe of a handler that was connected before Close can panic: the account has an
  entry again, and the Done channel of the old client is closed a second time.
\<close>

theorem subscribe_after_close_panics:
  "\<exists>s. broker_reach True s \<and> broker_step True s None"
proof -
  let ?b1 = "snd (Subscribe ''a'' NewBroker)"
  let ?s1 = "\<lparr>bs_broker = ?b1, bs_conns = {0}, bs_log = [], bs_got = []\<rparr> :: broker_sys"
  let ?b2 = "the (Close ?b1)"
  let ?s2 = "?s1\<lparr>bs_broker := ?b2\<rparr>"
  let ?b3 = "snd (Subscribe ''a'' ?b2)"
  let ?s3 = "?s2\<lparr>bs_broker := ?b3, bs_conns := {0, 1}\<rparr>"
  note defs = Subscribe_def NewBroker_def NewClient_def NewListener_def Let_def Close_def
    close_done_def clients_of_def Unsubscribe_def
  have "broker_step True ?s1 (Some ?s2)"
    using broker_step.close[of ?s1 ?b2 True] by (simp add: defs)
  with demo_subscribed have r2: "broker_reach True ?s2" by (rule broker_reach.step)
  have "broker_step True ?s2 (Some ?s3)"
    using broker_step.subscribe[of ?s2 True "''a''" 1 ?b3] by (simp add: defs insert_commute)
  with r2 have "broker_reach True ?s3" by (rule broker_reach.step)
  moreover have "broker_step True ?s3 None"
    by (rule broker_step.unsubscribe_panic[of 0]) (simp_all add: defs)
  ultimately show ?thesis by blast
qed

end
