(* ===== verification/RedisLimiter.thy ===== *)
theory RedisLimiter
  imports GoLib "HOL-Library.Multiset"
begin

text \<open>
  The contract of a sliding-window rate limiter, and the two Lua scripts that implement it on a
  Redis sorted set: rateLimitScript of internal/middleware/ratelimit_redis.go and of
  internal/service/rate_limiter.go. Times are in seconds. A member of the sorted set is the text
  of the time, a hyphen and the number math.random delivers to the script.
\<close>

section \<open>The contract\<close>

text \<open>
  \<open>hits\<close> are the times of the requests a limiter has on record, \<open>check\<close> decides on a request under
  a limit at a time. A limiter may need a tag with each request (a random number, the iteration
  order of a map); \<open>ok\<close> tells for which states, tags and times it keeps its promise.
\<close>

locale limiter =
  fixes window :: int
    and wf :: "'s \<Rightarrow> bool"
    and hits :: "'s \<Rightarrow> int list"
    and ok :: "'s \<Rightarrow> 'tag \<Rightarrow> int \<Rightarrow> bool"
    and check :: "int \<Rightarrow> int \<Rightarrow> 'tag \<Rightarrow> 's \<Rightarrow> bool \<times> 's"
  assumes check_wf: "wf s \<Longrightarrow> ok s tag now \<Longrightarrow> wf (snd (check limit now tag s))"
    and check_allowed: "wf s \<Longrightarrow> ok s tag now \<Longrightarrow>
      fst (check limit now tag s) \<longleftrightarrow> int (length (filter (\<lambda>t. now - window < t) (hits s))) < limit"
    and check_hits: "wf s \<Longrightarrow> ok s tag now \<Longrightarrow>
      mset (hits (snd (check limit now tag s))) =
        filter_mset (\<lambda>t. now - window < t) (mset (hits s))
        + (if fst (check limit now tag s) then {#now#} else {#})"
begin

text \<open>A run of requests, each with its time and tag; the result is the times of those allowed.\<close>

fun run :: "int \<Rightarrow> (int \<times> 'tag) list \<Rightarrow> 's \<Rightarrow> int list" where
  "run limit [] s = []"
| "run limit ((now, tag) # rs) s =
     (let (b, s') = check limit now tag s in (if b then [now] else []) @ run limit rs s')"

fun run_ok :: "int \<Rightarrow> (int \<times> 'tag) list \<Rightarrow> 's \<Rightarrow> bool" where
  "run_ok limit [] s = True"
| "run_ok limit ((now, tag) # rs) s =
     (ok s tag now \<and> run_ok limit rs (snd (check limit now tag s)))"

definition in_window :: "int \<Rightarrow> int \<Rightarrow> bool" where
  "in_window t x \<longleftrightarrow> t - window < x \<and> x \<le> t"

definition bounded :: "int \<Rightarrow> int list \<Rightarrow> bool" where
  "bounded limit xs \<longleftrightarrow> (\<forall>t. int (length (filter (in_window t) xs)) \<le> limit)"

text \<open>One more allowed request keeps the bound, when the recent ones were fewer than the limit.\<close>

lemma bounded_snoc:
  assumes b: "bounded limit xs" and past: "\<forall>x \<in> set xs. x \<le> now"
    and recent: "int (length (filter (\<lambda>t. now - window < t) xs)) < limit"
  shows "bounded limit (xs @ [now])"
  unfolding bounded_def
proof
  fix t
  show "int (length (filter (in_window t) (xs @ [now]))) \<le> limit"
  proof (cases "now \<le> t")
    case False
    with b show ?thesis by (simp add: bounded_def in_window_def)
  next
    case True
    have "length (filter (in_window t) xs) \<le> length (filter (\<lambda>t. now - window < t) xs)"
      using True by (induction xs) (auto simp: in_window_def)
    with recent show ?thesis by auto
  qed
qed

text \<open>
  The record agrees with the history on everything younger than the window: the simulation that
  carries the bound through a run.
\<close>

lemma run_bounded:
  assumes "wf s" "run_ok limit rs s" "sorted (map fst rs)" "\<forall>r \<in> set rs. prev \<le> fst r"
    and "\<forall>x \<in> set past. x \<le> prev"
    and "filter_mset (\<lambda>t. prev - window < t) (mset (hits s)) = filter_mset (\<lambda>t. prev - window < t) (mset past)"
    and "bounded limit past"
  shows "bounded limit (past @ run limit rs s)"
  using assms
proof (induction rs arbitrary: s past prev)
  case (Cons r rs)
  obtain now tag where r: "r = (now, tag)" by force
  obtain b s' where c: "check limit now tag s = (b, s')" by force
  let ?recent = "\<lambda>t. now - window < t"
  define past' where "past' = past @ (if b then [now] else [])"
  from Cons.prems r have ok: "ok s tag now" and le: "prev \<le> now" and wf: "wf s" by auto
  have same: "filter_mset ?recent (mset (hits s)) = filter_mset ?recent (mset past)"
  proof -
    have "filter_mset ?recent M = filter_mset ?recent (filter_mset (\<lambda>t. prev - window < t) M)" for M
      using le by (auto simp: multiset_eq_iff)
    with Cons.prems(6) show ?thesis by metis
  qed
  then have len: "length (filter ?recent (hits s)) = length (filter ?recent past)"
    by (metis mset_filter size_mset)
  from check_wf[OF wf ok, of limit] c have "wf s'" by simp
  moreover from Cons.prems(2) r c have "run_ok limit rs s'" by simp
  moreover from Cons.prems(3) r have "sorted (map fst rs)" "\<forall>r \<in> set rs. now \<le> fst r" by auto
  moreover have "\<forall>x \<in> set past'. x \<le> now" using Cons.prems(5) le by (auto simp: past'_def)
  moreover have "filter_mset ?recent (mset (hits s')) = filter_mset ?recent (mset past')"
    using check_hits[OF wf ok, of limit] c same by (simp add: past'_def filter_filter_mset)
  moreover have "bounded limit past'"
  proof (cases b)
    case True
    with check_allowed[OF wf ok, of limit] c len have "int (length (filter ?recent past)) < limit" by simp
    moreover have "\<forall>x \<in> set past. x \<le> now" using Cons.prems(5) le by auto
    ultimately have "bounded limit (past @ [now])" using bounded_snoc[OF Cons.prems(7)] by simp
    with True show ?thesis by (simp add: past'_def)
  qed (use Cons.prems(7) in \<open>simp add: past'_def\<close>)
  ultimately have "bounded limit (past' @ run limit rs s')" by (rule Cons.IH)
  then show ?case by (simp add: r c past'_def)
qed simp

theorem window_bound:
  assumes "0 \<le> limit" "wf s" "hits s = []" "run_ok limit rs s" "sorted (map fst rs)"
  shows "int (length (filter (in_window t) (run limit rs s))) \<le> limit"
proof -
  have "\<forall>r \<in> set rs. (case rs of [] \<Rightarrow> 0 | r # _ \<Rightarrow> fst r) \<le> fst r"
    using assms(5) by (cases rs) auto
  with assms have "bounded limit ([] @ run limit rs s)"
    by (intro run_bounded) (simp_all add: bounded_def)
  then show ?thesis by (simp add: bounded_def)
qed

end


section \<open>Sorted sets\<close>

text \<open>
  A sorted set is the list of its scores and members by ascending score; the key may carry the time
  it expires.
\<close>

record zset =
  z_members :: "(int \<times> string) list"
  z_expires :: "int option"

definition empty_zset :: zset where
  "empty_zset = \<lparr>z_members = [], z_expires = None\<rparr>"

text \<open>What Redis holds for a key at a time: an expired key is absent.\<close>

definition z_live :: "int \<Rightarrow> zset \<Rightarrow> zset" where
  "z_live now z =
     (case z_expires z of
        None \<Rightarrow> z
      | Some t \<Rightarrow> if t \<le> now then empty_zset else z)"

definition ZREMRANGEBYSCORE :: "int \<Rightarrow> zset \<Rightarrow> zset" where
  "ZREMRANGEBYSCORE hi z = z\<lparr>z_members := filter (\<lambda>(s, m). \<not> s \<le> hi) (z_members z)\<rparr>"

definition ZCARD :: "zset \<Rightarrow> int" where
  "ZCARD z = int (length (z_members z))"

definition ZADD :: "int \<Rightarrow> string \<Rightarrow> zset \<Rightarrow> zset" where
  "ZADD s m z = z\<lparr>z_members := insort_key fst (s, m) (filter (\<lambda>(s', m'). m' \<noteq> m) (z_members z))\<rparr>"

definition EXPIRE :: "int \<Rightarrow> zset \<Rightarrow> zset" where
  "EXPIRE t z = z\<lparr>z_expires := Some t\<rparr>"


section \<open>The scripts\<close>

definition member_text :: "int \<Rightarrow> string \<Rightarrow> string" where
  "member_text now rnd = Itoa now @ ''-'' @ rnd"

text \<open>
  \<open>now\<close> and \<open>window\<close> are the arguments of the script, \<open>rnd\<close> is what math.random delivers, \<open>at\<close> the
  time on the clock of Redis.
\<close>

definition rateLimitScript :: "int \<Rightarrow> int \<Rightarrow> int \<Rightarrow> string \<Rightarrow> int \<Rightarrow> zset \<Rightarrow> int list \<times> zset" where
  "rateLimitScript now window limit rnd at z0 =
     (let windowStart = now - window;
          z = ZREMRANGEBYSCORE windowStart (z_live at z0);
          count = ZCARD z
      in if count \<ge> limit
         then let resetAt = (case z_members z of [] \<Rightarrow> now + window | (s, m) # _ \<Rightarrow> s + window)
              in ([0, 0, resetAt], z)
         else let z1 = ZADD now (member_text now rnd) z;
                  z2 = EXPIRE (at + window + 10) z1;
                  remaining = limit - count - 1;
                  resetAt = now + window
              in ([1, remaining, resetAt], z2))"

definition svc_rateLimitScript :: "int \<Rightarrow> int \<Rightarrow> int \<Rightarrow> string \<Rightarrow> int \<Rightarrow> zset \<Rightarrow> int list \<times> zset" where
  "svc_rateLimitScript now window limit rnd at z0 =
     (let windowStart = now - window;
          z = ZREMRANGEBYSCORE windowStart (z_live at z0);
          count = ZCARD z
      in if count \<ge> limit
         then let resetAt = (case z_members z of [] \<Rightarrow> now + window | (s, m) # _ \<Rightarrow> s + window)
              in ([0, resetAt], z)
         else let z1 = ZADD now (member_text now rnd) z;
                  z2 = EXPIRE (at + window + 10) z1;
                  resetAt = now + window
              in ([1, resetAt], z2))"

lemma svc_rateLimitScript_eq:
  "svc_rateLimitScript now window limit rnd at z =
     (case rateLimitScript now window limit rnd at z of (r, z') \<Rightarrow> ([r ! 0, r ! 2], z'))"
  by (auto simp: svc_rateLimitScript_def rateLimitScript_def Let_def split: list.split)


section \<open>The scripts implement the contract\<close>

definition z_hits :: "zset \<Rightarrow> int list" where
  "z_hits z = map fst (z_members z)"

definition fresh_member :: "zset \<Rightarrow> string \<Rightarrow> int \<Rightarrow> bool" where
  "fresh_member z rnd now \<longleftrightarrow> (\<forall>s. (s, member_text now rnd) \<notin> set (z_members z))"

text \<open>The expiry lies after the youngest member has left the window.\<close>

definition z_ok :: "zset \<Rightarrow> string \<Rightarrow> int \<Rightarrow> bool" where
  "z_ok z rnd now \<longleftrightarrow> fresh_member z rnd now \<and> (\<forall>(s, m) \<in> set (z_members z). s \<le> now)"

definition wf_zset :: "int \<Rightarrow> zset \<Rightarrow> bool" where
  "wf_zset window z \<longleftrightarrow>
     sorted (map fst (z_members z))
     \<and> (\<forall>t. z_expires z = Some t \<longrightarrow> (\<forall>(s, m) \<in> set (z_members z). s + window < t))"

definition script_check :: "int \<Rightarrow> int \<Rightarrow> int \<Rightarrow> string \<Rightarrow> zset \<Rightarrow> bool \<times> zset" where
  "script_check window limit now rnd z =
     (case rateLimitScript now window limit rnd now z of (r, z') \<Rightarrow> (r ! 0 = 1, z'))"

text \<open>The expiry of the key is not observable: what it removes has left the window before.\<close>

lemma live_recent:
  assumes "wf_zset window z"
  shows "filter (\<lambda>(s, m). \<not> s \<le> now - window) (z_members (z_live now z))
       = filter (\<lambda>(s, m). \<not> s \<le> now - window) (z_members z)"
proof (cases "\<exists>t. z_expires z = Some t \<and> t \<le> now")
  case True
  with assms have "filter (\<lambda>(s, m). \<not> s \<le> now - window) (z_members z) = []"
    by (fastforce simp: wf_zset_def filter_empty_conv)
  with True show ?thesis by (auto simp: z_live_def empty_zset_def)
qed (auto simp: z_live_def split: option.splits)

lemma z_live_members: "x \<in> set (z_members (z_live now z)) \<Longrightarrow> x \<in> set (z_members z)"
  by (auto simp: z_live_def empty_zset_def split: option.splits if_splits)

lemma filter_fst: "map fst (filter (\<lambda>(s, m). P s) xs) = filter P (map fst xs)"
  by (induction xs) auto

lemma filter_member_absent: "\<forall>s. (s, m) \<notin> set xs \<Longrightarrow> filter (\<lambda>(s', m'). m' \<noteq> m) xs = xs"
  by (induction xs) auto

lemma script_check_allowed:
  assumes wf: "wf_zset window z"
  shows "fst (script_check window limit now rnd z) \<longleftrightarrow>
      int (length (filter (\<lambda>t. now - window < t) (z_hits z))) < limit"
proof -
  define z1 where "z1 = ZREMRANGEBYSCORE (now - window) (z_live now z)"
  have m: "z_members z1 = filter (\<lambda>(s, m). \<not> s \<le> now - window) (z_members z)"
    using live_recent[OF wf] by (simp add: z1_def ZREMRANGEBYSCORE_def)
  have h: "z_hits z1 = filter (\<lambda>t. now - window < t) (z_hits z)"
    by (simp add: z_hits_def m filter_fst not_le)
  have card: "ZCARD z1 = int (length (filter (\<lambda>t. now - window < t) (z_hits z)))"
    unfolding h[symmetric] by (simp add: ZCARD_def z_hits_def)
  then show ?thesis
    by (auto simp: script_check_def rateLimitScript_def Let_def z1_def)
qed

lemma script_check_result:
  assumes wf: "wf_zset window z" and ok: "z_ok z rnd now"
  shows "fst (script_check window limit now rnd z) \<longleftrightarrow>
      int (length (filter (\<lambda>t. now - window < t) (z_hits z))) < limit"
    and "mset (z_hits (snd (script_check window limit now rnd z))) =
        filter_mset (\<lambda>t. now - window < t) (mset (z_hits z))
        + (if fst (script_check window limit now rnd z) then {#now#} else {#})"
    and "wf_zset window (snd (script_check window limit now rnd z))"
proof -
  define z1 where "z1 = ZREMRANGEBYSCORE (now - window) (z_live now z)"
  define z2 where "z2 = EXPIRE (now + window + 10) (ZADD now (member_text now rnd) z1)"
  have m: "z_members z1 = filter (\<lambda>(s, m). \<not> s \<le> now - window) (z_members z)"
    using live_recent[OF wf] by (simp add: z1_def ZREMRANGEBYSCORE_def)
  have h: "z_hits z1 = filter (\<lambda>t. now - window < t) (z_hits z)"
    by (simp add: z_hits_def m filter_fst not_le)
  have card: "ZCARD z1 = int (length (filter (\<lambda>t. now - window < t) (z_hits z)))"
    unfolding h[symmetric] by (simp add: ZCARD_def z_hits_def)
  have run: "script_check window limit now rnd z = (if ZCARD z1 \<ge> limit then (False, z1) else (True, z2))"
    by (simp add: script_check_def rateLimitScript_def Let_def z1_def z2_def)
  from run card show "fst (script_check window limit now rnd z) \<longleftrightarrow>
      int (length (filter (\<lambda>t. now - window < t) (z_hits z))) < limit" by auto
  show "mset (z_hits (snd (script_check window limit now rnd z))) =
      filter_mset (\<lambda>t. now - window < t) (mset (z_hits z))
      + (if fst (script_check window limit now rnd z) then {#now#} else {#})"
  proof -
    have "\<forall>s. (s, member_text now rnd) \<notin> set (z_members z1)"
      using ok by (auto simp: z_ok_def fresh_member_def m)
    then have "z_members z2 = insort_key fst (now, member_text now rnd) (z_members z1)"
      by (simp add: z2_def EXPIRE_def ZADD_def filter_member_absent)
    then have "mset (z_hits z2) = mset (z_hits z1) + {#now#}"
      by (simp add: z_hits_def)
    with run h show ?thesis by simp
  qed
  have sorted1: "sorted (map fst (z_members z1))"
    using wf by (simp add: wf_zset_def m filter_fst sorted_wrt_filter)
  have exp1: "z_expires z1 = z_expires (z_live now z)" by (simp add: z1_def ZREMRANGEBYSCORE_def)
  have "wf_zset window z1"
    using wf sorted1 exp1
    by (auto simp: wf_zset_def m z_live_def empty_zset_def split: option.splits if_splits)
  moreover have "wf_zset window z2"
  proof -
    have "sorted (map fst (filter (\<lambda>(s', m'). m' \<noteq> member_text now rnd) (z_members z1)))"
      using sorted1 by (rule sorted_filter)
    moreover have "s \<le> now" if "(s, x) \<in> set (z_members z1)" for s x
      using that ok by (auto simp: z_ok_def m)
    ultimately show ?thesis
      by (fastforce simp: wf_zset_def z2_def EXPIRE_def ZADD_def sorted_insort_key set_insort_key)
  qed
  ultimately show "wf_zset window (snd (script_check window limit now rnd z))" using run by simp
qed


interpretation script: limiter window "wf_zset window" z_hits z_ok "script_check window"
  by unfold_locales (use script_check_result in auto)






text \<open>
  The reset time of a refused request is right: it lies in the future, at most a window away,
  and when nothing else was recorded a request at that time is allowed again.
\<close>

theorem redis_reset_time:
  assumes "wf_zset window z" and "z_ok z rnd now" and "0 < limit"
    and "int (length (filter (\<lambda>t. now - window < t) (z_hits z))) = limit"
  shows "let (r, z') = rateLimitScript now window limit rnd now z
    in r ! 0 = 0 \<and> now < r ! 2 \<and> r ! 2 \<le> now + window
       \<and> fst (script_check window limit (r ! 2) rnd' z')"
proof -
  define z1 where "z1 = ZREMRANGEBYSCORE (now - window) (z_live now z)"
  have m: "z_members z1 = filter (\<lambda>(s, m). \<not> s \<le> now - window) (z_members z)"
    using live_recent[OF assms(1)] by (simp add: z1_def ZREMRANGEBYSCORE_def)
  have h: "z_hits z1 = filter (\<lambda>t. now - window < t) (z_hits z)"
    by (simp add: z_hits_def m filter_fst not_le)
  have card: "ZCARD z1 = limit"
    using assms(4) unfolding h[symmetric] by (simp add: ZCARD_def z_hits_def)
  with assms(3) obtain s x ms where ms: "z_members z1 = (s, x) # ms"
    by (cases "z_members z1") (auto simp: ZCARD_def)
  have s: "now - window < s" "s \<le> now"
    using ms m assms(2) by (force simp: z_ok_def dest: filter_eq_ConsD)+
  have run: "rateLimitScript now window limit rnd now z = ([0, 0, s + window], z1)"
    using card ms by (simp add: rateLimitScript_def Let_def z1_def)
  have wf1: "wf_zset window z1"
  proof -
    have "fst (script_check window limit now rnd z) = False" "snd (script_check window limit now rnd z) = z1"
      by (simp_all add: script_check_def run)
    with script_check_result(3)[OF assms(1,2), of limit] show ?thesis by simp
  qed
  have "length (filter (\<lambda>t. s + window - window < t) (z_hits z1)) \<le> length ms"
    by (simp add: z_hits_def ms)
  moreover have "int (length ms) < limit" using card ms by (simp add: ZCARD_def)
  moreover have "fst (script_check window limit (s + window) rnd' z1) \<longleftrightarrow>
      int (length (filter (\<lambda>t. s + window - window < t) (z_hits z1))) < limit"
    by (rule script_check_allowed[OF wf1])
  ultimately show ?thesis using s by (simp add: run)
qed


theorem redis_reset_time_witness:
  "let (r, z') = rateLimitScript 170 60 1 ''b'' 170 \<lparr>z_members = [(150, ''150-a'')], z_expires = None\<rparr>
   in r ! 0 = 0 \<and> 170 < r ! 2 \<and> r ! 2 \<le> 170 + 60 \<and> fst (script_check 60 1 (r ! 2) ''c'' z')"
  by (rule redis_reset_time)
     (simp_all add: wf_zset_def z_ok_def fresh_member_def member_text_def z_hits_def Itoa_def
        digits_of_nat.simps)

end
