(* ===== verification/Model.thy ===== *)
theory Model
  imports Crypto AppErrors Broker RedisLimiter
begin

text \<open>
  The data of the relay (internal/model), the database its repositories work on
  (internal/database/schema.sql: one list of rows per table), and the world a handler runs in:
  the database, the clock, the randomness, the Redis bus and the outgoing HTTP calls. What the
  environment decides is part of the world: the time that passes between two readings of the
  clock, which database, Redis and HTTP calls fail, the UUIDs and the entropy delivered. So every
  run of the model is a computation, and a theorem about all worlds is a theorem about all
  behaviours of the environment.
\<close>

section \<open>Rows (internal/model)\<close>

datatype PairingState =
    PairingStateUnpaired
  | PairingStatePending
  | PairingStatePaired
  | PairingStateBlocked

datatype InboundMessageStatus =
    InboundStatusQueued
  | InboundStatusDelivered
  | InboundStatusAcked
  | InboundStatusExpired

datatype OutboundMessageStatus =
    OutboundStatusPending
  | OutboundStatusSent
  | OutboundStatusFailed

datatype SessionStatus =
    SessionStatusPendingPairing
  | SessionStatusPaired
  | SessionStatusExpired
  | SessionStatusDisconnected

fun session_status_text :: "SessionStatus \<Rightarrow> string" where
  "session_status_text SessionStatusPendingPairing = ''pending_pairing''"
| "session_status_text SessionStatusPaired = ''paired''"
| "session_status_text SessionStatusExpired = ''expired''"
| "session_status_text SessionStatusDisconnected = ''disconnected''"

fun pairing_state_text :: "PairingState \<Rightarrow> string" where
  "pairing_state_text PairingStateUnpaired = ''unpaired''"
| "pairing_state_text PairingStatePending = ''pending''"
| "pairing_state_text PairingStatePaired = ''paired''"
| "pairing_state_text PairingStateBlocked = ''blocked''"

record Account =
  acc_ID :: string
  acc_RelayTokenHash :: "string option"
  acc_RateLimitPerMin :: int
  acc_CreatedAt :: time
  acc_UpdatedAt :: time

record ConversationMapping =
  conv_ID :: string
  conv_ConversationKey :: string
  conv_KakaoChannelID :: string
  conv_PlusfriendUserKey :: string
  conv_AccountID :: "string option"
  conv_State :: PairingState
  conv_LastCallbackURL :: "string option"
  conv_LastCallbackExpiresAt :: "time option"
  conv_FirstSeenAt :: time
  conv_LastSeenAt :: time
  conv_PairedAt :: "time option"

record Session =
  ses_ID :: string
  ses_SessionTokenHash :: string
  ses_PairingCode :: string
  ses_Status :: SessionStatus
  ses_AccountID :: "string option"
  ses_PairedConversationKey :: "string option"
  ses_Metadata :: "json option"
  ses_ExpiresAt :: time
  ses_PairedAt :: "time option"
  ses_CreatedAt :: time
  ses_UpdatedAt :: time

record InboundMessage =
  in_ID :: string
  in_AccountID :: string
  in_ConversationKey :: string
  in_KakaoPayload :: json
  in_NormalizedMessage :: "json option"
  in_CallbackURL :: "string option"
  in_CallbackExpiresAt :: "time option"
  in_Status :: InboundMessageStatus
  in_SourceEventID :: "string option"
  in_CreatedAt :: time
  in_DeliveredAt :: "time option"
  in_AckedAt :: "time option"

record OutboundMessage =
  out_ID :: string
  out_AccountID :: string
  out_InboundMessageID :: "string option"
  out_ConversationKey :: string
  out_KakaoTarget :: json
  out_ResponsePayload :: json
  out_Status :: OutboundMessageStatus
  out_ErrorMessage :: "string option"
  out_CreatedAt :: time
  out_SentAt :: "time option"

record CreateAccountParams =
  ca_RelayTokenHash :: string
  ca_RateLimitPerMin :: int

record UpsertConversationParams =
  uc_ConversationKey :: string
  uc_KakaoChannelID :: string
  uc_PlusfriendUserKey :: string
  uc_CallbackURL :: "string option"
  uc_CallbackExpiresAt :: "time option"

record CreateSessionParams =
  cs_SessionTokenHash :: string
  cs_PairingCode :: string
  cs_ExpiresAt :: time
  cs_Metadata :: "json option"

record CreateInboundMessageParams =
  ci_AccountID :: string
  ci_ConversationKey :: string
  ci_KakaoPayload :: json
  ci_NormalizedMessage :: "json option"
  ci_CallbackURL :: "string option"
  ci_CallbackExpiresAt :: "time option"
  ci_SourceEventID :: "string option"

record CreateOutboundMessageParams =
  co_AccountID :: string
  co_InboundMessageID :: "string option"
  co_ConversationKey :: string
  co_KakaoTarget :: json
  co_ResponsePayload :: "json option"

record database =
  accounts :: "Account list"
  conversations :: "ConversationMapping list"
  sessions :: "Session list"
  inbounds :: "InboundMessage list"
  outbounds :: "OutboundMessage list"


section \<open>The world of a handler\<close>

text \<open>
  What the source uses of other code, as parameters: \<open>upper_table\<close> and \<open>lower_table\<close> are the
  Unicode case mappings, \<open>time_format\<close> is time.Time.Format in the server's location (a layout and
  an instant), \<open>day_start\<close> the midnight before an instant there, \<open>json_first\<close> and \<open>json_whole\<close> the
  JSON value json.Decoder finds at the beginning of a text and json.Unmarshal in the whole of it,
  \<open>uuid_in\<close> PostgreSQL's conversion of a text to a value of type uuid (with its standard text form),
  \<open>lua_random\<close> the text of the number math.random delivers to a Redis script.
\<close>

record env =
  upper_table :: "string \<Rightarrow> string"
  lower_table :: "string \<Rightarrow> string"
  time_format :: "string \<Rightarrow> time \<Rightarrow> string"
  day_start :: "time \<Rightarrow> time"
  json_first :: "string \<Rightarrow> json option"
  json_whole :: "string \<Rightarrow> json option"
  uuid_in :: "string \<Rightarrow> string option"
  lua_random :: string

text \<open>
  PostgreSQL accepts the standard form of a UUID and delivers it unchanged: the hypothesis under
  which a key read from the database can be used to find its row again.
\<close>

definition uuid_cast_ok :: "env \<Rightarrow> bool" where
  "uuid_cast_ok e \<longleftrightarrow> (\<forall>i. IsValidUUID i \<longrightarrow> uuid_in e i = Some i)"

text \<open>
  What the HTTP client gets for a request: a status code, a status code with a Location header
  (resolved against the URL of the request), or a transport error.
\<close>

datatype http_result = HttpStatus int | HttpRedirect int string | HttpError string

text \<open>
  The head of a fault list is the fate of the next call: \<open>Some text\<close> makes it fail with that
  error, \<open>None\<close> or an empty list lets it run. \<open>bus\<close> is the log of messages Redis accepted for
  PUBLISH (channel and event), \<open>callbacks\<close> the log of HTTP POST requests the program made (URL and
  body), \<open>hops\<close> the log of the requests the HTTP client made after them because an answer was a
  redirection (method, URL and body), all oldest first. \<open>broker\<close> is the broker of this server process, \<open>zsets\<close> the sorted sets of the rate
  limiters in Redis, \<open>sse_out\<close> the log of what was written to the event streams (by client), with
  the fates of the next writes in \<open>write_faults\<close>. \<open>tx_now\<close> is the time an open transaction began.
\<close>

record world =
  wenv :: env
  db :: database
  clock :: time
  ticks :: "nat list"
  tx_now :: "time option"
  db_faults :: "string option list"
  uuids :: "string list"
  entropy :: string
  bus :: "(string \<times> Event) list"
  redis_faults :: "string option list"
  zsets :: "string \<Rightarrow> zset"
  broker :: Broker
  callbacks :: "(string \<times> json) list"
  hops :: "(string \<times> string \<times> json option) list"
  http_replies :: "http_result list"
  sse_out :: "(nat \<times> sse_chunk) list"
  write_faults :: "bool list"

text \<open>time.Now(): some time passes, then the clock is read.\<close>

definition time_now :: "(world, time) state" where
  "time_now = State (\<lambda>w.
     let w' = (case ticks w of
                 [] \<Rightarrow> w
               | n # ns \<Rightarrow> w\<lparr>clock := clock w + int n, ticks := ns\<rparr>)
     in (clock w', w'))"

text \<open>The database's NOW(): inside a transaction the time it began.\<close>

definition sql_now :: "(world, time) state" where
  "sql_now = State (\<lambda>w.
     case tx_now w of
       Some t \<Rightarrow> (t, w)
     | None \<Rightarrow> run_state time_now w)"

text \<open>The fate of the next database call.\<close>

definition db_call :: "(world, goerror option) state" where
  "db_call = State (\<lambda>w.
     case db_faults w of
       [] \<Rightarrow> (None, w)
     | f # fs \<Rightarrow> (map_option Foreign f, w\<lparr>db_faults := fs\<rparr>))"

text \<open>
  A statement: it fails with the error of the call, or by itself (a violated constraint), and then
  changes nothing; otherwise it delivers its result and the new database.
\<close>

type_synonym 'a stmt = "database \<Rightarrow> goerror + ('a \<times> database)"

definition exec :: "'a stmt \<Rightarrow> (world, goerror + 'a) state" where
  "exec q = do {
     fault \<leftarrow> db_call;
     case fault of
       Some e \<Rightarrow> State_Monad.return (Inl e)
     | None \<Rightarrow> State (\<lambda>w.
         case q (db w) of
           Inl e \<Rightarrow> (Inl e, w)
         | Inr (x, d) \<Rightarrow> (Inr x, w\<lparr>db := d\<rparr>))
   }"

definition reads :: "(database \<Rightarrow> 'a) \<Rightarrow> 'a stmt" where
  "reads f = (\<lambda>d. Inr (f d, d))"

definition writes :: "(database \<Rightarrow> database) \<Rightarrow> unit stmt" where
  "writes f = (\<lambda>d. Inr ((), f d))"

text \<open>sqlx GetContext: the first row, sql.ErrNoRows when there is none.\<close>

definition get_context :: "'a list stmt \<Rightarrow> 'a stmt" where
  "get_context q = (\<lambda>d.
     case q d of
       Inl e \<Rightarrow> Inl e
     | Inr (rows, d') \<Rightarrow> (case rows of [] \<Rightarrow> Inl ErrNoRows | r # _ \<Rightarrow> Inr (r, d')))"

text \<open>repository.HandleNotFound (internal/repository/helpers.go).\<close>

fun HandleNotFound :: "goerror + 'a \<Rightarrow> goerror + 'a option" where
  "HandleNotFound (Inl err) = (if Is_ErrNoRows err then Inr None else Inl err)"
| "HandleNotFound (Inr result) = Inr (Some result)"

text \<open>A statement whose text depends on the parameters, and one with an argument of type uuid.\<close>

definition exec_env :: "(env \<Rightarrow> 'a stmt) \<Rightarrow> (world, goerror + 'a) state" where
  "exec_env q = do {
     e \<leftarrow> gets wenv;
     exec (q e)
   }"

definition uuid_syntax :: goerror where
  "uuid_syntax = Foreign ''pq: invalid input syntax for type uuid''"

definition uuid_arg :: "env \<Rightarrow> string \<Rightarrow> (string \<Rightarrow> 'a stmt) \<Rightarrow> 'a stmt" where
  "uuid_arg e s q = (case uuid_in e s of None \<Rightarrow> (\<lambda>d. Inl uuid_syntax) | Some i \<Rightarrow> q i)"

definition uuid_opt_arg :: "env \<Rightarrow> string option \<Rightarrow> (string option \<Rightarrow> 'a stmt) \<Rightarrow> 'a stmt" where
  "uuid_opt_arg e r q = (case r of None \<Rightarrow> q None | Some s \<Rightarrow> uuid_arg e s (\<lambda>i. q (Some i)))"

text \<open>
  The column default gen_random_uuid() delivers a UUID in its standard form, or the statement
  fails; rand.Read as GenerateToken uses it.
\<close>

definition gen_random_uuid :: "(world, goerror + string) state" where
  "gen_random_uuid = State (\<lambda>w.
     case uuids w of
       [] \<Rightarrow> (Inl (Foreign ''pq: no UUID available''), w)
     | u # us \<Rightarrow> (if IsValidUUID u then Inr u else Inl (Foreign ''pq: no UUID available''),
                  w\<lparr>uuids := us\<rparr>))"

definition generate_token :: "(world, goerror + string) state" where
  "generate_token = State (\<lambda>w.
     case GenerateToken (entropy w) of
       None \<Rightarrow> (Inl (Foreign ''rand: read failed''), w)
     | Some (token, rest) \<Rightarrow> (Inr token, w\<lparr>entropy := rest\<rparr>))"

text \<open>
  database.DB.WithTx: a failing body or commit leaves the database as it was at the beginning.
  The commit that fails is taken to have had no effect.
\<close>

definition restore_db :: "database \<Rightarrow> (world, unit) state" where
  "restore_db d = modify (\<lambda>w. w\<lparr>db := d\<rparr>)"

definition WithTx :: "(world, goerror + 'a) state \<Rightarrow> (world, goerror + 'a) state" where
  "WithTx fn = do {
     begun \<leftarrow> db_call;
     case begun of
       Some err \<Rightarrow> State_Monad.return (Inl (Wrapf ''begin transaction: '' err ''''))
     | None \<Rightarrow> do {
         d0 \<leftarrow> gets db;
         now \<leftarrow> time_now;
         _ \<leftarrow> modify (\<lambda>w. w\<lparr>tx_now := Some now\<rparr>);
         r \<leftarrow> fn;
         _ \<leftarrow> modify (\<lambda>w. w\<lparr>tx_now := None\<rparr>);
         case r of
           Inl err \<Rightarrow> do {
             _ \<leftarrow> restore_db d0;
             rb \<leftarrow> db_call;
             case rb of
               Some rbErr \<Rightarrow> State_Monad.return
                 (Inl (Wrapf (''rollback failed: '' @ Error rbErr @ '' (original error: '') err '')''))
             | None \<Rightarrow> State_Monad.return (Inl err)
           }
         | Inr x \<Rightarrow> do {
             committed \<leftarrow> db_call;
             case committed of
               Some err \<Rightarrow> do {
                 _ \<leftarrow> restore_db d0;
                 State_Monad.return (Inl (Wrapf ''commit transaction: '' err ''''))
               }
             | None \<Rightarrow> State_Monad.return (Inr x)
           }
       }
   }"


section \<open>Evaluation of the primitives\<close>

lemma run_time_now [run_simps]:
  "run_state time_now w =
     (clock w + int (hd (ticks w @ [0])),
      w\<lparr>clock := clock w + int (hd (ticks w @ [0])), ticks := tl (ticks w)\<rparr>)"
  by (cases w) (auto simp: time_now_def Let_def split: list.splits)

text \<open>What the next database call does: \<open>None\<close> when it runs.\<close>

definition next_fault :: "world \<Rightarrow> goerror option" where
  "next_fault w = (case db_faults w of [] \<Rightarrow> None | f # fs \<Rightarrow> map_option Foreign f)"

lemma run_db_call [run_simps]:
  "run_state db_call w = (next_fault w, w\<lparr>db_faults := tl (db_faults w)\<rparr>)"
  by (cases w) (auto simp: db_call_def next_fault_def split: list.splits)

lemma next_fault_Nil [simp]: "db_faults w = [] \<Longrightarrow> next_fault w = None"
  by (simp add: next_fault_def)

lemma run_exec [run_simps]:
  "run_state (exec q) w =
     (case next_fault w of
        Some e \<Rightarrow> (Inl e, w\<lparr>db_faults := tl (db_faults w)\<rparr>)
      | None \<Rightarrow> (case q (db w) of
          Inl e \<Rightarrow> (Inl e, w\<lparr>db_faults := tl (db_faults w)\<rparr>)
        | Inr (x, d) \<Rightarrow> (Inr x, w\<lparr>db := d, db_faults := tl (db_faults w)\<rparr>)))"
  by (auto simp: exec_def run_db_call split: option.splits sum.splits prod.splits)

lemma exec_error_unchanged:
  "run_state (exec q) w = (Inl e, w') \<Longrightarrow> db w' = db w"
  by (auto simp: run_exec split: option.splits sum.splits prod.splits)

lemma run_generate_token [run_simps]:
  "run_state generate_token w =
     (case GenerateToken (entropy w) of
        None \<Rightarrow> (Inl (Foreign ''rand: read failed''), w)
      | Some (token, rest) \<Rightarrow> (Inr token, w\<lparr>entropy := rest\<rparr>))"
  by (simp add: generate_token_def)

lemma run_gen_random_uuid [run_simps]:
  "run_state gen_random_uuid w =
     (case uuids w of
        [] \<Rightarrow> (Inl (Foreign ''pq: no UUID available''), w)
      | u # us \<Rightarrow> (if IsValidUUID u then Inr u else Inl (Foreign ''pq: no UUID available''),
                   w\<lparr>uuids := us\<rparr>))"
  by (simp add: gen_random_uuid_def)

lemma run_sql_now [run_simps]:
  "run_state sql_now w = (case tx_now w of Some t \<Rightarrow> (t, w) | None \<Rightarrow> run_state time_now w)"
  by (simp add: sql_now_def)

lemma run_exec_env [run_simps]: "run_state (exec_env q) w = run_state (exec (q (wenv w))) w"
  by (simp add: exec_env_def)

lemma reads_simp [simp, run_simps]: "reads f d = Inr (f d, d)"
  by (simp add: reads_def)

lemma writes_simp [simp, run_simps]: "writes f d = Inr ((), f d)"
  by (simp add: writes_def)

lemma run_WithTx [run_simps]:
  "run_state (WithTx fn) w =
     (let w1 = w\<lparr>db_faults := tl (db_faults w)\<rparr>
      in case next_fault w of
           Some err \<Rightarrow> (Inl (Wrapf ''begin transaction: '' err ''''), w1)
         | None \<Rightarrow>
             let (now, w2) = run_state time_now w1;
                 (r, w3) = run_state fn (w2\<lparr>tx_now := Some now\<rparr>);
                 w4 = w3\<lparr>db_faults := tl (db_faults w3), tx_now := None\<rparr>
             in case r of
                  Inl err \<Rightarrow>
                    (case next_fault w3 of
                       Some rbErr \<Rightarrow>
                         (Inl (Wrapf (''rollback failed: '' @ Error rbErr @ '' (original error: '')
                            err '')''), w4\<lparr>db := db w\<rparr>)
                     | None \<Rightarrow> (Inl err, w4\<lparr>db := db w\<rparr>))
                | Inr x \<Rightarrow>
                    (case next_fault w3 of
                       Some err \<Rightarrow> (Inl (Wrapf ''commit transaction: '' err ''''), w4\<lparr>db := db w\<rparr>)
                     | None \<Rightarrow> (Inr x, w4)))"
  by (simp add: WithTx_def run_db_call run_time_now restore_db_def next_fault_def Let_def
           split: option.splits sum.splits prod.splits list.splits)

lemma WithTx_error_unchanged:
  assumes "run_state (WithTx fn) w = (Inl e, w')"
  shows "db w' = db w"
  using assms by (auto simp: run_WithTx Let_def split: option.splits sum.splits prod.splits)

lemma WithTx_ok:
  assumes "run_state (WithTx fn) w = (Inr x, w')"
  obtains w2 now w3 where "run_state time_now (w\<lparr>db_faults := tl (db_faults w)\<rparr>) = (now, w2)"
    and "run_state fn (w2\<lparr>tx_now := Some now\<rparr>) = (Inr x, w3)"
    and "w' = w3\<lparr>db_faults := tl (db_faults w3), tx_now := None\<rparr>"
  using assms by (auto simp: run_WithTx Let_def split: option.splits sum.splits prod.splits)

end
