(* ===== verification/Repository.thy ===== *)
theory Repository
  imports Model
begin

text \<open>
  internal/repository: the statements of the account, conversation, session, message and
  dashboard repositories over the tables of internal/database/schema.sql. A statement that would
  violate a UNIQUE or FOREIGN KEY constraint of the schema fails and changes nothing; deleting an
  account cascades to its messages and clears the references of conversations and sessions.
  Rows that compare equal under ORDER BY keep their insertion order.
\<close>

section \<open>Statement shapes\<close>

definition unique_violation :: goerror where
  "unique_violation = Foreign ''pq: duplicate key value violates unique constraint''"

definition fk_violation :: goerror where
  "fk_violation = Foreign ''pq: insert or update on table violates foreign key constraint''"

definition null_violation :: goerror where
  "null_violation = Foreign ''pq: null value in column violates not-null constraint''"

definition limit_violation :: goerror where
  "limit_violation = Foreign ''pq: LIMIT or OFFSET must not be negative''"

definition order_by_asc :: "('r \<Rightarrow> time) \<Rightarrow> 'r list \<Rightarrow> 'r list" where
  "order_by_asc k rows = sort_key k rows"

definition order_by_desc :: "('r \<Rightarrow> time) \<Rightarrow> 'r list \<Rightarrow> 'r list" where
  "order_by_desc k rows = sort_key (\<lambda>r. - k r) rows"

text \<open>LIMIT and OFFSET.\<close>

definition page :: "int \<Rightarrow> int \<Rightarrow> (database \<Rightarrow> 'r list) \<Rightarrow> 'r list stmt" where
  "page limit offset f = (\<lambda>d.
     if limit < 0 \<or> offset < 0 then Inl limit_violation
     else Inr (take (nat limit) (drop (nat offset) (f d)), d))"

text \<open>A SELECT of one row through GetContext and HandleNotFound.\<close>

definition select_one :: "('r \<Rightarrow> bool) \<Rightarrow> (database \<Rightarrow> 'r list) \<Rightarrow> (world, goerror + 'r option) state" where
  "select_one P table = do {
     r \<leftarrow> exec (get_context (reads (\<lambda>d. filter P (table d))));
     State_Monad.return (HandleNotFound r)
   }"

definition count_rows :: "('r \<Rightarrow> bool) \<Rightarrow> (database \<Rightarrow> 'r list) \<Rightarrow> (world, goerror + int) state" where
  "count_rows P table = exec (reads (\<lambda>d. int (length (filter P (table d)))))"

text \<open>The same by a key of type uuid.\<close>

definition select_uuid ::
  "('r \<Rightarrow> string) \<Rightarrow> string \<Rightarrow> (database \<Rightarrow> 'r list) \<Rightarrow> (world, goerror + 'r option) state" where
  "select_uuid key rid table = do {
     r \<leftarrow> exec_env (\<lambda>e. get_context (uuid_arg e rid (\<lambda>i. reads (\<lambda>d. filter (\<lambda>x. key x = i) (table d)))));
     State_Monad.return (HandleNotFound r)
   }"

definition count_uuid ::
  "string \<Rightarrow> (string \<Rightarrow> 'r \<Rightarrow> bool) \<Rightarrow> (database \<Rightarrow> 'r list) \<Rightarrow> (world, goerror + int) state" where
  "count_uuid rid P table =
     exec_env (\<lambda>e. uuid_arg e rid (\<lambda>i. reads (\<lambda>d. int (length (filter (P i) (table d))))))"

lemma next_fault_not_no_rows: "next_fault w = Some e \<Longrightarrow> \<not> Is_ErrNoRows e"
  by (auto simp: next_fault_def split: list.splits)

lemma filter_head_find: "(case filter P xs of [] \<Rightarrow> None | r # _ \<Rightarrow> Some r) = find_row P xs"
  by (induction xs) auto

lemma run_select_one [run_simps]:
  "run_state (select_one P table) w =
     (case next_fault w of Some e \<Rightarrow> Inl e | None \<Rightarrow> Inr (find_row P (table (db w))),
      w\<lparr>db_faults := tl (db_faults w)\<rparr>)"
proof (cases "filter P (table (db w))")
  case Nil
  then have "find_row P (table (db w)) = None" by (simp flip: filter_head_find)
  with Nil show ?thesis
    by (auto simp: select_one_def run_simps get_context_def next_fault_not_no_rows split: option.splits)
next
  case (Cons r rs)
  then have "find_row P (table (db w)) = Some r" by (simp flip: filter_head_find)
  with Cons show ?thesis
    by (auto simp: select_one_def run_simps get_context_def next_fault_not_no_rows split: option.splits)
qed

lemma run_select_uuid [run_simps]:
  "run_state (select_uuid key rid table) w =
     (case next_fault w of Some e \<Rightarrow> Inl e
      | None \<Rightarrow> (case uuid_in (wenv w) rid of None \<Rightarrow> Inl uuid_syntax
                | Some i \<Rightarrow> Inr (find_row (\<lambda>x. key x = i) (table (db w)))),
      w\<lparr>db_faults := tl (db_faults w)\<rparr>)"
proof (cases "uuid_in (wenv w) rid")
  case None
  then show ?thesis
    by (auto simp: select_uuid_def run_simps uuid_arg_def get_context_def next_fault_not_no_rows
          uuid_syntax_def split: option.splits)
next
  case (Some i)
  then have "run_state (select_uuid key rid table) w = run_state (select_one (\<lambda>x. key x = i) table) w"
    by (simp add: select_uuid_def select_one_def run_exec_env uuid_arg_def)
  with Some show ?thesis by (simp add: run_select_one split: option.splits)
qed

lemma run_count_uuid [run_simps]:
  "run_state (count_uuid rid P table) w =
     (case next_fault w of Some e \<Rightarrow> Inl e
      | None \<Rightarrow> (case uuid_in (wenv w) rid of None \<Rightarrow> Inl uuid_syntax
                | Some i \<Rightarrow> Inr (int (length (filter (P i) (table (db w)))))),
      w\<lparr>db_faults := tl (db_faults w)\<rparr>)"
  by (auto simp: count_uuid_def run_simps uuid_arg_def split: option.splits)

lemma run_count_rows [run_simps]:
  "run_state (count_rows P table) w =
     (case next_fault w of Some e \<Rightarrow> Inl e
      | None \<Rightarrow> Inr (int (length (filter P (table (db w))))),
      w\<lparr>db_faults := tl (db_faults w)\<rparr>)"
  by (auto simp: count_rows_def run_simps split: option.splits)

lemma sorted_order_by_asc: "sorted (map k (order_by_asc k rows))"
  by (simp add: order_by_asc_def)

lemma mem_order_by_asc [simp]: "set (order_by_asc k rows) = set rows"
  by (simp add: order_by_asc_def)

lemma mem_order_by_desc [simp]: "set (order_by_desc k rows) = set rows"
  by (simp add: order_by_desc_def)

lemma length_order_by_desc [simp]: "length (order_by_desc k rows) = length rows"
  by (simp add: order_by_desc_def)

lemma sorted_order_by_desc: "sorted (map (\<lambda>r. - k r) (order_by_desc k rows))"
  by (simp add: order_by_desc_def)


section \<open>Accounts (internal/repository/account.go)\<close>

definition accountRepo_FindByID :: "string \<Rightarrow> (world, goerror + Account option) state" where
  "accountRepo_FindByID rid = select_uuid acc_ID rid accounts"

definition accountRepo_FindByTokenHash :: "string \<Rightarrow> (world, goerror + Account option) state" where
  "accountRepo_FindByTokenHash tokenHash =
     select_one (\<lambda>a. acc_RelayTokenHash a = Some tokenHash) accounts"

definition accountRepo_FindAll :: "int \<Rightarrow> int \<Rightarrow> (world, goerror + Account list) state" where
  "accountRepo_FindAll limit offset =
     exec (page limit offset (\<lambda>d. order_by_desc acc_CreatedAt (accounts d)))"

definition sql_insert_account :: "CreateAccountParams \<Rightarrow> string \<Rightarrow> time \<Rightarrow> Account list stmt" where
  "sql_insert_account params rid now = (\<lambda>d.
     if (\<exists>a \<in> set (accounts d). acc_ID a = rid \<or> acc_RelayTokenHash a = Some (ca_RelayTokenHash params))
     then Inl unique_violation
     else let a = \<lparr>acc_ID = rid, acc_RelayTokenHash = Some (ca_RelayTokenHash params),
                   acc_RateLimitPerMin = ca_RateLimitPerMin params,
                   acc_CreatedAt = now, acc_UpdatedAt = now\<rparr>
          in Inr ([a], d\<lparr>accounts := accounts d @ [a]\<rparr>))"

definition accountRepo_Create :: "CreateAccountParams \<Rightarrow> (world, goerror + Account) state" where
  "accountRepo_Create params = do {
     uuid \<leftarrow> gen_random_uuid;
     case uuid of
       Inl err \<Rightarrow> State_Monad.return (Inl err)
     | Inr rid \<Rightarrow> do {
         now \<leftarrow> sql_now;
         exec (get_context (sql_insert_account params rid now))
       }
   }"

definition set_rate_limit :: "int option \<Rightarrow> time \<Rightarrow> Account \<Rightarrow> Account" where
  "set_rate_limit limit now a =
     a\<lparr>acc_RateLimitPerMin := (case limit of Some n \<Rightarrow> n | None \<Rightarrow> acc_RateLimitPerMin a),
       acc_UpdatedAt := now\<rparr>"

definition set_token_hash :: "string \<Rightarrow> time \<Rightarrow> Account \<Rightarrow> Account" where
  "set_token_hash tokenHash now a = a\<lparr>acc_RelayTokenHash := Some tokenHash, acc_UpdatedAt := now\<rparr>"

definition sql_update_account :: "string \<Rightarrow> int option \<Rightarrow> time \<Rightarrow> Account list stmt" where
  "sql_update_account rid limit now = (\<lambda>d.
     let d' = d\<lparr>accounts := upd_where (\<lambda>a. acc_ID a = rid) (set_rate_limit limit now) (accounts d)\<rparr>
     in Inr (filter (\<lambda>a. acc_ID a = rid) (accounts d'), d'))"

definition accountRepo_Update :: "string \<Rightarrow> int option \<Rightarrow> (world, goerror + Account option) state" where
  "accountRepo_Update rid limit = do {
     now \<leftarrow> time_now;
     r \<leftarrow> exec_env (\<lambda>e. get_context (uuid_arg e rid (\<lambda>i. sql_update_account i limit now)));
     State_Monad.return (HandleNotFound r)
   }"

definition sql_update_token :: "string \<Rightarrow> string \<Rightarrow> time \<Rightarrow> Account list stmt" where
  "sql_update_token rid tokenHash now = (\<lambda>d.
     if (\<exists>a \<in> set (accounts d). acc_ID a = rid)
        \<and> (\<exists>a \<in> set (accounts d). acc_ID a \<noteq> rid \<and> acc_RelayTokenHash a = Some tokenHash)
     then Inl unique_violation
     else let d' = d\<lparr>accounts := upd_where (\<lambda>a. acc_ID a = rid) (set_token_hash tokenHash now) (accounts d)\<rparr>
          in Inr (filter (\<lambda>a. acc_ID a = rid) (accounts d'), d'))"

definition accountRepo_UpdateToken :: "string \<Rightarrow> string \<Rightarrow> (world, goerror + Account option) state" where
  "accountRepo_UpdateToken rid tokenHash = do {
     now \<leftarrow> time_now;
     r \<leftarrow> exec_env (\<lambda>e. get_context (uuid_arg e rid (\<lambda>i. sql_update_token i tokenHash now)));
     State_Monad.return (HandleNotFound r)
   }"

text \<open>
  DELETE FROM accounts with the referential actions of the schema: the account's messages go with
  it (CASCADE), an outbound message loses the reference to an inbound one that goes (SET NULL),
  conversations and sessions keep their row and lose the reference (SET NULL).
\<close>

definition clear_conv_account :: "ConversationMapping \<Rightarrow> ConversationMapping" where
  "clear_conv_account c = c\<lparr>conv_AccountID := None\<rparr>"

definition clear_ses_account :: "Session \<Rightarrow> Session" where
  "clear_ses_account s = s\<lparr>ses_AccountID := None\<rparr>"

definition clear_out_inbound :: "OutboundMessage \<Rightarrow> OutboundMessage" where
  "clear_out_inbound m = m\<lparr>out_InboundMessageID := None\<rparr>"

definition del_account :: "string \<Rightarrow> database \<Rightarrow> database" where
  "del_account rid d =
     d\<lparr>accounts := del_where (\<lambda>a. acc_ID a = rid) (accounts d),
           inbounds := del_where (\<lambda>m. in_AccountID m = rid) (inbounds d),
           outbounds :=
             upd_where
               (\<lambda>m. \<exists>i. out_InboundMessageID m = Some i
                      \<and> (\<exists>x \<in> set (inbounds d). in_ID x = i \<and> in_AccountID x = rid))
               clear_out_inbound
               (del_where (\<lambda>m. out_AccountID m = rid) (outbounds d)),
           conversations :=
             upd_where (\<lambda>c. conv_AccountID c = Some rid) clear_conv_account (conversations d),
           sessions := upd_where (\<lambda>s. ses_AccountID s = Some rid) clear_ses_account (sessions d)\<rparr>"

definition accountRepo_Delete :: "string \<Rightarrow> (world, goerror + unit) state" where
  "accountRepo_Delete rid = exec_env (\<lambda>e. uuid_arg e rid (\<lambda>i. writes (del_account i)))"

definition accountRepo_Count :: "(world, goerror + int) state" where
  "accountRepo_Count = count_rows (\<lambda>_. True) accounts"


section \<open>Conversations (internal/repository/conversation.go)\<close>

definition conversationRepo_FindByKey ::
  "string \<Rightarrow> (world, goerror + ConversationMapping option) state" where
  "conversationRepo_FindByKey key = select_one (\<lambda>c. conv_ConversationKey c = key) conversations"

definition conversationRepo_FindByAccountID ::
  "string \<Rightarrow> (world, goerror + ConversationMapping list) state" where
  "conversationRepo_FindByAccountID accountID =
     exec_env (\<lambda>e. uuid_arg e accountID (\<lambda>i. reads (\<lambda>d. order_by_desc conv_LastSeenAt
       (filter (\<lambda>c. conv_AccountID c = Some i) (conversations d)))))"

text \<open>paired_at DESC puts NULL first in PostgreSQL.\<close>

definition conversationRepo_FindPairedByAccountID ::
  "string \<Rightarrow> (world, goerror + ConversationMapping list) state" where
  "conversationRepo_FindPairedByAccountID accountID =
     exec_env (\<lambda>e. uuid_arg e accountID (\<lambda>i. reads (\<lambda>d.
       let rows = filter (\<lambda>c. conv_AccountID c = Some i \<and> conv_State c = PairingStatePaired)
                    (conversations d)
       in filter (\<lambda>c. conv_PairedAt c = None) rows
          @ order_by_desc (\<lambda>c. case conv_PairedAt c of Some t \<Rightarrow> t | None \<Rightarrow> 0)
              (filter (\<lambda>c. conv_PairedAt c \<noteq> None) rows))))"

definition touch_conv ::
  "string option \<Rightarrow> time option \<Rightarrow> time \<Rightarrow> ConversationMapping \<Rightarrow> ConversationMapping" where
  "touch_conv url expires now c =
     c\<lparr>conv_LastCallbackURL := url, conv_LastCallbackExpiresAt := expires, conv_LastSeenAt := now\<rparr>"

text \<open>
  INSERT ... ON CONFLICT (conversation_key) DO UPDATE: only the conflict on that column is
  handled; one on (kakao_channel_id, plusfriend_user_key) alone is an error.
\<close>

definition sql_upsert_conversation ::
  "UpsertConversationParams \<Rightarrow> string \<Rightarrow> time \<Rightarrow> ConversationMapping list stmt" where
  "sql_upsert_conversation params rid now = (\<lambda>d.
     if (\<exists>c \<in> set (conversations d). conv_ConversationKey c = uc_ConversationKey params)
     then let d' = d\<lparr>conversations :=
                  upd_where (\<lambda>c. conv_ConversationKey c = uc_ConversationKey params)
                    (touch_conv (uc_CallbackURL params) (uc_CallbackExpiresAt params) now)
                    (conversations d)\<rparr>
          in Inr (filter (\<lambda>c. conv_ConversationKey c = uc_ConversationKey params) (conversations d'), d')
     else if (\<exists>c \<in> set (conversations d). conv_ID c = rid
               \<or> conv_KakaoChannelID c = uc_KakaoChannelID params
                 \<and> conv_PlusfriendUserKey c = uc_PlusfriendUserKey params)
     then Inl unique_violation
     else let c = \<lparr>conv_ID = rid, conv_ConversationKey = uc_ConversationKey params,
                   conv_KakaoChannelID = uc_KakaoChannelID params,
                   conv_PlusfriendUserKey = uc_PlusfriendUserKey params,
                   conv_AccountID = None, conv_State = PairingStateUnpaired,
                   conv_LastCallbackURL = uc_CallbackURL params,
                   conv_LastCallbackExpiresAt = uc_CallbackExpiresAt params,
                   conv_FirstSeenAt = now, conv_LastSeenAt = now, conv_PairedAt = None\<rparr>
          in Inr ([c], d\<lparr>conversations := conversations d @ [c]\<rparr>))"

definition conversationRepo_Upsert ::
  "UpsertConversationParams \<Rightarrow> (world, goerror + ConversationMapping) state" where
  "conversationRepo_Upsert params = do {
     uuid \<leftarrow> gen_random_uuid;
     case uuid of
       Inl err \<Rightarrow> State_Monad.return (Inl err)
     | Inr rid \<Rightarrow> do {
         now \<leftarrow> sql_now;
         exec (get_context (sql_upsert_conversation params rid now))
       }
   }"

definition set_conv_state ::
  "PairingState \<Rightarrow> string option \<Rightarrow> time option \<Rightarrow> ConversationMapping \<Rightarrow> ConversationMapping" where
  "set_conv_state st accountID pairedAt c =
     c\<lparr>conv_State := st, conv_AccountID := accountID,
       conv_PairedAt := (case pairedAt of Some t \<Rightarrow> Some t | None \<Rightarrow> conv_PairedAt c)\<rparr>"

definition sql_update_conv_state ::
  "string \<Rightarrow> PairingState \<Rightarrow> string option \<Rightarrow> time option \<Rightarrow> unit stmt" where
  "sql_update_conv_state key st accountID pairedAt = (\<lambda>d.
     if (\<exists>c \<in> set (conversations d). conv_ConversationKey c = key)
        \<and> (case accountID of None \<Rightarrow> False | Some a \<Rightarrow> a \<notin> acc_ID ` set (accounts d))
     then Inl fk_violation
     else Inr ((), d\<lparr>conversations :=
            upd_where (\<lambda>c. conv_ConversationKey c = key) (set_conv_state st accountID pairedAt)
              (conversations d)\<rparr>))"

definition conversationRepo_UpdateState ::
  "string \<Rightarrow> PairingState \<Rightarrow> string option \<Rightarrow> (world, goerror + unit) state" where
  "conversationRepo_UpdateState key st accountID =
     (if st = PairingStatePaired
      then do {
        now \<leftarrow> time_now;
        exec_env (\<lambda>e. uuid_opt_arg e accountID (\<lambda>a. sql_update_conv_state key st a (Some now)))
      }
      else exec_env (\<lambda>e. uuid_opt_arg e accountID (\<lambda>a. sql_update_conv_state key st a None)))"

definition conversationRepo_UpdateCallback ::
  "string \<Rightarrow> string \<Rightarrow> time \<Rightarrow> (world, goerror + unit) state" where
  "conversationRepo_UpdateCallback key callbackURL expiresAt = do {
     now \<leftarrow> sql_now;
     exec (writes (\<lambda>d. d\<lparr>conversations :=
       upd_where (\<lambda>c. conv_ConversationKey c = key)
         (touch_conv (Some callbackURL) (Some expiresAt) now) (conversations d)\<rparr>))
   }"

definition conversationRepo_Delete :: "string \<Rightarrow> (world, goerror + unit) state" where
  "conversationRepo_Delete rid =
     exec_env (\<lambda>e. uuid_arg e rid (\<lambda>i. writes (\<lambda>d.
       d\<lparr>conversations := del_where (\<lambda>c. conv_ID c = i) (conversations d)\<rparr>)))"

definition conversationRepo_CountByState :: "PairingState \<Rightarrow> (world, goerror + int) state" where
  "conversationRepo_CountByState st = count_rows (\<lambda>c. conv_State c = st) conversations"


section \<open>Sessions (internal/repository/session.go)\<close>

definition active_status :: "SessionStatus \<Rightarrow> bool" where
  "active_status st \<longleftrightarrow> st = SessionStatusPendingPairing \<or> st = SessionStatusPaired"

definition sessionRepo_FindByID :: "string \<Rightarrow> (world, goerror + Session option) state" where
  "sessionRepo_FindByID rid = select_uuid ses_ID rid sessions"

definition sessionRepo_FindByTokenHash :: "string \<Rightarrow> (world, goerror + Session option) state" where
  "sessionRepo_FindByTokenHash tokenHash =
     select_one (\<lambda>s. ses_SessionTokenHash s = tokenHash \<and> active_status (ses_Status s)) sessions"

definition pairing_candidate :: "string \<Rightarrow> time \<Rightarrow> Session \<Rightarrow> bool" where
  "pairing_candidate code now s \<longleftrightarrow>
     ses_PairingCode s = code \<and> ses_Status s = SessionStatusPendingPairing \<and> now < ses_ExpiresAt s"

definition sessionRepo_FindByPairingCode :: "string \<Rightarrow> (world, goerror + Session option) state" where
  "sessionRepo_FindByPairingCode code = do {
     now \<leftarrow> sql_now;
     select_one (pairing_candidate code now) sessions
   }"

definition sql_insert_session :: "CreateSessionParams \<Rightarrow> string \<Rightarrow> time \<Rightarrow> Session list stmt" where
  "sql_insert_session params rid now = (\<lambda>d.
     if (\<exists>s \<in> set (sessions d). ses_ID s = rid
           \<or> ses_SessionTokenHash s = cs_SessionTokenHash params
           \<or> ses_PairingCode s = cs_PairingCode params)
     then Inl unique_violation
     else let s = \<lparr>ses_ID = rid, ses_SessionTokenHash = cs_SessionTokenHash params,
                   ses_PairingCode = cs_PairingCode params,
                   ses_Status = SessionStatusPendingPairing, ses_AccountID = None,
                   ses_PairedConversationKey = None, ses_Metadata = cs_Metadata params,
                   ses_ExpiresAt = cs_ExpiresAt params, ses_PairedAt = None,
                   ses_CreatedAt = now, ses_UpdatedAt = now\<rparr>
          in Inr ([s], d\<lparr>sessions := sessions d @ [s]\<rparr>))"

definition sessionRepo_Create :: "CreateSessionParams \<Rightarrow> (world, goerror + Session) state" where
  "sessionRepo_Create params = do {
     uuid \<leftarrow> gen_random_uuid;
     case uuid of
       Inl err \<Rightarrow> State_Monad.return (Inl err)
     | Inr rid \<Rightarrow> do {
         now \<leftarrow> sql_now;
         exec (get_context (sql_insert_session params rid now))
       }
   }"

text \<open>The literal '9999-12-31 23:59:59+00' of MarkPaired.\<close>

definition far_future :: time where
  "far_future = 253402300799 * second"

definition set_paired :: "string \<Rightarrow> string \<Rightarrow> time \<Rightarrow> Session \<Rightarrow> Session" where
  "set_paired accountID conversationKey now s =
     s\<lparr>ses_Status := SessionStatusPaired, ses_AccountID := Some accountID,
       ses_PairedConversationKey := Some conversationKey, ses_PairedAt := Some now,
       ses_ExpiresAt := far_future, ses_UpdatedAt := now\<rparr>"

definition set_ses_status :: "SessionStatus \<Rightarrow> time \<Rightarrow> Session \<Rightarrow> Session" where
  "set_ses_status st now s = s\<lparr>ses_Status := st, ses_UpdatedAt := now\<rparr>"

definition set_metadata :: "json \<Rightarrow> time \<Rightarrow> Session \<Rightarrow> Session" where
  "set_metadata metadata now s = s\<lparr>ses_Metadata := Some metadata, ses_UpdatedAt := now\<rparr>"

definition sql_mark_paired :: "string \<Rightarrow> string \<Rightarrow> string \<Rightarrow> time \<Rightarrow> unit stmt" where
  "sql_mark_paired rid accountID conversationKey now = (\<lambda>d.
     if (\<exists>s \<in> set (sessions d). ses_ID s = rid \<and> ses_Status s = SessionStatusPendingPairing)
        \<and> accountID \<notin> acc_ID ` set (accounts d)
     then Inl fk_violation
     else Inr ((), d\<lparr>sessions :=
            upd_where (\<lambda>s. ses_ID s = rid \<and> ses_Status s = SessionStatusPendingPairing)
              (set_paired accountID conversationKey now) (sessions d)\<rparr>))"

definition sessionRepo_MarkPaired ::
  "string \<Rightarrow> string \<Rightarrow> string \<Rightarrow> (world, goerror + unit) state" where
  "sessionRepo_MarkPaired rid accountID conversationKey = do {
     now \<leftarrow> time_now;
     exec_env (\<lambda>e. uuid_arg e accountID (\<lambda>a. uuid_arg e rid (\<lambda>i.
       sql_mark_paired i a conversationKey now)))
   }"

definition upd_session :: "string \<Rightarrow> (Session \<Rightarrow> Session) \<Rightarrow> database \<Rightarrow> database" where
  "upd_session rid f d = d\<lparr>sessions := upd_where (\<lambda>s. ses_ID s = rid) f (sessions d)\<rparr>"

definition sessionRepo_MarkExpired :: "string \<Rightarrow> (world, goerror + unit) state" where
  "sessionRepo_MarkExpired rid = do {
     now \<leftarrow> time_now;
     exec_env (\<lambda>e. uuid_arg e rid (\<lambda>i. writes (upd_session i (set_ses_status SessionStatusExpired now))))
   }"

definition sessionRepo_MarkDisconnected :: "string \<Rightarrow> (world, goerror + unit) state" where
  "sessionRepo_MarkDisconnected rid = do {
     now \<leftarrow> time_now;
     exec_env (\<lambda>e. uuid_arg e rid (\<lambda>i. writes (upd_session i (set_ses_status SessionStatusDisconnected now))))
   }"

definition stale_session :: "time \<Rightarrow> Session \<Rightarrow> bool" where
  "stale_session now s \<longleftrightarrow>
     (ses_Status s = SessionStatusPendingPairing \<and> ses_ExpiresAt s < now)
     \<or> ses_Status s = SessionStatusExpired \<or> ses_Status s = SessionStatusDisconnected"

definition sql_delete_expired_sessions :: "time \<Rightarrow> int stmt" where
  "sql_delete_expired_sessions now = (\<lambda>d.
     Inr (int (length (filter (stale_session now) (sessions d))),
          d\<lparr>sessions := del_where (stale_session now) (sessions d)\<rparr>))"

definition sessionRepo_DeleteExpired :: "(world, goerror + int) state" where
  "sessionRepo_DeleteExpired = do {
     now \<leftarrow> sql_now;
     exec (sql_delete_expired_sessions now)
   }"

definition sessionRepo_CountPendingByIP :: "string \<Rightarrow> time \<Rightarrow> (world, goerror + int) state" where
  "sessionRepo_CountPendingByIP ip since = State_Monad.return (Inr 0)"

definition sessionRepo_FindRecent :: "int \<Rightarrow> (world, goerror + Session list) state" where
  "sessionRepo_FindRecent limit =
     exec (page limit 0 (\<lambda>d. order_by_desc ses_CreatedAt (sessions d)))"

definition sessionRepo_CountByStatus :: "SessionStatus \<Rightarrow> (world, goerror + int) state" where
  "sessionRepo_CountByStatus st = count_rows (\<lambda>s. ses_Status s = st) sessions"

definition sessionRepo_UpdateMetadata :: "string \<Rightarrow> json \<Rightarrow> (world, goerror + unit) state" where
  "sessionRepo_UpdateMetadata rid metadata = do {
     now \<leftarrow> sql_now;
     exec_env (\<lambda>e. uuid_arg e rid (\<lambda>i. writes (upd_session i (set_metadata metadata now))))
   }"

definition sessionRepo_Delete :: "string \<Rightarrow> (world, goerror + unit) state" where
  "sessionRepo_Delete rid =
     exec_env (\<lambda>e. uuid_arg e rid (\<lambda>i. writes (\<lambda>d.
       d\<lparr>sessions := del_where (\<lambda>s. ses_ID s = i) (sessions d)\<rparr>)))"


section \<open>Inbound messages (internal/repository/message.go)\<close>

definition inboundRepo_FindByID :: "string \<Rightarrow> (world, goerror + InboundMessage option) state" where
  "inboundRepo_FindByID rid = select_uuid in_ID rid inbounds"

definition queued_for :: "string \<Rightarrow> InboundMessage \<Rightarrow> bool" where
  "queued_for accountID m \<longleftrightarrow> in_AccountID m = accountID \<and> in_Status m = InboundStatusQueued"

definition inboundRepo_FindQueuedByAccountID ::
  "string \<Rightarrow> (world, goerror + InboundMessage list) state" where
  "inboundRepo_FindQueuedByAccountID accountID =
     exec_env (\<lambda>e. uuid_arg e accountID (\<lambda>i. reads (\<lambda>d.
       order_by_asc in_CreatedAt (filter (queued_for i) (inbounds d)))))"

definition inboundRepo_FindByAccountID ::
  "string \<Rightarrow> int \<Rightarrow> int \<Rightarrow> (world, goerror + InboundMessage list) state" where
  "inboundRepo_FindByAccountID accountID limit offset =
     exec_env (\<lambda>e. uuid_arg e accountID (\<lambda>i. page limit offset
       (\<lambda>d. order_by_desc in_CreatedAt (filter (\<lambda>m. in_AccountID m = i) (inbounds d)))))"

definition inboundRepo_FindByConversationKey ::
  "string \<Rightarrow> int \<Rightarrow> int \<Rightarrow> (world, goerror + InboundMessage list) state" where
  "inboundRepo_FindByConversationKey key limit offset =
     exec (page limit offset
       (\<lambda>d. order_by_desc in_CreatedAt (filter (\<lambda>m. in_ConversationKey m = key) (inbounds d))))"

definition inboundRepo_CountByAccountID :: "string \<Rightarrow> (world, goerror + int) state" where
  "inboundRepo_CountByAccountID accountID = count_uuid accountID (\<lambda>i m. in_AccountID m = i) inbounds"

definition inboundRepo_CountByConversationKey :: "string \<Rightarrow> (world, goerror + int) state" where
  "inboundRepo_CountByConversationKey key = count_rows (\<lambda>m. in_ConversationKey m = key) inbounds"

definition inboundRepo_CountByConversationKeySince ::
  "string \<Rightarrow> time \<Rightarrow> (world, goerror + int) state" where
  "inboundRepo_CountByConversationKeySince key since =
     count_rows (\<lambda>m. in_ConversationKey m = key \<and> since \<le> in_CreatedAt m) inbounds"

definition sql_insert_inbound ::
  "CreateInboundMessageParams \<Rightarrow> string \<Rightarrow> time \<Rightarrow> InboundMessage list stmt" where
  "sql_insert_inbound params rid now = (\<lambda>d.
     if (\<exists>m \<in> set (inbounds d). in_ID m = rid
           \<or> (in_SourceEventID m \<noteq> None \<and> in_SourceEventID m = ci_SourceEventID params))
     then Inl unique_violation
     else if ci_AccountID params \<notin> acc_ID ` set (accounts d) then Inl fk_violation
     else let m = \<lparr>in_ID = rid, in_AccountID = ci_AccountID params,
                   in_ConversationKey = ci_ConversationKey params,
                   in_KakaoPayload = ci_KakaoPayload params,
                   in_NormalizedMessage = ci_NormalizedMessage params,
                   in_CallbackURL = ci_CallbackURL params,
                   in_CallbackExpiresAt = ci_CallbackExpiresAt params,
                   in_Status = InboundStatusQueued, in_SourceEventID = ci_SourceEventID params,
                   in_CreatedAt = now, in_DeliveredAt = None, in_AckedAt = None\<rparr>
          in Inr ([m], d\<lparr>inbounds := inbounds d @ [m]\<rparr>))"

definition inboundRepo_Create ::
  "CreateInboundMessageParams \<Rightarrow> (world, goerror + InboundMessage) state" where
  "inboundRepo_Create params = do {
     uuid \<leftarrow> gen_random_uuid;
     case uuid of
       Inl err \<Rightarrow> State_Monad.return (Inl err)
     | Inr rid \<Rightarrow> do {
         now \<leftarrow> sql_now;
         exec_env (\<lambda>e. get_context (uuid_arg e (ci_AccountID params)
          (\<lambda>a. sql_insert_inbound (params\<lparr>ci_AccountID := a\<rparr>) rid now)))
       }
   }"

definition set_delivered :: "time \<Rightarrow> InboundMessage \<Rightarrow> InboundMessage" where
  "set_delivered now m = m\<lparr>in_Status := InboundStatusDelivered, in_DeliveredAt := Some now\<rparr>"

definition set_acked :: "time \<Rightarrow> InboundMessage \<Rightarrow> InboundMessage" where
  "set_acked now m = m\<lparr>in_Status := InboundStatusAcked, in_AckedAt := Some now\<rparr>"

definition set_in_expired :: "InboundMessage \<Rightarrow> InboundMessage" where
  "set_in_expired m = m\<lparr>in_Status := InboundStatusExpired\<rparr>"

definition upd_inbound :: "string \<Rightarrow> (InboundMessage \<Rightarrow> InboundMessage) \<Rightarrow> database \<Rightarrow> database" where
  "upd_inbound rid f d = d\<lparr>inbounds := upd_where (\<lambda>m. in_ID m = rid) f (inbounds d)\<rparr>"

definition inboundRepo_MarkDelivered :: "string \<Rightarrow> (world, goerror + unit) state" where
  "inboundRepo_MarkDelivered rid = do {
     now \<leftarrow> time_now;
     exec_env (\<lambda>e. uuid_arg e rid (\<lambda>i. writes (upd_inbound i (set_delivered now))))
   }"

definition inboundRepo_MarkAcked :: "string \<Rightarrow> (world, goerror + unit) state" where
  "inboundRepo_MarkAcked rid = do {
     now \<leftarrow> time_now;
     exec_env (\<lambda>e. uuid_arg e rid (\<lambda>i. writes (upd_inbound i (set_acked now))))
   }"

definition overdue :: "time \<Rightarrow> InboundMessage \<Rightarrow> bool" where
  "overdue now m \<longleftrightarrow>
     in_Status m = InboundStatusQueued
     \<and> (case in_CallbackExpiresAt m of None \<Rightarrow> False | Some t \<Rightarrow> t < now)"

definition sql_expire_inbound :: "time \<Rightarrow> int stmt" where
  "sql_expire_inbound now = (\<lambda>d.
     Inr (int (length (filter (overdue now) (inbounds d))),
          d\<lparr>inbounds := upd_where (overdue now) set_in_expired (inbounds d)\<rparr>))"

definition inboundRepo_MarkExpired :: "(world, goerror + int) state" where
  "inboundRepo_MarkExpired = do {
     now \<leftarrow> sql_now;
     exec (sql_expire_inbound now)
   }"

definition inboundRepo_CountByStatus :: "InboundMessageStatus \<Rightarrow> (world, goerror + int) state" where
  "inboundRepo_CountByStatus st = count_rows (\<lambda>m. in_Status m = st) inbounds"

definition inboundRepo_CountByAccountIDAndStatus ::
  "string \<Rightarrow> InboundMessageStatus \<Rightarrow> (world, goerror + int) state" where
  "inboundRepo_CountByAccountIDAndStatus accountID st =
     count_uuid accountID (\<lambda>i m. in_AccountID m = i \<and> in_Status m = st) inbounds"

definition inboundRepo_CountByAccountIDSince ::
  "string \<Rightarrow> time \<Rightarrow> (world, goerror + int) state" where
  "inboundRepo_CountByAccountIDSince accountID since =
     count_uuid accountID (\<lambda>i m. in_AccountID m = i \<and> since \<le> in_CreatedAt m) inbounds"


section \<open>Outbound messages (internal/repository/message.go)\<close>

definition outboundRepo_FindByID :: "string \<Rightarrow> (world, goerror + OutboundMessage option) state" where
  "outboundRepo_FindByID rid = select_uuid out_ID rid outbounds"

definition outboundRepo_FindPendingByAccountID ::
  "string \<Rightarrow> (world, goerror + OutboundMessage list) state" where
  "outboundRepo_FindPendingByAccountID accountID =
     exec_env (\<lambda>e. uuid_arg e accountID (\<lambda>i. reads (\<lambda>d. order_by_asc out_CreatedAt
       (filter (\<lambda>m. out_AccountID m = i \<and> out_Status m = OutboundStatusPending)
         (outbounds d)))))"

definition outboundRepo_FindByAccountID ::
  "string \<Rightarrow> int \<Rightarrow> int \<Rightarrow> (world, goerror + OutboundMessage list) state" where
  "outboundRepo_FindByAccountID accountID limit offset =
     exec_env (\<lambda>e. uuid_arg e accountID (\<lambda>i. page limit offset
       (\<lambda>d. order_by_desc out_CreatedAt (filter (\<lambda>m. out_AccountID m = i) (outbounds d)))))"

definition outboundRepo_FindByConversationKey ::
  "string \<Rightarrow> int \<Rightarrow> int \<Rightarrow> (world, goerror + OutboundMessage list) state" where
  "outboundRepo_FindByConversationKey key limit offset =
     exec (page limit offset
       (\<lambda>d. order_by_desc out_CreatedAt (filter (\<lambda>m. out_ConversationKey m = key) (outbounds d))))"

definition outboundRepo_CountByAccountID :: "string \<Rightarrow> (world, goerror + int) state" where
  "outboundRepo_CountByAccountID accountID = count_uuid accountID (\<lambda>i m. out_AccountID m = i) outbounds"

definition outboundRepo_CountByConversationKey :: "string \<Rightarrow> (world, goerror + int) state" where
  "outboundRepo_CountByConversationKey key = count_rows (\<lambda>m. out_ConversationKey m = key) outbounds"

definition outboundRepo_CountByConversationKeySince ::
  "string \<Rightarrow> time \<Rightarrow> (world, goerror + int) state" where
  "outboundRepo_CountByConversationKeySince key since =
     count_rows (\<lambda>m. out_ConversationKey m = key \<and> since \<le> out_CreatedAt m) outbounds"

definition outboundRepo_CountByConversationKeyAndStatus ::
  "string \<Rightarrow> OutboundMessageStatus \<Rightarrow> (world, goerror + int) state" where
  "outboundRepo_CountByConversationKeyAndStatus key st =
     count_rows (\<lambda>m. out_ConversationKey m = key \<and> out_Status m = st) outbounds"

text \<open>response_payload is NOT NULL: a nil payload makes the statement fail.\<close>

definition sql_insert_outbound ::
  "CreateOutboundMessageParams \<Rightarrow> string \<Rightarrow> time \<Rightarrow> OutboundMessage list stmt" where
  "sql_insert_outbound params rid now = (\<lambda>d.
     case co_ResponsePayload params of None \<Rightarrow> Inl null_violation | Some payload \<Rightarrow>
     if (\<exists>m \<in> set (outbounds d). out_ID m = rid) then Inl unique_violation
     else if co_AccountID params \<notin> acc_ID ` set (accounts d)
             \<or> (case co_InboundMessageID params of None \<Rightarrow> False | Some i \<Rightarrow> i \<notin> in_ID ` set (inbounds d))
     then Inl fk_violation
     else let m = \<lparr>out_ID = rid, out_AccountID = co_AccountID params,
                   out_InboundMessageID = co_InboundMessageID params,
                   out_ConversationKey = co_ConversationKey params,
                   out_KakaoTarget = co_KakaoTarget params,
                   out_ResponsePayload = payload,
                   out_Status = OutboundStatusPending, out_ErrorMessage = None,
                   out_CreatedAt = now, out_SentAt = None\<rparr>
          in Inr ([m], d\<lparr>outbounds := outbounds d @ [m]\<rparr>))"

definition outboundRepo_Create ::
  "CreateOutboundMessageParams \<Rightarrow> (world, goerror + OutboundMessage) state" where
  "outboundRepo_Create params = do {
     uuid \<leftarrow> gen_random_uuid;
     case uuid of
       Inl err \<Rightarrow> State_Monad.return (Inl err)
     | Inr rid \<Rightarrow> do {
         now \<leftarrow> sql_now;
         exec_env (\<lambda>e. get_context (uuid_arg e (co_AccountID params) (\<lambda>a.
          uuid_opt_arg e (co_InboundMessageID params) (\<lambda>m.
            sql_insert_outbound (params\<lparr>co_AccountID := a, co_InboundMessageID := m\<rparr>) rid now))))
       }
   }"

definition set_sent :: "time \<Rightarrow> OutboundMessage \<Rightarrow> OutboundMessage" where
  "set_sent now m = m\<lparr>out_Status := OutboundStatusSent, out_SentAt := Some now\<rparr>"

definition set_failed :: "string \<Rightarrow> OutboundMessage \<Rightarrow> OutboundMessage" where
  "set_failed errorMsg m = m\<lparr>out_Status := OutboundStatusFailed, out_ErrorMessage := Some errorMsg\<rparr>"

definition upd_outbound :: "string \<Rightarrow> (OutboundMessage \<Rightarrow> OutboundMessage) \<Rightarrow> database \<Rightarrow> database" where
  "upd_outbound rid f d = d\<lparr>outbounds := upd_where (\<lambda>m. out_ID m = rid) f (outbounds d)\<rparr>"

definition outboundRepo_MarkSent :: "string \<Rightarrow> (world, goerror + unit) state" where
  "outboundRepo_MarkSent rid = do {
     now \<leftarrow> time_now;
     exec_env (\<lambda>e. uuid_arg e rid (\<lambda>i. writes (upd_outbound i (set_sent now))))
   }"

definition outboundRepo_MarkFailed :: "string \<Rightarrow> string \<Rightarrow> (world, goerror + unit) state" where
  "outboundRepo_MarkFailed rid errorMsg =
     exec_env (\<lambda>e. uuid_arg e rid (\<lambda>i. writes (upd_outbound i (set_failed errorMsg))))"

definition outboundRepo_CountByAccountIDAndStatus ::
  "string \<Rightarrow> OutboundMessageStatus \<Rightarrow> (world, goerror + int) state" where
  "outboundRepo_CountByAccountIDAndStatus accountID st =
     count_uuid accountID (\<lambda>i m. out_AccountID m = i \<and> out_Status m = st) outbounds"

definition outboundRepo_CountByAccountIDSince ::
  "string \<Rightarrow> time \<Rightarrow> (world, goerror + int) state" where
  "outboundRepo_CountByAccountIDSince accountID since =
     count_uuid accountID (\<lambda>i m. out_AccountID m = i \<and> since \<le> out_CreatedAt m) outbounds"

definition outboundRepo_FindRecentFailedByAccountID ::
  "string \<Rightarrow> int \<Rightarrow> (world, goerror + OutboundMessage list) state" where
  "outboundRepo_FindRecentFailedByAccountID accountID limit =
     exec_env (\<lambda>e. uuid_arg e accountID (\<lambda>i. page limit 0
       (\<lambda>d. order_by_desc out_CreatedAt
         (filter (\<lambda>m. out_AccountID m = i \<and> out_Status m = OutboundStatusFailed)
           (outbounds d)))))"


section \<open>Dashboard (internal/repository/dashboard.go)\<close>

record DashboardOverview =
  AccountCount :: int
  SessionPending :: int
  SessionPaired :: int
  SessionTotal :: int
  ConversationPaired :: int
  ConversationUnpaired :: int
  InboundTotal :: int
  OutboundTotal :: int
  OutboundFailed :: int

definition count_list_where :: "('r \<Rightarrow> bool) \<Rightarrow> 'r list \<Rightarrow> int" where
  "count_list_where P rows = int (length (filter P rows))"

definition overview_of :: "time \<Rightarrow> database \<Rightarrow> DashboardOverview" where
  "overview_of now d =
     \<lparr>AccountCount = int (length (accounts d)),
      SessionPending = count_list_where
        (\<lambda>s. ses_Status s = SessionStatusPendingPairing \<and> now < ses_ExpiresAt s) (sessions d),
      SessionPaired = count_list_where (\<lambda>s. ses_Status s = SessionStatusPaired) (sessions d),
      SessionTotal = int (length (sessions d)),
      ConversationPaired =
        count_list_where (\<lambda>c. conv_State c = PairingStatePaired) (conversations d),
      ConversationUnpaired =
        count_list_where (\<lambda>c. conv_State c \<noteq> PairingStatePaired) (conversations d),
      InboundTotal = int (length (inbounds d)),
      OutboundTotal = int (length (outbounds d)),
      OutboundFailed =
        count_list_where (\<lambda>m. out_Status m = OutboundStatusFailed) (outbounds d)\<rparr>"

definition dashboardRepo_GetOverviewStats :: "(world, goerror + DashboardOverview) state" where
  "dashboardRepo_GetOverviewStats = do {
     now \<leftarrow> sql_now;
     exec (reads (overview_of now))
   }"


section \<open>The contract of the UPDATE statements\<close>

interpretation acc_limit: keyed_update acc_ID "set_rate_limit limit now"
  by unfold_locales (simp add: set_rate_limit_def)

interpretation acc_token: keyed_update acc_ID "set_token_hash tokenHash now"
  by unfold_locales (simp add: set_token_hash_def)

interpretation conv_touch: keyed_update conv_ConversationKey "touch_conv url expires now"
  by unfold_locales (simp add: touch_conv_def)

interpretation conv_set: keyed_update conv_ConversationKey "set_conv_state st accountID pairedAt"
  by unfold_locales (simp add: set_conv_state_def)

interpretation ses_pair: keyed_update ses_ID "set_paired accountID conversationKey now"
  by unfold_locales (simp add: set_paired_def)

interpretation ses_set: keyed_update ses_ID "set_ses_status st now"
  by unfold_locales (simp add: set_ses_status_def)

interpretation ses_meta: keyed_update ses_ID "set_metadata metadata now"
  by unfold_locales (simp add: set_metadata_def)

interpretation in_deliver: keyed_update in_ID "set_delivered now"
  by unfold_locales (simp add: set_delivered_def)

interpretation in_ack: keyed_update in_ID "set_acked now"
  by unfold_locales (simp add: set_acked_def)

interpretation in_expire: keyed_update in_ID set_in_expired
  by unfold_locales (simp add: set_in_expired_def)

interpretation out_send: keyed_update out_ID "set_sent now"
  by unfold_locales (simp add: set_sent_def)

interpretation out_fail: keyed_update out_ID "set_failed msg"
  by unfold_locales (simp add: set_failed_def)

end
