(* ===== verification/DbInvariant.thy ===== *)
theory DbInvariant
  imports Repository
begin

text \<open>
  The well-formedness of the database (the keys and references the schema declares, and the shape
  of a row in each status) and its preservation by every statement of the repositories.
\<close>

section \<open>Uniqueness\<close>

definition unique_col :: "('r \<Rightarrow> string) \<Rightarrow> ('r \<Rightarrow> 'k) \<Rightarrow> 'r list \<Rightarrow> bool" where
  "unique_col pk col rows \<longleftrightarrow>
     (\<forall>r \<in> set rows. \<forall>r' \<in> set rows. col r = col r' \<longrightarrow> pk r = pk r')"

definition unique_nullable :: "('r \<Rightarrow> string) \<Rightarrow> ('r \<Rightarrow> 'k option) \<Rightarrow> 'r list \<Rightarrow> bool" where
  "unique_nullable pk col rows \<longleftrightarrow>
     (\<forall>r \<in> set rows. \<forall>r' \<in> set rows. col r = col r' \<and> col r \<noteq> None \<longrightarrow> pk r = pk r')"

named_theorems unique_intros

lemma unique_col_Nil [unique_intros, simp]: "unique_col pk col []"
  by (simp add: unique_col_def)

lemma unique_nullable_Nil [unique_intros, simp]: "unique_nullable pk col []"
  by (simp add: unique_nullable_def)

lemma unique_col_snoc [unique_intros]:
  "unique_col pk col rows \<Longrightarrow> \<forall>r \<in> set rows. col r \<noteq> col x \<Longrightarrow> unique_col pk col (rows @ [x])"
  unfolding unique_col_def set_append list.set by (metis UnE emptyE insertE)

lemma unique_nullable_snoc [unique_intros]:
  "unique_nullable pk col rows \<Longrightarrow> \<forall>r \<in> set rows. \<not> (col r \<noteq> None \<and> col r = col x) \<Longrightarrow>
   unique_nullable pk col (rows @ [x])"
  unfolding unique_nullable_def set_append list.set by (metis UnE emptyE insertE)

lemma unique_col_map:
  assumes "\<And>r. pk (g r) = pk r" "\<And>r. col (g r) = col r"
  shows "unique_col pk col (map g rows) = unique_col pk col rows"
  unfolding unique_col_def set_map ball_simps assms ..

lemma unique_nullable_map:
  assumes "\<And>r. pk (g r) = pk r" "\<And>r. col (g r) = col r"
  shows "unique_nullable pk col (map g rows) = unique_nullable pk col rows"
  unfolding unique_nullable_def set_map ball_simps assms ..

lemma unique_col_upd [unique_intros]:
  "unique_col pk col rows \<Longrightarrow> (\<And>r. pk (f r) = pk r) \<Longrightarrow> (\<And>r. col (f r) = col r) \<Longrightarrow>
   unique_col pk col (upd_where P f rows)"
  unfolding upd_where_def by (subst unique_col_map) simp_all

lemma unique_nullable_upd [unique_intros]:
  "unique_nullable pk col rows \<Longrightarrow> (\<And>r. pk (f r) = pk r) \<Longrightarrow> (\<And>r. col (f r) = col r) \<Longrightarrow>
   unique_nullable pk col (upd_where P f rows)"
  unfolding upd_where_def by (subst unique_nullable_map) simp_all

lemma unique_col_del [unique_intros]:
  "unique_col pk col rows \<Longrightarrow> unique_col pk col (del_where P rows)"
  unfolding unique_col_def set_del_where by blast

lemma unique_nullable_del [unique_intros]:
  "unique_nullable pk col rows \<Longrightarrow> unique_nullable pk col (del_where P rows)"
  unfolding unique_nullable_def set_del_where by blast

lemma unique_colD:
  assumes "distinct (map pk rows)" "unique_col pk col rows" "r \<in> set rows" "r' \<in> set rows"
    and "col r = col r'"
  shows "r = r'"
  using assms by (metis unique_col_def distinct_map_eqD)

lemma find_unique_col:
  assumes "distinct (map pk rows)" "unique_col pk col rows" "r \<in> set rows" "P r"
    and col: "\<And>x. P x \<Longrightarrow> col x = col r"
  shows "find_row P rows = Some r"
proof (cases "find_row P rows")
  case None
  with assms(3,4) show ?thesis by (auto dest: find_row_NoneD)
next
  case (Some x)
  then have "x \<in> set rows" "P x" by (auto dest: find_row_SomeD)
  with assms have "x = r" by (metis unique_colD)
  with Some show ?thesis by simp
qed


text \<open>A primary key of type uuid.\<close>

definition keys_ok :: "('r \<Rightarrow> string) \<Rightarrow> 'r list \<Rightarrow> bool" where
  "keys_ok pk rows \<longleftrightarrow> distinct (map pk rows) \<and> (\<forall>r \<in> set rows. IsValidUUID (pk r))"

lemma keys_ok_Nil [unique_intros, simp]: "keys_ok pk []"
  by (simp add: keys_ok_def)

lemma keys_ok_snoc [unique_intros]:
  "keys_ok pk rows \<Longrightarrow> \<forall>r \<in> set rows. pk r \<noteq> pk x \<Longrightarrow> IsValidUUID (pk x) \<Longrightarrow> keys_ok pk (rows @ [x])"
  by (auto simp: keys_ok_def)

lemma keys_ok_upd [unique_intros]:
  "keys_ok pk rows \<Longrightarrow> (\<And>r. pk (f r) = pk r) \<Longrightarrow> keys_ok pk (upd_where P f rows)"
  by (auto simp: keys_ok_def map_upd_where_frame set_upd_where)

lemma keys_ok_del [unique_intros]: "keys_ok pk rows \<Longrightarrow> keys_ok pk (del_where P rows)"
  by (auto simp: keys_ok_def distinct_del_where)


section \<open>Well-formed rows\<close>

definition account_ids :: "database \<Rightarrow> string set" where
  "account_ids d = acc_ID ` set (accounts d)"

definition inbound_ids :: "database \<Rightarrow> string set" where
  "inbound_ids d = in_ID ` set (inbounds d)"

definition ref_ok :: "string set \<Rightarrow> string option \<Rightarrow> bool" where
  "ref_ok ids r \<longleftrightarrow> (case r of None \<Rightarrow> True | Some i \<Rightarrow> i \<in> ids)"

text \<open>service.BuildConversationKey, the form of every stored conversation key.\<close>

definition BuildConversationKey :: "string \<Rightarrow> string \<Rightarrow> string" where
  "BuildConversationKey channelID userKey = channelID @ '':'' @ userKey"

definition conv_row :: "string set \<Rightarrow> ConversationMapping \<Rightarrow> bool" where
  "conv_row ids c \<longleftrightarrow>
     ref_ok ids (conv_AccountID c)
     \<and> conv_ConversationKey c =
         BuildConversationKey (conv_KakaoChannelID c) (conv_PlusfriendUserKey c)
     \<and> (conv_State c = PairingStatePaired \<longrightarrow> conv_PairedAt c \<noteq> None)"

definition ses_row :: "string set \<Rightarrow> Session \<Rightarrow> bool" where
  "ses_row ids s \<longleftrightarrow>
     ref_ok ids (ses_AccountID s)
     \<and> (ses_Status s = SessionStatusPendingPairing \<longrightarrow>
          ses_AccountID s = None \<and> ses_PairedConversationKey s = None \<and> ses_PairedAt s = None)
     \<and> (ses_Status s = SessionStatusPaired \<longrightarrow>
          ses_PairedConversationKey s \<noteq> None \<and> ses_PairedAt s \<noteq> None
          \<and> ses_ExpiresAt s = far_future)"

definition in_row :: "string set \<Rightarrow> InboundMessage \<Rightarrow> bool" where
  "in_row ids m \<longleftrightarrow>
     in_AccountID m \<in> ids
     \<and> (in_Status m = InboundStatusQueued \<longrightarrow> in_DeliveredAt m = None \<and> in_AckedAt m = None)
     \<and> (in_Status m = InboundStatusDelivered \<longrightarrow> in_DeliveredAt m \<noteq> None)
     \<and> (in_Status m = InboundStatusAcked \<longrightarrow> in_AckedAt m \<noteq> None)"

definition out_row :: "string set \<Rightarrow> string set \<Rightarrow> OutboundMessage \<Rightarrow> bool" where
  "out_row ids iids m \<longleftrightarrow>
     out_AccountID m \<in> ids
     \<and> ref_ok iids (out_InboundMessageID m)
     \<and> (out_Status m = OutboundStatusPending \<longrightarrow> out_SentAt m = None \<and> out_ErrorMessage m = None)
     \<and> (out_Status m = OutboundStatusSent \<longrightarrow> out_SentAt m \<noteq> None)
     \<and> (out_Status m = OutboundStatusFailed \<longrightarrow> out_ErrorMessage m \<noteq> None)"


section \<open>Well-formed databases\<close>

definition wf_accounts :: "database \<Rightarrow> bool" where
  "wf_accounts d \<longleftrightarrow>
     keys_ok acc_ID (accounts d) \<and> unique_nullable acc_ID acc_RelayTokenHash (accounts d)"

definition wf_conversations :: "database \<Rightarrow> bool" where
  "wf_conversations d \<longleftrightarrow>
     keys_ok conv_ID (conversations d)
     \<and> unique_col conv_ID conv_ConversationKey (conversations d)
     \<and> unique_col conv_ID (\<lambda>c. (conv_KakaoChannelID c, conv_PlusfriendUserKey c)) (conversations d)
     \<and> (\<forall>c \<in> set (conversations d). conv_row (account_ids d) c)"

definition wf_sessions :: "database \<Rightarrow> bool" where
  "wf_sessions d \<longleftrightarrow>
     keys_ok ses_ID (sessions d)
     \<and> unique_col ses_ID ses_SessionTokenHash (sessions d)
     \<and> unique_col ses_ID ses_PairingCode (sessions d)
     \<and> (\<forall>s \<in> set (sessions d). ses_row (account_ids d) s)"

definition wf_inbounds :: "database \<Rightarrow> bool" where
  "wf_inbounds d \<longleftrightarrow>
     keys_ok in_ID (inbounds d)
     \<and> unique_nullable in_ID in_SourceEventID (inbounds d)
     \<and> (\<forall>m \<in> set (inbounds d). in_row (account_ids d) m)"

definition wf_outbounds :: "database \<Rightarrow> bool" where
  "wf_outbounds d \<longleftrightarrow>
     keys_ok out_ID (outbounds d)
     \<and> (\<forall>m \<in> set (outbounds d). out_row (account_ids d) (inbound_ids d) m)"

definition wf_db :: "database \<Rightarrow> bool" where
  "wf_db d \<longleftrightarrow>
     wf_accounts d \<and> wf_conversations d \<and> wf_sessions d \<and> wf_inbounds d \<and> wf_outbounds d"

lemmas wf_parts = wf_accounts_def wf_conversations_def wf_sessions_def wf_inbounds_def wf_outbounds_def

definition empty_db :: database where
  "empty_db = \<lparr>accounts = [], conversations = [], sessions = [], inbounds = [], outbounds = []\<rparr>"

lemma wf_empty_db: "wf_db empty_db"
  by (simp add: wf_db_def wf_parts empty_db_def)

text \<open>A part depends only on its own table and on the tables it refers to.\<close>

lemma wf_conversations_cong:
  "conversations d' = conversations d \<Longrightarrow> account_ids d' = account_ids d \<Longrightarrow>
   wf_conversations d' = wf_conversations d"
  by (simp add: wf_conversations_def)

lemma ref_ok_mono: "ref_ok ids r \<Longrightarrow> ids \<subseteq> ids' \<Longrightarrow> ref_ok ids' r"
  by (auto simp: ref_ok_def split: option.splits)

lemma rows_mono:
  "conv_row ids c \<Longrightarrow> ids \<subseteq> ids' \<Longrightarrow> conv_row ids' c"
  "ses_row ids s \<Longrightarrow> ids \<subseteq> ids' \<Longrightarrow> ses_row ids' s"
  "in_row ids m \<Longrightarrow> ids \<subseteq> ids' \<Longrightarrow> in_row ids' m"
  "out_row ids iids n \<Longrightarrow> ids \<subseteq> ids' \<Longrightarrow> iids \<subseteq> iids' \<Longrightarrow> out_row ids' iids' n"
  by (auto simp: conv_row_def ses_row_def in_row_def out_row_def elim: ref_ok_mono)

lemma upd_rows:
  assumes "\<forall>r \<in> set rows. Q r" and "\<And>r. r \<in> set rows \<Longrightarrow> Q r \<Longrightarrow> P r \<Longrightarrow> Q (f r)"
  shows "\<forall>r \<in> set (upd_where P f rows). Q r"
  using assms by (auto simp: set_upd_where)


section \<open>Preservation by the statements\<close>

definition keeps_wf :: "'a stmt \<Rightarrow> bool" where
  "keeps_wf q \<longleftrightarrow> (\<forall>d x d'. wf_db d \<longrightarrow> q d = Inr (x, d') \<longrightarrow> wf_db d')"

named_theorems keeps_wf_intros

lemma keeps_wf_reads [keeps_wf_intros]: "keeps_wf (reads f)"
  by (simp add: keeps_wf_def)

lemma keeps_wf_writes: "(\<And>d. wf_db d \<Longrightarrow> wf_db (f d)) \<Longrightarrow> keeps_wf (writes f)"
  by (simp add: keeps_wf_def)

lemma keeps_wf_get_context [keeps_wf_intros]: "keeps_wf q \<Longrightarrow> keeps_wf (get_context q)"
  unfolding keeps_wf_def get_context_def by (force split: sum.splits prod.splits list.splits)

lemma keeps_wf_page [keeps_wf_intros]: "keeps_wf (page limit offset f)"
  by (auto simp: keeps_wf_def page_def split: if_splits)

lemma wf_accounts_table:
  assumes wf: "wf_db d" and ids: "account_ids d \<subseteq> acc_ID ` set as"
    and "keys_ok acc_ID as" "unique_nullable acc_ID acc_RelayTokenHash as"
  shows "wf_db (d\<lparr>accounts := as\<rparr>)"
proof -
  have sub: "account_ids d \<subseteq> account_ids (d\<lparr>accounts := as\<rparr>)"
    "inbound_ids (d\<lparr>accounts := as\<rparr>) = inbound_ids d"
    using ids by (simp_all add: account_ids_def inbound_ids_def)
  show ?thesis
    using wf assms(3,4) rows_mono(1-3)[OF _ sub(1)] rows_mono(4)[OF _ sub(1) subset_refl]
    by (simp add: wf_db_def wf_parts sub(2))
qed

lemma wf_conversations_table:
  assumes "wf_db d" "keys_ok conv_ID cs" "unique_col conv_ID conv_ConversationKey cs"
    and "unique_col conv_ID (\<lambda>c. (conv_KakaoChannelID c, conv_PlusfriendUserKey c)) cs"
    and "\<forall>c \<in> set cs. conv_row (account_ids d) c"
  shows "wf_db (d\<lparr>conversations := cs\<rparr>)"
  using assms by (simp add: wf_db_def wf_parts account_ids_def inbound_ids_def)

lemma wf_sessions_table:
  assumes "wf_db d" "keys_ok ses_ID ss" "unique_col ses_ID ses_SessionTokenHash ss"
    and "unique_col ses_ID ses_PairingCode ss" "\<forall>s \<in> set ss. ses_row (account_ids d) s"
  shows "wf_db (d\<lparr>sessions := ss\<rparr>)"
  using assms by (simp add: wf_db_def wf_parts account_ids_def inbound_ids_def)

lemma wf_inbounds_table:
  assumes wf: "wf_db d" and "keys_ok in_ID ms" "unique_nullable in_ID in_SourceEventID ms"
    and "\<forall>m \<in> set ms. in_row (account_ids d) m" and ids: "inbound_ids d \<subseteq> in_ID ` set ms"
  shows "wf_db (d\<lparr>inbounds := ms\<rparr>)"
proof -
  have sub: "inbound_ids d \<subseteq> inbound_ids (d\<lparr>inbounds := ms\<rparr>)"
    "account_ids (d\<lparr>inbounds := ms\<rparr>) = account_ids d"
    using ids by (simp_all add: account_ids_def inbound_ids_def)
  show ?thesis
    using wf assms(2-4) rows_mono(4)[OF _ subset_refl sub(1)]
    by (simp add: wf_db_def wf_parts sub(2))
qed

lemma wf_outbounds_table:
  assumes "wf_db d" "keys_ok out_ID ms"
    and "\<forall>m \<in> set ms. out_row (account_ids d) (inbound_ids d) m"
  shows "wf_db (d\<lparr>outbounds := ms\<rparr>)"
  using assms by (simp add: wf_db_def wf_parts account_ids_def inbound_ids_def)

lemma wf_dbD:
  assumes "wf_db d"
  shows "keys_ok acc_ID (accounts d)"
    "unique_nullable acc_ID acc_RelayTokenHash (accounts d)"
    "keys_ok conv_ID (conversations d)"
    "unique_col conv_ID conv_ConversationKey (conversations d)"
    "unique_col conv_ID (\<lambda>c. (conv_KakaoChannelID c, conv_PlusfriendUserKey c)) (conversations d)"
    "\<forall>c \<in> set (conversations d). conv_row (account_ids d) c"
    "keys_ok ses_ID (sessions d)"
    "unique_col ses_ID ses_SessionTokenHash (sessions d)"
    "unique_col ses_ID ses_PairingCode (sessions d)"
    "\<forall>s \<in> set (sessions d). ses_row (account_ids d) s"
    "keys_ok in_ID (inbounds d)"
    "unique_nullable in_ID in_SourceEventID (inbounds d)"
    "\<forall>m \<in> set (inbounds d). in_row (account_ids d) m"
    "keys_ok out_ID (outbounds d)"
    "\<forall>m \<in> set (outbounds d). out_row (account_ids d) (inbound_ids d) m"
  using assms by (simp_all add: wf_db_def wf_parts)

lemma keeps_wfI: "(\<And>d x d'. wf_db d \<Longrightarrow> q d = Inr (x, d') \<Longrightarrow> wf_db d') \<Longrightarrow> keeps_wf q"
  by (auto simp: keeps_wf_def)

lemma keeps_insert_account [keeps_wf_intros]:
  assumes rid: "IsValidUUID rid"
  shows "keeps_wf (sql_insert_account params rid now)"
proof (rule keeps_wfI)
  fix d :: database and x d'
  assume wf: "wf_db d" and q: "sql_insert_account params rid now d = Inr (x, d')"
  then show "wf_db d'"
    by (auto simp: sql_insert_account_def Let_def account_ids_def wf_dbD[OF wf] rid
             split: if_splits intro!: wf_accounts_table unique_intros)
qed

lemma keeps_update_account [keeps_wf_intros]: "keeps_wf (sql_update_account rid limit now)"
proof (rule keeps_wfI)
  fix d :: database and x d'
  assume wf: "wf_db d" and q: "sql_update_account rid limit now d = Inr (x, d')"
  then show "wf_db d'"
    by (auto simp: sql_update_account_def Let_def account_ids_def wf_dbD[OF wf] acc_limit.keys_upd
             intro!: wf_accounts_table unique_intros acc_limit.distinct_upd)
       (auto simp: set_rate_limit_def)
qed

lemma unique_token_hash:
  assumes "unique_nullable acc_ID acc_RelayTokenHash rows" "distinct (map acc_ID rows)"
    and fresh: "\<forall>a \<in> set rows. acc_ID a \<noteq> rid \<longrightarrow> acc_RelayTokenHash a \<noteq> Some h"
  shows "unique_nullable acc_ID acc_RelayTokenHash
           (upd_where (\<lambda>a. acc_ID a = rid) (set_token_hash h now) rows)"
proof -
  define g where "g = (\<lambda>a. if acc_ID a = rid then set_token_hash h now a else a)"
  have id: "acc_ID (g r) = acc_ID r" for r
    by (simp add: g_def set_token_hash_def)
  have hash: "acc_RelayTokenHash (g r) = (if acc_ID r = rid then Some h else acc_RelayTokenHash r)" for r
    by (simp add: g_def set_token_hash_def)
  have u: "acc_RelayTokenHash r = acc_RelayTokenHash r' \<Longrightarrow> acc_RelayTokenHash r \<noteq> None \<Longrightarrow>
      acc_ID r = acc_ID r'" if "r \<in> set rows" "r' \<in> set rows" for r r'
    using assms(1) that unfolding unique_nullable_def by blast
  have "acc_ID r = acc_ID r'"
    if rows: "r \<in> set rows" "r' \<in> set rows"
      and eq: "acc_RelayTokenHash (g r) = acc_RelayTokenHash (g r')" "acc_RelayTokenHash (g r) \<noteq> None"
    for r r'
    using u[OF rows] bspec[OF fresh rows(1)] bspec[OF fresh rows(2)] eq unfolding hash
    by (metis option.distinct(1))
  then have ball: "\<forall>r \<in> set rows. \<forall>r' \<in> set rows.
      acc_RelayTokenHash (g r) = acc_RelayTokenHash (g r') \<and> acc_RelayTokenHash (g r) \<noteq> None \<longrightarrow>
      acc_ID (g r) = acc_ID (g r')"
    unfolding id by (intro ballI impI) (elim conjE, assumption)
  have "upd_where (\<lambda>a. acc_ID a = rid) (set_token_hash h now) rows = map g rows"
    by (simp only: upd_where_def g_def)
  then show ?thesis
    unfolding unique_nullable_def by (simp only: set_map ball_simps) (rule ball)
qed

lemma keeps_update_token [keeps_wf_intros]: "keeps_wf (sql_update_token rid h now)"
proof (rule keeps_wfI)
  fix d :: database and x d'
  assume wf: "wf_db d" and q: "sql_update_token rid h now d = Inr (x, d')"
  then have d': "d' = d\<lparr>accounts :=
      upd_where (\<lambda>a. acc_ID a = rid) (set_token_hash h now) (accounts d)\<rparr>"
    and c: "rid \<notin> acc_ID ` set (accounts d) \<or>
      (\<forall>a \<in> set (accounts d). acc_ID a \<noteq> rid \<longrightarrow> acc_RelayTokenHash a \<noteq> Some h)"
    by (auto simp: sql_update_token_def Let_def split: if_splits)
  from c show "wf_db d'"
  proof
    assume "rid \<notin> acc_ID ` set (accounts d)"
    then have "upd_where (\<lambda>a. acc_ID a = rid) (set_token_hash h now) (accounts d) = accounts d"
      by (auto simp: upd_where_def intro!: map_idI)
    with d' wf show ?thesis by simp
  next
    assume "\<forall>a \<in> set (accounts d). acc_ID a \<noteq> rid \<longrightarrow> acc_RelayTokenHash a \<noteq> Some h"
    then show ?thesis
      unfolding d' using wf_dbD(1,2)[OF wf]
      by (intro wf_accounts_table wf unique_token_hash keys_ok_upd)
         (simp_all add: account_ids_def acc_token.keys_upd set_token_hash_def keys_ok_def)
  qed
qed

lemma conv_row_new:
  "conv_row ids \<lparr>conv_ID = i, conv_ConversationKey = BuildConversationKey c u, conv_KakaoChannelID = c,
     conv_PlusfriendUserKey = u, conv_AccountID = None, conv_State = PairingStateUnpaired,
     conv_LastCallbackURL = url, conv_LastCallbackExpiresAt = e, conv_FirstSeenAt = now,
     conv_LastSeenAt = now, conv_PairedAt = None\<rparr>"
  by (simp add: conv_row_def ref_ok_def)

lemma keeps_upsert [keeps_wf_intros]:
  assumes rid: "IsValidUUID rid" and "uc_ConversationKey params =
      BuildConversationKey (uc_KakaoChannelID params) (uc_PlusfriendUserKey params)"
  shows "keeps_wf (sql_upsert_conversation params rid now)"
proof (rule keeps_wfI)
  fix d :: database and x d'
  assume wf: "wf_db d" and q: "sql_upsert_conversation params rid now d = Inr (x, d')"
  show "wf_db d'"
  proof (cases "\<exists>c \<in> set (conversations d). conv_ConversationKey c = uc_ConversationKey params")
    case True
    with q have d': "d' = d\<lparr>conversations :=
        upd_where (\<lambda>c. conv_ConversationKey c = uc_ConversationKey params)
          (touch_conv (uc_CallbackURL params) (uc_CallbackExpiresAt params) now) (conversations d)\<rparr>"
      by (auto simp: sql_upsert_conversation_def Let_def)
    show ?thesis
      unfolding d' using wf_dbD(3-6)[OF wf]
      by (intro wf_conversations_table wf unique_intros upd_rows)
         (auto simp: touch_conv_def conv_row_def map_upd_where_frame)
  next
    case False
    with q wf assms(2) show ?thesis
      by (auto simp: sql_upsert_conversation_def Let_def wf_dbD[OF wf] conv_row_new rid
               split: if_splits intro!: wf_conversations_table unique_intros)
  qed
qed

lemma keeps_conv_state [keeps_wf_intros]:
  assumes "st = PairingStatePaired \<Longrightarrow> pairedAt \<noteq> None"
  shows "keeps_wf (sql_update_conv_state key st accountID pairedAt)"
proof (rule keeps_wfI)
  fix d :: database and x d'
  assume wf: "wf_db d" and q: "sql_update_conv_state key st accountID pairedAt d = Inr (x, d')"
  then have d': "d' = d\<lparr>conversations :=
        upd_where (\<lambda>c. conv_ConversationKey c = key) (set_conv_state st accountID pairedAt)
          (conversations d)\<rparr>"
    and fk: "(\<exists>c \<in> set (conversations d). conv_ConversationKey c = key) \<Longrightarrow>
      ref_ok (account_ids d) accountID"
    by (auto simp: sql_update_conv_state_def ref_ok_def account_ids_def split: if_splits option.splits)
  show "wf_db d'"
    unfolding d' using wf_dbD(3-6)[OF wf] fk assms
    by (intro wf_conversations_table wf unique_intros upd_rows)
       (auto simp: set_conv_state_def conv_row_def map_upd_where_frame split: option.splits)
qed

lemma keeps_update_callback [keeps_wf_intros]:
  "keeps_wf (writes (\<lambda>d. d\<lparr>conversations :=
     upd_where (\<lambda>c. conv_ConversationKey c = key) (touch_conv url expires now) (conversations d)\<rparr>))"
proof (rule keeps_wf_writes)
  fix d assume wf: "wf_db d"
  show "wf_db (d\<lparr>conversations :=
     upd_where (\<lambda>c. conv_ConversationKey c = key) (touch_conv url expires now) (conversations d)\<rparr>)"
    using wf_dbD(3-6)[OF wf]
    by (intro wf_conversations_table wf unique_intros upd_rows)
       (auto simp: touch_conv_def conv_row_def map_upd_where_frame)
qed

lemma keeps_conv_delete [keeps_wf_intros]:
  "keeps_wf (writes (\<lambda>d. d\<lparr>conversations := del_where P (conversations d)\<rparr>))"
proof (rule keeps_wf_writes)
  fix d assume wf: "wf_db d"
  show "wf_db (d\<lparr>conversations := del_where P (conversations d)\<rparr>)"
    using wf_dbD(3-6)[OF wf]
    by (intro wf_conversations_table wf unique_intros distinct_del_where) auto
qed

lemma ses_row_new:
  "ses_row ids \<lparr>ses_ID = i, ses_SessionTokenHash = h, ses_PairingCode = c,
     ses_Status = SessionStatusPendingPairing, ses_AccountID = None, ses_PairedConversationKey = None,
     ses_Metadata = meta, ses_ExpiresAt = e, ses_PairedAt = None, ses_CreatedAt = now,
     ses_UpdatedAt = now\<rparr>"
  by (simp add: ses_row_def ref_ok_def)

lemma keeps_insert_session [keeps_wf_intros]:
  assumes rid: "IsValidUUID rid"
  shows "keeps_wf (sql_insert_session params rid now)"
proof (rule keeps_wfI)
  fix d :: database and x d'
  assume wf: "wf_db d" and q: "sql_insert_session params rid now d = Inr (x, d')"
  then show "wf_db d'"
    by (auto simp: sql_insert_session_def Let_def wf_dbD[OF wf] rid ses_row_new
             split: if_splits intro!: wf_sessions_table unique_intros)
qed

lemma keeps_mark_paired [keeps_wf_intros]: "keeps_wf (sql_mark_paired rid accountID key now)"
proof (rule keeps_wfI)
  fix d :: database and x d'
  assume wf: "wf_db d" and q: "sql_mark_paired rid accountID key now d = Inr (x, d')"
  then have d': "d' = d\<lparr>sessions :=
        upd_where (\<lambda>s. ses_ID s = rid \<and> ses_Status s = SessionStatusPendingPairing)
          (set_paired accountID key now) (sessions d)\<rparr>"
    and fk: "(\<exists>s \<in> set (sessions d). ses_ID s = rid \<and> ses_Status s = SessionStatusPendingPairing) \<Longrightarrow>
      accountID \<in> account_ids d"
    by (auto simp: sql_mark_paired_def account_ids_def split: if_splits)
  show "wf_db d'"
    unfolding d' using wf_dbD(7-10)[OF wf] fk
    by (intro wf_sessions_table wf unique_intros upd_rows ses_pair.distinct_upd)
       (auto simp: set_paired_def ses_row_def ref_ok_def)
qed

lemma keeps_upd_session:
  assumes "\<And>s. ses_ID (f s) = ses_ID s" "\<And>s. ses_SessionTokenHash (f s) = ses_SessionTokenHash s"
    and "\<And>s. ses_PairingCode (f s) = ses_PairingCode s"
    and "\<And>ids s. ses_row ids s \<Longrightarrow> ses_row ids (f s)"
  shows "keeps_wf (writes (upd_session rid f))"
proof (rule keeps_wf_writes)
  fix d assume wf: "wf_db d"
  show "wf_db (upd_session rid f d)"
    unfolding upd_session_def using wf_dbD(7-10)[OF wf] assms
    by (intro wf_sessions_table wf unique_intros upd_rows) (auto simp: map_upd_where_frame)
qed

lemma keeps_ses_status [keeps_wf_intros]:
  "st = SessionStatusExpired \<or> st = SessionStatusDisconnected \<Longrightarrow>
   keeps_wf (writes (upd_session rid (set_ses_status st now)))"
  by (rule keeps_upd_session) (auto simp: set_ses_status_def ses_row_def)

lemma keeps_ses_metadata [keeps_wf_intros]:
  "keeps_wf (writes (upd_session rid (set_metadata metadata now)))"
  by (rule keeps_upd_session) (auto simp: set_metadata_def ses_row_def)

lemma wf_delete_sessions: "wf_db d \<Longrightarrow> wf_db (d\<lparr>sessions := del_where P (sessions d)\<rparr>)"
  using wf_dbD(7-10)[of d]
  by (intro wf_sessions_table unique_intros distinct_del_where) auto

lemma keeps_ses_delete_expired [keeps_wf_intros]: "keeps_wf (sql_delete_expired_sessions now)"
  by (auto simp: keeps_wf_def sql_delete_expired_sessions_def wf_delete_sessions)

lemma keeps_ses_delete [keeps_wf_intros]:
  "keeps_wf (writes (\<lambda>d. d\<lparr>sessions := del_where P (sessions d)\<rparr>))"
  by (rule keeps_wf_writes) (rule wf_delete_sessions)

lemma in_row_new:
  "a \<in> ids \<Longrightarrow> in_row ids \<lparr>in_ID = i, in_AccountID = a, in_ConversationKey = k, in_KakaoPayload = p,
     in_NormalizedMessage = n, in_CallbackURL = url, in_CallbackExpiresAt = e,
     in_Status = InboundStatusQueued, in_SourceEventID = src, in_CreatedAt = now,
     in_DeliveredAt = None, in_AckedAt = None\<rparr>"
  by (simp add: in_row_def)

lemma keeps_insert_inbound [keeps_wf_intros]:
  assumes rid: "IsValidUUID rid"
  shows "keeps_wf (sql_insert_inbound params rid now)"
proof (rule keeps_wfI)
  fix d :: database and x d'
  assume wf: "wf_db d" and q: "sql_insert_inbound params rid now d = Inr (x, d')"
  then show "wf_db d'"
    by (auto simp: sql_insert_inbound_def Let_def wf_dbD[OF wf] rid inbound_ids_def account_ids_def[symmetric]
             split: if_splits intro!: wf_inbounds_table unique_intros in_row_new)
qed

lemma keeps_upd_inbound:
  assumes "\<And>m. in_ID (f m) = in_ID m" "\<And>m. in_SourceEventID (f m) = in_SourceEventID m"
    and "\<And>ids m. P m \<Longrightarrow> in_row ids m \<Longrightarrow> in_row ids (f m)" and wf: "wf_db d"
  shows "wf_db (d\<lparr>inbounds := upd_where P f (inbounds d)\<rparr>)"
proof -
  have "in_ID ` set (upd_where P f (inbounds d)) = inbound_ids d"
    using map_upd_where_frame[of in_ID f P "inbounds d", OF assms(1)]
    by (metis inbound_ids_def set_map)
  then show ?thesis
    using wf_dbD(11-13)[OF wf] assms(1-3)
    by (intro wf_inbounds_table wf unique_intros upd_rows) (auto simp: map_upd_where_frame)
qed

lemma keeps_in_delivered [keeps_wf_intros]:
  "keeps_wf (writes (upd_inbound rid (set_delivered now)))"
  unfolding upd_inbound_def
  by (rule keeps_wf_writes, rule keeps_upd_inbound) (auto simp: set_delivered_def in_row_def)

lemma keeps_in_acked [keeps_wf_intros]: "keeps_wf (writes (upd_inbound rid (set_acked now)))"
  unfolding upd_inbound_def
  by (rule keeps_wf_writes, rule keeps_upd_inbound) (auto simp: set_acked_def in_row_def)

lemma keeps_in_expired [keeps_wf_intros]: "keeps_wf (sql_expire_inbound now)"
proof (rule keeps_wfI)
  fix d :: database and x d'
  assume "wf_db d" "sql_expire_inbound now d = Inr (x, d')"
  then show "wf_db d'"
    by (auto simp: sql_expire_inbound_def set_in_expired_def in_row_def intro!: keeps_upd_inbound)
qed

lemma out_row_new:
  "a \<in> ids \<Longrightarrow> ref_ok iids r \<Longrightarrow> out_row ids iids \<lparr>out_ID = i, out_AccountID = a,
     out_InboundMessageID = r, out_ConversationKey = k, out_KakaoTarget = t, out_ResponsePayload = p,
     out_Status = OutboundStatusPending, out_ErrorMessage = None, out_CreatedAt = now,
     out_SentAt = None\<rparr>"
  by (simp add: out_row_def)

lemma keeps_insert_outbound [keeps_wf_intros]:
  assumes rid: "IsValidUUID rid"
  shows "keeps_wf (sql_insert_outbound params rid now)"
proof (rule keeps_wfI)
  fix d :: database and x d'
  assume wf: "wf_db d" and q: "sql_insert_outbound params rid now d = Inr (x, d')"
  then show "wf_db d'"
    by (auto simp: sql_insert_outbound_def Let_def wf_dbD[OF wf] rid ref_ok_def
                   account_ids_def[symmetric] inbound_ids_def[symmetric]
             split: if_splits option.splits intro!: wf_outbounds_table out_row_new unique_intros)
qed

lemma keeps_upd_outbound:
  assumes "\<And>m. out_ID (f m) = out_ID m"
    and "\<And>ids iids m. out_row ids iids m \<Longrightarrow> out_row ids iids (f m)"
  shows "keeps_wf (writes (upd_outbound rid f))"
proof (rule keeps_wf_writes)
  fix d assume wf: "wf_db d"
  show "wf_db (upd_outbound rid f d)"
    unfolding upd_outbound_def using wf_dbD(14,15)[OF wf] assms
    by (intro wf_outbounds_table wf upd_rows unique_intros) auto
qed

lemma keeps_out_sent [keeps_wf_intros]: "keeps_wf (writes (upd_outbound rid (set_sent now)))"
  by (rule keeps_upd_outbound) (auto simp: set_sent_def out_row_def)

lemma keeps_out_failed [keeps_wf_intros]: "keeps_wf (writes (upd_outbound rid (set_failed msg)))"
  by (rule keeps_upd_outbound) (auto simp: set_failed_def out_row_def)

text \<open>
  Deleting an account: each table in turn, with the references that would dangle removed first.
\<close>

lemma ref_ok_remove: "ref_ok ids r \<Longrightarrow> r \<noteq> Some i \<Longrightarrow> ref_ok (ids - {i}) r"
  by (auto simp: ref_ok_def split: option.splits)

lemma account_ids_del: "account_ids (del_account rid d) = account_ids d - {rid}"
  by (auto simp: account_ids_def del_account_def)

lemma inbound_ids_del:
  "keys_ok in_ID (inbounds d) \<Longrightarrow>
   inbound_ids (del_account rid d) =
   inbound_ids d - {in_ID m | m. m \<in> set (inbounds d) \<and> in_AccountID m = rid}"
  by (auto simp: inbound_ids_def del_account_def keys_ok_def dest: distinct_map_eqD)

lemma wf_del_account:
  assumes wf: "wf_db d"
  shows "wf_db (del_account rid d)"
proof -
  note W = wf_dbD[OF wf]
  have acc: "wf_accounts (del_account rid d)"
    using W(1,2) by (auto simp: wf_accounts_def del_account_def intro!: unique_intros)
  have conv: "wf_conversations (del_account rid d)"
    unfolding wf_conversations_def account_ids_del using W(3-6)
    by (auto simp: del_account_def clear_conv_account_def conv_row_def set_upd_where map_upd_where_frame
             intro!: unique_intros ref_ok_remove) (auto simp: ref_ok_def)
  have ses: "wf_sessions (del_account rid d)"
    unfolding wf_sessions_def account_ids_del using W(7-10)
    by (auto simp: del_account_def clear_ses_account_def ses_row_def set_upd_where map_upd_where_frame
             intro!: unique_intros ref_ok_remove) (auto simp: ref_ok_def)
  have inb: "wf_inbounds (del_account rid d)"
    unfolding wf_inbounds_def account_ids_del using W(11-13)
    by (auto simp: del_account_def in_row_def intro!: unique_intros)
  have out: "wf_outbounds (del_account rid d)"
    unfolding wf_outbounds_def account_ids_del inbound_ids_del[OF W(11)] using W(14,15)
    by (auto simp: del_account_def clear_out_inbound_def out_row_def set_upd_where map_upd_where_frame
                   ref_ok_def inbound_ids_def
             intro!: unique_intros split: option.splits)
  from acc conv ses inb out show ?thesis by (simp add: wf_db_def)
qed

lemma keeps_del_account [keeps_wf_intros]: "keeps_wf (writes (del_account rid))"
  by (rule keeps_wf_writes) (rule wf_del_account)

end
