(* ===== verification/Effects.thy ===== *)
theory Effects
  imports DbInvariant
begin

text \<open>
  What the repositories do to the world, as effects: they keep the database well formed, never turn
  the clock back and never change the parameters (\<open>good\<close>), and they touch nothing but the database,
  the clock and the supplies of the environment (\<open>only_db\<close>). Both relations are interpretations of
  the rules for effects, so the statements for the services and handlers follow the code.
\<close>

section \<open>Good effects\<close>

definition good :: "world \<Rightarrow> world \<Rightarrow> bool" where
  "good w w' \<longleftrightarrow>
     (wf_db (db w) \<longrightarrow> wf_db (db w')) \<and> wenv w' = wenv w \<and> clock w \<le> clock w'"

definition only_db :: "world \<Rightarrow> world \<Rightarrow> bool" where
  "only_db w w' \<longleftrightarrow>
     bus w' = bus w \<and> redis_faults w' = redis_faults w \<and> zsets w' = zsets w \<and> broker w' = broker w
     \<and> callbacks w' = callbacks w \<and> hops w' = hops w \<and> http_replies w' = http_replies w \<and> sse_out w' = sse_out w
     \<and> write_faults w' = write_faults w \<and> wenv w' = wenv w"

interpretation good: effect_order good
  by unfold_locales (auto simp: good_def)

interpretation only_db: effect_order only_db
  by unfold_locales (auto simp: only_db_def)

named_theorems good_intros
named_theorems only_db_intros

lemma eff_time_now [good_intros, only_db_intros]:
  "state_io_rel good time_now" "state_io_rel only_db time_now"
  by (auto intro!: io_relI_snd simp: run_time_now good_def only_db_def)

lemma eff_sql_now [good_intros, only_db_intros]:
  "state_io_rel good sql_now" "state_io_rel only_db sql_now"
  by (auto intro!: io_relI_snd simp: run_sql_now run_time_now good_def only_db_def split: option.split)

lemma eff_db_call [good_intros, only_db_intros]:
  "state_io_rel good db_call" "state_io_rel only_db db_call"
  by (auto intro!: io_relI_snd simp: run_db_call good_def only_db_def)

lemma eff_exec [good_intros]: "keeps_wf q \<Longrightarrow> state_io_rel good (exec q)"
  by (rule io_relI_snd)
     (auto simp: run_exec good_def keeps_wf_def split: option.split sum.split)

lemma only_db_exec [only_db_intros]: "state_io_rel only_db (exec q)"
  by (rule io_relI_snd) (auto simp: run_exec only_db_def split: option.split sum.split)

lemma eff_exec_env [good_intros]: "(\<And>e. keeps_wf (q e)) \<Longrightarrow> state_io_rel good (exec_env q)"
  unfolding exec_env_def by (intro good.eff_rules good_intros)

lemma only_db_exec_env [only_db_intros]: "state_io_rel only_db (exec_env q)"
  unfolding exec_env_def by (intro only_db.eff_rules only_db_intros)

lemma keeps_uuid_arg [keeps_wf_intros]: "(\<And>i. keeps_wf (q i)) \<Longrightarrow> keeps_wf (uuid_arg e s q)"
  by (auto simp: uuid_arg_def keeps_wf_def split: option.splits)

lemma keeps_uuid_opt_arg [keeps_wf_intros]: "(\<And>r. keeps_wf (q r)) \<Longrightarrow> keeps_wf (uuid_opt_arg e s q)"
  unfolding uuid_opt_arg_def by (cases s) (auto intro!: keeps_uuid_arg)

text \<open>A freshly generated key is a UUID, so what is done with it may rely on that.\<close>

lemma good_fresh_uuid:
  assumes "\<And>err. state_io_rel good (f (Inl err))"
    and "\<And>rid. IsValidUUID rid \<Longrightarrow> state_io_rel good (f (Inr rid))"
  shows "state_io_rel good (State_Monad.bind gen_random_uuid f)"
proof (rule io_relI_snd)
  fix w
  obtain r w1 where r: "run_state gen_random_uuid w = (r, w1)" by fastforce
  have "good w w1" using r by (auto simp: run_gen_random_uuid good_def split: list.splits)
  moreover have "state_io_rel good (f r)"
    using r assms by (auto simp: run_gen_random_uuid split: list.splits if_splits)
  then have "good w1 (snd (run_state (f r) w1))" by (rule io_rel_run)
  ultimately show "good w (snd (run_state (State_Monad.bind gen_random_uuid f) w))"
    by (simp add: r) (rule good.R_trans)
qed

lemma only_db_uuid [only_db_intros]: "state_io_rel only_db gen_random_uuid"
  by (auto intro!: io_relI_snd simp: run_gen_random_uuid only_db_def split: list.split)

lemma eff_generate_token [good_intros, only_db_intros]:
  "state_io_rel good generate_token" "state_io_rel only_db generate_token"
  by (auto intro!: io_relI_snd simp: run_generate_token good_def only_db_def split: option.split)

text \<open>Inside a transaction the body runs with its time set; whatever happens, the rest is bookkeeping.\<close>

lemma WithTx_io_rel:
  assumes fn: "state_io_rel R fn" and refl: "\<And>w. R w w" and trans: "\<And>u v w. R u v \<Longrightarrow> R v w \<Longrightarrow> R u w"
    and tx: "\<And>w t. R w (w\<lparr>tx_now := t\<rparr>)" and faults: "\<And>w fs. R w (w\<lparr>db_faults := fs\<rparr>)"
    and now: "state_io_rel R time_now"
    and restore: "\<And>u w. R u w \<Longrightarrow> R u (w\<lparr>db := db u\<rparr>)"
  shows "state_io_rel R (WithTx fn)"
proof (rule io_relI_snd)
  fix w :: world
  define w1 where "w1 = w\<lparr>db_faults := tl (db_faults w)\<rparr>"
  obtain t w2 where t: "run_state time_now w1 = (t, w2)" by fastforce
  obtain r w3 where r: "run_state fn (w2\<lparr>tx_now := Some t\<rparr>) = (r, w3)" by fastforce
  define w4 where "w4 = w3\<lparr>db_faults := tl (db_faults w3), tx_now := None\<rparr>"
  have r1: "R w w1" unfolding w1_def by (rule faults)
  have "R w1 w2" using io_rel_run[OF now, of w1] t by simp
  with r1 have "R w w2" by (rule trans)
  with tx have "R w (w2\<lparr>tx_now := Some t\<rparr>)" by (rule trans[rotated])
  moreover have "R (w2\<lparr>tx_now := Some t\<rparr>) w3" using io_rel_run[OF fn, of "w2\<lparr>tx_now := Some t\<rparr>"] r by simp
  ultimately have "R w w3" by (rule trans)
  then have "R w (w3\<lparr>db_faults := tl (db_faults w3)\<rparr>)" using faults by (rule trans)
  then have r4: "R w w4" unfolding w4_def using tx by (rule trans)
  with restore have "R w (w4\<lparr>db := db w\<rparr>)" by blast
  with r1 r4 show "R w (snd (run_state (WithTx fn) w))"
    by (simp add: run_WithTx Let_def t r flip: w1_def w4_def split: option.split sum.split)
qed

lemma good_WithTx [good_intros]: "state_io_rel good fn \<Longrightarrow> state_io_rel good (WithTx fn)"
  by (rule WithTx_io_rel) (auto simp: good_def intro: eff_time_now(1))

lemma only_db_WithTx [only_db_intros]: "state_io_rel only_db fn \<Longrightarrow> state_io_rel only_db (WithTx fn)"
  by (rule WithTx_io_rel) (auto simp: only_db_def intro: eff_time_now(2))


section \<open>The repositories\<close>

lemma select_effects [good_intros, only_db_intros]:
  "state_io_rel good (select_one P table)" "state_io_rel only_db (select_one P table)"
  "state_io_rel good (select_uuid key rid table)" "state_io_rel only_db (select_uuid key rid table)"
  "state_io_rel good (count_rows P table)" "state_io_rel only_db (count_rows P table)"
  "state_io_rel good (count_uuid rid Q table)" "state_io_rel only_db (count_uuid rid Q table)"
  by (auto intro!: io_relI_snd simp: run_simps good_def only_db_def)

lemmas account_defs = accountRepo_FindByID_def accountRepo_FindByTokenHash_def accountRepo_FindAll_def
  accountRepo_Create_def accountRepo_Update_def accountRepo_UpdateToken_def accountRepo_Delete_def
  accountRepo_Count_def

lemma account_good [good_intros]:
  "state_io_rel good (accountRepo_FindByID rid)"
  "state_io_rel good (accountRepo_FindByTokenHash h)"
  "state_io_rel good (accountRepo_FindAll limit offset)"
  "state_io_rel good (accountRepo_Create cparams)"
  "state_io_rel good (accountRepo_Update rid rl)"
  "state_io_rel good (accountRepo_UpdateToken rid h)"
  "state_io_rel good (accountRepo_Delete rid)"
  "state_io_rel good accountRepo_Count"
  unfolding account_defs by (auto intro!: good.eff_rules keeps_wf_intros good_intros good_fresh_uuid)

lemma account_only_db [only_db_intros]:
  "state_io_rel only_db (accountRepo_FindByID rid)"
  "state_io_rel only_db (accountRepo_FindByTokenHash h)"
  "state_io_rel only_db (accountRepo_FindAll limit offset)"
  "state_io_rel only_db (accountRepo_Create cparams)"
  "state_io_rel only_db (accountRepo_Update rid rl)"
  "state_io_rel only_db (accountRepo_UpdateToken rid h)"
  "state_io_rel only_db (accountRepo_Delete rid)"
  "state_io_rel only_db accountRepo_Count"
  unfolding account_defs by (auto intro!: only_db.eff_rules only_db_intros)

lemmas conversation_defs = conversationRepo_FindByKey_def conversationRepo_FindByAccountID_def conversationRepo_FindPairedByAccountID_def
  conversationRepo_Upsert_def conversationRepo_UpdateState_def conversationRepo_UpdateCallback_def
  conversationRepo_Delete_def conversationRepo_CountByState_def

lemma conversation_good [good_intros]:
  "state_io_rel good (conversationRepo_FindByKey key)"
  "state_io_rel good (conversationRepo_FindByAccountID accountID)"
  "state_io_rel good (conversationRepo_FindPairedByAccountID accountID)"
  "state_io_rel good (conversationRepo_UpdateState key st newAccount)"
  "state_io_rel good (conversationRepo_UpdateCallback key callbackURL expiresAt)"
  "state_io_rel good (conversationRepo_Delete rid)"
  "state_io_rel good (conversationRepo_CountByState st)"
  unfolding conversation_defs
  by (auto intro!: good.eff_rules keeps_wf_intros good_intros good_fresh_uuid)

lemma conversation_only_db [only_db_intros]:
  "state_io_rel only_db (conversationRepo_FindByKey key)"
  "state_io_rel only_db (conversationRepo_FindByAccountID accountID)"
  "state_io_rel only_db (conversationRepo_FindPairedByAccountID accountID)"
  "state_io_rel only_db (conversationRepo_Upsert params)"
  "state_io_rel only_db (conversationRepo_UpdateState key st newAccount)"
  "state_io_rel only_db (conversationRepo_UpdateCallback key callbackURL expiresAt)"
  "state_io_rel only_db (conversationRepo_Delete rid)"
  "state_io_rel only_db (conversationRepo_CountByState st)"
  unfolding conversation_defs
  by (auto intro!: only_db.eff_rules only_db_intros)

lemma upsert_good [good_intros]:
  "uc_ConversationKey params = BuildConversationKey (uc_KakaoChannelID params) (uc_PlusfriendUserKey params) \<Longrightarrow>
   state_io_rel good (conversationRepo_Upsert params)"
  unfolding conversationRepo_Upsert_def
  by (auto intro!: good.eff_rules keeps_wf_intros good_intros good_fresh_uuid)

lemmas session_defs = sessionRepo_FindByID_def sessionRepo_FindByTokenHash_def sessionRepo_FindByPairingCode_def
  sessionRepo_Create_def sessionRepo_MarkPaired_def sessionRepo_MarkExpired_def
  sessionRepo_MarkDisconnected_def sessionRepo_DeleteExpired_def sessionRepo_CountPendingByIP_def
  sessionRepo_FindRecent_def sessionRepo_CountByStatus_def sessionRepo_UpdateMetadata_def
  sessionRepo_Delete_def

lemma session_good [good_intros]:
  "state_io_rel good (sessionRepo_FindByID rid)"
  "state_io_rel good (sessionRepo_FindByTokenHash tokenHash)"
  "state_io_rel good (sessionRepo_FindByPairingCode code)"
  "state_io_rel good (sessionRepo_Create params)"
  "state_io_rel good (sessionRepo_MarkPaired rid accountID conversationKey)"
  "state_io_rel good (sessionRepo_MarkExpired rid)"
  "state_io_rel good (sessionRepo_MarkDisconnected rid)"
  "state_io_rel good sessionRepo_DeleteExpired"
  "state_io_rel good (sessionRepo_CountPendingByIP ip since)"
  "state_io_rel good (sessionRepo_FindRecent limit)"
  "state_io_rel good (sessionRepo_CountByStatus st)"
  "state_io_rel good (sessionRepo_UpdateMetadata rid metadata)"
  "state_io_rel good (sessionRepo_Delete rid)"
  unfolding session_defs
  by (auto intro!: good.eff_rules keeps_wf_intros good_intros good_fresh_uuid)

lemma session_only_db [only_db_intros]:
  "state_io_rel only_db (sessionRepo_FindByID rid)"
  "state_io_rel only_db (sessionRepo_FindByTokenHash tokenHash)"
  "state_io_rel only_db (sessionRepo_FindByPairingCode code)"
  "state_io_rel only_db (sessionRepo_Create params)"
  "state_io_rel only_db (sessionRepo_MarkPaired rid accountID conversationKey)"
  "state_io_rel only_db (sessionRepo_MarkExpired rid)"
  "state_io_rel only_db (sessionRepo_MarkDisconnected rid)"
  "state_io_rel only_db sessionRepo_DeleteExpired"
  "state_io_rel only_db (sessionRepo_CountPendingByIP ip since)"
  "state_io_rel only_db (sessionRepo_FindRecent limit)"
  "state_io_rel only_db (sessionRepo_CountByStatus st)"
  "state_io_rel only_db (sessionRepo_UpdateMetadata rid metadata)"
  "state_io_rel only_db (sessionRepo_Delete rid)"
  unfolding session_defs
  by (auto intro!: only_db.eff_rules only_db_intros)

lemmas inbound_defs = inboundRepo_FindByID_def inboundRepo_FindQueuedByAccountID_def inboundRepo_FindByAccountID_def
  inboundRepo_FindByConversationKey_def inboundRepo_CountByAccountID_def inboundRepo_CountByConversationKey_def
  inboundRepo_CountByConversationKeySince_def inboundRepo_Create_def inboundRepo_MarkDelivered_def
  inboundRepo_MarkAcked_def inboundRepo_MarkExpired_def inboundRepo_CountByStatus_def
  inboundRepo_CountByAccountIDAndStatus_def inboundRepo_CountByAccountIDSince_def

lemma inbound_good [good_intros]:
  "state_io_rel good (inboundRepo_FindByID rid)"
  "state_io_rel good (inboundRepo_FindQueuedByAccountID accountID)"
  "state_io_rel good (inboundRepo_FindByAccountID accountID limit offset)"
  "state_io_rel good (inboundRepo_FindByConversationKey key limit offset)"
  "state_io_rel good (inboundRepo_CountByAccountID accountID)"
  "state_io_rel good (inboundRepo_CountByConversationKey key)"
  "state_io_rel good (inboundRepo_CountByConversationKeySince key since)"
  "state_io_rel good (inboundRepo_Create params)"
  "state_io_rel good (inboundRepo_MarkDelivered rid)"
  "state_io_rel good (inboundRepo_MarkAcked rid)"
  "state_io_rel good inboundRepo_MarkExpired"
  "state_io_rel good (inboundRepo_CountByStatus st)"
  "state_io_rel good (inboundRepo_CountByAccountIDAndStatus accountID st)"
  "state_io_rel good (inboundRepo_CountByAccountIDSince accountID since)"
  unfolding inbound_defs
  by (auto intro!: good.eff_rules keeps_wf_intros good_intros good_fresh_uuid)

lemma inbound_only_db [only_db_intros]:
  "state_io_rel only_db (inboundRepo_FindByID rid)"
  "state_io_rel only_db (inboundRepo_FindQueuedByAccountID accountID)"
  "state_io_rel only_db (inboundRepo_FindByAccountID accountID limit offset)"
  "state_io_rel only_db (inboundRepo_FindByConversationKey key limit offset)"
  "state_io_rel only_db (inboundRepo_CountByAccountID accountID)"
  "state_io_rel only_db (inboundRepo_CountByConversationKey key)"
  "state_io_rel only_db (inboundRepo_CountByConversationKeySince key since)"
  "state_io_rel only_db (inboundRepo_Create params)"
  "state_io_rel only_db (inboundRepo_MarkDelivered rid)"
  "state_io_rel only_db (inboundRepo_MarkAcked rid)"
  "state_io_rel only_db inboundRepo_MarkExpired"
  "state_io_rel only_db (inboundRepo_CountByStatus st)"
  "state_io_rel only_db (inboundRepo_CountByAccountIDAndStatus accountID st)"
  "state_io_rel only_db (inboundRepo_CountByAccountIDSince accountID since)"
  unfolding inbound_defs
  by (auto intro!: only_db.eff_rules only_db_intros)

lemmas outbound_defs = outboundRepo_FindByID_def outboundRepo_FindPendingByAccountID_def outboundRepo_FindByAccountID_def
  outboundRepo_FindByConversationKey_def outboundRepo_CountByAccountID_def outboundRepo_CountByConversationKey_def
  outboundRepo_CountByConversationKeySince_def outboundRepo_CountByConversationKeyAndStatus_def outboundRepo_Create_def
  outboundRepo_MarkSent_def outboundRepo_MarkFailed_def outboundRepo_CountByAccountIDAndStatus_def
  outboundRepo_CountByAccountIDSince_def outboundRepo_FindRecentFailedByAccountID_def

lemma outbound_good [good_intros]:
  "state_io_rel good (outboundRepo_FindByID rid)"
  "state_io_rel good (outboundRepo_FindPendingByAccountID accountID)"
  "state_io_rel good (outboundRepo_FindByAccountID accountID limit offset)"
  "state_io_rel good (outboundRepo_FindByConversationKey key limit offset)"
  "state_io_rel good (outboundRepo_CountByAccountID accountID)"
  "state_io_rel good (outboundRepo_CountByConversationKey key)"
  "state_io_rel good (outboundRepo_CountByConversationKeySince key since)"
  "state_io_rel good (outboundRepo_CountByConversationKeyAndStatus key st)"
  "state_io_rel good (outboundRepo_Create params)"
  "state_io_rel good (outboundRepo_MarkSent rid)"
  "state_io_rel good (outboundRepo_MarkFailed rid errorMsg)"
  "state_io_rel good (outboundRepo_CountByAccountIDAndStatus accountID st)"
  "state_io_rel good (outboundRepo_CountByAccountIDSince accountID since)"
  "state_io_rel good (outboundRepo_FindRecentFailedByAccountID accountID limit)"
  unfolding outbound_defs
  by (auto intro!: good.eff_rules keeps_wf_intros good_intros good_fresh_uuid)

lemma outbound_only_db [only_db_intros]:
  "state_io_rel only_db (outboundRepo_FindByID rid)"
  "state_io_rel only_db (outboundRepo_FindPendingByAccountID accountID)"
  "state_io_rel only_db (outboundRepo_FindByAccountID accountID limit offset)"
  "state_io_rel only_db (outboundRepo_FindByConversationKey key limit offset)"
  "state_io_rel only_db (outboundRepo_CountByAccountID accountID)"
  "state_io_rel only_db (outboundRepo_CountByConversationKey key)"
  "state_io_rel only_db (outboundRepo_CountByConversationKeySince key since)"
  "state_io_rel only_db (outboundRepo_CountByConversationKeyAndStatus key st)"
  "state_io_rel only_db (outboundRepo_Create params)"
  "state_io_rel only_db (outboundRepo_MarkSent rid)"
  "state_io_rel only_db (outboundRepo_MarkFailed rid errorMsg)"
  "state_io_rel only_db (outboundRepo_CountByAccountIDAndStatus accountID st)"
  "state_io_rel only_db (outboundRepo_CountByAccountIDSince accountID since)"
  "state_io_rel only_db (outboundRepo_FindRecentFailedByAccountID accountID limit)"
  unfolding outbound_defs
  by (auto intro!: only_db.eff_rules only_db_intros)

lemmas dashboard_defs = dashboardRepo_GetOverviewStats_def

lemma dashboard_good [good_intros]:
  "state_io_rel good dashboardRepo_GetOverviewStats"
  unfolding dashboard_defs
  by (auto intro!: good.eff_rules keeps_wf_intros good_intros good_fresh_uuid)

lemma dashboard_only_db [only_db_intros]:
  "state_io_rel only_db dashboardRepo_GetOverviewStats"
  unfolding dashboard_defs
  by (auto intro!: only_db.eff_rules only_db_intros)

end
