(* ===== verification/NetUrl.thy ===== *)
theory NetUrl
  imports GoLib
begin

text \<open>
  What internal/service/kakao.go uses of package net/url: url.Parse as far as the scheme, the host
  and the errors go, and URL.Hostname. Escapes, user information, ports and IPv6 literals are
  treated as the package does; \<^const>\<open>None\<close> is an error of the parser.
\<close>

section \<open>Escapes\<close>

datatype encoding = encodePath | encodeFragment | encodeUserPassword | encodeHost | encodeZone

definition is_letter :: "char \<Rightarrow> bool" where
  "is_letter c \<longleftrightarrow> (97 \<le> byte c \<and> byte c \<le> 122) \<or> (65 \<le> byte c \<and> byte c \<le> 90)"

definition is_alnum :: "char \<Rightarrow> bool" where
  "is_alnum c \<longleftrightarrow> is_letter c \<or> is_digit c"

definition unhex :: "char \<Rightarrow> nat option" where
  "unhex c =
     (if is_digit c then Some (byte c - 48)
      else if 97 \<le> byte c \<and> byte c \<le> 102 then Some (byte c - 87)
      else if 65 \<le> byte c \<and> byte c \<le> 70 then Some (byte c - 55)
      else None)"

text \<open>shouldEscape, for the modes in which unescape asks (host and zone).\<close>

definition shouldEscapeHost :: "char \<Rightarrow> bool" where
  "shouldEscapeHost c \<longleftrightarrow> \<not> (is_alnum c \<or> c \<in> set ''!$&'' \<or> c = CHR 0x27 \<or> c \<in> set ''()*+,;=:[]<>''
     \<or> c = CHR 0x22 \<or> c \<in> set ''-_.~'')"

fun unescape :: "encoding \<Rightarrow> string \<Rightarrow> string option" where
  "unescape mode [] = Some []"
| "unescape mode (c # s) =
     (if c = CHR ''%'' then
        (case s of
           a # b # r \<Rightarrow>
             (case (unhex a, unhex b) of
                (Some h, Some l) \<Rightarrow>
                  if mode = encodeHost \<and> h < 8 \<and> \<not> (a = CHR ''2'' \<and> b = CHR ''5'') then None
                  else if mode = encodeZone \<and> \<not> (a = CHR ''2'' \<and> b = CHR ''5'') \<and> 16 * h + l \<noteq> 32
                          \<and> shouldEscapeHost (char_of (16 * h + l)) then None
                  else map_option ((#) (char_of (16 * h + l))) (unescape mode r)
              | _ \<Rightarrow> None)
         | _ \<Rightarrow> None)
      else if (mode = encodeHost \<or> mode = encodeZone) \<and> byte c < 128 \<and> shouldEscapeHost c then None
      else map_option ((#) c) (unescape mode s))"


section \<open>Splitting\<close>

text \<open>strings.Cut and strings.LastIndex with a separator of one byte.\<close>

fun cut :: "char \<Rightarrow> string \<Rightarrow> string \<times> string option" where
  "cut c [] = ([], None)"
| "cut c (x # xs) =
     (if x = c then ([], Some xs) else (case cut c xs of (a, b) \<Rightarrow> (x # a, b)))"

text \<open>The text before and after the last occurrence.\<close>

definition rcut :: "char \<Rightarrow> string \<Rightarrow> (string \<times> string) option" where
  "rcut c s =
     (case cut c (rev s) of
        (a, None) \<Rightarrow> None
      | (a, Some b) \<Rightarrow> Some (rev b, rev a))"

lemma cut_absent: "c \<notin> set s \<Longrightarrow> cut c s = (s, None)"
  by (induction s) auto

lemma cut_append: "c \<notin> set s \<Longrightarrow> cut c (s @ c # t) = (s, Some t)"
  by (induction s) auto

lemma rcut_absent: "c \<notin> set s \<Longrightarrow> rcut c s = None"
  by (simp add: rcut_def cut_absent)

lemma rcut_append: "c \<notin> set t \<Longrightarrow> rcut c (s @ c # t) = Some (s, t)"
  using cut_append[of c "rev t" "rev s"] by (simp add: rcut_def)


section \<open>Parsing\<close>

record URL =
  u_Scheme :: string
  u_Opaque :: string
  u_Host :: string

definition has_ctl :: "string \<Rightarrow> bool" where
  "has_ctl s \<longleftrightarrow> list_ex (\<lambda>c. byte c < 32 \<or> byte c = 127) s"

text \<open>getScheme: \<^const>\<open>None\<close> is the error, an empty scheme means there is none.\<close>

fun scheme_from :: "string \<Rightarrow> bool \<Rightarrow> string \<Rightarrow> (string \<times> string) option option" where
  "scheme_from acc start [] = Some None"
| "scheme_from acc start (c # s) =
     (if is_letter c then scheme_from (acc @ [c]) False s
      else if is_digit c \<or> c \<in> set ''+-.'' then
        (if start then Some None else scheme_from (acc @ [c]) False s)
      else if c = CHR '':'' then (if start then None else Some (Some (acc, s)))
      else Some None)"

definition getScheme :: "string \<Rightarrow> (string \<times> string) option" where
  "getScheme raw =
     (case scheme_from [] True raw of
        None \<Rightarrow> None
      | Some None \<Rightarrow> Some ([], raw)
      | Some (Some (scheme, rest)) \<Rightarrow> Some (scheme, rest))"

definition validOptionalPort :: "string \<Rightarrow> bool" where
  "validOptionalPort port =
     (case port of [] \<Rightarrow> True | c # ds \<Rightarrow> c = CHR '':'' \<and> list_all is_digit ds)"

definition validUserinfo :: "string \<Rightarrow> bool" where
  "validUserinfo s \<longleftrightarrow>
     list_all (\<lambda>c. is_alnum c \<or> c \<in> set ''-._:~!$&()*+,;=%@'' \<or> c = CHR 0x27) s"

text \<open>The position of \<open>%25\<close> in a bracketed host.\<close>

fun find_zone :: "string \<Rightarrow> (string \<times> string) option" where
  "find_zone [] = None"
| "find_zone (c # s) =
     (if HasPrefix (c # s) ''%25'' then Some ([], c # s)
      else map_option (\<lambda>(a, b). (c # a, b)) (find_zone s))"

definition parseHost :: "string \<Rightarrow> string option" where
  "parseHost host =
     (if HasPrefix host ''['' then
        (case rcut (CHR '']'') host of
           None \<Rightarrow> None
         | Some (inside, colonPort) \<Rightarrow>
             if \<not> validOptionalPort colonPort then None
             else (case find_zone inside of
                     None \<Rightarrow> unescape encodeHost host
                   | Some (h1, h2) \<Rightarrow>
                       (case (unescape encodeHost h1, unescape encodeZone h2,
                              unescape encodeHost ('']'' @ colonPort)) of
                          (Some a, Some b, Some c) \<Rightarrow> Some (a @ b @ c)
                        | _ \<Rightarrow> None)))
      else (case rcut (CHR '':'') host of
              None \<Rightarrow> unescape encodeHost host
            | Some (_, port) \<Rightarrow>
                if validOptionalPort ('':'' @ port) then unescape encodeHost host else None))"

definition userinfo_ok :: "string \<Rightarrow> bool" where
  "userinfo_ok userinfo \<longleftrightarrow>
     validUserinfo userinfo
     \<and> (case cut (CHR '':'') userinfo of
          (name, None) \<Rightarrow> unescape encodeUserPassword name \<noteq> None
        | (name, Some password) \<Rightarrow>
            unescape encodeUserPassword name \<noteq> None \<and> unescape encodeUserPassword password \<noteq> None)"

definition parseAuthority :: "string \<Rightarrow> string option" where
  "parseAuthority authority =
     (case rcut (CHR ''@'') authority of
        None \<Rightarrow> parseHost authority
      | Some (userinfo, host) \<Rightarrow>
          (case parseHost host of
             None \<Rightarrow> None
           | Some h \<Rightarrow> if userinfo_ok userinfo then Some h else None))"

text \<open>parse with viaRequest = false, the text without its fragment.\<close>

definition parse_url :: "(string \<Rightarrow> string) \<Rightarrow> string \<Rightarrow> URL option" where
  "parse_url tab raw =
     (if has_ctl raw then None
      else if raw = ''*'' then Some \<lparr>u_Scheme = [], u_Opaque = [], u_Host = []\<rparr>
      else (case getScheme raw of
              None \<Rightarrow> None
            | Some (scheme0, rest0) \<Rightarrow>
                (let scheme = ToLower tab scheme0;
                     rest = fst (cut (CHR ''?'') rest0)
                 in if \<not> HasPrefix rest ''/'' \<and> scheme \<noteq> [] then
                      Some \<lparr>u_Scheme = scheme, u_Opaque = rest, u_Host = []\<rparr>
                    else if \<not> HasPrefix rest ''/'' \<and> CHR '':'' \<in> set (fst (cut (CHR ''/'') rest)) then None
                    else if (scheme \<noteq> [] \<or> \<not> HasPrefix rest ''///'') \<and> HasPrefix rest ''//'' then
                      (case cut (CHR ''/'') (drop 2 rest) of
                         (authority, path) \<Rightarrow>
                           (case parseAuthority authority of
                              None \<Rightarrow> None
                            | Some host \<Rightarrow>
                                if unescape encodePath (case path of None \<Rightarrow> [] | Some p \<Rightarrow> ''/'' @ p) = None
                                then None
                                else Some \<lparr>u_Scheme = scheme, u_Opaque = [], u_Host = host\<rparr>))
                    else if unescape encodePath rest = None then None
                    else Some \<lparr>u_Scheme = scheme, u_Opaque = [], u_Host = []\<rparr>)))"

definition Parse :: "(string \<Rightarrow> string) \<Rightarrow> string \<Rightarrow> URL option" where
  "Parse tab rawURL =
     (case cut (CHR ''#'') rawURL of
        (u, frag) \<Rightarrow>
          (case parse_url tab u of
             None \<Rightarrow> None
           | Some url \<Rightarrow>
               (case frag of
                  None \<Rightarrow> Some url
                | Some f \<Rightarrow> if unescape encodeFragment f = None then None else Some url)))"

text \<open>URL.Hostname: the host without a port and without the brackets of an IPv6 literal.\<close>

definition Hostname :: "URL \<Rightarrow> string" where
  "Hostname u =
     (let hp = u_Host u;
          host = (case rcut (CHR '':'') hp of
                    Some (h, p) \<Rightarrow> if validOptionalPort ('':'' @ p) then h else hp
                  | None \<Rightarrow> hp)
      in if HasPrefix host ''['' \<and> HasSuffix host '']'' then butlast (tl host) else host)"


section \<open>Plain URLs\<close>

text \<open>Names, user information and paths that contain no escape and no delimiter.\<close>

definition host_chars :: string where
  "host_chars = ''abcdefghijklmnopqrstuvwxyzABCDEFGHIJKLMNOPQRSTUVWXYZ0123456789-.''"

definition user_chars :: string where
  "user_chars = host_chars @ ''_~!:@''"

definition path_chars :: string where
  "path_chars = host_chars @ ''_~!:@/=&+,;''"

definition plain_host :: "string \<Rightarrow> bool" where
  "plain_host h \<longleftrightarrow> list_all (\<lambda>c. c \<in> set host_chars) h"

definition plain_user :: "string \<Rightarrow> bool" where
  "plain_user u \<longleftrightarrow> list_all (\<lambda>c. c \<in> set user_chars) u"

definition plain_path :: "string \<Rightarrow> bool" where
  "plain_path p \<longleftrightarrow> list_all (\<lambda>c. c \<in> set path_chars) p"

definition printable :: "char \<Rightarrow> bool" where
  "printable c \<longleftrightarrow> 32 \<le> byte c \<and> byte c < 127"

definition user_char :: "char \<Rightarrow> bool" where
  "user_char c \<longleftrightarrow> is_alnum c \<or> c \<in> set ''-._:~!$&()*+,;=%@'' \<or> c = CHR 0x27"

lemma host_chars_ok:
  "list_all (\<lambda>c. \<not> shouldEscapeHost c \<and> printable c \<and> c \<notin> set ''%:@/?#[]*'') host_chars"
  by code_simp

lemma user_chars_ok:
  "list_all (\<lambda>c. printable c \<and> user_char c \<and> c \<notin> set ''%/?#'') user_chars"
  by code_simp

lemma path_chars_ok: "list_all (\<lambda>c. printable c \<and> c \<notin> set ''%?#'') path_chars"
  by code_simp

lemma plain_hostD:
  "plain_host h \<Longrightarrow> c \<in> set h \<Longrightarrow> \<not> shouldEscapeHost c"
  "plain_host h \<Longrightarrow> c \<in> set h \<Longrightarrow> printable c"
  "plain_host h \<Longrightarrow> c \<in> set ''%:@/?#[]*'' \<Longrightarrow> c \<notin> set h"
  using host_chars_ok unfolding plain_host_def list_all_iff by blast+

lemma plain_userD:
  "plain_user u \<Longrightarrow> c \<in> set u \<Longrightarrow> printable c"
  "plain_user u \<Longrightarrow> c \<in> set u \<Longrightarrow> user_char c"
  "plain_user u \<Longrightarrow> c \<in> set ''%/?#'' \<Longrightarrow> c \<notin> set u"
  using user_chars_ok unfolding plain_user_def list_all_iff by blast+

lemma plain_pathD:
  "plain_path p \<Longrightarrow> c \<in> set p \<Longrightarrow> printable c"
  "plain_path p \<Longrightarrow> c \<in> set ''%?#'' \<Longrightarrow> c \<notin> set p"
  using path_chars_ok unfolding plain_path_def list_all_iff by blast+

lemma unescape_plain:
  "CHR ''%'' \<notin> set s \<Longrightarrow> mode \<noteq> encodeHost \<Longrightarrow> mode \<noteq> encodeZone \<Longrightarrow> unescape mode s = Some s"
  by (induction s) auto

lemma unescape_host: "\<forall>c \<in> set s. \<not> shouldEscapeHost c \<and> c \<noteq> CHR ''%'' \<Longrightarrow> unescape encodeHost s = Some s"
  by (induction s) auto


lemma parseHost_plain:
  assumes h: "plain_host h"
  shows "parseHost h = Some h"
proof -
  have a: "CHR '':'' \<notin> set h" "CHR ''['' \<notin> set h" "CHR ''%'' \<notin> set h"
    by (rule plain_hostD(3)[OF h], simp)+
  then have "\<not> HasPrefix h ''[''" by (cases h) (auto simp: HasPrefix_def)
  moreover have "unescape encodeHost h = Some h"
    using a(3) plain_hostD(1)[OF h] by (intro unescape_host) blast
  ultimately show ?thesis using a(1) by (simp add: parseHost_def rcut_absent)
qed

lemma cut_parts: "cut x s = (a, b) \<Longrightarrow> set a \<subseteq> set s \<and> (\<forall>t. b = Some t \<longrightarrow> set t \<subseteq> set s)"
  by (induction s arbitrary: a b) (auto split: if_splits prod.splits)

lemma userinfo_plain:
  assumes u: "plain_user u"
  shows "userinfo_ok u"
proof -
  have pc: "CHR ''%'' \<notin> set u" by (rule plain_userD(3)[OF u]) simp
  have "\<forall>c \<in> set u. user_char c" using plain_userD(2)[OF u] by blast
  then have "validUserinfo u" unfolding validUserinfo_def user_char_def list_all_iff .
  moreover have "unescape encodeUserPassword a = Some a" if "set a \<subseteq> set u" for a
    using pc that by (intro unescape_plain) auto
  ultimately show ?thesis
    using cut_parts[of "CHR '':''" u] by (auto simp: userinfo_ok_def split: prod.split option.split)
qed

definition with_user :: "string option \<Rightarrow> string \<Rightarrow> string" where
  "with_user u h = (case u of None \<Rightarrow> h | Some i \<Rightarrow> i @ ''@'' @ h)"

text \<open>
  The host of a URL is what stands between the last at sign of the authority and the path, whatever
  the user information before it looks like.
\<close>

lemma Parse_plain:
  assumes h: "plain_host h" and p: "plain_path p" and u: "\<And>i. u = Some i \<Longrightarrow> plain_user i"
    and scheme: "scheme \<in> {''https'', ''http''}"
  shows "Parse tab (scheme @ ''://'' @ with_user u h @ ''/'' @ p) =
    Some \<lparr>u_Scheme = scheme, u_Opaque = [], u_Host = h\<rparr>"
proof -
  let ?auth = "with_user u h"
  have auth: "printable c" if "c \<in> set ?auth" for c
    using that plain_hostD(2)[OF h] plain_userD(1)[OF u]
    by (auto simp: with_user_def printable_def split: option.splits)
  have absent: "c \<notin> set ?auth" if "c \<in> set ''/?#''" for c
  proof -
    have "c \<notin> set h" by (rule plain_hostD(3)[OF h]) (use that in auto)
    moreover have "c \<notin> set i" if "u = Some i" for i
      by (rule plain_userD(3)[OF u[OF that]]) (use \<open>c \<in> set ''/?#''\<close> in auto)
    moreover have "c \<noteq> CHR ''@''" using that by auto
    ultimately show ?thesis by (auto simp: with_user_def split: option.split)
  qed
  have a: "CHR ''/'' \<notin> set ?auth" "CHR ''?'' \<notin> set ?auth" "CHR ''#'' \<notin> set ?auth"
    by (rule absent, simp)+
  have pp: "CHR ''?'' \<notin> set p" "CHR ''#'' \<notin> set p" "CHR ''%'' \<notin> set p"
    by (rule plain_pathD(2)[OF p], simp)+
  let ?url = "scheme @ ''://'' @ ?auth @ ''/'' @ p"
  have "printable c" if "c \<in> set ?url" for c
    using that auth plain_pathD(1)[OF p] scheme by (auto simp: printable_def)
  then have ctl: "\<not> has_ctl ?url"
    by (fastforce simp: has_ctl_def list_ex_iff printable_def)
  have "CHR ''#'' \<notin> set ?url" using a pp scheme by auto
  then have frag: "cut (CHR ''#'') ?url = (?url, None)" by (rule cut_absent)
  have get: "getScheme ?url = Some (scheme, ''//'' @ ?auth @ ''/'' @ p)"
    using scheme by (auto simp: getScheme_def is_letter_def is_digit_def)
  have rest: "fst (cut (CHR ''?'') (''//'' @ ?auth @ ''/'' @ p)) = ''//'' @ ?auth @ ''/'' @ p"
    using a pp by (subst cut_absent) auto
  have low: "ToLower tab scheme = scheme"
    using scheme by (auto simp: ToLower_def is_ascii_def lower_char_def)
  have authority: "cut (CHR ''/'') (drop 2 (''//'' @ ?auth @ ''/'' @ p)) = (?auth, Some p)"
    using cut_append[OF a(1), of p] by simp
  have at: "CHR ''@'' \<notin> set h" by (rule plain_hostD(3)[OF h]) simp
  have host: "parseAuthority ?auth = Some h"
  proof (cases u)
    case None
    with at h show ?thesis by (simp add: with_user_def parseAuthority_def rcut_absent parseHost_plain)
  next
    case (Some i)
    with rcut_append[OF at, of i] h u show ?thesis
      by (simp add: with_user_def parseAuthority_def parseHost_plain userinfo_plain)
  qed
  have path: "unescape encodePath (''/'' @ p) = Some (''/'' @ p)"
    using pp by (intro unescape_plain) auto
  have "parse_url tab ?url = Some \<lparr>u_Scheme = scheme, u_Opaque = [], u_Host = h\<rparr>"
    unfolding parse_url_def Let_def get option.case prod.case rest low authority host
    using ctl scheme path by (auto simp: HasPrefix_def)
  then show ?thesis by (simp only: Parse_def frag prod.case option.case)
qed

lemma Hostname_plain:
  assumes h: "plain_host h" and u: "u_Host u = h"
  shows "Hostname u = h"
proof -
  have a: "CHR '':'' \<notin> set h" "CHR ''['' \<notin> set h" by (rule plain_hostD(3)[OF h], simp)+
  then have "\<not> HasPrefix h ''[''" by (cases h) (auto simp: HasPrefix_def)
  with a show ?thesis by (simp add: Hostname_def u rcut_absent Let_def)
qed

end
