(* ===== verification/Services.thy ===== *)
theory Services
  imports Effects NetUrl
begin

text \<open>
  internal/service and the parts of internal/sse and internal/redis its functions call: the
  conversation, message, session and callback services and the rate limiter over the repositories.
  Logging is left out.
\<close>

section \<open>Redis and the broker\<close>

text \<open>The fate of the next call to Redis.\<close>

definition redis_call :: "(world, goerror option) state" where
  "redis_call = State (\<lambda>w.
     case redis_faults w of
       [] \<Rightarrow> (None, w)
     | f # fs \<Rightarrow> (map_option Foreign f, w\<lparr>redis_faults := fs\<rparr>))"

text \<open>Broker.Publish.\<close>

definition Publish :: "string \<Rightarrow> Event \<Rightarrow> (world, goerror option) state" where
  "Publish accountID event = do {
     fault \<leftarrow> redis_call;
     case fault of
       Some err \<Rightarrow> State_Monad.return (Some err)
     | None \<Rightarrow> do {
         _ \<leftarrow> modify (\<lambda>w. w\<lparr>bus := bus w @ [(MessageChannel accountID, event)],
               broker := redis_deliver (MessageChannel accountID) event (broker w)\<rparr>);
         State_Monad.return None
       }
   }"


section \<open>Conversations (internal/service/conversation.go)\<close>

definition ConversationService_FindByKey ::
  "string \<Rightarrow> (world, goerror + ConversationMapping option) state" where
  "ConversationService_FindByKey key = conversationRepo_FindByKey key"

definition FindOrCreate ::
  "string \<Rightarrow> string \<Rightarrow> string option \<Rightarrow> time option \<Rightarrow> (world, goerror + ConversationMapping) state" where
  "FindOrCreate channelID userKey callbackURL callbackExpiresAt = do {
     let key = BuildConversationKey channelID userKey;
     r \<leftarrow> conversationRepo_Upsert
       \<lparr>uc_ConversationKey = key, uc_KakaoChannelID = channelID, uc_PlusfriendUserKey = userKey,
        uc_CallbackURL = callbackURL, uc_CallbackExpiresAt = callbackExpiresAt\<rparr>;
     case r of
       Inl err \<Rightarrow> State_Monad.return (Inl (Wrapf ''find or create conversation: '' err ''''))
     | Inr conv \<Rightarrow> State_Monad.return (Inr conv)
   }"

definition ConversationService_UpdateState ::
  "string \<Rightarrow> PairingState \<Rightarrow> string option \<Rightarrow> (world, goerror option) state" where
  "ConversationService_UpdateState key st accountID = do {
     r \<leftarrow> conversationRepo_UpdateState key st accountID;
     case r of
       Inl err \<Rightarrow> State_Monad.return (Some (Wrapf ''update state: '' err ''''))
     | Inr _ \<Rightarrow> State_Monad.return None
   }"

definition Unpair :: "string \<Rightarrow> (world, goerror + unit) state" where
  "Unpair key = conversationRepo_UpdateState key PairingStateUnpaired None"

definition ListByAccountID :: "string \<Rightarrow> (world, goerror + ConversationMapping list) state" where
  "ListByAccountID accountID = conversationRepo_FindPairedByAccountID accountID"


section \<open>Messages (internal/service/message.go)\<close>

definition CreateInbound ::
  "CreateInboundMessageParams \<Rightarrow> (world, goerror + InboundMessage) state" where
  "CreateInbound params = do {
     r \<leftarrow> inboundRepo_Create params;
     case r of
       Inl err \<Rightarrow> State_Monad.return (Inl (Wrapf ''create inbound message: '' err ''''))
     | Inr msg \<Rightarrow> State_Monad.return (Inr msg)
   }"

definition FindInboundByID :: "string \<Rightarrow> (world, goerror + InboundMessage option) state" where
  "FindInboundByID rid = inboundRepo_FindByID rid"

definition FindQueuedByAccountID :: "string \<Rightarrow> (world, goerror + InboundMessage list) state" where
  "FindQueuedByAccountID accountID = inboundRepo_FindQueuedByAccountID accountID"

definition MarkDelivered :: "string \<Rightarrow> (world, goerror option) state" where
  "MarkDelivered rid = do {
     r \<leftarrow> inboundRepo_MarkDelivered rid;
     case r of
       Inl err \<Rightarrow> State_Monad.return (Some (Wrapf ''mark delivered: '' err ''''))
     | Inr _ \<Rightarrow> State_Monad.return None
   }"

definition MarkAcked :: "string \<Rightarrow> (world, goerror option) state" where
  "MarkAcked rid = do {
     r \<leftarrow> inboundRepo_MarkAcked rid;
     case r of
       Inl err \<Rightarrow> State_Monad.return (Some (Wrapf ''mark acked: '' err ''''))
     | Inr _ \<Rightarrow> State_Monad.return None
   }"

definition CreateOutbound ::
  "CreateOutboundMessageParams \<Rightarrow> (world, goerror + OutboundMessage) state" where
  "CreateOutbound params = do {
     r \<leftarrow> outboundRepo_Create params;
     case r of
       Inl err \<Rightarrow> State_Monad.return (Inl (Wrapf ''create outbound message: '' err ''''))
     | Inr msg \<Rightarrow> State_Monad.return (Inr msg)
   }"

definition MarkOutboundSent :: "string \<Rightarrow> (world, goerror + unit) state" where
  "MarkOutboundSent rid = outboundRepo_MarkSent rid"

definition MarkOutboundFailed :: "string \<Rightarrow> string \<Rightarrow> (world, goerror + unit) state" where
  "MarkOutboundFailed rid errorMsg = outboundRepo_MarkFailed rid errorMsg"

record QuickStats =
  qs_InboundToday :: int
  qs_InboundTotal :: int
  qs_OutboundToday :: int
  qs_OutboundTotal :: int
  qs_OutboundFailed :: int

text \<open>\<open>bindE\<close> passes on an error with a prefix, as the chain of \<open>if err != nil\<close> does.\<close>

definition bindE ::
  "string \<Rightarrow> ('s, goerror + 'a) state \<Rightarrow> ('a \<Rightarrow> ('s, goerror + 'b) state) \<Rightarrow> ('s, goerror + 'b) state" where
  "bindE prefix m f = do {
     r \<leftarrow> m;
     case r of
       Inl err \<Rightarrow> State_Monad.return (Inl (Wrapf prefix err ''''))
     | Inr x \<Rightarrow> f x
   }"

definition GetQuickStats :: "string \<Rightarrow> (world, goerror + QuickStats) state" where
  "GetQuickStats accountID = do {
     now \<leftarrow> time_now;
     e \<leftarrow> gets wenv;
     let todayStart = day_start e now;
     bindE ''count inbound messages: '' (inboundRepo_CountByAccountID accountID) (\<lambda>inboundTotal.
     bindE ''count inbound today: '' (inboundRepo_CountByAccountIDSince accountID todayStart) (\<lambda>inboundToday.
     bindE ''count outbound messages: '' (outboundRepo_CountByAccountID accountID) (\<lambda>outboundTotal.
     bindE ''count outbound today: '' (outboundRepo_CountByAccountIDSince accountID todayStart) (\<lambda>outboundToday.
     bindE ''count failed messages: ''
       (outboundRepo_CountByAccountIDAndStatus accountID OutboundStatusFailed) (\<lambda>failedCount.
     State_Monad.return (Inr
       \<lparr>qs_InboundToday = inboundToday, qs_InboundTotal = inboundTotal,
        qs_OutboundToday = outboundToday, qs_OutboundTotal = outboundTotal,
        qs_OutboundFailed = failedCount\<rparr>))))))
   }"


section \<open>Sessions (internal/service/session.go)\<close>

definition sessionPairingCodeChars :: string where
  "sessionPairingCodeChars = ''ABCDEFGHJKLMNPQRSTUVWXYZ23456789''"

definition sessionPairingExpiryMins :: int where
  "sessionPairingExpiryMins = 5"

text \<open>
  rand.Int(rand.Reader, 32) reads one byte and keeps its five low bits, so no value is rejected.
  When the read fails the result is nil and its use panics: \<^const>\<open>None\<close>.
\<close>

definition rand_Int32 :: "string \<Rightarrow> (nat \<times> string) option" where
  "rand_Int32 e = (case e of [] \<Rightarrow> None | b # rest \<Rightarrow> Some (byte b mod 32, rest))"

fun pairing_part :: "nat \<Rightarrow> string \<Rightarrow> (string \<times> string) option" where
  "pairing_part 0 e = Some ([], e)"
| "pairing_part (Suc n) e =
     (case rand_Int32 e of
        None \<Rightarrow> None
      | Some (i, e') \<Rightarrow>
          (case pairing_part n e' of
             None \<Rightarrow> None
           | Some (cs, e'') \<Rightarrow> Some ((sessionPairingCodeChars ! i) # cs, e'')))"

definition generateSessionPairingCode :: "string \<Rightarrow> (string \<times> string) option" where
  "generateSessionPairingCode e =
     (case pairing_part 4 e of
        None \<Rightarrow> None
      | Some (part1, e1) \<Rightarrow>
          (case pairing_part 4 e1 of
             None \<Rightarrow> None
           | Some (part2, e2) \<Rightarrow> Some (part1 @ ''-'' @ part2, e2)))"

definition pairing_code :: "(world, string option) state" where
  "pairing_code = State (\<lambda>w.
     case generateSessionPairingCode (entropy w) of
       None \<Rightarrow> (None, w)
     | Some (code, rest) \<Rightarrow> (Some code, w\<lparr>entropy := rest\<rparr>))"

record CreateSessionResult =
  cr_SessionToken :: string
  cr_PairingCode :: string
  cr_ExpiresIn :: int
  cr_Status :: string
  cr_ExpiresAt :: time

text \<open>The outer option is \<^const>\<open>None\<close> when the code generator panics.\<close>

definition CreateSession :: "(world, (goerror + CreateSessionResult) option) state" where
  "CreateSession = do {
     t \<leftarrow> generate_token;
     case t of
       Inl err \<Rightarrow> State_Monad.return (Some (Inl (Wrapf ''generate token: '' err '''')))
     | Inr token \<Rightarrow> do {
         let tokenHash = HashToken token;
         code \<leftarrow> pairing_code;
         case code of
           None \<Rightarrow> State_Monad.return None
         | Some pairingCode \<Rightarrow> do {
             now \<leftarrow> time_now;
             let expiresAt = now + sessionPairingExpiryMins * minute;
             r \<leftarrow> sessionRepo_Create
               \<lparr>cs_SessionTokenHash = tokenHash, cs_PairingCode = pairingCode,
                cs_ExpiresAt = expiresAt, cs_Metadata = None\<rparr>;
             case r of
               Inl err \<Rightarrow> State_Monad.return (Some (Inl (Wrapf ''create session: '' err '''')))
             | Inr session \<Rightarrow> State_Monad.return (Some (Inr
                 \<lparr>cr_SessionToken = token, cr_PairingCode = pairingCode,
                  cr_ExpiresIn = sessionPairingExpiryMins * 60,
                  cr_Status = session_status_text SessionStatusPendingPairing,
                  cr_ExpiresAt = expiresAt\<rparr>))
           }
       }
   }"

record SessionStatusResult =
  sr_Status :: SessionStatus
  sr_PairedAt :: "time option"
  sr_KakaoUserID :: "string option"
  sr_AccountID :: "string option"
  sr_RelayToken :: "string option"

definition relay_token_of :: "json option \<Rightarrow> string option" where
  "relay_token_of metadata =
     (case metadata of
        None \<Rightarrow> None
      | Some j \<Rightarrow> (case unmarshal_string_map j of None \<Rightarrow> None | Some meta \<Rightarrow> meta ''relayToken''))"

definition kakao_user_of :: "string \<Rightarrow> string option" where
  "kakao_user_of key =
     (let parts = split_byte (CHR '':'') key
      in if length parts \<ge> 2 then Some (parts ! 1) else None)"

definition GetStatus :: "string \<Rightarrow> (world, goerror + SessionStatusResult option) state" where
  "GetStatus tokenHash = do {
     r \<leftarrow> sessionRepo_FindByTokenHash tokenHash;
     case r of
       Inl err \<Rightarrow> State_Monad.return (Inl (Wrapf ''find session: '' err ''''))
     | Inr None \<Rightarrow> State_Monad.return (Inr None)
     | Inr (Some session) \<Rightarrow> do {
         expired \<leftarrow> (if ses_Status session = SessionStatusPendingPairing
                    then do { now \<leftarrow> time_now; State_Monad.return (ses_ExpiresAt session < now) }
                    else State_Monad.return False);
         if expired then do {
           _ \<leftarrow> sessionRepo_MarkExpired (ses_ID session);
           State_Monad.return (Inr (Some
             \<lparr>sr_Status = SessionStatusExpired, sr_PairedAt = None, sr_KakaoUserID = None,
              sr_AccountID = None, sr_RelayToken = None\<rparr>))
         }
         else State_Monad.return (Inr (Some
           \<lparr>sr_Status = ses_Status session, sr_PairedAt = ses_PairedAt session,
            sr_KakaoUserID = (case ses_PairedConversationKey session of
               None \<Rightarrow> None | Some key \<Rightarrow> kakao_user_of key),
            sr_AccountID = ses_AccountID session,
            sr_RelayToken = relay_token_of (ses_Metadata session)\<rparr>))
       }
   }"

definition SessionService_FindByTokenHash :: "string \<Rightarrow> (world, goerror + Session option) state" where
  "SessionService_FindByTokenHash tokenHash = sessionRepo_FindByTokenHash tokenHash"

definition SessionService_FindByID :: "string \<Rightarrow> (world, goerror + Session option) state" where
  "SessionService_FindByID rid = sessionRepo_FindByID rid"

definition FindRecent :: "int \<Rightarrow> (world, goerror + Session list) state" where
  "FindRecent limit = sessionRepo_FindRecent limit"

definition Disconnect :: "string \<Rightarrow> (world, goerror + unit) state" where
  "Disconnect rid = sessionRepo_MarkDisconnected rid"

definition SessionService_Delete :: "string \<Rightarrow> (world, goerror + unit) state" where
  "SessionService_Delete rid = sessionRepo_Delete rid"

definition createAccountForSessionTx :: "string \<Rightarrow> (world, goerror + (Account \<times> string)) state" where
  "createAccountForSessionTx sessionID = do {
     t \<leftarrow> generate_token;
     case t of
       Inl err \<Rightarrow> State_Monad.return (Inl (Wrapf ''generate token: '' err ''''))
     | Inr token \<Rightarrow> do {
         let tokenHash = HashToken token;
         r \<leftarrow> accountRepo_Create \<lparr>ca_RelayTokenHash = tokenHash, ca_RateLimitPerMin = 60\<rparr>;
         case r of
           Inl err \<Rightarrow> State_Monad.return (Inl (Wrapf ''create account: '' err ''''))
         | Inr account \<Rightarrow> State_Monad.return (Inr (account, token))
       }
   }"

text \<open>The variant outside of a transaction, on the service's own repository; nothing calls it.\<close>

definition createAccountForSession :: "string \<Rightarrow> (world, goerror + (Account \<times> string)) state" where
  "createAccountForSession sessionID = createAccountForSessionTx sessionID"

record SessionPairResult =
  pr_Success :: bool
  pr_SessionID :: string
  pr_AccountID :: string
  pr_RelayToken :: string
  pr_Error :: string

definition pair_failed :: "string \<Rightarrow> SessionPairResult" where
  "pair_failed err =
     \<lparr>pr_Success = False, pr_SessionID = [], pr_AccountID = [], pr_RelayToken = [], pr_Error = err\<rparr>"

text \<open>The body of the transaction of VerifyPairingCode.\<close>

definition pair_tx :: "string \<Rightarrow> string \<Rightarrow> (world, goerror + (Account \<times> string)) state" where
  "pair_tx sessionID conversationKey =
     bindE ''create account: '' (createAccountForSessionTx sessionID) (\<lambda>(account, relayToken).
     bindE ''mark paired: '' (sessionRepo_MarkPaired sessionID (acc_ID account) conversationKey) (\<lambda>_.
     bindE ''update metadata: ''
       (sessionRepo_UpdateMetadata sessionID (JObj [(''relayToken'', JStr relayToken)])) (\<lambda>_.
     State_Monad.return (Inr (account, relayToken)))))"

definition VerifyPairingCode :: "string \<Rightarrow> string \<Rightarrow> (world, SessionPairResult) state" where
  "VerifyPairingCode code conversationKey = do {
     e \<leftarrow> gets wenv;
     let normalizedCode = ToUpper (upper_table e) (TrimSpace code);
     r \<leftarrow> sessionRepo_FindByPairingCode normalizedCode;
     case r of
       Inl err \<Rightarrow> State_Monad.return (pair_failed ''INVALID_CODE'')
     | Inr None \<Rightarrow> State_Monad.return (pair_failed ''INVALID_CODE'')
     | Inr (Some session) \<Rightarrow> do {
         tx \<leftarrow> WithTx (pair_tx (ses_ID session) conversationKey);
         case tx of
           Inl err \<Rightarrow> State_Monad.return (pair_failed ''INTERNAL_ERROR'')
         | Inr (account, relayToken) \<Rightarrow> State_Monad.return
             \<lparr>pr_Success = True, pr_SessionID = ses_ID session, pr_AccountID = acc_ID account,
              pr_RelayToken = relayToken, pr_Error = []\<rparr>
       }
   }"

text \<open>The layout constant time.RFC3339.\<close>

definition RFC3339 :: string where
  "RFC3339 = ''2006-01-02T15:04:05Z07:00''"

definition PublishPairingComplete :: "Session \<Rightarrow> string \<Rightarrow> (world, goerror option) state" where
  "PublishPairingComplete session conversationKey =
     (case ses_AccountID session of
        None \<Rightarrow> State_Monad.return (Some (Errorf ''session not paired''))
      | Some accountID \<Rightarrow> do {
          let kakaoUserID = (case kakao_user_of conversationKey of None \<Rightarrow> [] | Some u \<Rightarrow> u);
          now \<leftarrow> time_now;
          e \<leftarrow> gets wenv;
          let event = \<lparr>ev_Type = ''pairing_complete'',
                ev_Data = JObj [(''accountId'', JStr accountID), (''kakaoUserId'', JStr kakaoUserID),
                                (''pairedAt'', JStr (time_format e RFC3339 now))]\<rparr>;
          _ \<leftarrow> Publish (''session:'' @ ses_ID session) event;
          Publish accountID event
        })"

definition PublishPairingExpired :: "string \<Rightarrow> string \<Rightarrow> (world, goerror option) state" where
  "PublishPairingExpired sessionID reason = do {
     r \<leftarrow> sessionRepo_FindByID sessionID;
     case r of
       Inl err \<Rightarrow> State_Monad.return (Some (Errorf ''session not found''))
     | Inr None \<Rightarrow> State_Monad.return (Some (Errorf ''session not found''))
     | Inr (Some session) \<Rightarrow>
         (case ses_AccountID session of
            None \<Rightarrow> State_Monad.return None
          | Some accountID \<Rightarrow> Publish accountID
              \<lparr>ev_Type = ''pairing_expired'', ev_Data = JObj [(''reason'', JStr reason)]\<rparr>)
   }"


section \<open>Callbacks (internal/service/kakao.go)\<close>

definition allowedCallbackHosts :: "string list" where
  "allowedCallbackHosts = [''.kakao.com'', ''.kakaocdn.net'', ''.kakaoenterprise.com'']"

definition isValidCallbackURL :: "env \<Rightarrow> string \<Rightarrow> bool" where
  "isValidCallbackURL e rawURL =
     (case Parse (lower_table e) rawURL of
        None \<Rightarrow> False
      | Some parsed \<Rightarrow>
          if u_Scheme parsed \<noteq> ''https'' then False
          else let hostname = ToLower (lower_table e) (Hostname parsed)
               in list_ex (\<lambda>suffix. HasSuffix hostname suffix) allowedCallbackHosts)"

text \<open>
  The HTTP client. A request goes out and the environment answers. client.Do follows redirections:
  after 301, 302 and 303 with a GET without a body, after 307 and 308 with the same method and,
  unless an earlier redirection dropped it, the body; after ten requests it gives up. The new URL is
  whatever the Location header says.
\<close>

definition http_answer :: "(world, http_result) state" where
  "http_answer = State (\<lambda>w.
     case http_replies w of
       [] \<Rightarrow> (HttpError ''no reply'', w)
     | r # rs \<Rightarrow> (r, w\<lparr>http_replies := rs\<rparr>))"

definition http_post :: "string \<Rightarrow> json \<Rightarrow> (world, http_result) state" where
  "http_post url payload = do {
     _ \<leftarrow> modify (\<lambda>w. w\<lparr>callbacks := callbacks w @ [(url, payload)]\<rparr>);
     http_answer
   }"

definition http_hop :: "string \<Rightarrow> string \<Rightarrow> json option \<Rightarrow> (world, http_result) state" where
  "http_hop verb url content = do {
     _ \<leftarrow> modify (\<lambda>w. w\<lparr>hops := hops w @ [(verb, url, content)]\<rparr>);
     http_answer
   }"

definition redirectBehavior :: "string \<Rightarrow> int \<Rightarrow> (string \<times> bool) option" where
  "redirectBehavior verb code =
     (if code \<in> {301, 302, 303} then Some (if verb \<noteq> ''GET'' \<and> verb \<noteq> ''HEAD'' then ''GET'' else verb, False)
      else if code \<in> {307, 308} then Some (verb, True)
      else None)"

fun follow :: "nat \<Rightarrow> string \<Rightarrow> bool \<Rightarrow> json \<Rightarrow> http_result \<Rightarrow> (world, string + int) state" where
  "follow n verb includeBody payload (HttpError err) = State_Monad.return (Inl err)"
| "follow n verb includeBody payload (HttpStatus code) = State_Monad.return (Inr code)"
| "follow n verb includeBody payload (HttpRedirect code location) =
     (case redirectBehavior verb code of
        None \<Rightarrow> State_Monad.return (Inr code)
      | Some (verb', keep) \<Rightarrow>
          if location = [] then State_Monad.return (Inr code)
          else (case n of
                  0 \<Rightarrow> State_Monad.return (Inl ''stopped after 10 redirects'')
                | Suc k \<Rightarrow> do {
                    r \<leftarrow> http_hop verb' location (if includeBody \<and> keep then Some payload else None);
                    follow k verb' (includeBody \<and> keep) payload r
                  }))"

definition client_Do :: "string \<Rightarrow> json \<Rightarrow> (world, string + int) state" where
  "client_Do url payload = do {
     r \<leftarrow> http_post url payload;
     follow 9 ''POST'' True payload r
   }"

definition SendCallback :: "string \<Rightarrow> json \<Rightarrow> (world, goerror option) state" where
  "SendCallback callbackURL payload = do {
     e \<leftarrow> gets wenv;
     if \<not> isValidCallbackURL e callbackURL
     then State_Monad.return (Some (Errorf ''invalid callback URL''))
     else do {
       resp \<leftarrow> client_Do callbackURL payload;
       case resp of
         Inl err \<Rightarrow> State_Monad.return (Some (Wrapf ''callback request failed: '' (Foreign err) ''''))
       | Inr code \<Rightarrow>
           if code < 200 \<or> code \<ge> 300
           then State_Monad.return (Some (Errorf (''callback failed with status '' @ Itoa code)))
           else State_Monad.return None
     }
   }"


section \<open>The rate limiter (internal/service/rate_limiter.go)\<close>

text \<open>
  Running a script on the sorted set of a key: an error of Redis, or the integers of its reply. The
  clock of Redis is the clock of the world.
\<close>

definition run_script ::
  "(string \<Rightarrow> int \<Rightarrow> zset \<Rightarrow> int list \<times> zset) \<Rightarrow> string \<Rightarrow> (world, goerror + int list) state" where
  "run_script script key = do {
     fault \<leftarrow> redis_call;
     case fault of
       Some err \<Rightarrow> State_Monad.return (Inl err)
     | None \<Rightarrow> State (\<lambda>w.
         case script (lua_random (wenv w)) (Unix (clock w)) (zsets w key) of
           (r, z) \<Rightarrow> (Inr r, w\<lparr>zsets := (zsets w)(key := z)\<rparr>))
   }"

definition CheckLimit :: "string \<Rightarrow> int \<Rightarrow> time \<Rightarrow> (world, bool \<times> time) state" where
  "CheckLimit key limit window = do {
     t \<leftarrow> time_now;
     let now = Unix t;
     let fullKey = ''ratelimit:'' @ key;
     r \<leftarrow> run_script (\<lambda>rnd at. svc_rateLimitScript now (window div second) limit rnd at) fullKey;
     case r of
       Inl err \<Rightarrow> do { t' \<leftarrow> time_now; State_Monad.return (False, t' + window) }
     | Inr reply \<Rightarrow>
         if length reply \<noteq> 2 then do { t' \<leftarrow> time_now; State_Monad.return (False, t' + window) }
         else State_Monad.return (reply ! 0 = 1, reply ! 1 * second)
   }"



section \<open>Effects of the services\<close>

text \<open>
  What a computation sends out: the logs of PUBLISH, of callbacks and of followed redirections only
  grow, every callback sent goes to a URL isValidCallbackURL accepts, and for each of them at most
  nine redirections are followed.
\<close>

definition outgoing :: "world \<Rightarrow> world \<Rightarrow> bool" where
  "outgoing w w' \<longleftrightarrow>
     wenv w' = wenv w
     \<and> (\<exists>xs zs. callbacks w' = callbacks w @ xs \<and> (\<forall>(u, p) \<in> set xs. isValidCallbackURL (wenv w) u)
         \<and> hops w' = hops w @ zs \<and> length zs \<le> 9 * length xs)
     \<and> (\<exists>ys. bus w' = bus w @ ys)"

interpretation outgoing: effect_order outgoing
proof
  show "outgoing w w" for w by (simp add: outgoing_def)
  show "outgoing u w" if "outgoing u v" "outgoing v w" for u v w
  proof -
    from that obtain xs zs ys xs' zs' ys' where
      "callbacks w = callbacks u @ xs @ xs'" "hops w = hops u @ zs @ zs'" "bus w = bus u @ ys @ ys'"
      "\<forall>(u', p) \<in> set (xs @ xs'). isValidCallbackURL (wenv u) u'" "length (zs @ zs') \<le> 9 * length (xs @ xs')"
      "wenv w = wenv u"
      unfolding outgoing_def by fastforce
    then show ?thesis unfolding outgoing_def by blast
  qed
qed

named_theorems outgoing_intros

lemma only_db_outgoing: "state_io_rel only_db m \<Longrightarrow> state_io_rel outgoing m"
  by (auto simp: state_io_rel_def only_db_def outgoing_def)

lemmas repo_outgoing [outgoing_intros] =
  eff_time_now(2)[THEN only_db_outgoing] eff_sql_now(2)[THEN only_db_outgoing]
  eff_generate_token(2)[THEN only_db_outgoing]
  account_only_db[THEN only_db_outgoing] conversation_only_db[THEN only_db_outgoing]
  session_only_db[THEN only_db_outgoing] inbound_only_db[THEN only_db_outgoing]
  outbound_only_db[THEN only_db_outgoing] dashboard_only_db[THEN only_db_outgoing]

lemma redis_call_eff [good_intros, outgoing_intros]:
  "state_io_rel good redis_call" "state_io_rel outgoing redis_call"
  by (auto intro!: io_relI_snd simp: redis_call_def good_def outgoing_def split: list.split)

lemma publish_modify_eff [good_intros, outgoing_intros]:
  "state_io_rel good (modify (\<lambda>w. w\<lparr>bus := bus w @ [x], broker := f (broker w)\<rparr>))"
  "state_io_rel outgoing (modify (\<lambda>w. w\<lparr>bus := bus w @ [x], broker := f (broker w)\<rparr>))"
  by (auto intro!: io_relI_snd simp: good_def outgoing_def)

lemma pairing_code_eff [good_intros, outgoing_intros, only_db_intros]:
  "state_io_rel good pairing_code" "state_io_rel outgoing pairing_code" "state_io_rel only_db pairing_code"
  by (auto intro!: io_relI_snd simp: pairing_code_def good_def outgoing_def only_db_def split: option.split)

lemma http_good [good_intros]:
  "state_io_rel good (http_post url payload)" "state_io_rel good (http_hop verb url content)"
  by (auto intro!: io_relI_snd simp: http_post_def http_hop_def http_answer_def good_def split: list.split)

lemma follow_good [good_intros]: "state_io_rel good (follow n verb b payload r)"
  by (induction n verb b payload r rule: follow.induct)
     (auto intro!: good.eff_rules good_intros split: option.split nat.split)

lemma client_Do_good [good_intros]: "state_io_rel good (client_Do url payload)"
  unfolding client_Do_def by (intro good.eff_rules good_intros)

text \<open>
  Which requests a followed answer causes: to the locations the answers name, in their order, at
  most as many as are left, and the body goes along only when the last one had it.
\<close>

lemma run_http_hop:
  "run_state (http_hop verb url content) w =
     (case http_replies w of
        [] \<Rightarrow> (HttpError ''no reply'', w\<lparr>hops := hops w @ [(verb, url, content)]\<rparr>)
      | r # rs \<Rightarrow> (r, w\<lparr>hops := hops w @ [(verb, url, content)], http_replies := rs\<rparr>))"
  by (simp add: http_hop_def http_answer_def split: list.split)

fun locations :: "http_result list \<Rightarrow> string list" where
  "locations (HttpRedirect code location # rs) = location # locations rs"
| "locations rs = []"

lemma follow_hops:
  "\<exists>zs. hops (snd (run_state (follow n verb b payload r) w)) = hops w @ zs \<and> length zs \<le> n
     \<and> map (\<lambda>z. fst (snd z)) zs = take (length zs) (locations (r # http_replies w))
     \<and> (\<forall>(v, u, content) \<in> set zs. content = None \<or> b \<and> v = verb \<and> content = Some payload)"
proof (induction n verb b payload r arbitrary: w rule: follow.induct)
  case (3 n verb b payload code location)
  show ?case
  proof (cases "redirectBehavior verb code = None \<or> location = [] \<or> n = 0")
    case True
    then have "snd (run_state (follow n verb b payload (HttpRedirect code location)) w) = w"
      by (cases "redirectBehavior verb code") (auto split: nat.split prod.split)
    then show ?thesis by simp
  next
    case False
    then obtain verb' keep k where s: "redirectBehavior verb code = Some (verb', keep)" "location \<noteq> []" "n = Suc k"
      by (cases n) auto
    have keep: "keep \<Longrightarrow> verb' = verb" using s(1) by (auto simp: redirectBehavior_def split: if_splits)
    obtain r' w1 where r': "run_state (http_hop verb' location (if b \<and> keep then Some payload else None)) w = (r', w1)"
      by fastforce
    then have w1: "hops w1 = hops w @ [(verb', location, if b \<and> keep then Some payload else None)]"
        "http_replies w = r' # http_replies w1 \<or> (r' = HttpError ''no reply'' \<and> http_replies w = [])"
      by (auto simp: run_http_hop split: list.splits)
    obtain zs where zs: "hops (snd (run_state (follow k verb' (b \<and> keep) payload r') w1)) = hops w1 @ zs" "length zs \<le> k"
      "map (\<lambda>z. fst (snd z)) zs = take (length zs) (locations (r' # http_replies w1))"
      "\<forall>(v, u, content) \<in> set zs. content = None \<or> (b \<and> keep) \<and> v = verb' \<and> content = Some payload"
      using "3.IH"[OF s(1) refl s(2,3)] by blast
    have "locations (r' # http_replies w1) = locations (http_replies w) \<or> zs = []"
      using w1(2) zs(3) by auto
    then show ?thesis
      using s r' zs w1(1) keep
      by (intro exI[of _ "(verb', location, if b \<and> keep then Some payload else None) # zs"]) auto
  qed
qed auto

lemma follow_frame:
  "callbacks (snd (run_state (follow n verb b payload r) w)) = callbacks w
     \<and> bus (snd (run_state (follow n verb b payload r) w)) = bus w
     \<and> wenv (snd (run_state (follow n verb b payload r) w)) = wenv w
     \<and> db (snd (run_state (follow n verb b payload r) w)) = db w"
proof (induction n verb b payload r arbitrary: w rule: follow.induct)
  case (3 n verb b payload code location)
  then show ?case
    by (auto simp: run_http_hop split: option.split nat.split list.split prod.split)
qed auto

lemma run_http_post:
  "run_state (http_post url payload) w =
     (case http_replies w of
        [] \<Rightarrow> (HttpError ''no reply'', w\<lparr>callbacks := callbacks w @ [(url, payload)]\<rparr>)
      | r # rs \<Rightarrow> (r, w\<lparr>callbacks := callbacks w @ [(url, payload)], http_replies := rs\<rparr>))"
  by (simp add: http_post_def http_answer_def split: list.split)

lemma client_Do_effect:
  fixes url payload w
  defines "w' \<equiv> snd (run_state (client_Do url payload) w)"
  shows "callbacks w' = callbacks w @ [(url, payload)]" "bus w' = bus w" "wenv w' = wenv w" "db w' = db w"
    "\<exists>zs. hops w' = hops w @ zs \<and> length zs \<le> 9
       \<and> map (\<lambda>z. fst (snd z)) zs = take (length zs) (locations (http_replies w))
       \<and> (\<forall>(v, u, content) \<in> set zs. content = None \<or> v = ''POST'' \<and> content = Some payload)"
proof -
  obtain r v where r: "run_state (http_post url payload) w = (r, v)" by fastforce
  then have v: "callbacks v = callbacks w @ [(url, payload)]" "bus v = bus w" "wenv v = wenv w" "db v = db w"
      "hops v = hops w"
      "http_replies w = r # http_replies v \<or> (r = HttpError ''no reply'' \<and> http_replies w = [])"
    by (auto simp: run_http_post split: list.splits)
  have w': "w' = snd (run_state (follow 9 ''POST'' True payload r) v)"
    using r by (simp add: w'_def client_Do_def)
  show "callbacks w' = callbacks w @ [(url, payload)]" "bus w' = bus w" "wenv w' = wenv w" "db w' = db w"
    using follow_frame[of 9 "''POST''" True payload r v] v by (simp_all add: w')
  show "\<exists>zs. hops w' = hops w @ zs \<and> length zs \<le> 9
       \<and> map (\<lambda>z. fst (snd z)) zs = take (length zs) (locations (http_replies w))
       \<and> (\<forall>(v, u, content) \<in> set zs. content = None \<or> v = ''POST'' \<and> content = Some payload)"
    using follow_hops[of 9 "''POST''" True payload r v] v(5,6) by (auto simp: w')
qed

lemma run_script_eff [good_intros, outgoing_intros]:
  "state_io_rel good (run_script script key)" "state_io_rel outgoing (run_script script key)"
proof -
  have "state_io_rel R (State (\<lambda>w. case script (lua_random (wenv w)) (Unix (clock w)) (zsets w key) of
           (r, z) \<Rightarrow> (Inr r :: goerror + int list, w\<lparr>zsets := (zsets w)(key := z)\<rparr>)))"
    if "\<And>w z. R w (w\<lparr>zsets := z\<rparr>)" for R :: "world \<Rightarrow> world \<Rightarrow> bool"
    using that by (auto intro!: io_relI_snd split: prod.split)
  then show "state_io_rel good (run_script script key)" "state_io_rel outgoing (run_script script key)"
    unfolding run_script_def
    by (auto intro!: good.eff_rules good_intros) 
       (auto intro!: outgoing.eff_rules outgoing_intros simp: good_def outgoing_def)
qed

lemma SendCallback_outgoing [outgoing_intros]: "state_io_rel outgoing (SendCallback url payload)"
proof (rule io_relI_snd)
  fix w
  show "outgoing w (snd (run_state (SendCallback url payload) w))"
  proof (cases "isValidCallbackURL (wenv w) url")
    case True
    then have "snd (run_state (SendCallback url payload) w) = snd (run_state (client_Do url payload) w)"
      by (auto simp: SendCallback_def split: sum.split prod.split)
    moreover obtain zs where "hops (snd (run_state (client_Do url payload) w)) = hops w @ zs" "length zs \<le> 9"
      using client_Do_effect(5)[of url payload w] by blast
    ultimately show ?thesis
      using True client_Do_effect(1-3)[of url payload w]
      by (auto simp: outgoing_def intro!: exI[of _ "[(url, payload)]"] exI[of _ zs])
  qed (simp add: SendCallback_def outgoing_def)
qed

lemma SendCallback_good [good_intros]: "state_io_rel good (SendCallback url payload)"
  unfolding SendCallback_def
  by (auto intro!: good.eff_rules good_intros split: sum.split)

lemma bindE_good [good_intros]:
  "state_io_rel good m \<Longrightarrow> (\<And>x. state_io_rel good (f x)) \<Longrightarrow> state_io_rel good (bindE prefix m f)"
  unfolding bindE_def by (auto intro!: good.eff_rules)

lemma bindE_only_db [only_db_intros]:
  "state_io_rel only_db m \<Longrightarrow> (\<And>x. state_io_rel only_db (f x)) \<Longrightarrow> state_io_rel only_db (bindE prefix m f)"
  unfolding bindE_def by (auto intro!: only_db.eff_rules)

lemmas service_defs = ConversationService_FindByKey_def ConversationService_UpdateState_def Unpair_def
  ListByAccountID_def CreateInbound_def FindInboundByID_def FindQueuedByAccountID_def MarkDelivered_def
  MarkAcked_def CreateOutbound_def MarkOutboundSent_def MarkOutboundFailed_def GetQuickStats_def
  CreateSession_def GetStatus_def SessionService_FindByTokenHash_def SessionService_FindByID_def
  FindRecent_def Disconnect_def SessionService_Delete_def

lemma services_good [good_intros]:
  "state_io_rel good (ConversationService_FindByKey key)"
  "state_io_rel good (ConversationService_UpdateState key st acc)"
  "state_io_rel good (Unpair key)"
  "state_io_rel good (ListByAccountID acc_id)"
  "state_io_rel good (CreateInbound ip)"
  "state_io_rel good (FindInboundByID rid)"
  "state_io_rel good (FindQueuedByAccountID acc_id)"
  "state_io_rel good (MarkDelivered rid)"
  "state_io_rel good (MarkAcked rid)"
  "state_io_rel good (CreateOutbound op)"
  "state_io_rel good (MarkOutboundSent rid)"
  "state_io_rel good (MarkOutboundFailed rid msg)"
  "state_io_rel good (GetQuickStats acc_id)"
  "state_io_rel good CreateSession"
  "state_io_rel good (GetStatus h)"
  "state_io_rel good (SessionService_FindByTokenHash h)"
  "state_io_rel good (SessionService_FindByID rid)"
  "state_io_rel good (FindRecent n)"
  "state_io_rel good (Disconnect rid)"
  "state_io_rel good (SessionService_Delete rid)"
  unfolding service_defs Let_def by (auto intro!: good.eff_rules good_intros split: option.split)

lemma services_only_db [only_db_intros]:
  "state_io_rel only_db (ConversationService_FindByKey key)"
  "state_io_rel only_db (ConversationService_UpdateState key st acc)"
  "state_io_rel only_db (Unpair key)"
  "state_io_rel only_db (ListByAccountID acc_id)"
  "state_io_rel only_db (CreateInbound ip)"
  "state_io_rel only_db (FindInboundByID rid)"
  "state_io_rel only_db (FindQueuedByAccountID acc_id)"
  "state_io_rel only_db (MarkDelivered rid)"
  "state_io_rel only_db (MarkAcked rid)"
  "state_io_rel only_db (CreateOutbound op)"
  "state_io_rel only_db (MarkOutboundSent rid)"
  "state_io_rel only_db (MarkOutboundFailed rid msg)"
  "state_io_rel only_db (GetQuickStats acc_id)"
  "state_io_rel only_db CreateSession"
  "state_io_rel only_db (GetStatus h)"
  "state_io_rel only_db (SessionService_FindByTokenHash h)"
  "state_io_rel only_db (SessionService_FindByID rid)"
  "state_io_rel only_db (FindRecent n)"
  "state_io_rel only_db (Disconnect rid)"
  "state_io_rel only_db (SessionService_Delete rid)"
  unfolding service_defs Let_def by (auto intro!: only_db.eff_rules only_db_intros split: option.split)

lemma FindOrCreate_eff [good_intros, only_db_intros]:
  "state_io_rel good (FindOrCreate channel user url e)"
  "state_io_rel only_db (FindOrCreate channel user url e)"
  unfolding FindOrCreate_def Let_def
  by (auto intro!: good.eff_rules good_intros) (auto intro!: only_db.eff_rules only_db_intros)

lemma pair_tx_eff [good_intros, only_db_intros]:
  "state_io_rel good (pair_tx sid key)" "state_io_rel only_db (pair_tx sid key)"
  unfolding pair_tx_def createAccountForSessionTx_def Let_def
  by (auto intro!: good.eff_rules good_intros) (auto intro!: only_db.eff_rules only_db_intros)

lemma VerifyPairingCode_eff [good_intros, only_db_intros]:
  "state_io_rel good (VerifyPairingCode code key)" "state_io_rel only_db (VerifyPairingCode code key)"
  unfolding VerifyPairingCode_def Let_def
  by (auto intro!: good.eff_rules good_intros split: option.split)
     (auto intro!: only_db.eff_rules only_db_intros split: option.split)

lemmas services_outgoing [outgoing_intros] =
  services_only_db[THEN only_db_outgoing] FindOrCreate_eff(2)[THEN only_db_outgoing]
  VerifyPairingCode_eff(2)[THEN only_db_outgoing]

lemma Publish_eff [good_intros, outgoing_intros]:
  "state_io_rel good (Publish acc_id ev)" "state_io_rel outgoing (Publish acc_id ev)"
  unfolding Publish_def
  by (auto intro!: good.eff_rules good_intros split: option.split)
     (auto intro!: outgoing.eff_rules outgoing_intros split: option.split)

lemma PublishPairingComplete_eff [good_intros, outgoing_intros]:
  "state_io_rel good (PublishPairingComplete ses key)" "state_io_rel outgoing (PublishPairingComplete ses key)"
  unfolding PublishPairingComplete_def Let_def
  by (auto intro!: good.eff_rules good_intros split: option.split)
     (auto intro!: outgoing.eff_rules outgoing_intros split: option.split)

lemma PublishPairingExpired_eff [good_intros, outgoing_intros]:
  "state_io_rel good (PublishPairingExpired sid reason)" "state_io_rel outgoing (PublishPairingExpired sid reason)"
  unfolding PublishPairingExpired_def
  by (auto intro!: good.eff_rules good_intros split: option.split)
     (auto intro!: outgoing.eff_rules outgoing_intros split: option.split)

lemma CheckLimit_eff [good_intros, outgoing_intros]:
  "state_io_rel good (CheckLimit key limit window)" "state_io_rel outgoing (CheckLimit key limit window)"
  unfolding CheckLimit_def Let_def
  by (auto intro!: good.eff_rules good_intros split: option.split)
     (auto intro!: outgoing.eff_rules outgoing_intros split: option.split)

end
