(* ===== verification/MemLimiter.thy ===== *)
theory MemLimiter
  imports RedisLimiter "HOL-Library.AList"
begin

text \<open>
  The in-memory limiter of internal/middleware/ratelimit.go: a map from accounts to the times of
  their recent requests. The iteration order of the map, which decides what the eviction of a full
  store removes, is an argument. Times are in nanoseconds.
\<close>

section \<open>State and operations\<close>

definition maxEntries :: int where "maxEntries = 10000"
definition cleanupInterval :: time where "cleanupInterval = minute"
definition entryTTL :: time where "entryTTL = 5 * minute"
definition windowDuration :: time where "windowDuration = minute"

record rateLimitEntry =
  timestamps :: "time list"
  lastAccess :: time

record RateLimiter =
  rl_store :: "(string \<times> rateLimitEntry) list"
  rl_lastCleanup :: time

definition NewRateLimiter :: "time \<Rightarrow> RateLimiter" where
  "NewRateLimiter now = \<lparr>rl_store = [], rl_lastCleanup = now\<rparr>"

definition drop_stale :: "time \<Rightarrow> (string \<times> rateLimitEntry) list \<Rightarrow> (string \<times> rateLimitEntry) list" where
  "drop_stale now store = filter (\<lambda>(k, e). \<not> now - lastAccess e > entryTTL) store"

text \<open>\<open>order\<close> is the order in which the loop meets the keys.\<close>

definition limiter_cleanup :: "time \<Rightarrow> string list \<Rightarrow> RateLimiter \<Rightarrow> RateLimiter" where
  "limiter_cleanup now order rl =
     (if now - rl_lastCleanup rl < cleanupInterval then rl
      else let store = drop_stale now (rl_store rl);
               oldest = (if int (length store) > maxEntries
                         then take (length store div 5) (filter (\<lambda>k. k \<in> fst ` set store) order) else [])
           in rl\<lparr>rl_store := filter (\<lambda>(k, e). k \<notin> set oldest) store, rl_lastCleanup := now\<rparr>)"

definition entry_of :: "string \<Rightarrow> time \<Rightarrow> RateLimiter \<Rightarrow> rateLimitEntry" where
  "entry_of k now rl =
     (case map_of (rl_store rl) k of None \<Rightarrow> \<lparr>timestamps = [], lastAccess = now\<rparr> | Some e \<Rightarrow> e)"

text \<open>Check; \<open>cnow\<close> is the reading of the clock inside cleanup, \<open>now\<close> the one after it.\<close>

definition Check ::
  "time \<Rightarrow> string list \<Rightarrow> time \<Rightarrow> string \<Rightarrow> int \<Rightarrow> RateLimiter \<Rightarrow> (bool \<times> int \<times> int) \<times> RateLimiter" where
  "Check cnow order now accountID limit rl0 =
     (let rl = limiter_cleanup cnow order rl0;
          windowStart = now - windowDuration;
          stamps = filter (\<lambda>ts. ts > windowStart) (timestamps (entry_of accountID now rl));
          remaining = max 0 (limit - int (length stamps));
          resetAt = (case stamps of [] \<Rightarrow> Unix (now + windowDuration)
                                  | ts # _ \<Rightarrow> Unix (ts + windowDuration));
          store = (\<lambda>xs. rl\<lparr>rl_store :=
                     AList.update accountID \<lparr>timestamps = xs, lastAccess = now\<rparr> (rl_store rl)\<rparr>)
      in if int (length stamps) \<ge> limit then ((False, 0, resetAt), store stamps)
         else ((True, remaining - 1, resetAt), store (stamps @ [now])))"


section \<open>The limiter implements the contract\<close>

definition stamps_of :: "string \<Rightarrow> RateLimiter \<Rightarrow> time list" where
  "stamps_of k rl = (case map_of (rl_store rl) k of None \<Rightarrow> [] | Some e \<Rightarrow> timestamps e)"

definition wf_limiter :: "RateLimiter \<Rightarrow> bool" where
  "wf_limiter rl \<longleftrightarrow>
     distinct (map fst (rl_store rl))
     \<and> (\<forall>(k, e) \<in> set (rl_store rl). \<forall>t \<in> set (timestamps e). t \<le> lastAccess e)"

text \<open>
  The promise holds as long as cleanup does not have to evict live entries: the store holds at most
  maxEntries of them.
\<close>

definition no_eviction :: "RateLimiter \<Rightarrow> time \<times> string list \<Rightarrow> time \<Rightarrow> bool" where
  "no_eviction rl tag now \<longleftrightarrow>
     fst tag \<le> now
     \<and> (\<forall>(k, e) \<in> set (rl_store rl). lastAccess e \<le> now)
     \<and> int (length (drop_stale (fst tag) (rl_store rl))) \<le> maxEntries"

definition mem_check :: "string \<Rightarrow> int \<Rightarrow> time \<Rightarrow> time \<times> string list \<Rightarrow> RateLimiter \<Rightarrow> bool \<times> RateLimiter" where
  "mem_check k limit now tag rl =
     (case Check (fst tag) (snd tag) now k limit rl of ((allowed, _), rl') \<Rightarrow> (allowed, rl'))"

lemma stamps_entry: "timestamps (entry_of k now rl) = stamps_of k rl"
  by (simp add: entry_of_def stamps_of_def split: option.split)

lemma map_of_filter_keep:
  "distinct (map fst al) \<Longrightarrow>
   map_of (filter P al) k = (case map_of al k of None \<Rightarrow> None | Some v \<Rightarrow> if P (k, v) then Some v else None)"
  by (induction al) (auto split: option.splits simp: map_of_eq_None_iff image_iff)

lemma cleanup_no_eviction:
  assumes "no_eviction rl tag now"
  shows "rl_store (limiter_cleanup (fst tag) order rl) =
    (if fst tag - rl_lastCleanup rl < cleanupInterval then rl_store rl
     else drop_stale (fst tag) (rl_store rl))"
  using assms by (auto simp: limiter_cleanup_def no_eviction_def Let_def)

text \<open>What cleanup drops has left the window before.\<close>

lemma cleanup_recent:
  assumes wf: "wf_limiter rl" and ok: "no_eviction rl tag now"
  shows "filter (\<lambda>t. now - windowDuration < t) (stamps_of k (limiter_cleanup (fst tag) order rl)) =
         filter (\<lambda>t. now - windowDuration < t) (stamps_of k rl)"
proof (cases "fst tag - rl_lastCleanup rl < cleanupInterval")
  case True
  then show ?thesis by (simp add: stamps_of_def cleanup_no_eviction[OF ok])
next
  case False
  have dist: "distinct (map fst (rl_store rl))" using wf by (simp add: wf_limiter_def)
  have "filter (\<lambda>t. now - windowDuration < t) (timestamps e) = []"
    if e: "map_of (rl_store rl) k = Some e" and old: "fst tag - lastAccess e > entryTTL" for e
  proof -
    have "\<forall>t \<in> set (timestamps e). t \<le> lastAccess e"
      using wf map_of_SomeD[OF e] by (auto simp: wf_limiter_def)
    moreover have "lastAccess e + windowDuration \<le> now"
      using old ok by (simp add: no_eviction_def entryTTL_def windowDuration_def minute_def second_def)
    ultimately show ?thesis by (fastforce simp: filter_empty_conv)
  qed
  with False show ?thesis
    by (auto simp: stamps_of_def cleanup_no_eviction[OF ok] drop_stale_def map_of_filter_keep[OF dist]
             split: option.split)
qed

lemma wf_cleanup: "wf_limiter rl \<Longrightarrow> wf_limiter (limiter_cleanup cnow order rl)"
  by (auto simp: limiter_cleanup_def wf_limiter_def drop_stale_def Let_def intro!: distinct_map_filter)

lemma mem_check_result:
  assumes wf: "wf_limiter rl" and ok: "no_eviction rl tag now"
  shows "wf_limiter (snd (mem_check k limit now tag rl))"
    and "fst (mem_check k limit now tag rl) \<longleftrightarrow>
      int (length (filter (\<lambda>t. now - windowDuration < t) (stamps_of k rl))) < limit"
    and "mset (stamps_of k (snd (mem_check k limit now tag rl))) =
      filter_mset (\<lambda>t. now - windowDuration < t) (mset (stamps_of k rl))
      + (if fst (mem_check k limit now tag rl) then {#now#} else {#})"
proof -
  let ?c = "limiter_cleanup (fst tag) (snd tag) rl"
  define stamps where "stamps = filter (\<lambda>t. now - windowDuration < t) (stamps_of k rl)"
  have s: "filter (\<lambda>ts. ts > now - windowDuration) (timestamps (entry_of k now ?c)) = stamps"
    using cleanup_recent[OF wf ok] by (simp add: stamps_entry stamps_def)
  define rl' where "rl' = ?c\<lparr>rl_store := AList.update k
      \<lparr>timestamps = (if int (length stamps) \<ge> limit then stamps else stamps @ [now]), lastAccess = now\<rparr> (rl_store ?c)\<rparr>"
  have run: "mem_check k limit now tag rl = (\<not> int (length stamps) \<ge> limit, rl')"
    by (simp add: mem_check_def Check_def Let_def s rl'_def)
  have wfc: "wf_limiter ?c" using wf by (rule wf_cleanup)
  have past: "\<forall>t \<in> set stamps. t \<le> now"
  proof
    fix t assume "t \<in> set stamps"
    then have "t \<in> set (stamps_of k rl)" by (simp add: stamps_def)
    then obtain e where "(k, e) \<in> set (rl_store rl)" "t \<in> set (timestamps e)"
      by (cases "map_of (rl_store rl) k") (auto simp: stamps_of_def dest: map_of_SomeD)
    with wf ok show "t \<le> now" by (fastforce simp: wf_limiter_def no_eviction_def)
  qed
  have up: "set (AList.update k v al) \<subseteq> {(k, v)} \<union> set al" for v and al :: "(string \<times> rateLimitEntry) list"
    by (induction al) auto
  have "wf_limiter rl'"
    unfolding wf_limiter_def
  proof (intro conjI)
    show "distinct (map fst (rl_store rl'))"
      using wfc by (simp add: rl'_def wf_limiter_def distinct_update)
    have old: "\<forall>x \<in> set (rl_store ?c). \<forall>t \<in> set (timestamps (snd x)). t \<le> lastAccess (snd x)"
      using wfc by (auto simp: wf_limiter_def)
    have "\<forall>t \<in> set (timestamps (snd x)). t \<le> lastAccess (snd x)" if "x \<in> set (rl_store rl')" for x
    proof -
      from that have "x = (k, \<lparr>timestamps = (if int (length stamps) \<ge> limit then stamps else stamps @ [now]),
          lastAccess = now\<rparr>) \<or> x \<in> set (rl_store ?c)"
        using up[THEN subsetD] unfolding rl'_def by fastforce
      then show ?thesis using old past by (auto split: if_splits)
    qed
    then show "\<forall>(k, e) \<in> set (rl_store rl'). \<forall>t \<in> set (timestamps e). t \<le> lastAccess e" by auto
  qed
  then show "wf_limiter (snd (mem_check k limit now tag rl))" by (simp add: run)
  show "fst (mem_check k limit now tag rl) \<longleftrightarrow>
      int (length (filter (\<lambda>t. now - windowDuration < t) (stamps_of k rl))) < limit"
    by (auto simp: run stamps_def)
  have "stamps_of k rl' = (if int (length stamps) \<ge> limit then stamps else stamps @ [now])"
    by (simp add: rl'_def stamps_of_def update_conv')
  then show "mset (stamps_of k (snd (mem_check k limit now tag rl))) =
      filter_mset (\<lambda>t. now - windowDuration < t) (mset (stamps_of k rl))
      + (if fst (mem_check k limit now tag rl) then {#now#} else {#})"
    by (simp add: run stamps_def)
qed

interpretation mem: limiter windowDuration wf_limiter "stamps_of k" no_eviction "mem_check k"
  by unfold_locales (use mem_check_result in blast)+

text \<open>
  C31. The in-memory limiter bounds every minute: in any run of requests of an account in
  order of time against a new limiter, at most \<open>limit\<close> are allowed in any interval of one minute, as
  long as the store never has to evict live entries; expired entries are dropped without effect.
\<close>

theorem memory_window_bound:
  assumes "0 \<le> limit" "mem.run_ok k limit rs (NewRateLimiter t0)" "sorted (map fst rs)"
  shows "int (length (filter (\<lambda>x. t - minute < x \<and> x \<le> t) (mem.run k limit rs (NewRateLimiter t0)))) \<le> limit"
  using mem.window_bound[of limit "NewRateLimiter t0" k rs t] assms
  by (simp add: NewRateLimiter_def wf_limiter_def stamps_of_def script.in_window_def[abs_def] windowDuration_def)

theorem memory_window_bound_witness:
  "int (length (filter (\<lambda>x. 160 - minute < x \<and> x \<le> 160)
     (mem.run ''a'' 1 [(150, (150, [''a''])), (160, (155, []))] (NewRateLimiter 100)))) \<le> 1"
  by (rule memory_window_bound)
     (simp_all add: mem_check_def Check_def limiter_cleanup_def NewRateLimiter_def no_eviction_def
        drop_stale_def Let_def cleanupInterval_def minute_def second_def entry_of_def
        windowDuration_def entryTTL_def maxEntries_def)

text \<open>
  Requests of one account do not count against another: a check for an account leaves
  what is on record of every other account as it was, except for times that left the window.
\<close>

theorem memory_isolation:
  assumes "wf_limiter rl" and "no_eviction rl tag now" and "k \<noteq> k'"
  shows "filter (\<lambda>t. now - windowDuration < t) (stamps_of k (snd (mem_check k' limit now tag rl))) =
         filter (\<lambda>t. now - windowDuration < t) (stamps_of k rl)"
proof -
  have "stamps_of k (snd (mem_check k' limit now tag rl)) =
      stamps_of k (limiter_cleanup (fst tag) (snd tag) rl)"
    using assms(3) by (auto simp: mem_check_def Check_def Let_def stamps_of_def update_conv')
  with cleanup_recent[OF assms(1,2)] show ?thesis by simp
qed

theorem memory_isolation_witness:
  "filter (\<lambda>t. 200 - windowDuration < t) (stamps_of ''b'' (snd (mem_check ''a'' 1 200 (200, [])
      \<lparr>rl_store = [(''b'', \<lparr>timestamps = [150], lastAccess = 150\<rparr>)], rl_lastCleanup = 0\<rparr>))) =
   filter (\<lambda>t. 200 - windowDuration < t) (stamps_of ''b''
      \<lparr>rl_store = [(''b'', \<lparr>timestamps = [150], lastAccess = 150\<rparr>)], rl_lastCleanup = 0\<rparr>)"
  by (rule memory_isolation)
     (simp_all add: wf_limiter_def no_eviction_def drop_stale_def maxEntries_def)

end
