(* ===== verification/Middleware.thy ===== *)
theory Middleware
  imports Services MemLimiter
begin

text \<open>
  internal/middleware and the client address of internal/audit: what a request passes through
  before its handler. A middleware takes the next handler and the request. A request carries what
  net/http and the router parsed, and the values the middlewares put into its context.
\<close>

section \<open>Requests and handlers\<close>

record request =
  rq_Query :: "(string \<times> string) list"
  rq_Headers :: "(string \<times> string) list"
  rq_Params :: "(string \<times> string) list"
  rq_RemoteAddr :: string
  rq_ContentLength :: int
  rq_Body :: string
  rq_MaxBytes :: "int option"
  rq_Flusher :: bool
  rq_Account :: "Account option"
  rq_Session :: "Session option"
  rq_KakaoBody :: "json option"

text \<open>
  What a handler does to the connection: a JSON response, a page of text, or an event stream for a
  client.
\<close>

datatype outcome =
    Response "json response"
  | Page "string response"
  | Stream "(string \<times> string) list" nat

type_synonym handler = "request \<Rightarrow> (world, outcome) state"

text \<open>url.Values.Get, http.Header.Get and chi.URLParam: the first value, empty when absent.\<close>

definition get_value :: "string \<Rightarrow> (string \<times> string) list \<Rightarrow> string" where
  "get_value k vs = (case map_of vs k of None \<Rightarrow> [] | Some v \<Rightarrow> v)"

definition respond :: "int \<Rightarrow> json \<Rightarrow> (world, outcome) state" where
  "respond st data = State_Monad.return (Response (WriteJSON st data))"

definition respond_error :: "int \<Rightarrow> string \<Rightarrow> (world, outcome) state" where
  "respond_error st msg = respond st (json_error msg)"

fun add_headers :: "(string \<times> string) list \<Rightarrow> outcome \<Rightarrow> outcome" where
  "add_headers hs (Response resp) = Response (resp\<lparr>headers := hs @ headers resp\<rparr>)"
| "add_headers hs (Page resp) = Page (resp\<lparr>headers := hs @ headers resp\<rparr>)"
| "add_headers hs (Stream hs' c) = Stream (hs @ hs') c"

text \<open>
  Reading the whole body, or decoding the first JSON value in it, behind a MaxBytesReader: a read
  past the limit is an error.
\<close>

definition read_body :: "request \<Rightarrow> string option" where
  "read_body r =
     (case rq_MaxBytes r of
        None \<Rightarrow> Some (rq_Body r)
      | Some n \<Rightarrow> if int (length (rq_Body r)) > n then None else Some (rq_Body r))"

definition decode_body :: "env \<Rightarrow> request \<Rightarrow> json option" where
  "decode_body e r =
     json_first e (case rq_MaxBytes r of None \<Rightarrow> rq_Body r | Some n \<Rightarrow> take (nat n) (rq_Body r))"


section \<open>Authentication (internal/middleware/auth.go)\<close>

definition extractToken :: "request \<Rightarrow> string" where
  "extractToken r =
     (let token = get_value ''token'' (rq_Query r)
      in if token \<noteq> [] then token
         else let authHeader = get_value ''Authorization'' (rq_Headers r)
              in if HasPrefix authHeader ''Bearer '' then drop 7 authHeader else [])"

definition Auth_Handler :: "handler \<Rightarrow> handler" where
  "Auth_Handler next_handler r =
     (let token = extractToken r
      in if token = [] then respond_error 401 ''Missing authentication token''
         else do {
           let tokenHash = HashToken token;
           found \<leftarrow> sessionRepo_FindByTokenHash tokenHash;
           case found of
             Inl err \<Rightarrow> respond_error 500 ''Authentication failed''
           | Inr None \<Rightarrow> respond_error 401 ''Invalid token''
           | Inr (Some session) \<Rightarrow> do {
               account \<leftarrow>
                 (case (ses_Status session = SessionStatusPaired, ses_AccountID session) of
                    (True, Some accountID) \<Rightarrow> do {
                      linked \<leftarrow> accountRepo_FindByID accountID;
                      State_Monad.return (case linked of Inl err \<Rightarrow> None | Inr a \<Rightarrow> a)
                    }
                  | _ \<Rightarrow> State_Monad.return None);
               next_handler (r\<lparr>rq_Session := Some session,
                 rq_Account := (case account of None \<Rightarrow> rq_Account r | Some a \<Rightarrow> Some a)\<rparr>)
             }
         })"


section \<open>Webhook signatures (internal/middleware/kakao.go)\<close>

definition KakaoSignature_Handler :: "string \<Rightarrow> handler \<Rightarrow> handler" where
  "KakaoSignature_Handler secret next_handler r =
     (if secret = [] then next_handler r
      else let signature = get_value ''X-Kakao-Signature'' (rq_Headers r)
      in if signature = [] then respond_error 401 ''Missing signature''
      else (case read_body r of
              None \<Rightarrow> respond_error 500 ''Failed to read request body''
            | Some bd \<Rightarrow>
                (let computed = HmacSHA256 secret bd
                 in if \<not> ConstantTimeEqual computed signature
                    then respond_error 401 ''Invalid signature''
                    else do {
                      e \<leftarrow> gets wenv;
                      case json_whole e bd of
                        None \<Rightarrow> respond_error 400 ''Invalid JSON body''
                      | Some parsed \<Rightarrow>
                          next_handler (r\<lparr>rq_Body := bd, rq_MaxBytes := None, rq_KakaoBody := Some parsed\<rparr>)
                    })))"


section \<open>Body size (internal/middleware/bodylimit.go)\<close>

definition DefaultMaxBodySize :: int where "DefaultMaxBodySize = 1048576"

definition body_limit :: "int \<Rightarrow> int" where
  "body_limit maxSize = (if maxSize \<le> 0 then DefaultMaxBodySize else maxSize)"

definition BodyLimit_Handler :: "int \<Rightarrow> handler \<Rightarrow> handler" where
  "BodyLimit_Handler maxSize next_handler r =
     (if rq_ContentLength r > body_limit maxSize
      then respond_error 413 ''Request body too large''
      else next_handler (r\<lparr>rq_MaxBytes := Some (body_limit maxSize)\<rparr>))"


section \<open>Rate limits (ratelimit_redis.go, ratelimit.go, ip_ratelimit.go)\<close>

definition DefaultRateLimitPerMin :: int where "DefaultRateLimitPerMin = 60"

definition rateLimitWindow :: time where "rateLimitWindow = 60 * second"

definition RedisRateLimiter_Check :: "string \<Rightarrow> int \<Rightarrow> (world, bool \<times> int \<times> int) state" where
  "RedisRateLimiter_Check accountID limit = do {
     t \<leftarrow> time_now;
     let now = Unix t;
     let key = ''ratelimit:'' @ accountID;
     let window = rateLimitWindow div second;
     r \<leftarrow> run_script (\<lambda>rnd at. rateLimitScript now window limit rnd at) key;
     case r of
       Inl err \<Rightarrow> State_Monad.return (False, 0, now + window)
     | Inr reply \<Rightarrow>
         if length reply \<noteq> 3 then State_Monad.return (False, 0, now + window)
         else State_Monad.return (reply ! 0 = 1, reply ! 1, reply ! 2)
   }"

definition effective_limit :: "Account \<Rightarrow> int" where
  "effective_limit account =
     (if acc_RateLimitPerMin account \<le> 0 then DefaultRateLimitPerMin else acc_RateLimitPerMin account)"

definition limit_headers :: "int \<Rightarrow> int \<Rightarrow> int \<Rightarrow> (string \<times> string) list" where
  "limit_headers limit remaining resetAt =
     [(''X-RateLimit-Limit'', Itoa limit), (''X-RateLimit-Remaining'', Itoa remaining),
      (''X-RateLimit-Reset'', Itoa resetAt)]"

definition RateLimit_Handler ::
  "(string \<Rightarrow> int \<Rightarrow> (world, bool \<times> int \<times> int) state) \<Rightarrow> handler \<Rightarrow> handler" where
  "RateLimit_Handler check next_handler r =
     (case rq_Account r of
        None \<Rightarrow> next_handler r
      | Some account \<Rightarrow> do {
          let limit = effective_limit account;
          (allowed, remaining, resetAt) \<leftarrow> check (acc_ID account) limit;
          let hs = limit_headers limit remaining resetAt;
          if \<not> allowed
          then do {
            out \<leftarrow> respond_error 429 ''Rate limit exceeded'';
            State_Monad.return (add_headers (hs @ [(''Retry-After'', ''60'')]) out)
          }
          else do {
            out \<leftarrow> next_handler r;
            State_Monad.return (add_headers hs out)
          }
        })"

definition RedisRateLimit_Handler :: "handler \<Rightarrow> handler" where
  "RedisRateLimit_Handler = RateLimit_Handler RedisRateLimiter_Check"

text \<open>net.SplitHostPort: the host, or an error.\<close>

definition SplitHost :: "string \<Rightarrow> string option" where
  "SplitHost hostport =
     (case rcut (CHR '':'') hostport of
        None \<Rightarrow> None
      | Some (before, port) \<Rightarrow>
          if HasPrefix hostport ''['' then
            (case cut (CHR '']'') hostport of
               (a, Some b) \<Rightarrow>
                 if b = CHR '':'' # port \<and> CHR ''['' \<notin> set (tl hostport) \<and> CHR '']'' \<notin> set port
                 then Some (tl a) else None
             | (a, None) \<Rightarrow> None)
          else if CHR '':'' \<in> set before \<or> CHR ''['' \<in> set hostport \<or> CHR '']'' \<in> set hostport then None
          else Some before)"

text \<open>The conversion of a duration to whole seconds truncates.\<close>

definition trunc_seconds :: "time \<Rightarrow> int" where
  "trunc_seconds d = (if d \<ge> 0 then d div second else - ((- d) div second))"

definition IPRateLimit_Handler :: "int \<Rightarrow> time \<Rightarrow> string \<Rightarrow> handler \<Rightarrow> handler" where
  "IPRateLimit_Handler limit window prefix next_handler r =
     (let ip = (case SplitHost (rq_RemoteAddr r) of Some host \<Rightarrow> host | None \<Rightarrow> rq_RemoteAddr r);
          key = ''ip:'' @ prefix @ '':'' @ ip
      in do {
        (allowed, resetAt) \<leftarrow> CheckLimit key limit window;
        if \<not> allowed then do {
          now \<leftarrow> time_now;
          let secondsLeft = trunc_seconds (resetAt - now) + 1;
          out \<leftarrow> respond_error 429 ''Too many requests. Please try again later.'';
          State_Monad.return (add_headers [(''Retry-After'', Itoa secondsLeft)] out)
        }
        else next_handler r
      })"

text \<open>getClientIP of internal/audit/logger.go.\<close>

definition getClientIP :: "request \<Rightarrow> string" where
  "getClientIP r =
     (if get_value ''X-Forwarded-For'' (rq_Headers r) \<noteq> [] then get_value ''X-Forwarded-For'' (rq_Headers r)
      else if get_value ''X-Real-IP'' (rq_Headers r) \<noteq> [] then get_value ''X-Real-IP'' (rq_Headers r)
      else rq_RemoteAddr r)"


section \<open>Effects\<close>

lemma respond_eff [good_intros, outgoing_intros]:
  "state_io_rel good (respond st data)" "state_io_rel outgoing (respond st data)"
  "state_io_rel good (respond_error st msg)" "state_io_rel outgoing (respond_error st msg)"
  unfolding respond_def respond_error_def
  by (auto intro!: good.eff_rules) (auto intro!: outgoing.eff_rules)

lemma run_respond [run_simps, simp]:
  "run_state (respond st data) w = (Response (WriteJSON st data), w)"
  "run_state (respond_error st msg) w = (Response (WriteJSON st (json_error msg)), w)"
  by (simp_all add: respond_def respond_error_def)

lemma RedisCheck_eff [good_intros, outgoing_intros]:
  "state_io_rel good (RedisRateLimiter_Check a limit)" "state_io_rel outgoing (RedisRateLimiter_Check a limit)"
  unfolding RedisRateLimiter_Check_def Let_def
  by (auto intro!: good.eff_rules good_intros) (auto intro!: outgoing.eff_rules outgoing_intros)

text \<open>A middleware has a good effect when the next handler has.\<close>

lemma middleware_good [good_intros]:
  assumes "\<And>r. state_io_rel good (h r)"
  shows "state_io_rel good (Auth_Handler h r)"
    and "state_io_rel good (KakaoSignature_Handler secret h r)"
    and "state_io_rel good (BodyLimit_Handler n h r)"
    and "state_io_rel good (RedisRateLimit_Handler h r)"
    and "state_io_rel good (IPRateLimit_Handler limit window prefix h r)"
  unfolding Auth_Handler_def KakaoSignature_Handler_def BodyLimit_Handler_def RedisRateLimit_Handler_def
    RateLimit_Handler_def IPRateLimit_Handler_def Let_def
  by (auto intro!: good.eff_rules good_intros assms split: option.split bool.split)

lemma middleware_outgoing [outgoing_intros]:
  assumes "\<And>r. state_io_rel outgoing (h r)"
  shows "state_io_rel outgoing (Auth_Handler h r)"
    and "state_io_rel outgoing (KakaoSignature_Handler secret h r)"
    and "state_io_rel outgoing (BodyLimit_Handler n h r)"
    and "state_io_rel outgoing (RedisRateLimit_Handler h r)"
    and "state_io_rel outgoing (IPRateLimit_Handler limit window prefix h r)"
  unfolding Auth_Handler_def KakaoSignature_Handler_def BodyLimit_Handler_def RedisRateLimit_Handler_def
    RateLimit_Handler_def IPRateLimit_Handler_def Let_def
  by (auto intro!: outgoing.eff_rules outgoing_intros assms split: option.split bool.split)

end
