(* ===== verification/KakaoTypes.thy ===== *)
theory KakaoTypes
  imports GoLib
begin

text \<open>
  internal/handler/kakao_types.go: the request and response types of the Kakao webhook, and what
  encoding/json makes of them. Decoding follows the package: a member goes to the field of its name
  (or, failing that, of its name up to case), later members overwrite or merge, null leaves a value
  alone, a value of the wrong type is an error (\<^const>\<open>None\<close>), unknown members are ignored.
\<close>

section \<open>Go maps with string keys\<close>

text \<open>A map is kept as the list of its entries by ascending key, the order json.Marshal writes.\<close>

fun str_less :: "string \<Rightarrow> string \<Rightarrow> bool" where
  "str_less s [] = False"
| "str_less [] (c # t) = True"
| "str_less (a # s) (c # t) = (byte a < byte c \<or> (a = c \<and> str_less s t))"

fun map_put :: "string \<Rightarrow> 'v \<Rightarrow> (string \<times> 'v) list \<Rightarrow> (string \<times> 'v) list" where
  "map_put k v [] = [(k, v)]"
| "map_put k v ((k', v') # m) =
     (if k = k' then (k, v) # m
      else if str_less k k' then (k, v) # (k', v') # m
      else (k', v') # map_put k v m)"

text \<open>json.Unmarshal into a value of type any, followed by json.Marshal.\<close>

fun any_json :: "json \<Rightarrow> json"
  and any_members :: "(string \<times> json) list \<Rightarrow> (string \<times> json) list \<Rightarrow> (string \<times> json) list"
  and any_list :: "json list \<Rightarrow> json list"
where
  "any_json JNull = JNull"
| "any_json (JBool b) = JBool b"
| "any_json (JInt i) = JInt i"
| "any_json (JStr s) = JStr s"
| "any_json (JArr xs) = JArr (any_list xs)"
| "any_json (JObj ms) = JObj (any_members ms [])"
| "any_members [] acc = acc"
| "any_members ((k, v) # ms) acc = any_members ms (map_put k (any_json v) acc)"
| "any_list [] = []"
| "any_list (x # xs) = any_json x # any_list xs"

lemma map_of_map_put: "map_of (map_put k v m) = (map_of m)(k \<mapsto> v)"
  by (induction m) (auto simp: fun_eq_iff)


section \<open>Decoding structs\<close>

text \<open>
  The case folding of field names: the letters of ASCII, and the two other characters that fold to
  one of them (long s and the Kelvin sign).
\<close>

fun fold_name :: "string \<Rightarrow> string" where
  "fold_name [] = []"
| "fold_name [c] = [upper_char c]"
| "fold_name [c, d] = (if c = CHR 0xC5 \<and> d = CHR 0xBF then ''S'' else [upper_char c, upper_char d])"
| "fold_name (c # d # e # s) =
     (if c = CHR 0xC5 \<and> d = CHR 0xBF then CHR ''S'' # fold_name (e # s)
      else if c = CHR 0xE2 \<and> d = CHR 0x84 \<and> e = CHR 0xAA then CHR ''K'' # fold_name s
      else upper_char c # fold_name (d # e # s))"

type_synonym 'a decoder = "json \<Rightarrow> 'a \<Rightarrow> 'a option"

definition find_field :: "(string \<times> 'a decoder) list \<Rightarrow> string \<Rightarrow> 'a decoder option" where
  "find_field fields k =
     (case map_of fields k of
        Some d \<Rightarrow> Some d
      | None \<Rightarrow> map_option snd (List.find (\<lambda>(n, _). fold_name n = fold_name k) fields))"

fun decode_members :: "(string \<times> 'a decoder) list \<Rightarrow> (string \<times> json) list \<Rightarrow> 'a \<Rightarrow> 'a option" where
  "decode_members fields [] a = Some a"
| "decode_members fields ((k, v) # ms) a =
     (case find_field fields k of
        None \<Rightarrow> decode_members fields ms a
      | Some d \<Rightarrow> (case d v a of None \<Rightarrow> None | Some a' \<Rightarrow> decode_members fields ms a'))"

definition decode_struct :: "(string \<times> 'a decoder) list \<Rightarrow> 'a decoder" where
  "decode_struct fields j a =
     (case j of
        JNull \<Rightarrow> Some a
      | JObj ms \<Rightarrow> decode_members fields ms a
      | _ \<Rightarrow> None)"

definition decode_string :: "string decoder" where
  "decode_string j s = (case j of JNull \<Rightarrow> Some s | JStr x \<Rightarrow> Some x | _ \<Rightarrow> None)"

definition decode_ptr :: "'a \<Rightarrow> 'a decoder \<Rightarrow> 'a option decoder" where
  "decode_ptr zero d j p =
     (case j of
        JNull \<Rightarrow> Some None
      | _ \<Rightarrow> map_option Some (d j (case p of None \<Rightarrow> zero | Some x \<Rightarrow> x)))"

fun put_strings :: "(string \<times> json) list \<Rightarrow> (string \<times> string) list \<Rightarrow> (string \<times> string) list option" where
  "put_strings [] m = Some m"
| "put_strings ((k, v) # ms) m =
     (case decode_string v [] of None \<Rightarrow> None | Some s \<Rightarrow> put_strings ms (map_put k s m))"

definition decode_string_map :: "(string \<times> string) list option decoder" where
  "decode_string_map j p =
     (case j of
        JNull \<Rightarrow> Some None
      | JObj ms \<Rightarrow> map_option Some (put_strings ms (case p of None \<Rightarrow> [] | Some m \<Rightarrow> m))
      | _ \<Rightarrow> None)"

definition decode_any_map :: "(string \<times> json) list option decoder" where
  "decode_any_map j p =
     (case j of
        JNull \<Rightarrow> Some None
      | JObj ms \<Rightarrow> Some (Some (any_members ms (case p of None \<Rightarrow> [] | Some m \<Rightarrow> m)))
      | _ \<Rightarrow> None)"

definition decode_any_list :: "json list option decoder" where
  "decode_any_list j p =
     (case j of
        JNull \<Rightarrow> Some None
      | JArr xs \<Rightarrow> Some (Some (any_list xs))
      | _ \<Rightarrow> None)"

text \<open>The decoder of a field: decode onto the old value, store the new one.\<close>

definition field :: "('a \<Rightarrow> 'f) \<Rightarrow> ('f \<Rightarrow> 'a \<Rightarrow> 'a) \<Rightarrow> 'f decoder \<Rightarrow> 'a decoder" where
  "field get put d j a = map_option (\<lambda>x. put x a) (d j (get a))"


section \<open>Webhook requests\<close>

record KakaoUser =
  ku_ID :: string
  ku_Type :: string
  ku_Properties :: "(string \<times> json) list option"

record KakaoBlock =
  kb_ID :: string
  kb_Name :: string

record KakaoUserRequest =
  kr_User :: KakaoUser
  kr_Utterance :: string
  kr_CallbackURL :: string
  kr_Params :: "(string \<times> string) list option"
  kr_Block :: "KakaoBlock option"

record KakaoBot =
  bot_ID :: string
  bot_Name :: string

record KakaoIntent =
  ki_ID :: string
  ki_Name :: string

record KakaoAction =
  ka_ID :: string
  ka_Name :: string
  ka_Params :: "(string \<times> string) list option"
  ka_DetailParams :: "(string \<times> json) list option"
  ka_ClientExtra :: "(string \<times> json) list option"

record KakaoWebhookRequest =
  kw_UserRequest :: KakaoUserRequest
  kw_Bot :: "KakaoBot option"
  kw_Intent :: "KakaoIntent option"
  kw_Action :: "KakaoAction option"
  kw_Contexts :: "json list option"

definition zero_user :: KakaoUser where
  "zero_user = \<lparr>ku_ID = [], ku_Type = [], ku_Properties = None\<rparr>"

definition zero_webhook :: KakaoWebhookRequest where
  "zero_webhook =
     \<lparr>kw_UserRequest = \<lparr>kr_User = zero_user, kr_Utterance = [], kr_CallbackURL = [], kr_Params = None,
                        kr_Block = None\<rparr>,
      kw_Bot = None, kw_Intent = None, kw_Action = None, kw_Contexts = None\<rparr>"

definition decode_user :: "KakaoUser decoder" where
  "decode_user = decode_struct
     [(''id'', field ku_ID (\<lambda>x a. a\<lparr>ku_ID := x\<rparr>) decode_string),
      (''type'', field ku_Type (\<lambda>x a. a\<lparr>ku_Type := x\<rparr>) decode_string),
      (''properties'', field ku_Properties (\<lambda>x a. a\<lparr>ku_Properties := x\<rparr>) decode_any_map)]"

definition decode_block :: "KakaoBlock decoder" where
  "decode_block = decode_struct
     [(''id'', field kb_ID (\<lambda>x a. a\<lparr>kb_ID := x\<rparr>) decode_string),
      (''name'', field kb_Name (\<lambda>x a. a\<lparr>kb_Name := x\<rparr>) decode_string)]"

definition decode_user_request :: "KakaoUserRequest decoder" where
  "decode_user_request = decode_struct
     [(''user'', field kr_User (\<lambda>x a. a\<lparr>kr_User := x\<rparr>) decode_user),
      (''utterance'', field kr_Utterance (\<lambda>x a. a\<lparr>kr_Utterance := x\<rparr>) decode_string),
      (''callbackUrl'', field kr_CallbackURL (\<lambda>x a. a\<lparr>kr_CallbackURL := x\<rparr>) decode_string),
      (''params'', field kr_Params (\<lambda>x a. a\<lparr>kr_Params := x\<rparr>) decode_string_map),
      (''block'', field kr_Block (\<lambda>x a. a\<lparr>kr_Block := x\<rparr>)
         (decode_ptr \<lparr>kb_ID = [], kb_Name = []\<rparr> decode_block))]"

definition decode_bot :: "KakaoBot decoder" where
  "decode_bot = decode_struct
     [(''id'', field bot_ID (\<lambda>x a. a\<lparr>bot_ID := x\<rparr>) decode_string),
      (''name'', field bot_Name (\<lambda>x a. a\<lparr>bot_Name := x\<rparr>) decode_string)]"

definition decode_intent :: "KakaoIntent decoder" where
  "decode_intent = decode_struct
     [(''id'', field ki_ID (\<lambda>x a. a\<lparr>ki_ID := x\<rparr>) decode_string),
      (''name'', field ki_Name (\<lambda>x a. a\<lparr>ki_Name := x\<rparr>) decode_string)]"

definition decode_action :: "KakaoAction decoder" where
  "decode_action = decode_struct
     [(''id'', field ka_ID (\<lambda>x a. a\<lparr>ka_ID := x\<rparr>) decode_string),
      (''name'', field ka_Name (\<lambda>x a. a\<lparr>ka_Name := x\<rparr>) decode_string),
      (''params'', field ka_Params (\<lambda>x a. a\<lparr>ka_Params := x\<rparr>) decode_string_map),
      (''detailParams'', field ka_DetailParams (\<lambda>x a. a\<lparr>ka_DetailParams := x\<rparr>) decode_any_map),
      (''clientExtra'', field ka_ClientExtra (\<lambda>x a. a\<lparr>ka_ClientExtra := x\<rparr>) decode_any_map)]"

definition decode_webhook :: "json \<Rightarrow> KakaoWebhookRequest option" where
  "decode_webhook j = decode_struct
     [(''userRequest'', field kw_UserRequest (\<lambda>x a. a\<lparr>kw_UserRequest := x\<rparr>) decode_user_request),
      (''bot'', field kw_Bot (\<lambda>x a. a\<lparr>kw_Bot := x\<rparr>) (decode_ptr \<lparr>bot_ID = [], bot_Name = []\<rparr> decode_bot)),
      (''intent'', field kw_Intent (\<lambda>x a. a\<lparr>kw_Intent := x\<rparr>)
         (decode_ptr \<lparr>ki_ID = [], ki_Name = []\<rparr> decode_intent)),
      (''action'', field kw_Action (\<lambda>x a. a\<lparr>kw_Action := x\<rparr>)
         (decode_ptr \<lparr>ka_ID = [], ka_Name = [], ka_Params = None, ka_DetailParams = None,
            ka_ClientExtra = None\<rparr> decode_action)),
      (''contexts'', field kw_Contexts (\<lambda>x a. a\<lparr>kw_Contexts := x\<rparr>) decode_any_list)]
     j zero_webhook"

definition GetPlusfriendUserKey :: "KakaoWebhookRequest \<Rightarrow> string" where
  "GetPlusfriendUserKey r =
     (let user = kr_User (kw_UserRequest r)
      in case ku_Properties user of
           None \<Rightarrow> ku_ID user
         | Some props \<Rightarrow>
             (case map_of props ''plusfriendUserKey'' of
                Some (JStr key) \<Rightarrow> key
              | _ \<Rightarrow> ku_ID user))"

definition GetChannelID :: "KakaoWebhookRequest \<Rightarrow> string" where
  "GetChannelID r =
     (case kw_Bot r of
        Some b \<Rightarrow> if bot_ID b \<noteq> [] then bot_ID b else ''default''
      | None \<Rightarrow> ''default'')"


section \<open>Encoding\<close>

text \<open>A member that is left out when its value is empty (omitempty).\<close>

definition omit_string :: "string \<Rightarrow> string \<Rightarrow> (string \<times> json) list" where
  "omit_string k s = (if s = [] then [] else [(k, JStr s)])"

definition string_map :: "(string \<times> string) list \<Rightarrow> json" where
  "string_map m = JObj (map (\<lambda>(k, v). (k, JStr v)) m)"

definition omit_string_map :: "string \<Rightarrow> (string \<times> string) list option \<Rightarrow> (string \<times> json) list" where
  "omit_string_map k p = (case p of None \<Rightarrow> [] | Some m \<Rightarrow> if m = [] then [] else [(k, string_map m)])"

definition omit_any_map :: "string \<Rightarrow> (string \<times> json) list option \<Rightarrow> (string \<times> json) list" where
  "omit_any_map k p = (case p of None \<Rightarrow> [] | Some m \<Rightarrow> if m = [] then [] else [(k, JObj m)])"

definition omit_ptr :: "string \<Rightarrow> ('a \<Rightarrow> json) \<Rightarrow> 'a option \<Rightarrow> (string \<times> json) list" where
  "omit_ptr k enc p = (case p of None \<Rightarrow> [] | Some x \<Rightarrow> [(k, enc x)])"

definition encode_user :: "KakaoUser \<Rightarrow> json" where
  "encode_user u = JObj ([(''id'', JStr (ku_ID u))] @ omit_string ''type'' (ku_Type u)
     @ omit_any_map ''properties'' (ku_Properties u))"

definition encode_block :: "KakaoBlock \<Rightarrow> json" where
  "encode_block b = JObj [(''id'', JStr (kb_ID b)), (''name'', JStr (kb_Name b))]"

definition encode_user_request :: "KakaoUserRequest \<Rightarrow> json" where
  "encode_user_request r = JObj ([(''user'', encode_user (kr_User r)), (''utterance'', JStr (kr_Utterance r))]
     @ omit_string ''callbackUrl'' (kr_CallbackURL r) @ omit_string_map ''params'' (kr_Params r)
     @ omit_ptr ''block'' encode_block (kr_Block r))"

definition encode_bot :: "KakaoBot \<Rightarrow> json" where
  "encode_bot b = JObj ([(''id'', JStr (bot_ID b))] @ omit_string ''name'' (bot_Name b))"

definition encode_intent :: "KakaoIntent \<Rightarrow> json" where
  "encode_intent i = JObj [(''id'', JStr (ki_ID i)), (''name'', JStr (ki_Name i))]"

definition encode_action :: "KakaoAction \<Rightarrow> json" where
  "encode_action a = JObj ([(''id'', JStr (ka_ID a)), (''name'', JStr (ka_Name a))]
     @ omit_string_map ''params'' (ka_Params a) @ omit_any_map ''detailParams'' (ka_DetailParams a)
     @ omit_any_map ''clientExtra'' (ka_ClientExtra a))"

definition ToJSON :: "KakaoWebhookRequest \<Rightarrow> json" where
  "ToJSON r = JObj ([(''userRequest'', encode_user_request (kw_UserRequest r))]
     @ omit_ptr ''bot'' encode_bot (kw_Bot r) @ omit_ptr ''intent'' encode_intent (kw_Intent r)
     @ omit_ptr ''action'' encode_action (kw_Action r)
     @ (case kw_Contexts r of None \<Rightarrow> [] | Some xs \<Rightarrow> if xs = [] then [] else [(''contexts'', JArr xs)]))"


section \<open>Responses\<close>

record KakaoSimpleImage =
  si_ImageURL :: string
  si_AltText :: string

record KakaoOutput =
  ko_SimpleText :: "string option"
  ko_SimpleImage :: "KakaoSimpleImage option"

record KakaoQuickReply =
  kq_Label :: string
  kq_Action :: string
  kq_MessageText :: string

record KakaoTemplate =
  kt_Outputs :: "KakaoOutput list"
  kt_QuickReplies :: "KakaoQuickReply list"

record KakaoContextValue =
  kc_Name :: string
  kc_LifeSpan :: int
  kc_Params :: "(string \<times> string) list option"

record KakaoResponse =
  ks_Version :: string
  ks_Template :: "KakaoTemplate option"
  ks_UseCallback :: bool
  ks_Context :: "KakaoContextValue list option"
  ks_Data :: "(string \<times> json) list option"

definition NewTextResponse :: "string \<Rightarrow> KakaoResponse" where
  "NewTextResponse text =
     \<lparr>ks_Version = ''2.0'',
      ks_Template = Some \<lparr>kt_Outputs = [\<lparr>ko_SimpleText = Some text, ko_SimpleImage = None\<rparr>],
                          kt_QuickReplies = []\<rparr>,
      ks_UseCallback = False, ks_Context = None, ks_Data = None\<rparr>"

definition NewCallbackResponse :: KakaoResponse where
  "NewCallbackResponse =
     \<lparr>ks_Version = ''2.0'', ks_Template = None, ks_UseCallback = True, ks_Context = None, ks_Data = None\<rparr>"

definition encode_output :: "KakaoOutput \<Rightarrow> json" where
  "encode_output out = JObj
     (omit_ptr ''simpleText'' (\<lambda>t. JObj [(''text'', JStr t)]) (ko_SimpleText out)
      @ omit_ptr ''simpleImage''
          (\<lambda>i. JObj ([(''imageUrl'', JStr (si_ImageURL i))] @ omit_string ''altText'' (si_AltText i)))
          (ko_SimpleImage out))"

definition encode_quick_reply :: "KakaoQuickReply \<Rightarrow> json" where
  "encode_quick_reply q = JObj
     ([(''label'', JStr (kq_Label q)), (''action'', JStr (kq_Action q))]
      @ omit_string ''messageText'' (kq_MessageText q))"

definition encode_template :: "KakaoTemplate \<Rightarrow> json" where
  "encode_template t = JObj
     ([(''outputs'', JArr (map encode_output (kt_Outputs t)))]
      @ (if kt_QuickReplies t = [] then []
         else [(''quickReplies'', JArr (map encode_quick_reply (kt_QuickReplies t)))]))"

definition encode_context_value :: "KakaoContextValue \<Rightarrow> json" where
  "encode_context_value v = JObj
     ([(''name'', JStr (kc_Name v)), (''lifeSpan'', JInt (kc_LifeSpan v))]
      @ omit_string_map ''params'' (kc_Params v))"

definition encode_response :: "KakaoResponse \<Rightarrow> json" where
  "encode_response r = JObj
     ([(''version'', JStr (ks_Version r))]
      @ omit_ptr ''template'' encode_template (ks_Template r)
      @ (if ks_UseCallback r then [(''useCallback'', JBool True)] else [])
      @ omit_ptr ''context'' (\<lambda>vs. JObj [(''values'', JArr (map encode_context_value vs))]) (ks_Context r)
      @ omit_any_map ''data'' (ks_Data r))"

end
