(* ===== verification/KakaoHandler.thy ===== *)
theory KakaoHandler
  imports Middleware KakaoTypes
begin

text \<open>
  internal/handler/kakao.go: the commands a user can send, and the webhook that either runs a
  command or queues the message for the paired account and publishes it.
\<close>

section \<open>Commands\<close>

record Command =
  cmd_Type :: string
  cmd_Code :: string

text \<open>\<open>tab\<close> is the Unicode case mapping behind strings.ToUpper.\<close>

definition parseCommand :: "(string \<Rightarrow> string) \<Rightarrow> string \<Rightarrow> Command option" where
  "parseCommand tab utterance =
     (let trimmed = TrimSpace utterance;
          code = ToUpper tab (TrimSpace (drop 6 trimmed))
      in if HasPrefix trimmed ''/pair '' \<and> code \<noteq> []
         then Some \<lparr>cmd_Type = ''PAIR'', cmd_Code = code\<rparr>
         else if trimmed = ''/unpair'' then Some \<lparr>cmd_Type = ''UNPAIR'', cmd_Code = []\<rparr>
         else if trimmed = ''/status'' then Some \<lparr>cmd_Type = ''STATUS'', cmd_Code = []\<rparr>
         else if trimmed = ''/help'' then Some \<lparr>cmd_Type = ''HELP'', cmd_Code = []\<rparr>
         else None)"

definition truncate :: "string \<Rightarrow> nat \<Rightarrow> string" where
  "truncate s maxLen = (if length s \<le> maxLen then s else take maxLen s @ ''...'')"


section \<open>Texts\<close>

text \<open>The Korean texts of the handler, by their code points.\<close>

definition text_not_paired :: string where
  "text_not_paired = utf8
    [79, 112, 101, 110, 67, 108, 97, 119, 0xc5d0, 32, 0xc5f0, 0xacb0, 0xb418, 0xc9c0, 32,
     0xc54a, 0xc558, 0xc2b5, 0xb2c8, 0xb2e4, 46, 10, 10, 0xc5f0, 0xacb0, 0xd558, 0xb824,
     0xba74, 32, 0xd398, 0xc5b4, 0xb9c1, 32, 0xcf54, 0xb4dc, 0xb97c, 32, 0xbc1b, 0xc740, 32,
     0xd6c4, 58, 10, 47, 112, 97, 105, 114, 32, 60, 0xcf54, 0xb4dc, 62, 10, 10, 0xb97c, 32,
     0xc785, 0xb825, 0xd574, 0xc8fc, 0xc138, 0xc694, 46, 10, 10, 0xb3c4, 0xc6c0, 0xb9d0, 58,
     32, 47, 104, 101, 108, 112]"

definition text_enter_code :: string where
  "text_enter_code = utf8
    [0xd398, 0xc5b4, 0xb9c1, 32, 0xcf54, 0xb4dc, 0xb97c, 32, 0xc785, 0xb825, 0xd574, 0xc8fc,
     0xc138, 0xc694, 46, 10, 10, 0xc608, 58, 32, 47, 112, 97, 105, 114, 32, 65, 66, 67, 68, 45,
     49, 50, 51, 52]"

definition text_already_paired :: string where
  "text_already_paired = utf8
    [0xc774, 0xbbf8, 32, 79, 112, 101, 110, 67, 108, 97, 119, 0xc5d0, 32, 0xc5f0, 0xacb0,
     0xb418, 0xc5b4, 32, 0xc788, 0xc2b5, 0xb2c8, 0xb2e4, 46, 10, 10, 0xb2e4, 0xb978, 32,
     0xbd07, 0xc5d0, 32, 0xc5f0, 0xacb0, 0xd558, 0xb824, 0xba74, 32, 0xba3c, 0xc800, 32, 47,
     117, 110, 112, 97, 105, 114, 32, 0xb85c, 32, 0xc5f0, 0xacb0, 0xc744, 32, 0xd574, 0xc81c,
     0xd558, 0xc138, 0xc694, 46]"

definition text_invalid_code :: string where
  "text_invalid_code = utf8
    [0x274c, 32, 0xc720, 0xd6a8, 0xd558, 0xc9c0, 32, 0xc54a, 0xc740, 32, 0xcf54, 0xb4dc,
     0xc785, 0xb2c8, 0xb2e4, 46, 10, 10, 0xcf54, 0xb4dc, 0xb97c, 32, 0xb2e4, 0xc2dc, 32,
     0xd655, 0xc778, 0xd574, 0xc8fc, 0xc138, 0xc694, 46]"

definition text_internal_error :: string where
  "text_internal_error = utf8
    [0x274c, 32, 0xc624, 0xb958, 0xac00, 32, 0xbc1c, 0xc0dd, 0xd588, 0xc2b5, 0xb2c8, 0xb2e4,
     46, 32, 0xb2e4, 0xc2dc, 32, 0xc2dc, 0xb3c4, 0xd574, 0xc8fc, 0xc138, 0xc694, 46]"

definition text_pairing_failed :: string where
  "text_pairing_failed = utf8
    [0xd398, 0xc5b4, 0xb9c1, 0xc5d0, 32, 0xc2e4, 0xd328, 0xd588, 0xc2b5, 0xb2c8, 0xb2e4, 46]"

definition text_paired :: string where
  "text_paired = utf8
    [0x2705, 32, 79, 112, 101, 110, 67, 108, 97, 119, 0xc5d0, 32, 0xc5f0, 0xacb0, 0xb418,
     0xc5c8, 0xc2b5, 0xb2c8, 0xb2e4, 33, 10, 10, 0xc774, 0xc81c, 32, 0xc790, 0xc720, 0xb86d,
     0xac8c, 32, 0xb300, 0xd654, 0xb97c, 32, 0xc2dc, 0xc791, 0xd558, 0xc138, 0xc694, 46]"

definition text_no_connection :: string where
  "text_no_connection = utf8
    [0xc5f0, 0xacb0, 0xb41c, 32, 79, 112, 101, 110, 67, 108, 97, 119, 0xac00, 32, 0xc5c6,
     0xc2b5, 0xb2c8, 0xb2e4, 46]"

definition text_unpair_failed :: string where
  "text_unpair_failed = utf8
    [0xc5f0, 0xacb0, 32, 0xd574, 0xc81c, 0xc5d0, 32, 0xc2e4, 0xd328, 0xd588, 0xc2b5, 0xb2c8,
     0xb2e4, 46, 32, 0xb2e4, 0xc2dc, 32, 0xc2dc, 0xb3c4, 0xd574, 0xc8fc, 0xc138, 0xc694, 46]"

definition text_unpaired :: string where
  "text_unpaired = utf8
    [0xc5f0, 0xacb0, 0xc774, 32, 0xd574, 0xc81c, 0xb418, 0xc5c8, 0xc2b5, 0xb2c8, 0xb2e4, 46,
     10, 10, 0xb2e4, 0xc2dc, 32, 0xc5f0, 0xacb0, 0xd558, 0xb824, 0xba74, 32, 47, 112, 97, 105,
     114, 32, 60, 0xcf54, 0xb4dc, 62, 0xb97c, 32, 0xc0ac, 0xc6a9, 0xd558, 0xc138, 0xc694, 46]"

definition text_unknown_time :: string where
  "text_unknown_time = utf8
    [0xc54c, 32, 0xc218, 32, 0xc5c6, 0xc74c]"

definition text_connected_since :: string where
  "text_connected_since = utf8
    [0x2705, 32, 0xc5f0, 0xacb0, 0xb428, 10, 10, 0xc5f0, 0xacb0, 32, 0xc2dc, 0xac04, 58, 32]"

definition text_stats_today :: string where
  "text_stats_today = utf8
    [0x2705, 32, 0xc5f0, 0xacb0, 0xb428, 10, 10, 0x1f4ca, 32, 0xc624, 0xb298, 32, 0xd1b5,
     0xacc4, 10, 0x2022, 32, 0xc218, 0xc2e0, 58, 32]"

definition text_stats_sent :: string where
  "text_stats_sent = utf8
    [0xac74, 10, 0x2022, 32, 0xbc1c, 0xc2e0, 58, 32]"

definition text_stats_failed :: string where
  "text_stats_failed = utf8
    [0xac74, 32, 40, 0xc2e4, 0xd328, 32]"

definition text_stats_total :: string where
  "text_stats_total = utf8
    [41, 10, 10, 0x1f4c8, 32, 0xc804, 0xccb4, 32, 0xd1b5, 0xacc4, 10, 0x2022, 32, 0xcd1d, 32,
     0xc218, 0xc2e0, 58, 32]"

definition text_stats_total_sent :: string where
  "text_stats_total_sent = utf8
    [0xac74, 10, 0x2022, 32, 0xcd1d, 32, 0xbc1c, 0xc2e0, 58, 32]"

definition text_stats_since :: string where
  "text_stats_since = utf8
    [0xac74, 10, 10, 0xc5f0, 0xacb0, 32, 0xc2dc, 0xac04, 58, 32]"

definition text_not_connected :: string where
  "text_not_connected = utf8
    [0x274c, 32, 0xc5f0, 0xacb0, 0xb418, 0xc9c0, 32, 0xc54a, 0xc74c, 10, 10, 47, 112, 97, 105,
     114, 32, 60, 0xcf54, 0xb4dc, 62, 0xb85c, 32, 0xc5f0, 0xacb0, 0xd558, 0xc138, 0xc694, 46]"

definition text_help :: string where
  "text_help = utf8
    [0x1f4d6, 32, 0xb3c4, 0xc6c0, 0xb9d0, 10, 10, 0xc774, 32, 0xbd07, 0xc740, 32, 79, 112, 101,
     110, 67, 108, 97, 119, 32, 65, 73, 32, 0xc5d0, 0xc774, 0xc804, 0xd2b8, 0xc640, 32, 0xc5f0,
     0xacb0, 0xd558, 0xb294, 32, 0xc911, 0xacc4, 32, 0xc11c, 0xbe44, 0xc2a4, 0xc785, 0xb2c8,
     0xb2e4, 46, 10, 10, 0xba85, 0xb839, 0xc5b4, 58, 10, 0x2022, 32, 47, 112, 97, 105, 114, 32,
     60, 0xcf54, 0xb4dc, 62, 32, 45, 32, 79, 112, 101, 110, 67, 108, 97, 119, 0xc5d0, 32,
     0xc5f0, 0xacb0, 10, 0x2022, 32, 47, 117, 110, 112, 97, 105, 114, 32, 45, 32, 0xc5f0,
     0xacb0, 32, 0xd574, 0xc81c, 10, 0x2022, 32, 47, 115, 116, 97, 116, 117, 115, 32, 45, 32,
     0xc5f0, 0xacb0, 32, 0xc0c1, 0xd0dc, 32, 0xd655, 0xc778, 10, 0x2022, 32, 47, 104, 101, 108,
     112, 32, 45, 32, 0xc774, 32, 0xb3c4, 0xc6c0, 0xb9d0]"

definition text_unknown_command :: string where
  "text_unknown_command = utf8
    [0xc54c, 32, 0xc218, 32, 0xc5c6, 0xb294, 32, 0xba85, 0xb839, 0xc5b4, 0xc785, 0xb2c8,
     0xb2e4, 46, 32, 47, 104, 101, 108, 112, 0xb97c, 32, 0xc785, 0xb825, 0xd574, 32, 0xb3c4,
     0xc6c0, 0xb9d0, 0xc744, 32, 0xd655, 0xc778, 0xd558, 0xc138, 0xc694, 46]"



section \<open>The webhook\<close>

text \<open>The layouts of conv.PairedAt.Format and of the JSON form of a time.\<close>

definition status_layout :: string where
  "status_layout = ''2006-01-02 15:04:05''"

definition RFC3339Nano :: string where
  "RFC3339Nano = ''2006-01-02T15:04:05.999999999Z07:00''"

text \<open>model.InboundMessage.ToSSEEventData.\<close>

definition ToSSEEventData :: "env \<Rightarrow> InboundMessage \<Rightarrow> json" where
  "ToSSEEventData e m = JObj
     [(''conversationKey'', JStr (in_ConversationKey m)),
      (''createdAt'', JStr (time_format e RFC3339Nano (in_CreatedAt m))),
      (''id'', JStr (in_ID m)),
      (''kakaoPayload'', in_KakaoPayload m),
      (''normalized'', (case in_NormalizedMessage m of None \<Rightarrow> JNull | Some j \<Rightarrow> j))]"

definition error_message :: "string \<Rightarrow> string" where
  "error_message err =
     (if err = ''INVALID_CODE'' then text_invalid_code
      else if err = ''INTERNAL_ERROR'' then text_internal_error
      else text_pairing_failed)"

definition handleCommand ::
  "Command \<Rightarrow> ConversationMapping \<Rightarrow> string \<Rightarrow> (world, KakaoResponse) state" where
  "handleCommand cmd conv conversationKey =
     (let say = (\<lambda>text. State_Monad.return (NewTextResponse text))
      in if cmd_Type cmd = ''PAIR'' then
           (if cmd_Code cmd = [] then say text_enter_code
            else if conv_State conv = PairingStatePaired then say text_already_paired
            else do {
              result \<leftarrow> VerifyPairingCode (cmd_Code cmd) conversationKey;
              if \<not> pr_Success result then say (error_message (pr_Error result))
              else do {
                _ \<leftarrow> ConversationService_UpdateState conversationKey PairingStatePaired
                       (Some (pr_AccountID result));
                found \<leftarrow> SessionService_FindByID (pr_SessionID result);
                _ \<leftarrow> (case found of
                       Inr (Some session) \<Rightarrow> PublishPairingComplete session conversationKey
                     | _ \<Rightarrow> State_Monad.return None);
                say text_paired
              }
            })
         else if cmd_Type cmd = ''UNPAIR'' then
           (if conv_State conv \<noteq> PairingStatePaired then say text_no_connection
            else do {
              err \<leftarrow> ConversationService_UpdateState conversationKey PairingStateUnpaired None;
              case err of Some _ \<Rightarrow> say text_unpair_failed | None \<Rightarrow> say text_unpaired
            })
         else if cmd_Type cmd = ''STATUS'' then
           (case (conv_State conv = PairingStatePaired, conv_AccountID conv) of
              (True, Some accountID) \<Rightarrow> do {
                e \<leftarrow> gets wenv;
                let pairedAt = (case conv_PairedAt conv of
                                  None \<Rightarrow> text_unknown_time
                                | Some t \<Rightarrow> time_format e status_layout t);
                stats \<leftarrow> GetQuickStats accountID;
                case stats of
                  Inl err \<Rightarrow> say (text_connected_since @ pairedAt)
                | Inr s \<Rightarrow> say
                    (text_stats_today @ Itoa (qs_InboundToday s) @ text_stats_sent
                     @ Itoa (qs_OutboundToday s) @ text_stats_failed @ Itoa (qs_OutboundFailed s)
                     @ text_stats_total @ Itoa (qs_InboundTotal s) @ text_stats_total_sent
                     @ Itoa (qs_OutboundTotal s) @ text_stats_since @ pairedAt)
              }
            | _ \<Rightarrow> say text_not_connected)
         else if cmd_Type cmd = ''HELP'' then say text_help
         else say text_unknown_command)"

text \<open>The part of Webhook after the body is decoded; \<open>callbackTTL\<close> is the handler's field.\<close>

definition webhook_message ::
  "KakaoWebhookRequest \<Rightarrow> string option \<Rightarrow> time option \<Rightarrow> ConversationMapping \<Rightarrow>
   (world, outcome) state" where
  "webhook_message req callbackURLPtr callbackExpiresAt conv =
     (let channelID = GetChannelID req;
          userKey = GetPlusfriendUserKey req;
          utterance = kr_Utterance (kw_UserRequest req);
          conversationKey = BuildConversationKey channelID userKey
      in do {
        e \<leftarrow> gets wenv;
        case parseCommand (upper_table e) utterance of
          Some cmd \<Rightarrow> do {
            response \<leftarrow> handleCommand cmd conv conversationKey;
            respond 200 (encode_response response)
          }
        | None \<Rightarrow>
            (case (conv_State conv = PairingStatePaired, conv_AccountID conv) of
               (True, Some accountID) \<Rightarrow> do {
                 let normalizedMsg = JObj [(''channelId'', JStr channelID), (''text'', JStr utterance),
                                           (''userId'', JStr userKey)];
                 created \<leftarrow> CreateInbound
                   \<lparr>ci_AccountID = accountID, ci_ConversationKey = conversationKey,
                    ci_KakaoPayload = ToJSON req, ci_NormalizedMessage = Some normalizedMsg,
                    ci_CallbackURL = callbackURLPtr, ci_CallbackExpiresAt = callbackExpiresAt,
                    ci_SourceEventID = None\<rparr>;
                 case created of
                   Inl err \<Rightarrow> respond 200 (encode_response NewCallbackResponse)
                 | Inr msg \<Rightarrow> do {
                     _ \<leftarrow> Publish accountID \<lparr>ev_Type = ''message'', ev_Data = ToSSEEventData e msg\<rparr>;
                     respond 200 (encode_response NewCallbackResponse)
                   }
               }
             | _ \<Rightarrow> respond 200 (encode_response (NewTextResponse text_not_paired)))
      })"

definition Webhook :: "time \<Rightarrow> handler" where
  "Webhook callbackTTL r = do {
     e \<leftarrow> gets wenv;
     case (case decode_body e r of None \<Rightarrow> None | Some j \<Rightarrow> decode_webhook j) of
       None \<Rightarrow> respond_error 400 ''Invalid request body''
     | Some req \<Rightarrow> do {
         let callbackURL = kr_CallbackURL (kw_UserRequest req);
         (callbackURLPtr, callbackExpiresAt) \<leftarrow>
           (if callbackURL \<noteq> []
            then do { now \<leftarrow> time_now; State_Monad.return (Some callbackURL, Some (now + callbackTTL)) }
            else State_Monad.return (None, None));
         conv \<leftarrow> FindOrCreate (GetChannelID req) (GetPlusfriendUserKey req) callbackURLPtr callbackExpiresAt;
         case conv of
           Inl err \<Rightarrow> respond 200 (encode_response NewCallbackResponse)
         | Inr c \<Rightarrow> webhook_message req callbackURLPtr callbackExpiresAt c
       }
   }"


section \<open>Effects\<close>

lemma handleCommand_eff [good_intros, outgoing_intros]:
  "state_io_rel good (handleCommand cmd conv key)" "state_io_rel outgoing (handleCommand cmd conv key)"
  unfolding handleCommand_def Let_def
  by (auto intro!: good.eff_rules good_intros split: option.split sum.split bool.split)
     (auto intro!: outgoing.eff_rules outgoing_intros split: option.split sum.split bool.split)

lemma webhook_message_eff [good_intros, outgoing_intros]:
  "state_io_rel good (webhook_message req url expires conv)"
  "state_io_rel outgoing (webhook_message req url expires conv)"
  unfolding webhook_message_def Let_def
  by (auto intro!: good.eff_rules good_intros split: option.split bool.split)
     (auto intro!: outgoing.eff_rules outgoing_intros split: option.split bool.split)

lemma Webhook_eff [good_intros, outgoing_intros]:
  "state_io_rel good (Webhook ttl r)" "state_io_rel outgoing (Webhook ttl r)"
  unfolding Webhook_def Let_def
  by (auto intro!: good.eff_rules good_intros split: option.split)
     (auto intro!: outgoing.eff_rules outgoing_intros split: option.split)

end
