(* ===== verification/ApiHandlers.thy ===== *)
theory ApiHandlers
  imports KakaoHandler
begin

text \<open>
  The handlers the OpenClaw side uses: internal/handler/openclaw.go (replies),
  internal/handler/session.go (creating a session and asking for its status) and
  internal/handler/events.go (the event stream).
\<close>

section \<open>Replies (internal/handler/openclaw.go)\<close>

record ReplyRequest =
  rr_MessageID :: string
  rr_Response :: "json option"

definition decode_raw :: "json option decoder" where
  "decode_raw j p = Some (Some j)"

definition decode_reply :: "json \<Rightarrow> ReplyRequest option" where
  "decode_reply j = decode_struct
     [(''messageId'', field rr_MessageID (\<lambda>x a. a\<lparr>rr_MessageID := x\<rparr>) decode_string),
      (''response'', field rr_Response (\<lambda>x a. a\<lparr>rr_Response := x\<rparr>) decode_raw)]
     j \<lparr>rr_MessageID = [], rr_Response = None\<rparr>"

definition respond_app_error :: "goerror \<Rightarrow> (world, outcome) state" where
  "respond_app_error err = State_Monad.return (Response (WriteError err))"

text \<open>The any value of a nil RawMessage stays nil.\<close>

definition any_payload :: "json option \<Rightarrow> json" where
  "any_payload p = (case p of None \<Rightarrow> JNull | Some j \<Rightarrow> any_json j)"

text \<open>What Reply does once it has the account's message with a usable callback URL.\<close>

definition reply_send :: "Account \<Rightarrow> ReplyRequest \<Rightarrow> InboundMessage \<Rightarrow> string \<Rightarrow> (world, outcome) state" where
  "reply_send account req inbound callbackURL = do {
     created \<leftarrow> CreateOutbound
       \<lparr>co_AccountID = acc_ID account, co_InboundMessageID = Some (rr_MessageID req),
        co_ConversationKey = in_ConversationKey inbound, co_KakaoTarget = JObj [],
        co_ResponsePayload = rr_Response req\<rparr>;
     case created of
       Inl err \<Rightarrow> respond_app_error (Database err)
     | Inr outbound \<Rightarrow> do {
         sent \<leftarrow> SendCallback callbackURL (any_payload (rr_Response req));
         case sent of
           Some err \<Rightarrow> do {
             _ \<leftarrow> MarkOutboundFailed (out_ID outbound) (Error err);
             respond_app_error (CallbackFailed ''Kakao callback failed'')
           }
         | None \<Rightarrow> do {
             _ \<leftarrow> MarkOutboundSent (out_ID outbound);
             now \<leftarrow> time_now;
             respond 200 (JObj [(''deliveredAt'', JInt (UnixMilli now)), (''success'', JBool True)])
           }
       }
   }"

definition reply_message :: "Account \<Rightarrow> ReplyRequest \<Rightarrow> (world, outcome) state" where
  "reply_message account req = do {
     found \<leftarrow> FindInboundByID (rr_MessageID req);
     case found of
       Inl err \<Rightarrow> respond_app_error (Database err)
     | Inr None \<Rightarrow> respond_app_error (NotFound ''Message'')
     | Inr (Some inbound) \<Rightarrow>
         if in_AccountID inbound \<noteq> acc_ID account then respond_app_error (NotFound ''Message'')
         else (case in_CallbackURL inbound of
                 None \<Rightarrow> respond_app_error CallbackExpired
               | Some callbackURL \<Rightarrow> do {
                   live \<leftarrow> (case in_CallbackExpiresAt inbound of
                              None \<Rightarrow> State_Monad.return True
                            | Some t \<Rightarrow> do { now \<leftarrow> time_now; State_Monad.return (t > now) });
                   if live then reply_send account req inbound callbackURL
                   else respond_app_error CallbackExpired
                 })
   }"

definition Reply :: handler where
  "Reply r =
     (case rq_Account r of
        None \<Rightarrow> respond_app_error SessionNotPaired
      | Some account \<Rightarrow> do {
          e \<leftarrow> gets wenv;
          case (case decode_body e r of None \<Rightarrow> None | Some j \<Rightarrow> decode_reply j) of
            None \<Rightarrow> respond_app_error (ValidationError ''Invalid request body'')
          | Some req \<Rightarrow>
              if rr_MessageID req = [] then respond_app_error (MissingRequired ''messageId'')
              else reply_message account req
        })"


section \<open>Sessions (internal/handler/session.go)\<close>

definition encode_session_result :: "CreateSessionResult \<Rightarrow> json" where
  "encode_session_result c = JObj
     [(''sessionToken'', JStr (cr_SessionToken c)), (''pairingCode'', JStr (cr_PairingCode c)),
      (''expiresIn'', JInt (cr_ExpiresIn c)), (''status'', JStr (cr_Status c))]"

definition encode_status :: "env \<Rightarrow> SessionStatusResult \<Rightarrow> json" where
  "encode_status e s = JObj
     ([(''status'', JStr (session_status_text (sr_Status s)))]
      @ omit_ptr ''pairedAt'' (\<lambda>t. JStr (time_format e RFC3339Nano t)) (sr_PairedAt s)
      @ omit_ptr ''kakaoUserId'' JStr (sr_KakaoUserID s)
      @ omit_ptr ''accountId'' JStr (sr_AccountID s)
      @ omit_ptr ''relayToken'' JStr (sr_RelayToken s))"

text \<open>A panic of the handler ends in the Recoverer of the router: status 500 without a body.\<close>

definition recovered :: outcome where
  "recovered = Response \<lparr>status = 500, headers = [], body = JNull\<rparr>"

definition CreateSession_Handler :: handler where
  "CreateSession_Handler r = do {
     result \<leftarrow> CreateSession;
     case result of
       None \<Rightarrow> State_Monad.return recovered
     | Some (Inl err) \<Rightarrow> respond_error 500 ''Failed to create session''
     | Some (Inr c) \<Rightarrow> respond 200 (encode_session_result c)
   }"

definition GetSessionStatus :: handler where
  "GetSessionStatus r =
     (let sessionToken = get_value ''sessionToken'' (rq_Params r)
      in if sessionToken = [] then respond_error 400 ''Session token is required''
         else do {
           let tokenHash = HashToken sessionToken;
           result \<leftarrow> GetStatus tokenHash;
           e \<leftarrow> gets wenv;
           case result of
             Inl err \<Rightarrow> respond_error 500 ''Internal server error''
           | Inr None \<Rightarrow> respond_error 404 ''Session not found''
           | Inr (Some s) \<Rightarrow> respond 200 (encode_status e s)
         })"


section \<open>Event streams (internal/handler/events.go)\<close>

text \<open>A write to the connection of a client: it fails as the environment decides.\<close>

definition write_chunk :: "nat \<Rightarrow> sse_chunk \<Rightarrow> (world, bool) state" where
  "write_chunk client chunk = State (\<lambda>w.
     case write_faults w of
       True # fs \<Rightarrow> (False, w\<lparr>write_faults := fs\<rparr>)
     | fs \<Rightarrow> (True, w\<lparr>sse_out := sse_out w @ [(client, chunk)], write_faults := tl fs\<rparr>))"

definition sendRawEvent :: "nat \<Rightarrow> Event \<Rightarrow> (world, bool) state" where
  "sendRawEvent client event = do {
     ok \<leftarrow> write_chunk client (EventLine (ev_Type event));
     if \<not> ok then State_Monad.return False
     else write_chunk client (DataLine (ev_Data event))
   }"

text \<open>Marshalling cannot fail here: the data is a JSON document.\<close>

definition sendEvent :: "nat \<Rightarrow> string \<Rightarrow> json \<Rightarrow> (world, bool) state" where
  "sendEvent client eventType data = sendRawEvent client \<lparr>ev_Type = eventType, ev_Data = data\<rparr>"

text \<open>The loop of sendQueuedMessages; a failed MarkDelivered is only logged.\<close>

fun send_queued :: "nat \<Rightarrow> InboundMessage list \<Rightarrow> (world, bool) state" where
  "send_queued client [] = State_Monad.return True"
| "send_queued client (msg # msgs) = do {
     e \<leftarrow> gets wenv;
     ok \<leftarrow> sendRawEvent client \<lparr>ev_Type = ''message'', ev_Data = ToSSEEventData e msg\<rparr>;
     if \<not> ok then State_Monad.return False
     else do {
       _ \<leftarrow> MarkDelivered (in_ID msg);
       send_queued client msgs
     }
   }"

definition sendQueuedMessages :: "nat \<Rightarrow> string \<Rightarrow> (world, bool) state" where
  "sendQueuedMessages client accountID = do {
     r \<leftarrow> FindQueuedByAccountID accountID;
     case r of
       Inl err \<Rightarrow> State_Monad.return False
     | Inr msgs \<Rightarrow> send_queued client msgs
   }"

definition broker_subscribe :: "string \<Rightarrow> (world, nat) state" where
  "broker_subscribe subscribeID = State (\<lambda>w.
     case Subscribe subscribeID (broker w) of (c, b) \<Rightarrow> (c, w\<lparr>broker := b\<rparr>))"

definition connected_data :: "string \<Rightarrow> Session option \<Rightarrow> json" where
  "connected_data accountID session = JObj
     [(''accountId'', JStr accountID),
      (''sessionId'', JStr (case session of None \<Rightarrow> [] | Some s \<Rightarrow> ses_ID s)),
      (''status'', JStr (case session of None \<Rightarrow> ''paired''
                                       | Some s \<Rightarrow> session_status_text (ses_Status s)))]"

definition stream_headers :: "(string \<times> string) list" where
  "stream_headers =
     [(''Content-Type'', ''text/event-stream''), (''Cache-Control'', ''no-cache''),
      (''Connection'', ''keep-alive''), (''X-Accel-Buffering'', ''no'')]"

text \<open>ServeHTTP up to its loop: the outcome is the stream of the new client.\<close>

definition events_start :: "string \<Rightarrow> string \<Rightarrow> Session option \<Rightarrow> (world, outcome) state" where
  "events_start subscribeID accountID session = do {
     client \<leftarrow> broker_subscribe subscribeID;
     _ \<leftarrow> (if accountID \<noteq> [] then sendQueuedMessages client accountID else State_Monad.return True);
     _ \<leftarrow> sendEvent client ''connected'' (connected_data accountID session);
     State_Monad.return (Stream stream_headers client)
   }"

definition Events_ServeHTTP :: handler where
  "Events_ServeHTTP r =
     (case (rq_Account r, rq_Session r) of
        (None, None) \<Rightarrow> respond_error 401 ''Unauthorized''
      | (account, session) \<Rightarrow>
          if \<not> rq_Flusher r then respond_error 500 ''Streaming not supported''
          else (case account of
                  Some a \<Rightarrow> events_start (acc_ID a) (acc_ID a) session
                | None \<Rightarrow> events_start (''session:'' @ ses_ID (the session)) [] session))"

text \<open>The cases of the select in the loop, and one turn of it: whether the loop goes on.\<close>

datatype select_case = CtxDone | ClientDone | EventReady | HeartbeatTick

definition events_turn :: "nat \<Rightarrow> select_case \<Rightarrow> (world, bool) state" where
  "events_turn client which =
     (case which of
        CtxDone \<Rightarrow> State_Monad.return False
      | ClientDone \<Rightarrow> State_Monad.return False
      | EventReady \<Rightarrow> do {
          b \<leftarrow> gets broker;
          case receive client b of
            None \<Rightarrow> State_Monad.return True
          | Some (event, b') \<Rightarrow> do {
              _ \<leftarrow> modify (\<lambda>w. w\<lparr>broker := b'\<rparr>);
              sendRawEvent client event
            }
        }
      | HeartbeatTick \<Rightarrow> write_chunk client PingLine)"


section \<open>Effects\<close>

lemma respond_app_error_eff [good_intros, outgoing_intros]:
  "state_io_rel good (respond_app_error err)" "state_io_rel outgoing (respond_app_error err)"
  unfolding respond_app_error_def by (auto intro!: good.eff_rules) (auto intro!: outgoing.eff_rules)

lemma run_respond_app_error [run_simps, simp]:
  "run_state (respond_app_error err) w = (Response (WriteError err), w)"
  by (simp add: respond_app_error_def)

lemma Reply_eff [good_intros, outgoing_intros]:
  "state_io_rel good (Reply r)" "state_io_rel outgoing (Reply r)"
  unfolding Reply_def reply_message_def reply_send_def
  by (auto intro!: good.eff_rules good_intros split: option.split)
     (auto intro!: outgoing.eff_rules outgoing_intros split: option.split)

lemma session_handlers_eff [good_intros, outgoing_intros]:
  "state_io_rel good (CreateSession_Handler r)" "state_io_rel outgoing (CreateSession_Handler r)"
  "state_io_rel good (GetSessionStatus r)" "state_io_rel outgoing (GetSessionStatus r)"
  unfolding CreateSession_Handler_def GetSessionStatus_def Let_def
  by (auto intro!: good.eff_rules good_intros split: option.split)
     (auto intro!: outgoing.eff_rules outgoing_intros split: option.split)

lemma write_chunk_eff [good_intros, outgoing_intros]:
  "state_io_rel good (write_chunk c chunk)" "state_io_rel outgoing (write_chunk c chunk)"
  by (auto intro!: io_relI_snd simp: write_chunk_def good_def outgoing_def split: list.split bool.split)

lemma sendRawEvent_eff [good_intros, outgoing_intros]:
  "state_io_rel good (sendRawEvent c ev)" "state_io_rel outgoing (sendRawEvent c ev)"
  unfolding sendRawEvent_def
  by (auto intro!: good.eff_rules good_intros) (auto intro!: outgoing.eff_rules outgoing_intros)

lemma send_queued_good [good_intros]: "state_io_rel good (send_queued c msgs)"
  by (induction msgs) (auto intro!: good.eff_rules good_intros)

lemma send_queued_outgoing [outgoing_intros]: "state_io_rel outgoing (send_queued c msgs)"
  by (induction msgs) (auto intro!: outgoing.eff_rules outgoing_intros)

lemma broker_subscribe_eff [good_intros, outgoing_intros]:
  "state_io_rel good (broker_subscribe sid)" "state_io_rel outgoing (broker_subscribe sid)"
  by (auto intro!: io_relI_snd simp: broker_subscribe_def good_def outgoing_def split: prod.split)

lemma events_eff [good_intros, outgoing_intros]:
  "state_io_rel good (Events_ServeHTTP r)" "state_io_rel outgoing (Events_ServeHTTP r)"
  unfolding Events_ServeHTTP_def events_start_def sendQueuedMessages_def sendEvent_def
  by (auto intro!: good.eff_rules good_intros split: option.split)
     (auto intro!: outgoing.eff_rules outgoing_intros split: option.split)

lemma set_broker_eff [good_intros, outgoing_intros]:
  "state_io_rel good (modify (\<lambda>w. w\<lparr>broker := b\<rparr>))" "state_io_rel outgoing (modify (\<lambda>w. w\<lparr>broker := b\<rparr>))"
  by (auto intro!: io_relI_snd simp: good_def outgoing_def)

lemma events_turn_eff [good_intros, outgoing_intros]:
  "state_io_rel good (events_turn c which)" "state_io_rel outgoing (events_turn c which)"
  unfolding events_turn_def
  by (cases which; auto intro!: good.eff_rules good_intros split: option.split)
     (cases which; auto intro!: outgoing.eff_rules outgoing_intros split: option.split)

end
