(* ===== verification/Dashboard.thy ===== *)
theory Dashboard
  imports ApiHandlers
begin

text \<open>
  internal/handler/dashboard.go and the formatting helpers of internal/handler/response.go, the
  cleanup job of internal/jobs/cleanup.go, and internal/config/config.go.
\<close>

section \<open>Formatting (internal/handler/response.go and the JSON tags of internal/model)\<close>

definition parseIntParam :: "string \<Rightarrow> int option" where
  "parseIntParam s = Atoi s"

definition formatTime :: "env \<Rightarrow> time option \<Rightarrow> json" where
  "formatTime e t = (case t of None \<Rightarrow> JNull | Some x \<Rightarrow> JStr (time_format e RFC3339 x))"

definition formatConversation :: "env \<Rightarrow> ConversationMapping \<Rightarrow> json" where
  "formatConversation e conv = JObj
     [(''conversationKey'', JStr (conv_ConversationKey conv)),
      (''id'', JStr (conv_ID conv)),
      (''lastSeenAt'', JStr (time_format e RFC3339 (conv_LastSeenAt conv))),
      (''pairedAt'', formatTime e (conv_PairedAt conv)),
      (''state'', JStr (pairing_state_text (conv_State conv)))]"

definition json_time :: "env \<Rightarrow> time \<Rightarrow> json" where
  "json_time e t = JStr (time_format e RFC3339Nano t)"

fun inbound_status_text :: "InboundMessageStatus \<Rightarrow> string" where
  "inbound_status_text InboundStatusQueued = ''queued''"
| "inbound_status_text InboundStatusDelivered = ''delivered''"
| "inbound_status_text InboundStatusAcked = ''acked''"
| "inbound_status_text InboundStatusExpired = ''expired''"

fun outbound_status_text :: "OutboundMessageStatus \<Rightarrow> string" where
  "outbound_status_text OutboundStatusPending = ''pending''"
| "outbound_status_text OutboundStatusSent = ''sent''"
| "outbound_status_text OutboundStatusFailed = ''failed''"

definition encode_inbound :: "env \<Rightarrow> InboundMessage \<Rightarrow> json" where
  "encode_inbound e m = JObj
     ([(''id'', JStr (in_ID m)), (''accountId'', JStr (in_AccountID m)),
       (''conversationKey'', JStr (in_ConversationKey m)), (''kakaoPayload'', in_KakaoPayload m)]
      @ omit_ptr ''normalizedMessage'' (\<lambda>j. j) (in_NormalizedMessage m)
      @ [(''status'', JStr (inbound_status_text (in_Status m)))]
      @ omit_ptr ''sourceEventId'' JStr (in_SourceEventID m)
      @ [(''createdAt'', json_time e (in_CreatedAt m))]
      @ omit_ptr ''deliveredAt'' (json_time e) (in_DeliveredAt m)
      @ omit_ptr ''ackedAt'' (json_time e) (in_AckedAt m))"

definition encode_outbound :: "env \<Rightarrow> OutboundMessage \<Rightarrow> json" where
  "encode_outbound e m = JObj
     ([(''id'', JStr (out_ID m)), (''accountId'', JStr (out_AccountID m))]
      @ omit_ptr ''inboundMessageId'' JStr (out_InboundMessageID m)
      @ [(''conversationKey'', JStr (out_ConversationKey m)), (''kakaoTarget'', out_KakaoTarget m),
         (''responsePayload'', out_ResponsePayload m),
         (''status'', JStr (outbound_status_text (out_Status m)))]
      @ omit_ptr ''errorMessage'' JStr (out_ErrorMessage m)
      @ [(''createdAt'', json_time e (out_CreatedAt m))]
      @ omit_ptr ''sentAt'' (json_time e) (out_SentAt m))"

definition encode_session :: "env \<Rightarrow> Session \<Rightarrow> json" where
  "encode_session e s = JObj
     ([(''id'', JStr (ses_ID s)), (''pairingCode'', JStr (ses_PairingCode s)),
       (''status'', JStr (session_status_text (ses_Status s)))]
      @ omit_ptr ''accountId'' JStr (ses_AccountID s)
      @ omit_ptr ''pairedConversationKey'' JStr (ses_PairedConversationKey s)
      @ omit_ptr ''metadata'' (\<lambda>j. j) (ses_Metadata s)
      @ [(''expiresAt'', json_time e (ses_ExpiresAt s))]
      @ omit_ptr ''pairedAt'' (json_time e) (ses_PairedAt s)
      @ [(''createdAt'', json_time e (ses_CreatedAt s)), (''updatedAt'', json_time e (ses_UpdatedAt s))])"


section \<open>Handlers (internal/handler/dashboard.go)\<close>

definition parsePagination :: "request \<Rightarrow> int \<times> int" where
  "parsePagination r =
     (let l = get_value ''limit'' (rq_Query r);
          limit = (if l \<noteq> [] then
                     (case Atoi l of
                        Some parsed \<Rightarrow> if parsed > 0 \<and> parsed \<le> 100 then parsed else 20
                      | None \<Rightarrow> 20)
                   else 20);
          off = get_value ''offset'' (rq_Query r);
          offset = (if off \<noteq> [] then
                      (case Atoi off of
                         Some parsed \<Rightarrow> if parsed \<ge> 0 then parsed else 0
                       | None \<Rightarrow> 0)
                    else 0)
      in (limit, offset))"

definition Overview :: handler where
  "Overview r = do {
     stats \<leftarrow> dashboardRepo_GetOverviewStats;
     case stats of
       Inl err \<Rightarrow> respond_error 500 ''Failed to get stats''
     | Inr s \<Rightarrow> do {
         b \<leftarrow> gets broker;
         now \<leftarrow> time_now;
         respond 200 (JObj
           [(''accounts'', JInt (AccountCount s)),
            (''conversationPaired'', JInt (ConversationPaired s)),
            (''conversationUnpaired'', JInt (ConversationUnpaired s)),
            (''inboundTotal'', JInt (InboundTotal s)),
            (''outboundFailed'', JInt (OutboundFailed s)),
            (''outboundTotal'', JInt (OutboundTotal s)),
            (''sessionPaired'', JInt (SessionPaired s)),
            (''sessionPending'', JInt (SessionPending s)),
            (''sessionTotal'', JInt (SessionTotal s)),
            (''sseClients'', JInt (TotalClients b)),
            (''timestamp'', JInt (UnixMilli now))])
       }
   }"

definition account_entry :: "env \<Rightarrow> Account \<Rightarrow> QuickStats option \<Rightarrow> json" where
  "account_entry e acc stats = JObj
     ([(''createdAt'', JStr (time_format e RFC3339 (acc_CreatedAt acc))), (''id'', JStr (acc_ID acc))]
      @ (case stats of
           None \<Rightarrow> []
         | Some s \<Rightarrow>
             [(''inboundToday'', JInt (qs_InboundToday s)), (''inboundTotal'', JInt (qs_InboundTotal s)),
              (''outboundFailed'', JInt (qs_OutboundFailed s)),
              (''outboundToday'', JInt (qs_OutboundToday s)),
              (''outboundTotal'', JInt (qs_OutboundTotal s))])
      @ [(''rateLimitPerMinute'', JInt (acc_RateLimitPerMin acc)),
         (''updatedAt'', JStr (time_format e RFC3339 (acc_UpdatedAt acc)))])"

fun account_entries :: "Account list \<Rightarrow> (world, json list) state" where
  "account_entries [] = State_Monad.return []"
| "account_entries (acc # accs) = do {
     e \<leftarrow> gets wenv;
     stats \<leftarrow> GetQuickStats (acc_ID acc);
     rest \<leftarrow> account_entries accs;
     State_Monad.return
       (account_entry e acc (case stats of Inl err \<Rightarrow> None | Inr s \<Rightarrow> Some s) # rest)
   }"

definition ListAccounts :: handler where
  "ListAccounts r = do {
     found \<leftarrow> accountRepo_FindAll 100 0;
     case found of
       Inl err \<Rightarrow> respond_error 500 ''Failed to list accounts''
     | Inr accs \<Rightarrow> do {
         result \<leftarrow> account_entries accs;
         respond 200 (JArr result)
       }
   }"

definition AccountConversations :: handler where
  "AccountConversations r = do {
     e \<leftarrow> gets wenv;
     found \<leftarrow> conversationRepo_FindByAccountID (get_value ''id'' (rq_Params r));
     case found of
       Inl err \<Rightarrow> respond_error 500 ''Failed to get conversations''
     | Inr convs \<Rightarrow> respond 200 (JArr (map (formatConversation e) convs))
   }"

definition AccountMessages :: handler where
  "AccountMessages r =
     (let accountID = get_value ''id'' (rq_Params r);
          msgType = get_value ''type'' (rq_Query r);
          (limit, offset) = parsePagination r
      in if msgType = ''outbound'' then do {
           e \<leftarrow> gets wenv;
           found \<leftarrow> outboundRepo_FindByAccountID accountID limit offset;
           case found of
             Inl err \<Rightarrow> respond_error 500 ''Failed to get messages''
           | Inr msgs \<Rightarrow> respond 200 (JArr (map (encode_outbound e) msgs))
         }
         else do {
           e \<leftarrow> gets wenv;
           found \<leftarrow> inboundRepo_FindByAccountID accountID limit offset;
           case found of
             Inl err \<Rightarrow> respond_error 500 ''Failed to get messages''
           | Inr msgs \<Rightarrow> respond 200 (JArr (map (encode_inbound e) msgs))
         })"

definition AccountStats :: handler where
  "AccountStats r =
     (let accountID = get_value ''id'' (rq_Params r)
      in do {
        stats \<leftarrow> GetQuickStats accountID;
        case stats of
          Inl err \<Rightarrow> respond_error 500 ''Failed to get stats''
        | Inr s \<Rightarrow> do {
            found \<leftarrow> conversationRepo_FindByAccountID accountID;
            case found of
              Inl err \<Rightarrow> respond_error 500 ''Failed to get stats''
            | Inr convs \<Rightarrow> do {
                b \<leftarrow> gets broker;
                respond 200 (JObj
                  [(''conversations'', JInt (int (length convs))),
                   (''inboundToday'', JInt (qs_InboundToday s)),
                   (''inboundTotal'', JInt (qs_InboundTotal s)),
                   (''outboundFailed'', JInt (qs_OutboundFailed s)),
                   (''outboundToday'', JInt (qs_OutboundToday s)),
                   (''outboundTotal'', JInt (qs_OutboundTotal s)),
                   (''sseClients'', JInt (ClientCount b accountID))])
              }
          }
      })"

definition AccountFailedMessages :: handler where
  "AccountFailedMessages r = do {
     e \<leftarrow> gets wenv;
     found \<leftarrow> outboundRepo_FindRecentFailedByAccountID (get_value ''id'' (rq_Params r)) 50;
     case found of
       Inl err \<Rightarrow> respond_error 500 ''Failed to get messages''
     | Inr msgs \<Rightarrow> respond 200 (JArr (map (encode_outbound e) msgs))
   }"

definition sessions_limit :: "request \<Rightarrow> int" where
  "sessions_limit r =
     (let l = get_value ''limit'' (rq_Query r)
      in if l \<noteq> [] then
           (case Atoi l of
              Some parsed \<Rightarrow> if parsed > 0 \<and> parsed \<le> 100 then parsed else 50
            | None \<Rightarrow> 50)
         else 50)"

definition ListSessions :: handler where
  "ListSessions r = do {
     e \<leftarrow> gets wenv;
     found \<leftarrow> FindRecent (sessions_limit r);
     case found of
       Inl err \<Rightarrow> respond_error 500 ''Failed to list sessions''
     | Inr ss \<Rightarrow> respond 200 (JArr (map (encode_session e) ss))
   }"

definition Dashboard_CreateSession :: handler where
  "Dashboard_CreateSession r = do {
     result \<leftarrow> CreateSession;
     case result of
       None \<Rightarrow> State_Monad.return recovered
     | Some (Inl err) \<Rightarrow> respond_error 500 ''Failed to create session''
     | Some (Inr c) \<Rightarrow> respond 200 (encode_session_result c)
   }"

definition RegenerateToken :: handler where
  "RegenerateToken r = do {
     t \<leftarrow> generate_token;
     case t of
       Inl err \<Rightarrow> respond_error 500 ''Failed to generate token''
     | Inr token \<Rightarrow> do {
         updated \<leftarrow> accountRepo_UpdateToken (get_value ''id'' (rq_Params r)) (HashToken token);
         case updated of
           Inl err \<Rightarrow> respond_error 500 ''Failed to regenerate token''
         | Inr _ \<Rightarrow> respond 200 (JObj [(''relayToken'', JStr token)])
       }
   }"

definition status_ok :: json where
  "status_ok = JObj [(''status'', JStr ''ok'')]"

text \<open>The four handlers that delete or disconnect differ only in the call and the message.\<close>

definition respond_done :: "(world, goerror + unit) state \<Rightarrow> string \<Rightarrow> (world, outcome) state" where
  "respond_done action msg = do {
     r \<leftarrow> action;
     case r of
       Inl err \<Rightarrow> respond_error 500 msg
     | Inr _ \<Rightarrow> respond 200 status_ok
   }"

definition DeleteAccount :: handler where
  "DeleteAccount r =
     respond_done (accountRepo_Delete (get_value ''id'' (rq_Params r))) ''Failed to delete account''"

definition DisconnectSession :: handler where
  "DisconnectSession r =
     respond_done (Disconnect (get_value ''id'' (rq_Params r))) ''Failed to disconnect session''"

definition DeleteSession :: handler where
  "DeleteSession r =
     respond_done (SessionService_Delete (get_value ''id'' (rq_Params r))) ''Failed to delete session''"

definition DeleteConversation :: handler where
  "DeleteConversation r =
     respond_done (conversationRepo_Delete (get_value ''convId'' (rq_Params r)))
       ''Failed to delete conversation''"


section \<open>The cleanup job (internal/jobs/cleanup.go)\<close>

text \<open>runCleanup logs the outcome only.\<close>

definition runCleanup :: "(world, goerror + int) state \<Rightarrow> (world, unit) state" where
  "runCleanup fn = do { _ \<leftarrow> fn; State_Monad.return () }"

definition cleanup :: "(world, unit) state" where
  "cleanup = do {
     _ \<leftarrow> runCleanup inboundRepo_MarkExpired;
     runCleanup sessionRepo_DeleteExpired
   }"


section \<open>Configuration (internal/config/config.go)\<close>

record Config =
  cfg_Port :: int
  cfg_DatabaseURL :: string
  cfg_RedisURL :: string
  cfg_KakaoSignatureSecret :: string
  cfg_EncryptionKey :: string
  cfg_QueueTTLSeconds :: int
  cfg_CallbackTTLSeconds :: int
  cfg_LogLevel :: string

definition QueueTTL :: "Config \<Rightarrow> time" where
  "QueueTTL c = wrap64 (cfg_QueueTTLSeconds c * second)"

definition CallbackTTL :: "Config \<Rightarrow> time" where
  "CallbackTTL c = wrap64 (cfg_CallbackTTLSeconds c * second)"

lemma TTL_exact:
  assumes "\<bar>s\<bar> \<le> 9223372036"
  shows "wrap64 (s * second) = s * second"
  using assms by (intro wrap64_id[THEN iffD2]) (auto simp: second_def)

definition Addr :: "Config \<Rightarrow> string" where
  "Addr c = '':'' @ Itoa (cfg_Port c)"

text \<open>Validate only warns: the warnings, by their first words, and no error.\<close>

definition Validate :: "bool \<Rightarrow> Config \<Rightarrow> string list \<times> goerror option" where
  "Validate isProduction c =
     ((if isProduction then
         (if cfg_KakaoSignatureSecret c = [] then [''KAKAO_SIGNATURE_SECRET is empty in production''] else [])
         @ (if HasPrefix (cfg_RedisURL c) ''redis://'' then [''REDIS_URL uses redis:// (not TLS) in production''] else [])
         @ (if cfg_EncryptionKey c = [] then [''ENCRYPTION_KEY is empty in production''] else [])
       else []),
      None)"


section \<open>Effects\<close>

lemma account_entries_good [good_intros]: "state_io_rel good (account_entries accs)"
  by (induction accs) (auto intro!: good.eff_rules good_intros)

lemma account_entries_outgoing [outgoing_intros]: "state_io_rel outgoing (account_entries accs)"
  by (induction accs) (auto intro!: outgoing.eff_rules outgoing_intros)

lemmas dashboard_handler_defs = Overview_def ListAccounts_def AccountConversations_def AccountMessages_def
  AccountStats_def AccountFailedMessages_def ListSessions_def Dashboard_CreateSession_def
  RegenerateToken_def DeleteAccount_def DisconnectSession_def DeleteSession_def DeleteConversation_def
  respond_done_def

lemma dashboard_handlers_good [good_intros]:
  "state_io_rel good (Overview r)" "state_io_rel good (ListAccounts r)"
  "state_io_rel good (AccountConversations r)" "state_io_rel good (AccountMessages r)"
  "state_io_rel good (AccountStats r)" "state_io_rel good (AccountFailedMessages r)"
  "state_io_rel good (ListSessions r)" "state_io_rel good (Dashboard_CreateSession r)"
  "state_io_rel good (RegenerateToken r)" "state_io_rel good (DeleteAccount r)"
  "state_io_rel good (DisconnectSession r)" "state_io_rel good (DeleteSession r)"
  "state_io_rel good (DeleteConversation r)"
  unfolding dashboard_handler_defs Let_def
  by (auto intro!: good.eff_rules good_intros split: prod.split option.split)

lemma dashboard_handlers_outgoing [outgoing_intros]:
  "state_io_rel outgoing (Overview r)" "state_io_rel outgoing (ListAccounts r)"
  "state_io_rel outgoing (AccountConversations r)" "state_io_rel outgoing (AccountMessages r)"
  "state_io_rel outgoing (AccountStats r)" "state_io_rel outgoing (AccountFailedMessages r)"
  "state_io_rel outgoing (ListSessions r)" "state_io_rel outgoing (Dashboard_CreateSession r)"
  "state_io_rel outgoing (RegenerateToken r)" "state_io_rel outgoing (DeleteAccount r)"
  "state_io_rel outgoing (DisconnectSession r)" "state_io_rel outgoing (DeleteSession r)"
  "state_io_rel outgoing (DeleteConversation r)"
  unfolding dashboard_handler_defs Let_def
  by (auto intro!: outgoing.eff_rules outgoing_intros split: prod.split option.split)

lemma cleanup_eff [good_intros, outgoing_intros]:
  "state_io_rel good cleanup" "state_io_rel outgoing cleanup"
  unfolding cleanup_def runCleanup_def
  by (auto intro!: good.eff_rules good_intros) (auto intro!: outgoing.eff_rules outgoing_intros)

end
