(* ===== verification/Delivery.thy ===== *)
theory Delivery
  imports Dashboard
begin

text \<open>
  What the handlers do to the broker of this process: all but the event stream only publish, so the
  broker changes by deliveries of Redis alone. A third interpretation of the rules for effects.
\<close>

definition deliver_all :: "(string \<times> Event) list \<Rightarrow> Broker \<Rightarrow> Broker" where
  "deliver_all ms b = fold (\<lambda>(a, e). redis_deliver (MessageChannel a) e) ms b"

lemma deliver_all_Nil [simp]: "deliver_all [] b = b"
  by (simp add: deliver_all_def)

lemma deliver_all_append: "deliver_all (xs @ ys) b = deliver_all ys (deliver_all xs b)"
  by (simp add: deliver_all_def)

definition sent :: "(string \<times> Event) list \<Rightarrow> (string \<times> Event) list" where
  "sent ms = map (\<lambda>(a, e). (MessageChannel a, e)) ms"

text \<open>
  Everything published is on the bus and reached the listeners, and no stream was written. The
  second relation also allows writing to the connection of one client.
\<close>

definition delivers :: "world \<Rightarrow> world \<Rightarrow> bool" where
  "delivers w w' \<longleftrightarrow> (\<exists>ms. broker w' = deliver_all ms (broker w) \<and> bus w' = bus w @ sent ms)
     \<and> sse_out w' = sse_out w \<and> write_faults w' = write_faults w \<and> wenv w' = wenv w"

definition streams_to :: "nat \<Rightarrow> world \<Rightarrow> world \<Rightarrow> bool" where
  "streams_to c w w' \<longleftrightarrow> (\<exists>ms. broker w' = deliver_all ms (broker w) \<and> bus w' = bus w @ sent ms)
     \<and> (\<exists>xs. sse_out w' = sse_out w @ map (Pair c) xs) \<and> wenv w' = wenv w"

lemma sent_append [simp]: "sent (xs @ ys) = sent xs @ sent ys" "sent [] = []"
  by (simp_all add: sent_def)

lemma delivers_ms_refl:
  "\<exists>ms. b = deliver_all ms b \<and> l = l @ sent ms" "\<exists>ms. b = deliver_all ms b \<and> sent ms = []"
  by (rule exI[of _ "[]"], simp)+

lemma delivers_ms_trans:
  "\<exists>ms. b1 = deliver_all ms b0 \<and> l1 = l0 @ sent ms \<Longrightarrow> \<exists>ms. b2 = deliver_all ms b1 \<and> l2 = l1 @ sent ms \<Longrightarrow>
   \<exists>ms. b2 = deliver_all ms b0 \<and> l2 = l0 @ sent ms"
  by (metis append.assoc deliver_all_append sent_append(1))

interpretation delivers: effect_order delivers
proof
  show "delivers w w" for w by (simp add: delivers_def delivers_ms_refl)
  show "delivers u w" if "delivers u v" "delivers v w" for u v w
    using that delivers_ms_trans by (simp add: delivers_def) blast
qed

interpretation streams: effect_order "streams_to c" for c
proof
  show "streams_to c w w" for w by (simp add: streams_to_def delivers_ms_refl exI[of _ "[]"])
  fix u v w :: world
  assume "streams_to c u v" "streams_to c v w"
  moreover from this obtain xs ys where "sse_out v = sse_out u @ map (Pair c) xs" "sse_out w = sse_out v @ map (Pair c) ys"
    unfolding streams_to_def by blast
  then have "sse_out w = sse_out u @ map (Pair c) (xs @ ys)" by simp
  ultimately show "streams_to c u w"
    unfolding streams_to_def by (metis delivers_ms_trans)
qed

lemma delivers_streams: "delivers w w' \<Longrightarrow> streams_to c w w'"
  by (auto simp: delivers_def streams_to_def intro: exI[of _ "[]"])

named_theorems delivers_intros

lemma same_broker_delivers:
  "broker w' = broker w \<Longrightarrow> bus w' = bus w \<Longrightarrow> sse_out w' = sse_out w \<Longrightarrow>
   write_faults w' = write_faults w \<Longrightarrow> wenv w' = wenv w \<Longrightarrow> delivers w w'"
  by (simp add: delivers_def delivers_ms_refl)

lemma only_db_delivers: "state_io_rel only_db m \<Longrightarrow> state_io_rel delivers m"
  by (auto simp: state_io_rel_def only_db_def intro: same_broker_delivers)

lemmas repo_delivers [delivers_intros] =
  eff_time_now(2)[THEN only_db_delivers] eff_sql_now(2)[THEN only_db_delivers]
  eff_generate_token(2)[THEN only_db_delivers]
  account_only_db[THEN only_db_delivers] conversation_only_db[THEN only_db_delivers]
  session_only_db[THEN only_db_delivers] inbound_only_db[THEN only_db_delivers]
  outbound_only_db[THEN only_db_delivers] dashboard_only_db[THEN only_db_delivers]
  services_only_db[THEN only_db_delivers] FindOrCreate_eff(2)[THEN only_db_delivers]
  VerifyPairingCode_eff(2)[THEN only_db_delivers]

lemma redis_call_delivers [delivers_intros]: "state_io_rel delivers redis_call"
  by (auto intro!: io_relI_snd same_broker_delivers simp: redis_call_def split: list.split)

lemma publish_modify_delivers [delivers_intros]:
  "state_io_rel delivers (modify (\<lambda>w. w\<lparr>bus := bus w @ [(MessageChannel a, e)], broker := redis_deliver (MessageChannel a) e (broker w)\<rparr>))"
  by (rule io_relI_snd) (auto simp: delivers_def deliver_all_def sent_def intro!: exI[of _ "[(a, e)]"])

lemma Publish_delivers [delivers_intros]: "state_io_rel delivers (Publish a e)"
  unfolding Publish_def by (auto intro!: delivers.eff_rules delivers_intros split: option.split)

lemma PublishPairing_delivers [delivers_intros]:
  "state_io_rel delivers (PublishPairingComplete ses key)" "state_io_rel delivers (PublishPairingExpired sid reason)"
  unfolding PublishPairingComplete_def PublishPairingExpired_def Let_def
  by (auto intro!: delivers.eff_rules delivers_intros split: option.split)

lemma run_script_delivers [delivers_intros]: "state_io_rel delivers (run_script script key)"
proof -
  have "state_io_rel delivers (State (\<lambda>w. case script (lua_random (wenv w)) (Unix (clock w)) (zsets w key) of
           (r, z) \<Rightarrow> (Inr r :: goerror + int list, w\<lparr>zsets := (zsets w)(key := z)\<rparr>)))"
    by (auto intro!: io_relI_snd same_broker_delivers split: prod.split)
  then show ?thesis
    unfolding run_script_def by (auto intro!: delivers.eff_rules delivers_intros)
qed

lemma limit_checks_delivers [delivers_intros]:
  "state_io_rel delivers (CheckLimit key limit window)" "state_io_rel delivers (RedisRateLimiter_Check a limit)"
  unfolding CheckLimit_def RedisRateLimiter_Check_def Let_def
  by (auto intro!: delivers.eff_rules delivers_intros)

lemma http_delivers [delivers_intros]:
  "state_io_rel delivers (http_post url payload)" "state_io_rel delivers (http_hop verb url content)"
  by (auto intro!: io_relI_snd same_broker_delivers simp: run_http_post run_http_hop split: list.split)

lemma follow_delivers [delivers_intros]: "state_io_rel delivers (follow n verb b payload r)"
  by (induction n verb b payload r rule: follow.induct)
     (auto intro!: delivers.eff_rules delivers_intros split: option.split nat.split)

lemma SendCallback_delivers [delivers_intros]: "state_io_rel delivers (SendCallback url payload)"
  unfolding SendCallback_def client_Do_def
  by (auto intro!: delivers.eff_rules delivers_intros split: sum.split)

lemma handleCommand_delivers [delivers_intros]: "state_io_rel delivers (handleCommand cmd conv key)"
  unfolding handleCommand_def Let_def
  by (auto intro!: delivers.eff_rules delivers_intros split: option.split sum.split bool.split)

lemma account_entries_delivers [delivers_intros]: "state_io_rel delivers (account_entries accs)"
  by (induction accs) (auto intro!: delivers.eff_rules delivers_intros)

lemma cleanup_delivers [delivers_intros]: "state_io_rel delivers cleanup"
  unfolding cleanup_def runCleanup_def by (auto intro!: delivers.eff_rules delivers_intros)


section \<open>Handlers\<close>

text \<open>
  A handler that answers with a response has only delivered; one that ends in a stream has only
  delivered before it started the stream of the one client it subscribes.
\<close>

definition connects :: "(world, outcome) state \<Rightarrow> bool" where
  "connects m \<longleftrightarrow> (\<forall>w. case run_state m w of
     (Response resp, w') \<Rightarrow> delivers w w'
   | (Page resp, w') \<Rightarrow> delivers w w'
   | (Stream hs c, w') \<Rightarrow>
       (\<exists>v sid a ses. delivers w v \<and> run_state (events_start sid a ses) v = (Stream stream_headers c, w')))"

named_theorems connects_intros

lemma connects_delivers:
  assumes "delivers u v"
    and "case x of Response resp \<Rightarrow> delivers v w | Page resp \<Rightarrow> delivers v w
       | Stream hs c \<Rightarrow>
         (\<exists>v' sid a ses. delivers v v' \<and> run_state (events_start sid a ses) v' = (Stream stream_headers c, w))"
  shows "case x of Response resp \<Rightarrow> delivers u w | Page resp \<Rightarrow> delivers u w
       | Stream hs c \<Rightarrow>
         (\<exists>v' sid a ses. delivers u v' \<and> run_state (events_start sid a ses) v' = (Stream stream_headers c, w))"
  using assms by (cases x) (simp_all, (blast intro: delivers.R_trans)+)

lemma connects_bind:
  assumes "state_io_rel delivers m" and "\<And>x. connects (f x)"
  shows "connects (State_Monad.bind m f)"
  unfolding connects_def
proof
  fix w
  obtain x v where m: "run_state m w = (x, v)" by fastforce
  obtain y u where f: "run_state (f x) v = (y, u)" by fastforce
  have "delivers w v" using io_rel_run[OF assms(1), of w] m by simp
  moreover have "case y of Response resp \<Rightarrow> delivers v u | Page resp \<Rightarrow> delivers v u
       | Stream hs c \<Rightarrow>
         (\<exists>v' sid a ses. delivers v v' \<and> run_state (events_start sid a ses) v' = (Stream stream_headers c, u))"
    using assms(2)[of x] f by (auto simp: connects_def dest!: spec[of _ v])
  ultimately show "case run_state (State_Monad.bind m f) w of
     (Response resp, w') \<Rightarrow> delivers w w'
   | (Page resp, w') \<Rightarrow> delivers w w'
   | (Stream hs c, w') \<Rightarrow>
       (\<exists>v sid a ses. delivers w v \<and> run_state (events_start sid a ses) v = (Stream stream_headers c, w'))"
    using connects_delivers[where u = w and v = v and w = u and x = y] m f by (simp split: outcome.splits)
qed

lemma connects_headers:
  "connects m \<Longrightarrow> connects (State_Monad.bind m (\<lambda>out. State_Monad.return (add_headers hs out)))"
proof -
  assume m: "connects m"
  have "case run_state (State_Monad.bind m (\<lambda>out. State_Monad.return (add_headers hs out))) w of
     (Response resp, w') \<Rightarrow> delivers w w'
   | (Page resp, w') \<Rightarrow> delivers w w'
   | (Stream hs c, w') \<Rightarrow>
       (\<exists>v sid a ses. delivers w v \<and> run_state (events_start sid a ses) v = (Stream stream_headers c, w'))" for w
  proof (cases "run_state m w")
    case (Pair out w')
    with m[unfolded connects_def, rule_format, of w] show ?thesis by (cases out) simp_all
  qed
  then show ?thesis by (simp add: connects_def)
qed

lemma connects_response:
  "connects (State_Monad.return (Response resp))" "connects (State_Monad.return (Page pg))"
  by (simp_all add: connects_def delivers.R_refl)

lemma connects_respond:
  "connects (respond st data)" "connects (respond_error st msg)" "connects (respond_app_error err)"
  unfolding respond_def respond_error_def respond_app_error_def by (simp_all add: connects_response)

lemma connects_if: "(b \<Longrightarrow> connects m) \<Longrightarrow> (\<not> b \<Longrightarrow> connects n) \<Longrightarrow> connects (if b then m else n)"
  by simp

lemma connects_case:
  "connects m \<Longrightarrow> (\<And>y. connects (f y)) \<Longrightarrow> connects (case x of None \<Rightarrow> m | Some y \<Rightarrow> f y)"
  "(\<And>y. connects (g y)) \<Longrightarrow> (\<And>y. connects (h y)) \<Longrightarrow> connects (case z of Inl y \<Rightarrow> g y | Inr y \<Rightarrow> h y)"
  "(\<And>y u. connects (k y u)) \<Longrightarrow> connects (case p of (y, u) \<Rightarrow> k y u)"
  by (cases x; cases z; cases p; simp)+

lemma connects_gets: "(\<And>x. connects (f x)) \<Longrightarrow> connects (State_Monad.bind (gets g) f)"
  by (rule connects_bind) (auto intro: delivers.eff_rules)

lemmas connects_rules [connects_intros] = connects_bind connects_if connects_case connects_response
  connects_respond connects_gets connects_headers

text \<open>A middleware connects when the next handler does.\<close>

lemma middleware_connects [connects_intros]:
  assumes "\<And>r. connects (h r)"
  shows "connects (Auth_Handler h r)"
    and "connects (KakaoSignature_Handler secret h r)"
    and "connects (BodyLimit_Handler n h r)"
    and "connects (RedisRateLimit_Handler h r)"
    and "connects (IPRateLimit_Handler limit window prefix h r)"
  unfolding Auth_Handler_def KakaoSignature_Handler_def BodyLimit_Handler_def RedisRateLimit_Handler_def
    RateLimit_Handler_def IPRateLimit_Handler_def Let_def
  by (auto intro!: connects_intros delivers.eff_rules delivers_intros assms split: option.split bool.split)

lemma Webhook_connects [connects_intros]: "connects (Webhook ttl r)"
  unfolding Webhook_def webhook_message_def Let_def
  by (auto intro!: connects_intros delivers.eff_rules delivers_intros split: option.split bool.split)

lemma api_connects [connects_intros]:
  "connects (Reply r)" "connects (CreateSession_Handler r)" "connects (GetSessionStatus r)"
  unfolding Reply_def reply_message_def reply_send_def CreateSession_Handler_def GetSessionStatus_def
    recovered_def Let_def
  by (auto intro!: connects_intros delivers.eff_rules delivers_intros split: option.split)

lemma dashboard_connects [connects_intros]:
  "connects (Overview r)" "connects (ListAccounts r)" "connects (AccountConversations r)"
  "connects (AccountMessages r)" "connects (AccountStats r)" "connects (AccountFailedMessages r)"
  "connects (ListSessions r)" "connects (Dashboard_CreateSession r)" "connects (RegenerateToken r)"
  "connects (DeleteAccount r)" "connects (DisconnectSession r)" "connects (DeleteSession r)"
  "connects (DeleteConversation r)"
  unfolding dashboard_handler_defs recovered_def Let_def
  by (auto intro!: connects_intros delivers.eff_rules delivers_intros split: prod.split option.split)


section \<open>The event stream\<close>

lemma write_streams:
  "state_io_rel (streams_to c) (write_chunk c chunk)" "state_io_rel (streams_to c) (sendRawEvent c ev)"
  "state_io_rel (streams_to c) (send_queued c msgs)" "state_io_rel (streams_to c) (sendQueuedMessages c a)"
proof -
  have d: "state_io_rel delivers m \<Longrightarrow> state_io_rel (streams_to c) m" for m :: "(world, 'a) state"
    by (auto simp: state_io_rel_def intro: delivers_streams)
  show w: "state_io_rel (streams_to c) (write_chunk c chunk)" for chunk
  proof (rule io_relI_snd)
    fix w
    have "sse_out (snd (run_state (write_chunk c chunk) w)) = sse_out w @ map (Pair c) []
        \<or> sse_out (snd (run_state (write_chunk c chunk) w)) = sse_out w @ map (Pair c) [chunk]"
      by (simp add: write_chunk_def split: list.split bool.split)
    moreover have "broker (snd (run_state (write_chunk c chunk) w)) = broker w"
      "bus (snd (run_state (write_chunk c chunk) w)) = bus w" "wenv (snd (run_state (write_chunk c chunk) w)) = wenv w"
      by (simp_all add: write_chunk_def split: list.split bool.split)
    ultimately show "streams_to c w (snd (run_state (write_chunk c chunk) w))"
      unfolding streams_to_def by (metis delivers_ms_refl(1))
  qed
  show s: "state_io_rel (streams_to c) (sendRawEvent c ev)" for ev
    unfolding sendRawEvent_def by (auto intro!: streams.eff_rules w)
  show q: "state_io_rel (streams_to c) (send_queued c msgs)" for msgs
  proof (induction msgs)
    case (Cons m msgs)
    have "state_io_rel (streams_to c) (MarkDelivered (in_ID m))"
      by (rule io_relI_snd, rule delivers_streams, rule io_rel_run) (auto intro: delivers_intros)
    with Cons show ?case by (auto intro!: streams.eff_rules s)
  qed (auto intro!: streams.eff_rules)
  have "state_io_rel (streams_to c) (FindQueuedByAccountID a)"
    by (rule io_relI_snd, rule delivers_streams, rule io_rel_run) (auto intro: delivers_intros)
  then show "state_io_rel (streams_to c) (sendQueuedMessages c a)"
    unfolding sendQueuedMessages_def by (auto intro!: streams.eff_rules q)
qed

lemma events_start_outcome: "\<exists>c w. run_state (events_start sid a session) v = (Stream stream_headers c, w)"
  by (auto simp: events_start_def split: prod.split)

lemma events_start_connects [connects_intros]: "connects (events_start sid a session)"
  unfolding connects_def
proof
  fix w
  obtain c v where "run_state (events_start sid a session) w = (Stream stream_headers c, v)"
    using events_start_outcome by blast
  then show "case run_state (events_start sid a session) w of
     (Response resp, w') \<Rightarrow> delivers w w'
   | (Page resp, w') \<Rightarrow> delivers w w'
   | (Stream hs c, w') \<Rightarrow>
       (\<exists>v sid a ses. delivers w v \<and> run_state (events_start sid a ses) v = (Stream stream_headers c, w'))"
    using delivers.R_refl by auto
qed

lemma events_start_streams:
  assumes "run_state (events_start sid a session) v = (Stream hs c, w)"
  obtains b where "Subscribe sid (broker v) = (c, b)" "streams_to c (v\<lparr>broker := b\<rparr>) w"
proof -
  obtain c' b where b: "Subscribe sid (broker v) = (c', b)" by fastforce
  define rest where "rest = do {
     _ \<leftarrow> (if a \<noteq> [] then sendQueuedMessages c' a else State_Monad.return True);
     _ \<leftarrow> sendEvent c' ''connected'' (connected_data a session);
     State_Monad.return (Stream stream_headers c') }"
  have "state_io_rel (streams_to c') rest"
    unfolding rest_def sendEvent_def by (auto intro!: streams.eff_rules write_streams)
  moreover have run: "run_state (events_start sid a session) v = run_state rest (v\<lparr>broker := b\<rparr>)"
    using b by (simp add: events_start_def broker_subscribe_def rest_def)
  ultimately have "streams_to c' (v\<lparr>broker := b\<rparr>) w" using assms by (metis io_rel_run snd_conv)
  moreover have "c' = c"
    using assms unfolding run by (auto simp: rest_def split: prod.splits)
  ultimately show thesis using b by (intro that[of b]) simp_all
qed

lemma Events_connects [connects_intros]: "connects (Events_ServeHTTP r)"
  unfolding Events_ServeHTTP_def by (auto intro!: connects_intros split: option.split)

end
