(* ===== verification/Server.thy ===== *)
theory Server
  imports Delivery
begin

text \<open>
  cmd/server/main.go: which handler serves which route behind which middlewares, and the server as a
  whole: requests, turns of the open event streams, the broker's listeners, the cleanup job and the
  environment, in any order.
\<close>

section \<open>Routes\<close>

text \<open>http.Redirect for a GET request, and the embedded page (a parameter).\<close>

definition redirect_dashboard :: handler where
  "redirect_dashboard r = State_Monad.return (Page
     \<lparr>status = 302,
      headers = [(''Location'', ''/dashboard/''), (''Content-Type'', ''text/html; charset=utf-8'')],
      body = ''<a href='' @ [CHR 0x22] @ ''/dashboard/'' @ [CHR 0x22] @ ''>Found</a>.'' @ [CHR 0x0A, CHR 0x0A]\<rparr>)"

definition health :: handler where
  "health r = do {
     now \<leftarrow> time_now;
     respond 200 (JObj [(''status'', JStr ''ok''), (''timestamp'', JInt (UnixMilli now))])
   }"

definition ServeIndex :: "string \<Rightarrow> handler" where
  "ServeIndex indexHTML r = State_Monad.return (Page
     \<lparr>status = 200, headers = [(''Content-Type'', ''text/html; charset=utf-8'')], body = indexHTML\<rparr>)"

record route =
  rt_Method :: string
  rt_Pattern :: string
  rt_Handler :: handler

definition mounted :: "string \<Rightarrow> string \<Rightarrow> handler \<Rightarrow> route" where
  "mounted m p h = \<lparr>rt_Method = m, rt_Pattern = p, rt_Handler = BodyLimit_Handler 0 h\<rparr>"

definition sessionCreateRateLimit :: "handler \<Rightarrow> handler" where
  "sessionCreateRateLimit = IPRateLimit_Handler 10 (5 * minute) ''session_create''"

definition sessionStatusRateLimit :: "handler \<Rightarrow> handler" where
  "sessionStatusRateLimit = IPRateLimit_Handler 30 (1 * minute) ''session_status''"

definition authenticated :: "handler \<Rightarrow> handler" where
  "authenticated h = Auth_Handler (RedisRateLimit_Handler h)"

text \<open>
  The route table, with the patterns of the sub-routers written out. The global middlewares other
  than the body limit are the router's own or only log. Which pattern a request matches is decided
  by the router, a library; the request carries the parameters it found.
\<close>

definition routes :: "Config \<Rightarrow> string \<Rightarrow> route list" where
  "routes cfg indexHTML =
     [mounted ''GET'' ''/'' redirect_dashboard,
      mounted ''GET'' ''/health'' health,
      mounted ''POST'' ''/kakao/webhook''
        (KakaoSignature_Handler (cfg_KakaoSignatureSecret cfg) (Webhook (CallbackTTL cfg))),
      mounted ''GET'' ''/v1/events'' (authenticated Events_ServeHTTP),
      mounted ''POST'' ''/openclaw/reply'' (authenticated Reply),
      mounted ''POST'' ''/v1/sessions/create'' (sessionCreateRateLimit CreateSession_Handler),
      mounted ''GET'' ''/v1/sessions/{sessionToken}/status'' (sessionStatusRateLimit GetSessionStatus),
      mounted ''GET'' ''/dashboard/'' (ServeIndex indexHTML),
      mounted ''GET'' ''/dashboard/api/overview'' Overview,
      mounted ''GET'' ''/dashboard/api/accounts'' ListAccounts,
      mounted ''GET'' ''/dashboard/api/accounts/{id}/conversations'' AccountConversations,
      mounted ''GET'' ''/dashboard/api/accounts/{id}/messages'' AccountMessages,
      mounted ''GET'' ''/dashboard/api/accounts/{id}/stats'' AccountStats,
      mounted ''GET'' ''/dashboard/api/accounts/{id}/failed-messages'' AccountFailedMessages,
      mounted ''POST'' ''/dashboard/api/accounts/{id}/regenerate-token'' RegenerateToken,
      mounted ''DELETE'' ''/dashboard/api/accounts/{id}'' DeleteAccount,
      mounted ''DELETE'' ''/dashboard/api/accounts/{id}/conversations/{convId}'' DeleteConversation,
      mounted ''GET'' ''/dashboard/api/sessions'' ListSessions,
      mounted ''POST'' ''/dashboard/api/sessions/create'' Dashboard_CreateSession,
      mounted ''POST'' ''/dashboard/api/sessions/{id}/disconnect'' DisconnectSession,
      mounted ''DELETE'' ''/dashboard/api/sessions/{id}'' DeleteSession]"

datatype log_level = DebugLevel | InfoLevel | WarnLevel | ErrorLevel

definition setLogLevel :: "string \<Rightarrow> log_level" where
  "setLogLevel level =
     (if level = ''debug'' then DebugLevel
      else if level = ''info'' then InfoLevel
      else if level = ''warn'' then WarnLevel
      else if level = ''error'' then ErrorLevel
      else InfoLevel)"

lemma plain_handlers_eff [good_intros, outgoing_intros]:
  "state_io_rel good (redirect_dashboard r)" "state_io_rel outgoing (redirect_dashboard r)"
  "state_io_rel good (health r)" "state_io_rel outgoing (health r)"
  "state_io_rel good (ServeIndex html r)" "state_io_rel outgoing (ServeIndex html r)"
  unfolding redirect_dashboard_def health_def ServeIndex_def
  by (auto intro!: good.eff_rules good_intros) (auto intro!: outgoing.eff_rules outgoing_intros)

lemma plain_handlers_connect [connects_intros]:
  "connects (redirect_dashboard r)" "connects (health r)" "connects (ServeIndex html r)"
  unfolding redirect_dashboard_def health_def ServeIndex_def
  by (auto intro!: connects_intros delivers_intros)

lemma route_handlers:
  assumes "rt \<in> set (routes cfg html)"
  shows "state_io_rel good (rt_Handler rt r)" "state_io_rel outgoing (rt_Handler rt r)"
    "connects (rt_Handler rt r)"
proof -
  note defs = routes_def mounted_def authenticated_def sessionCreateRateLimit_def sessionStatusRateLimit_def
  show "state_io_rel good (rt_Handler rt r)"
    using assms unfolding defs by (auto intro!: good_intros)
  show "state_io_rel outgoing (rt_Handler rt r)"
    using assms unfolding defs by (auto intro!: outgoing_intros)
  show "connects (rt_Handler rt r)"
    using assms unfolding defs by (auto intro!: connects_intros)
qed


section \<open>The running server\<close>

text \<open>
  \<open>sv_streams\<close> are the clients whose ServeHTTP is in its loop, \<open>sv_down\<close> says that Shutdown has
  stopped the listener. A handler runs as one step, an event stream turn by turn; the deferred
  Unsubscribe runs when its loop ends. \<^const>\<open>None\<close> is a panic of the process outside a handler's
  Recoverer or in Close. The environment may refill every supply and let time pass.
\<close>

record server =
  sv_world :: world
  sv_streams :: "nat set"
  sv_down :: bool

definition environment :: "world \<Rightarrow> world \<Rightarrow> bool" where
  "environment w w' \<longleftrightarrow>
     (\<exists>t ts dfs us e rfs hrs wfs. clock w \<le> t
        \<and> w' = w\<lparr>clock := t, ticks := ts, db_faults := dfs, uuids := us, entropy := e,
                redis_faults := rfs, http_replies := hrs, write_faults := wfs\<rparr>)"

definition select_ready :: "nat \<Rightarrow> select_case \<Rightarrow> Broker \<Rightarrow> bool" where
  "select_ready c which b =
     (case which of
        ClientDone \<Rightarrow> cl_Done (br_heap b ! c)
      | EventReady \<Rightarrow> cl_Events (br_heap b ! c) \<noteq> []
      | _ \<Rightarrow> True)"

inductive server_step :: "Config \<Rightarrow> string \<Rightarrow> server \<Rightarrow> server option \<Rightarrow> bool" for cfg html where
  respond:
    "\<not> sv_down s \<Longrightarrow> rt \<in> set (routes cfg html) \<Longrightarrow> rq_Account r = None \<Longrightarrow> rq_Session r = None \<Longrightarrow>
     run_state (rt_Handler rt r) (sv_world s) = (out, w) \<Longrightarrow> (\<forall>hs c. out \<noteq> Stream hs c) \<Longrightarrow>
     server_step cfg html s (Some (s\<lparr>sv_world := w\<rparr>))"
| connect:
    "\<not> sv_down s \<Longrightarrow> rt \<in> set (routes cfg html) \<Longrightarrow> rq_Account r = None \<Longrightarrow> rq_Session r = None \<Longrightarrow>
     run_state (rt_Handler rt r) (sv_world s) = (Stream hs c, w) \<Longrightarrow>
     server_step cfg html s (Some (s\<lparr>sv_world := w, sv_streams := insert c (sv_streams s)\<rparr>))"
| turn:
    "c \<in> sv_streams s \<Longrightarrow> select_ready c which (broker (sv_world s)) \<Longrightarrow>
     run_state (events_turn c which) (sv_world s) = (True, w) \<Longrightarrow>
     server_step cfg html s (Some (s\<lparr>sv_world := w\<rparr>))"
| leave:
    "c \<in> sv_streams s \<Longrightarrow> select_ready c which (broker (sv_world s)) \<Longrightarrow>
     run_state (events_turn c which) (sv_world s) = (False, w) \<Longrightarrow> Unsubscribe c (broker w) = Some b \<Longrightarrow>
     server_step cfg html s (Some (s\<lparr>sv_world := w\<lparr>broker := b\<rparr>, sv_streams := sv_streams s - {c}\<rparr>))"
| leave_panic:
    "c \<in> sv_streams s \<Longrightarrow> select_ready c which (broker (sv_world s)) \<Longrightarrow>
     run_state (events_turn c which) (sv_world s) = (False, w) \<Longrightarrow> Unsubscribe c (broker w) = None \<Longrightarrow>
     server_step cfg html s None"
| listener_start:
    "i < length (br_listeners (broker (sv_world s))) \<Longrightarrow>
     server_step cfg html s (Some (s\<lparr>sv_world := (sv_world s)
       \<lparr>broker := subscribeToRedis_start i (broker (sv_world s))\<rparr>\<rparr>))"
| listener_step:
    "i < length (br_listeners (broker (sv_world s))) \<Longrightarrow>
     server_step cfg html s (Some (s\<lparr>sv_world := (sv_world s)
       \<lparr>broker := subscribeToRedis_step i (broker (sv_world s))\<rparr>\<rparr>))"
| listener_exit:
    "br_cancelled (broker (sv_world s)) \<Longrightarrow> i < length (br_listeners (broker (sv_world s))) \<Longrightarrow>
     server_step cfg html s (Some (s\<lparr>sv_world := (sv_world s)
       \<lparr>broker := subscribeToRedis_exit i (broker (sv_world s))\<rparr>\<rparr>))"
| remote_publish:
    "server_step cfg html s (Some (s\<lparr>sv_world := (sv_world s)
       \<lparr>bus := bus (sv_world s) @ [(MessageChannel a, e)],
        broker := redis_deliver (MessageChannel a) e (broker (sv_world s))\<rparr>\<rparr>))"
| cleanup_tick:
    "run_state cleanup (sv_world s) = (x, w) \<Longrightarrow> server_step cfg html s (Some (s\<lparr>sv_world := w\<rparr>))"
| environment_step:
    "environment (sv_world s) w \<Longrightarrow> server_step cfg html s (Some (s\<lparr>sv_world := w\<rparr>))"
| shutdown:
    "server_step cfg html s (Some (s\<lparr>sv_down := True\<rparr>))"
| close:
    "sv_down s \<Longrightarrow> \<not> br_cancelled (broker (sv_world s)) \<Longrightarrow> Close (broker (sv_world s)) = Some b \<Longrightarrow>
     server_step cfg html s (Some (s\<lparr>sv_world := (sv_world s)\<lparr>broker := b\<rparr>\<rparr>))"
| close_panic:
    "sv_down s \<Longrightarrow> \<not> br_cancelled (broker (sv_world s)) \<Longrightarrow> Close (broker (sv_world s)) = None \<Longrightarrow>
     server_step cfg html s None"

definition server_start :: "world \<Rightarrow> bool" where
  "server_start w \<longleftrightarrow> wf_db (db w) \<and> broker w = NewBroker \<and> callbacks w = [] \<and> hops w = [] \<and> bus w = [] \<and> sse_out w = []"

inductive server_reach :: "Config \<Rightarrow> string \<Rightarrow> server \<Rightarrow> bool" for cfg html where
  start: "server_start w \<Longrightarrow> server_reach cfg html \<lparr>sv_world = w, sv_streams = {}, sv_down = False\<rparr>"
| step: "server_reach cfg html s \<Longrightarrow> server_step cfg html s (Some t) \<Longrightarrow> server_reach cfg html t"

inductive_cases server_stepE: "server_step cfg html s (Some t)"
inductive_simps server_step_panic: "server_step cfg html s None"

text \<open>
  A relation that the handlers, the turns of a stream, the job and the environment respect is
  respected by every step and run of the server.
\<close>

locale server_effect = effect_order R for R :: "world \<Rightarrow> world \<Rightarrow> bool" +
  assumes handler: "rt \<in> set (routes cfg html) \<Longrightarrow> state_io_rel R (rt_Handler rt r)"
    and stream: "state_io_rel R (events_turn c which)"
    and job: "state_io_rel R cleanup"
    and set_broker: "R w (w\<lparr>broker := b\<rparr>)"
    and set_bus: "R w (w\<lparr>bus := bus w @ xs, broker := b\<rparr>)"
    and env: "environment w w' \<Longrightarrow> R w w'"
begin

lemma run_R: "state_io_rel R m \<Longrightarrow> run_state m w = (x, w') \<Longrightarrow> R w w'"
  by (metis io_rel_run snd_conv)

lemma step_R: "server_step cfg html s (Some t) \<Longrightarrow> R (sv_world s) (sv_world t)"
  by (elim server_stepE)
     (auto intro: run_R[OF handler] run_R[OF stream] run_R[OF job] set_broker set_bus env R_refl
        R_trans[OF run_R[OF stream] set_broker])

lemma reach_R:
  "server_reach cfg html s \<Longrightarrow> \<exists>w0. server_start w0 \<and> R w0 (sv_world s)"
  by (induction rule: server_reach.induct) (auto intro: R_refl R_trans step_R)

end

interpretation good_server: server_effect good
  by unfold_locales (auto intro: route_handlers events_turn_eff cleanup_eff simp: good_def environment_def)

interpretation outgoing_server: server_effect outgoing
  by unfold_locales (auto intro: route_handlers events_turn_eff cleanup_eff simp: outgoing_def environment_def)


section \<open>The broker inside the server\<close>

lemma deliver_all_Cons: "deliver_all ((a, e) # ms) b = deliver_all ms (redis_deliver (MessageChannel a) e b)"
  by (simp add: deliver_all_def)

lemma deliver_all_heap: "br_heap (deliver_all ms b) = br_heap b"
  by (induction ms arbitrary: b) (auto simp: deliver_all_Cons redis_deliver_def)

lemma deliver_all_cancelled: "br_cancelled (deliver_all ms b) = br_cancelled b"
proof (induction ms arbitrary: b)
  case (Cons m ms)
  then show ?case by (cases m) (simp add: deliver_all_Cons redis_deliver_def)
qed simp

lemma reach_deliver_all:
  assumes "broker_reach False bs"
  obtains bs' where "broker_reach False bs'" "bs_broker bs' = deliver_all ms (bs_broker bs)"
    "bs_conns bs' = bs_conns bs" "bs_log bs' = bs_log bs @ sent ms"
  using assms
proof (induction ms arbitrary: bs thesis)
  case Nil
  then show ?case by simp
next
  case (Cons m ms)
  obtain a e where m: "m = (a, e)" by fastforce
  define bs1 where "bs1 = bs\<lparr>bs_broker := redis_deliver (MessageChannel a) e (bs_broker bs),
       bs_log := bs_log bs @ [(MessageChannel a, e)]\<rparr>"
  have "broker_reach False bs1"
    unfolding bs1_def using Cons.prems(2) broker_step.publish by (rule broker_reach.step)
  then obtain bs' where "broker_reach False bs'" "bs_broker bs' = deliver_all ms (bs_broker bs1)"
    "bs_conns bs' = bs_conns bs1" "bs_log bs' = bs_log bs1 @ sent ms" by (rule Cons.IH[rotated])
  with Cons.prems(1) show ?case by (simp add: bs1_def deliver_all_Cons m sent_def)
qed

text \<open>
  The broker inside the server is a reachable broker, and its connections are the open streams:
  handlers, turns, listeners and shutdown are steps of the broker's own transition system.
\<close>

definition refines :: "server \<Rightarrow> broker_sys \<Rightarrow> bool" where
  "refines s bs \<longleftrightarrow> broker_reach False bs \<and> bs_broker bs = broker (sv_world s) \<and> bs_conns bs = sv_streams s
     \<and> bs_log bs = bus (sv_world s) \<and> (br_cancelled (bs_broker bs) \<longrightarrow> sv_down s)"

lemma refines_delivers:
  assumes "refines s bs" "delivers (sv_world s) w"
  obtains bs' where "refines (s\<lparr>sv_world := w\<rparr>) bs'"
proof -
  from assms(2) obtain ms where ms: "broker w = deliver_all ms (broker (sv_world s))"
    "bus w = bus (sv_world s) @ sent ms" by (auto simp: delivers_def)
  obtain bs' where "broker_reach False bs'" "bs_broker bs' = deliver_all ms (bs_broker bs)"
    "bs_conns bs' = bs_conns bs" "bs_log bs' = bs_log bs @ sent ms"
    by (rule reach_deliver_all[of bs ms]) (use assms(1) in \<open>auto simp: refines_def\<close>)
  with assms(1) ms show thesis by (intro that[of bs']) (auto simp: refines_def deliver_all_cancelled)
qed

text \<open>A turn of a stream receives at most one event, and only writes otherwise.\<close>

lemma events_turn_broker:
  assumes "run_state (events_turn c which) w = (go, w')"
  shows "(broker w' = broker w \<or> (\<exists>e. receive c (broker w) = Some (e, broker w'))) \<and> bus w' = bus w"
proof -
  have chunk: "broker (snd (run_state (write_chunk c chunk) v)) = broker v
      \<and> bus (snd (run_state (write_chunk c chunk) v)) = bus v" for chunk v
    by (auto simp: write_chunk_def split: list.split bool.split)
  have raw: "broker (snd (run_state (sendRawEvent c ev) v)) = broker v
      \<and> bus (snd (run_state (sendRawEvent c ev) v)) = bus v" for ev v
  proof (cases "run_state (write_chunk c (EventLine (ev_Type ev))) v")
    case (Pair ok v1)
    with chunk[of "EventLine (ev_Type ev)" v] chunk[of "DataLine (ev_Data ev)" v1] show ?thesis
      by (simp add: sendRawEvent_def)
  qed
  show ?thesis
  proof (cases which)
    case EventReady
    show ?thesis
    proof (cases "receive c (broker w)")
      case None
      with assms EventReady show ?thesis by (simp add: events_turn_def)
    next
      case (Some eb)
      then obtain e b where r: "receive c (broker w) = Some (e, b)" by (cases eb) auto
      with assms EventReady have "w' = snd (run_state (sendRawEvent c e) (w\<lparr>broker := b\<rparr>))"
        by (simp add: events_turn_def)
      with raw[of e "w\<lparr>broker := b\<rparr>"] r show ?thesis by simp
    qed
  next
    case HeartbeatTick
    with assms chunk[of PingLine w] show ?thesis by (simp add: events_turn_def)
  qed (use assms in \<open>simp_all add: events_turn_def\<close>)
qed

lemma ops_cancelled:
  "br_cancelled (snd (Subscribe a b)) = br_cancelled b"
  "Unsubscribe c b = Some b' \<Longrightarrow> br_cancelled b' = br_cancelled b"
  "receive c b = Some (e, b') \<Longrightarrow> br_cancelled b' = br_cancelled b"
  "br_cancelled (subscribeToRedis_start i b) = br_cancelled b"
  "br_cancelled (subscribeToRedis_step i b) = br_cancelled b"
  "br_cancelled (subscribeToRedis_exit i b) = br_cancelled b"
  "br_cancelled (redis_deliver ch e b) = br_cancelled b"
  by (auto simp: Subscribe_def Unsubscribe_def close_done_def receive_def subscribeToRedis_start_def
      subscribeToRedis_step_def subscribeToRedis_exit_def redis_deliver_def broadcast_def Let_def
      split: option.splits list.splits if_splits)

lemma refines_via:
  assumes "refines s bs" "broker_step False bs (Some bs')" "sv_streams t = bs_conns bs'"
    and "bs_broker bs' = broker (sv_world t)" "sv_down t = sv_down s"
    and "br_cancelled (broker (sv_world t)) = br_cancelled (broker (sv_world s))"
    and "bs_log bs' = bus (sv_world t)"
  shows "refines t bs'"
  using assms by (auto simp: refines_def intro: broker_reach.step)

lemma refines_turn:
  assumes ref: "refines s bs" and c: "c \<in> sv_streams s"
    and run: "run_state (events_turn c which) (sv_world s) = (go, w)"
  obtains bs' where "refines (s\<lparr>sv_world := w\<rparr>) bs'"
proof (cases "broker w = broker (sv_world s)")
  case True
  with ref events_turn_broker[OF run] show thesis by (intro that[of bs]) (simp add: refines_def)
next
  case False
  then obtain e where r: "receive c (broker (sv_world s)) = Some (e, broker w)"
    using events_turn_broker[OF run] by blast
  have "broker_step False bs (Some (bs\<lparr>bs_broker := broker w, bs_got := bs_got bs @ [(c, e)]\<rparr>))"
    by (rule broker_step.receive) (use ref c r in \<open>auto simp: refines_def\<close>)
  then show thesis
    by (rule that[OF refines_via[OF ref]])
       (use ref ops_cancelled(3)[OF r] events_turn_broker[OF run] in \<open>simp_all add: refines_def\<close>)
qed

lemma refines_connect:
  assumes ref: "refines s bs" and up: "\<not> sv_down s"
    and v: "delivers (sv_world s) v" and sub: "Subscribe sid (broker v) = (c, b)"
    and w: "streams_to c (v\<lparr>broker := b\<rparr>) w"
  obtains bs' where "refines (s\<lparr>sv_world := w, sv_streams := insert c (sv_streams s)\<rparr>) bs'"
proof -
  from v obtain ms where ms: "broker v = deliver_all ms (broker (sv_world s))" "bus v = bus (sv_world s) @ sent ms"
    unfolding delivers_def by blast
  from w obtain ms' where ms': "broker w = deliver_all ms' b" "bus w = bus v @ sent ms'"
    unfolding streams_to_def by auto
  obtain bs1 where bs1: "broker_reach False bs1" "bs_broker bs1 = broker v"
    "bs_conns bs1 = sv_streams s" "bs_log bs1 = bus v"
    by (rule reach_deliver_all[of bs ms]) (use ref ms in \<open>auto simp: refines_def\<close>)
  have open1: "\<not> br_cancelled (bs_broker bs1)"
    using ref up by (auto simp: refines_def bs1(2) ms deliver_all_cancelled)
  have "broker_step False bs1 (Some (bs1\<lparr>bs_broker := b, bs_conns := insert c (bs_conns bs1)\<rparr>))"
    by (rule broker_step.subscribe) (use sub open1 in \<open>simp_all add: bs1\<close>)
  with bs1(1) have "broker_reach False (bs1\<lparr>bs_broker := b, bs_conns := insert c (bs_conns bs1)\<rparr>)"
    by (rule broker_reach.step)
  then obtain bs2 where "broker_reach False bs2" "bs_broker bs2 = broker w" "bs_conns bs2 = insert c (sv_streams s)"
    "bs_log bs2 = bus w"
    by (rule reach_deliver_all[where ms = ms']) (simp add: ms' bs1)
  moreover have "br_cancelled (broker w) = br_cancelled (bs_broker bs1)"
    using ops_cancelled(1)[of sid "bs_broker bs1"] sub by (simp add: ms' deliver_all_cancelled bs1(2))
  ultimately show thesis using open1 by (intro that[of bs2]) (simp add: refines_def)
qed

lemma refines_leave:
  assumes ref: "refines s bs" and c: "c \<in> sv_streams s"
    and run: "run_state (events_turn c which) (sv_world s) = (go, w)" and unsub: "Unsubscribe c (broker w) = Some b"
  obtains bs' where "refines (s\<lparr>sv_world := w\<lparr>broker := b\<rparr>, sv_streams := sv_streams s - {c}\<rparr>) bs'"
proof -
  obtain bs1 where ref1: "refines (s\<lparr>sv_world := w\<rparr>) bs1" by (rule refines_turn[OF ref c run])
  then have "broker_step False bs1 (Some (bs1\<lparr>bs_broker := b, bs_conns := bs_conns bs1 - {c}\<rparr>))"
    by (intro broker_step.unsubscribe) (use c unsub in \<open>auto simp: refines_def\<close>)
  then show thesis
    by (rule that[OF refines_via[OF ref1]]) (use ref1 ops_cancelled(2)[OF unsub] in \<open>simp_all add: refines_def\<close>)
qed

lemma refines_close:
  assumes ref: "refines s bs" and down: "sv_down s" "\<not> br_cancelled (broker (sv_world s))"
    and close: "Close (broker (sv_world s)) = Some b"
  shows "refines (s\<lparr>sv_world := (sv_world s)\<lparr>broker := b\<rparr>\<rparr>) (bs\<lparr>bs_broker := b\<rparr>)"
proof -
  have "broker_step False bs (Some (bs\<lparr>bs_broker := b\<rparr>))"
    by (rule broker_step.close) (use assms in \<open>simp_all add: refines_def\<close>)
  with ref down(1) show ?thesis by (auto simp: refines_def intro: broker_reach.step)
qed

text \<open>A request that opens no stream only delivers.\<close>

lemma respond_delivers:
  assumes "rt \<in> set (routes cfg html)" "run_state (rt_Handler rt r) w = (out, w')" "\<forall>hs c. out \<noteq> Stream hs c"
  shows "delivers w w'"
  using route_handlers(3)[OF assms(1), of r] assms(2,3)
  by (cases out) (auto simp: connects_def dest!: spec[of _ w])

lemma connect_starts:
  assumes "rt \<in> set (routes cfg html)" "run_state (rt_Handler rt r) w = (Stream hs c, w')"
  obtains v sid b where "delivers w v" "Subscribe sid (broker v) = (c, b)" "streams_to c (v\<lparr>broker := b\<rparr>) w'"
proof -
  obtain v sid a ses where v: "delivers w v" "run_state (events_start sid a ses) v = (Stream stream_headers c, w')"
    using route_handlers(3)[OF assms(1), of r] assms(2) by (auto simp: connects_def dest!: spec[of _ w])
  obtain b where "Subscribe sid (broker v) = (c, b)" "streams_to c (v\<lparr>broker := b\<rparr>) w'"
    by (rule events_start_streams[OF v(2)])
  with v(1) show thesis by (rule that)
qed

lemma cleanup_runs_deliver: "run_state cleanup w = (x, w') \<Longrightarrow> delivers w w'"
  using io_rel_run[OF cleanup_delivers, of w] by simp

lemma refines_server_step:
  assumes step: "server_step cfg html s (Some t)" and ref: "refines s bs"
  obtains bs' where "refines t bs'"
  using step
proof cases
  case (respond rt r out w)
  with ref respond_delivers[OF respond(3,6,7)] show thesis by (auto intro: refines_delivers that)
next
  case (connect rt r hs c w)
  obtain v sid b where v: "delivers (sv_world s) v" "Subscribe sid (broker v) = (c, b)"
    "streams_to c (v\<lparr>broker := b\<rparr>) w" by (rule connect_starts[OF connect(3,6)])
  from refines_connect[OF ref connect(2) v] connect(1) show thesis using that by metis
next
  case (turn c which w)
  from refines_turn[OF ref turn(2,4)] turn(1) show thesis using that by metis
next
  case (leave c which w b)
  from refines_leave[OF ref leave(2,4,5)] leave(1) show thesis using that by metis
next
  case (listener_start i)
  show thesis
    by (rule that, rule refines_via[OF ref broker_step.start])
       (use ref listener_start in \<open>simp_all add: refines_def ops_cancelled\<close>)
next
  case (listener_step i)
  show thesis
    by (rule that, rule refines_via[OF ref broker_step.listen])
       (use ref listener_step in \<open>simp_all add: refines_def ops_cancelled\<close>)
next
  case (listener_exit i)
  show thesis
    by (rule that, rule refines_via[OF ref broker_step.exit])
       (use ref listener_exit in \<open>simp_all add: refines_def ops_cancelled\<close>)
next
  case (remote_publish a e)
  show thesis
    by (rule that, rule refines_via[OF ref broker_step.publish])
       (use ref remote_publish in \<open>simp_all add: refines_def ops_cancelled\<close>)
next
  case (cleanup_tick x w)
  with ref cleanup_runs_deliver[OF cleanup_tick(2)] show thesis by (auto intro: refines_delivers that)
next
  case (environment_step w)
  then have "broker w = broker (sv_world s)" "bus w = bus (sv_world s)" by (auto simp: environment_def)
  with ref environment_step(1) show thesis by (intro that[of bs]) (simp add: refines_def)
next
  case shutdown
  with ref show thesis by (intro that[of bs]) (simp add: refines_def)
next
  case (close b)
  with refines_close[OF ref close(2-4)] show thesis by (intro that) simp
qed

lemma server_refines_broker: "server_reach cfg html s \<Longrightarrow> \<exists>bs. refines s bs"
proof (induction rule: server_reach.induct)
  case (start w)
  then have "refines \<lparr>sv_world = w, sv_streams = {}, sv_down = False\<rparr> broker_init"
    by (simp add: refines_def server_start_def broker_init_def NewBroker_def broker_reach.init[unfolded broker_init_def NewBroker_def])
  then show ?case ..
next
  case (step s t)
  then obtain bs where "refines s bs" by blast
  with step.hyps(2) show ?case by (rule refines_server_step) blast
qed

end
