(* ===== verification/Examples.thy ===== *)
theory Examples
  imports DbInvariant
begin

text \<open>
  A small concrete world: one account, a pending session with the code ABCD-2345, a paired session,
  a paired and an unpaired conversation and messages of the account. The witnesses of the properties evaluate the
  model on it.
\<close>

definition ex_uuid :: "char \<Rightarrow> string" where
  "ex_uuid c = ''00000000-0000-4000-8000-00000000000'' @ [c]"

lemma ex_uuid_valid:
  "IsValidUUID (ex_uuid (CHR ''1''))" "IsValidUUID (ex_uuid (CHR ''2''))" "IsValidUUID (ex_uuid (CHR ''3''))"
  "IsValidUUID (ex_uuid (CHR ''4''))" "IsValidUUID (ex_uuid (CHR ''5''))" "IsValidUUID (ex_uuid (CHR ''6''))"
  "IsValidUUID (ex_uuid (CHR ''7''))" "IsValidUUID (ex_uuid (CHR ''8''))" "IsValidUUID (ex_uuid (CHR ''9''))"
  by code_simp+

lemma ex_uuid_eq [simp]: "ex_uuid c = ex_uuid d \<longleftrightarrow> c = d"
  by (simp add: ex_uuid_def)

text \<open>The JSON parser of the example knows two documents: a reply and a webhook call.\<close>

definition ex_json :: "string \<Rightarrow> json option" where
  "ex_json s =
     (if s = ''reply'' then Some (JObj
        [(''messageId'', JStr (ex_uuid (CHR ''6''))), (''response'', JObj [(''version'', JStr ''2.0'')])])
      else if s = ''webhook'' then Some (JObj
        [(''userRequest'', JObj [(''utterance'', JStr ''hello''),
            (''user'', JObj [(''id'', JStr ''user'')])]),
         (''bot'', JObj [(''id'', JStr ''channel'')])])
      else None)"

definition ex_env :: env where
  "ex_env = \<lparr>upper_table = (\<lambda>s. s), lower_table = (\<lambda>s. s), time_format = (\<lambda>layout t. Itoa (Unix t)),
     day_start = (\<lambda>t. t - t mod (86400 * second)), json_first = ex_json, json_whole = ex_json, uuid_in = (\<lambda>s. if IsValidUUID s then Some s else None),
     lua_random = ''0.5''\<rparr>"

lemma ex_env_cast [simp]: "uuid_cast_ok ex_env"
  by (simp add: uuid_cast_ok_def ex_env_def)

definition ex_account :: Account where
  "ex_account = \<lparr>acc_ID = ex_uuid (CHR ''1''), acc_RelayTokenHash = None, acc_RateLimitPerMin = 60,
     acc_CreatedAt = 0, acc_UpdatedAt = 0\<rparr>"

definition ex_pending :: Session where
  "ex_pending = \<lparr>ses_ID = ex_uuid (CHR ''2''), ses_SessionTokenHash = ''h2'', ses_PairingCode = ''ABCD-2345'',
     ses_Status = SessionStatusPendingPairing, ses_AccountID = None, ses_PairedConversationKey = None,
     ses_Metadata = None, ses_ExpiresAt = 300 * second, ses_PairedAt = None, ses_CreatedAt = 0,
     ses_UpdatedAt = 0\<rparr>"

definition ex_paired :: Session where
  "ex_paired = \<lparr>ses_ID = ex_uuid (CHR ''3''), ses_SessionTokenHash = HashToken ''secret'', ses_PairingCode = ''EFGH-2345'',
     ses_Status = SessionStatusPaired, ses_AccountID = Some (ex_uuid (CHR ''1'')),
     ses_PairedConversationKey = Some ''channel:user'', ses_Metadata = None, ses_ExpiresAt = far_future,
     ses_PairedAt = Some 0, ses_CreatedAt = 0, ses_UpdatedAt = 0\<rparr>"

definition ex_conv :: ConversationMapping where
  "ex_conv = \<lparr>conv_ID = ex_uuid (CHR ''4''), conv_ConversationKey = ''channel:user'',
     conv_KakaoChannelID = ''channel'', conv_PlusfriendUserKey = ''user'',
     conv_AccountID = Some (ex_uuid (CHR ''1'')), conv_State = PairingStatePaired,
     conv_LastCallbackURL = None, conv_LastCallbackExpiresAt = None, conv_FirstSeenAt = 0,
     conv_LastSeenAt = 0, conv_PairedAt = Some 0\<rparr>"

definition ex_other_conv :: ConversationMapping where
  "ex_other_conv = \<lparr>conv_ID = ex_uuid (CHR ''5''), conv_ConversationKey = ''channel:guest'',
     conv_KakaoChannelID = ''channel'', conv_PlusfriendUserKey = ''guest'', conv_AccountID = None,
     conv_State = PairingStateUnpaired, conv_LastCallbackURL = None, conv_LastCallbackExpiresAt = None,
     conv_FirstSeenAt = 0, conv_LastSeenAt = 0, conv_PairedAt = None\<rparr>"

definition ex_inbound :: "char \<Rightarrow> time \<Rightarrow> InboundMessage" where
  "ex_inbound c t = \<lparr>in_ID = ex_uuid c, in_AccountID = ex_uuid (CHR ''1''),
     in_ConversationKey = ''channel:user'', in_KakaoPayload = JObj [], in_NormalizedMessage = None,
     in_CallbackURL = Some ''https://bot-api.kakao.com/callback'', in_CallbackExpiresAt = Some (60 * second),
     in_Status = InboundStatusQueued, in_SourceEventID = None, in_CreatedAt = t, in_DeliveredAt = None,
     in_AckedAt = None\<rparr>"

definition ex_db :: database where
  "ex_db = \<lparr>accounts = [ex_account], conversations = [ex_conv, ex_other_conv],
     sessions = [ex_pending, ex_paired],
     inbounds = [ex_inbound (CHR ''7'') (2 * second), ex_inbound (CHR ''6'') (1 * second)], outbounds = []\<rparr>"

lemma ex_hash [simp]: "HashToken t \<noteq> ''h2''" "''h2'' \<noteq> HashToken t"
proof -
  have "length (HashToken t) \<noteq> length ''h2''" using HashToken_shape[of t] by simp
  then show "HashToken t \<noteq> ''h2''" "''h2'' \<noteq> HashToken t" by metis+
qed

lemma ex_db_wf: "wf_db ex_db"
  by (simp add: wf_db_def wf_parts ex_db_def keys_ok_def unique_col_def unique_nullable_def ex_account_def
      ex_pending_def ex_paired_def ex_conv_def ex_other_conv_def ex_inbound_def ex_uuid_valid conv_row_def
      ses_row_def in_row_def ref_ok_def account_ids_def BuildConversationKey_def)

definition ex_world :: world where
  "ex_world = \<lparr>wenv = ex_env, db = ex_db, clock = 10 * second, ticks = [], tx_now = None, db_faults = [],
     uuids = [ex_uuid (CHR ''8''), ex_uuid (CHR ''9'')], entropy = replicate 64 (CHR ''x''), bus = [],
     redis_faults = [], zsets = (\<lambda>_. empty_zset), broker = NewBroker, callbacks = [], hops = [], http_replies = [],
     sse_out = [], write_faults = []\<rparr>"

lemma ex_world_simps [simp]:
  "wenv ex_world = ex_env" "db ex_world = ex_db" "clock ex_world = 10 * second" "ticks ex_world = []"
  "tx_now ex_world = None" "db_faults ex_world = []"
  "uuids ex_world = [ex_uuid (CHR ''8''), ex_uuid (CHR ''9'')]"
  "entropy ex_world = replicate 64 (CHR ''x'')" "bus ex_world = []" "redis_faults ex_world = []"
  "zsets ex_world = (\<lambda>_. empty_zset)" "broker ex_world = NewBroker" "callbacks ex_world = []"
  "hops ex_world = []" "http_replies ex_world = []" "sse_out ex_world = []" "write_faults ex_world = []"
  by (simp_all add: ex_world_def)

lemma ex_env_simps [simp]:
  "upper_table ex_env = (\<lambda>s. s)" "lower_table ex_env = (\<lambda>s. s)"
  "time_format ex_env = (\<lambda>layout t. Itoa (Unix t))"
  "json_first ex_env = ex_json" "json_whole ex_env = ex_json"
  "uuid_in ex_env = (\<lambda>s. if IsValidUUID s then Some s else None)" "lua_random ex_env = ''0.5''"
  by (simp_all add: ex_env_def)

lemma ex_now [simp]: "run_state sql_now ex_world = (10 * second, ex_world)"
  by (simp add: run_sql_now run_time_now)

end
