(* ===== verification/Pairing.thy ===== *)
theory Pairing
  imports KakaoHandler Examples
begin

text \<open>
  The pairing protocol: the codes CreateSession hands out, the transaction that turns a pending
  session into a paired one, and what a session reports about itself.
\<close>

section \<open>Inversion of the statements of the transaction\<close>

lemma generate_token_ok:
  assumes "run_state generate_token w = (Inr token, w')"
  obtains "token = hex_encode (take tokenBytes (entropy w))" "tokenBytes \<le> length (entropy w)"
    "w' = w\<lparr>entropy := drop tokenBytes (entropy w)\<rparr>"
  using assms by (auto simp: run_generate_token GenerateToken_Some split: option.splits)

lemma accountRepo_Create_ok:
  assumes "run_state (accountRepo_Create p) w = (Inr a, w')" "tx_now w = Some t"
  obtains u where "IsValidUUID u"
    "\<forall>x \<in> set (accounts (db w)). acc_ID x \<noteq> u \<and> acc_RelayTokenHash x \<noteq> Some (ca_RelayTokenHash p)"
    "a = \<lparr>acc_ID = u, acc_RelayTokenHash = Some (ca_RelayTokenHash p),
          acc_RateLimitPerMin = ca_RateLimitPerMin p, acc_CreatedAt = t, acc_UpdatedAt = t\<rparr>"
    "db w' = db w\<lparr>accounts := accounts (db w) @ [a]\<rparr>" "wenv w' = wenv w" "tx_now w' = tx_now w"
proof -
  obtain u us where u: "uuids w = u # us" "IsValidUUID u"
    and q: "run_state (exec (get_context (sql_insert_account p u t))) (w\<lparr>uuids := us\<rparr>) = (Inr a, w')"
    using assms
    by (auto simp: accountRepo_Create_def run_gen_random_uuid run_sql_now split: list.splits if_splits)
  show thesis
    by (rule that[OF u(2)])
       (use q in \<open>auto simp: run_exec get_context_def sql_insert_account_def Let_def
          split: option.splits if_splits\<close>)
qed

lemma sessionRepo_MarkPaired_ok:
  assumes "run_state (sessionRepo_MarkPaired rid a key) w = (Inr x, w')"
  obtains i a' p where "uuid_in (wenv w) rid = Some i" "uuid_in (wenv w) a = Some a'"
    "db w' = db w\<lparr>sessions := upd_where (\<lambda>s. ses_ID s = i \<and> ses_Status s = SessionStatusPendingPairing)
        (set_paired a' key p) (sessions (db w))\<rparr>"
    "wenv w' = wenv w" "tx_now w' = tx_now w"
  using assms
  by (auto simp: sessionRepo_MarkPaired_def run_time_now run_exec_env run_exec uuid_arg_def sql_mark_paired_def
      split: option.splits sum.splits prod.splits if_splits)

lemma sessionRepo_UpdateMetadata_ok:
  assumes "run_state (sessionRepo_UpdateMetadata rid j) w = (Inr x, w')" "tx_now w = Some t"
  obtains i where "uuid_in (wenv w) rid = Some i"
    "db w' = upd_session i (set_metadata j t) (db w)" "wenv w' = wenv w" "tx_now w' = tx_now w"
  using assms
  by (auto simp: sessionRepo_UpdateMetadata_def run_sql_now run_exec_env run_exec uuid_arg_def
      split: option.splits sum.splits prod.splits if_splits)

lemma run_bindE_ok:
  assumes "run_state (bindE pre m f) w = (Inr y, w')"
  obtains x w1 where "run_state m w = (Inr x, w1)" "run_state (f x) w1 = (Inr y, w')"
  using assms by (auto simp: bindE_def split: sum.splits prod.splits)


section \<open>The transaction\<close>

text \<open>
  A session the typed code should find: it carries the code (blanks trimmed, upper case), waits
  for its pairing and has not expired.
\<close>

definition live_code :: "string \<Rightarrow> world \<Rightarrow> Session \<Rightarrow> bool" where
  "live_code code w s \<longleftrightarrow>
     s \<in> set (sessions (db w))
     \<and> ses_PairingCode s = ToUpper (upper_table (wenv w)) (TrimSpace code)
     \<and> ses_Status s = SessionStatusPendingPairing \<and> fst (run_state sql_now w) < ses_ExpiresAt s"

text \<open>
  The specification of a successful pairing: one new account that carries the hash of the relay
  token, and the session bound to it, to the conversation and to the token. The time of the pairing
  is read by the program, the other times are those of the transaction.
\<close>

definition new_account :: "string \<Rightarrow> string \<Rightarrow> time \<Rightarrow> Account" where
  "new_account rid token t =
     \<lparr>acc_ID = rid, acc_RelayTokenHash = Some (HashToken token), acc_RateLimitPerMin = 60,
      acc_CreatedAt = t, acc_UpdatedAt = t\<rparr>"

definition pair_session :: "string \<Rightarrow> string \<Rightarrow> string \<Rightarrow> time \<Rightarrow> time \<Rightarrow> Session \<Rightarrow> Session" where
  "pair_session accountID key token p t s =
     set_metadata (JObj [(''relayToken'', JStr token)]) t (set_paired accountID key p s)"

definition paired_db ::
  "string \<Rightarrow> string \<Rightarrow> string \<Rightarrow> string \<Rightarrow> time \<Rightarrow> time \<Rightarrow> database \<Rightarrow> database" where
  "paired_db sid accountID key token p t d =
     d\<lparr>accounts := accounts d @ [new_account accountID token t],
       sessions := upd_where (\<lambda>s. ses_ID s = sid) (pair_session accountID key token p t) (sessions d)\<rparr>"

definition fresh_account :: "string \<Rightarrow> string \<Rightarrow> database \<Rightarrow> bool" where
  "fresh_account rid token d \<longleftrightarrow>
     (\<forall>x \<in> set (accounts d). acc_ID x \<noteq> rid \<and> acc_RelayTokenHash x \<noteq> Some (HashToken token))"

lemma pair_session_simps [simp]:
  "ses_ID (pair_session a k tok p t s) = ses_ID s"
  "ses_PairingCode (pair_session a k tok p t s) = ses_PairingCode s"
  "ses_SessionTokenHash (pair_session a k tok p t s) = ses_SessionTokenHash s"
  "ses_Status (pair_session a k tok p t s) = SessionStatusPaired"
  "ses_AccountID (pair_session a k tok p t s) = Some a"
  "ses_PairedConversationKey (pair_session a k tok p t s) = Some k"
  "ses_Metadata (pair_session a k tok p t s) = Some (JObj [(''relayToken'', JStr tok)])"
  "ses_PairedAt (pair_session a k tok p t s) = Some p"
  by (simp_all add: pair_session_def set_metadata_def set_paired_def)

lemma upd_where_pair:
  assumes "\<forall>s \<in> set rows. ses_ID s = i \<longrightarrow> ses_Status s = SessionStatusPendingPairing"
  shows "upd_where (\<lambda>s. ses_ID s = i) (set_metadata j t)
           (upd_where (\<lambda>s. ses_ID s = i \<and> ses_Status s = SessionStatusPendingPairing)
              (set_paired a k p) rows) =
         upd_where (\<lambda>s. ses_ID s = i) (\<lambda>s. set_metadata j t (set_paired a k p s)) rows"
  using assms by (auto simp: upd_where_def set_paired_def set_metadata_def)

lemma run_createAccountForSessionTx_ok:
  assumes "run_state (createAccountForSessionTx sid) w = (Inr (a, token), w')" "tx_now w = Some t"
  obtains u where "IsValidUUID u" "fresh_account u token (db w)" "a = new_account u token t"
    "token = hex_encode (take tokenBytes (entropy w))" "tokenBytes \<le> length (entropy w)"
    "db w' = db w\<lparr>accounts := accounts (db w) @ [a]\<rparr>" "wenv w' = wenv w" "tx_now w' = tx_now w"
proof -
  obtain w1 where g: "run_state generate_token w = (Inr token, w1)"
    and c: "run_state (accountRepo_Create \<lparr>ca_RelayTokenHash = HashToken token, ca_RateLimitPerMin = 60\<rparr>) w1
              = (Inr a, w')"
    using assms(1) by (auto simp: createAccountForSessionTx_def Let_def split: sum.splits prod.splits)
  have w1: "w1 = w\<lparr>entropy := drop tokenBytes (entropy w)\<rparr>"
    and tok: "token = hex_encode (take tokenBytes (entropy w))" "tokenBytes \<le> length (entropy w)"
    using generate_token_ok[OF g] by auto
  from w1 assms(2) have tx: "tx_now w1 = Some t" by simp
  show thesis
    by (rule accountRepo_Create_ok[OF c tx], rule that)
       (use w1 tok in \<open>auto simp: fresh_account_def new_account_def\<close>)
qed

lemma pair_tx_ok:
  assumes run: "run_state (pair_tx sid key) w = (Inr (a, token), w')" and tx: "tx_now w = Some t"
    and sid: "uuid_in (wenv w) sid = Some sid" and cast: "uuid_cast_ok (wenv w)"
    and pending: "\<forall>s \<in> set (sessions (db w)). ses_ID s = sid \<longrightarrow> ses_Status s = SessionStatusPendingPairing"
  obtains u p where "IsValidUUID u" "fresh_account u token (db w)" "a = new_account u token t"
    "token = hex_encode (take tokenBytes (entropy w))" "db w' = paired_db sid u key token p t (db w)"
proof -
  obtain w1 w2 where c: "run_state (createAccountForSessionTx sid) w = (Inr (a, token), w1)"
    and m: "run_state (sessionRepo_MarkPaired sid (acc_ID a) key) w1 = (Inr (), w2)"
    and u: "run_state (sessionRepo_UpdateMetadata sid (JObj [(''relayToken'', JStr token)])) w2 = (Inr (), w')"
    using run unfolding pair_tx_def by (auto elim!: run_bindE_ok)
  obtain u where a: "IsValidUUID u" "fresh_account u token (db w)" "a = new_account u token t"
    "token = hex_encode (take tokenBytes (entropy w))"
    "db w1 = db w\<lparr>accounts := accounts (db w) @ [a]\<rparr>" "wenv w1 = wenv w" "tx_now w1 = Some t"
    by (rule run_createAccountForSessionTx_ok[OF c tx]) (use tx in auto)
  have au: "uuid_in (wenv w1) (acc_ID a) = Some u"
    using cast a by (simp add: uuid_cast_ok_def new_account_def)
  obtain p where m1: "db w2 = db w1\<lparr>sessions := upd_where
        (\<lambda>s. ses_ID s = sid \<and> ses_Status s = SessionStatusPendingPairing)
        (set_paired u key p) (sessions (db w1))\<rparr>" "wenv w2 = wenv w1" "tx_now w2 = tx_now w1"
    by (rule sessionRepo_MarkPaired_ok[OF m]) (use sid a(6) au in simp)
  have tx2: "tx_now w2 = Some t" using m1 a by simp
  have "db w' = upd_session sid (set_metadata (JObj [(''relayToken'', JStr token)]) t) (db w2)"
    by (rule sessionRepo_UpdateMetadata_ok[OF u tx2]) (use sid a m1 in simp)
  then have "db w' = paired_db sid u key token p t (db w)"
    using upd_where_pair[OF pending] a m1
    by (simp add: paired_db_def upd_session_def pair_session_def[abs_def])
  with a show thesis by (intro that) auto
qed


text \<open>The transaction forwards: what it does when no call fails and the supplies deliver.\<close>

definition supplied :: "string \<Rightarrow> world \<Rightarrow> bool" where
  "supplied u w \<longleftrightarrow>
     db_faults w = [] \<and> IsValidUUID u \<and> (\<exists>us. uuids w = u # us) \<and> tokenBytes \<le> length (entropy w)
     \<and> fresh_account u (hex_encode (take tokenBytes (entropy w))) (db w)"

lemma run_pair_tx:
  assumes sup: "supplied u w" and tx: "tx_now w = Some t"
    and sid: "uuid_in (wenv w) sid = Some sid" and cast: "uuid_cast_ok (wenv w)"
    and tok: "token = hex_encode (take tokenBytes (entropy w))"
  shows "run_state (pair_tx sid key) w =
    (Inr (new_account u token t, token),
     (snd (run_state time_now w))\<lparr>entropy := drop tokenBytes (entropy w), uuids := tl (uuids w),
       db := (db w)\<lparr>accounts := accounts (db w) @ [new_account u token t],
         sessions := upd_where (\<lambda>s. ses_ID s = sid) (set_metadata (JObj [(''relayToken'', JStr token)]) t)
           (upd_where (\<lambda>s. ses_ID s = sid \<and> ses_Status s = SessionStatusPendingPairing)
              (set_paired u key (fst (run_state time_now w))) (sessions (db w)))\<rparr>\<rparr>)"
proof -
  obtain us where u: "uuids w = u # us" "IsValidUUID u" "db_faults w = []"
    and e: "GenerateToken (entropy w) = Some (token, drop tokenBytes (entropy w))"
    and f: "fresh_account u token (db w)"
    using sup tok by (auto simp: supplied_def GenerateToken_Some)
  have cu: "uuid_in (wenv w) u = Some u" using cast u by (simp add: uuid_cast_ok_def)
  have fresh: "\<not> (\<exists>a \<in> set (accounts (db w)). acc_ID a = u \<or> acc_RelayTokenHash a = Some (HashToken token))"
    using f by (auto simp: fresh_account_def)
  show ?thesis
    using u e tx sid cu fresh
    by (simp add: pair_tx_def bindE_def createAccountForSessionTx_def Let_def run_simps accountRepo_Create_def
        get_context_def sql_insert_account_def sessionRepo_MarkPaired_def sessionRepo_UpdateMetadata_def
        uuid_arg_def sql_mark_paired_def upd_session_def new_account_def next_fault_def)
qed

lemma run_WithTx_pair_tx:
  assumes sup: "supplied u w" and sid: "uuid_in (wenv w) sid = Some sid" and cast: "uuid_cast_ok (wenv w)"
    and tok: "token = hex_encode (take tokenBytes (entropy w))"
  obtains p t w' where "run_state (WithTx (pair_tx sid key)) w = (Inr (new_account u token t, token), w')"
    and "db w' = (db w)\<lparr>accounts := accounts (db w) @ [new_account u token t],
         sessions := upd_where (\<lambda>s. ses_ID s = sid) (set_metadata (JObj [(''relayToken'', JStr token)]) t)
           (upd_where (\<lambda>s. ses_ID s = sid \<and> ses_Status s = SessionStatusPendingPairing)
              (set_paired u key p) (sessions (db w)))\<rparr>"
proof -
  obtain t w1 where t: "run_state time_now (w\<lparr>db_faults := tl (db_faults w)\<rparr>) = (t, w1)" by fastforce
  have w1: "db w1 = db w" "wenv w1 = wenv w" "entropy w1 = entropy w" "uuids w1 = uuids w" "db_faults w1 = []"
    using t sup by (auto simp: run_time_now supplied_def)
  have f: "next_fault w = None" using sup by (simp add: supplied_def)
  have sup1: "supplied u (w1\<lparr>tx_now := Some t\<rparr>)" using sup w1 by (simp add: supplied_def)
  obtain w3 p where r: "run_state (pair_tx sid key) (w1\<lparr>tx_now := Some t\<rparr>) = (Inr (new_account u token t, token), w3)"
    and w3: "db w3 = (db w)\<lparr>accounts := accounts (db w) @ [new_account u token t],
         sessions := upd_where (\<lambda>s. ses_ID s = sid) (set_metadata (JObj [(''relayToken'', JStr token)]) t)
           (upd_where (\<lambda>s. ses_ID s = sid \<and> ses_Status s = SessionStatusPendingPairing)
              (set_paired u key p) (sessions (db w)))\<rparr>" "next_fault w3 = None"
    using run_pair_tx[OF sup1, of t sid token key] sid cast tok w1 by (simp add: run_time_now next_fault_def supplied_def)
  have "run_state (WithTx (pair_tx sid key)) w =
      (Inr (new_account u token t, token), w3\<lparr>db_faults := tl (db_faults w3), tx_now := None\<rparr>)"
    using f r w3(2) t by (simp add: run_WithTx Let_def)
  then show thesis by (rule that) (simp add: w3(1))
qed


section \<open>VerifyPairingCode\<close>

lemma run_FindByPairingCode:
  "run_state (sessionRepo_FindByPairingCode code) w =
     (let (now, w1) = run_state sql_now w
      in (case next_fault w1 of
            Some e \<Rightarrow> Inl e
          | None \<Rightarrow> Inr (find_row (pairing_candidate code now) (sessions (db w1))),
          w1\<lparr>db_faults := tl (db_faults w1)\<rparr>))"
  by (simp add: sessionRepo_FindByPairingCode_def run_simps Let_def split: prod.split)

lemma sql_now_frame:
  "db (snd (run_state sql_now w)) = db w" "wenv (snd (run_state sql_now w)) = wenv w"
  "entropy (snd (run_state sql_now w)) = entropy w" "uuids (snd (run_state sql_now w)) = uuids w"
  "db_faults (snd (run_state sql_now w)) = db_faults w"
  by (auto simp: run_sql_now run_time_now split: option.split)

lemma VerifyPairingCode_cases:
  obtains (not_found) w' where "run_state (VerifyPairingCode code key) w = (pair_failed ''INVALID_CODE'', w')"
      "db w' = db w" "db_faults w = [] \<Longrightarrow> \<forall>s. \<not> live_code code w s"
  | (found) s w1 where "live_code code w s" "db w1 = db w" "wenv w1 = wenv w" "entropy w1 = entropy w"
      "uuids w1 = uuids w" "db_faults w = [] \<Longrightarrow> db_faults w1 = []"
      "run_state (VerifyPairingCode code key) w =
         (case run_state (WithTx (pair_tx (ses_ID s) key)) w1 of
            (Inl err, w') \<Rightarrow> (pair_failed ''INTERNAL_ERROR'', w')
          | (Inr (account, relayToken), w') \<Rightarrow>
              (\<lparr>pr_Success = True, pr_SessionID = ses_ID s, pr_AccountID = acc_ID account,
                pr_RelayToken = relayToken, pr_Error = []\<rparr>, w'))"
proof -
  define c where "c = ToUpper (upper_table (wenv w)) (TrimSpace code)"
  obtain now w0 where n: "run_state sql_now w = (now, w0)" by fastforce
  have w0: "db w0 = db w" "wenv w0 = wenv w" "entropy w0 = entropy w" "uuids w0 = uuids w"
    "db_faults w0 = db_faults w" using sql_now_frame[of w] n by simp_all
  define w1 where "w1 = w0\<lparr>db_faults := tl (db_faults w0)\<rparr>"
  show thesis
  proof (cases "(case next_fault w0 of Some e \<Rightarrow> Inl e
                | None \<Rightarrow> Inr (find_row (pairing_candidate c now) (sessions (db w))))
                :: goerror + Session option")
    case (Inl e)
    show ?thesis
      by (rule not_found[of w1])
         (use Inl n w0 in \<open>auto simp: VerifyPairingCode_def run_FindByPairingCode c_def w1_def Let_def
            split: option.splits\<close>)
  next
    case (Inr r)
    then have f: "next_fault w0 = None" and r: "r = find_row (pairing_candidate c now) (sessions (db w))"
      by (auto split: option.splits)
    show ?thesis
    proof (cases r)
      case None
      then have "\<forall>s. \<not> live_code code w s"
        using r n by (auto simp: live_code_def pairing_candidate_def c_def dest: find_row_NoneD)
      then show ?thesis
        by (intro not_found[of w1])
           (use None r f n w0 in \<open>auto simp: VerifyPairingCode_def run_FindByPairingCode c_def w1_def Let_def\<close>)
    next
      case (Some s)
      then have "live_code code w s"
        using r n by (auto simp: live_code_def pairing_candidate_def c_def dest: find_row_SomeD)
      then show ?thesis
        by (rule found[of s w1])
           (use Some r f n w0 in \<open>auto simp: VerifyPairingCode_def run_FindByPairingCode c_def w1_def Let_def
              split: sum.split prod.split\<close>)
    qed
  qed
qed


section \<open>Properties\<close>

lemma code_owner:
  assumes "wf_db d" "s \<in> set (sessions d)" "s' \<in> set (sessions d)" "ses_PairingCode s' = ses_PairingCode s"
  shows "s' = s"
  using assms wf_dbD[OF assms(1)] by (auto simp: keys_ok_def intro: unique_colD)

lemma id_owner:
  "wf_db d \<Longrightarrow> s \<in> set (sessions d) \<Longrightarrow> s' \<in> set (sessions d) \<Longrightarrow> ses_ID s' = ses_ID s \<Longrightarrow> s' = s"
  using wf_dbD(7)[of d] by (metis keys_ok_def distinct_map_eqD)

lemma live_codeD:
  assumes "live_code code w s" "wf_db (db w)" "uuid_cast_ok (wenv w)"
  shows "s \<in> set (sessions (db w))" "ses_Status s = SessionStatusPendingPairing"
    "ses_PairingCode s = ToUpper (upper_table (wenv w)) (TrimSpace code)"
    "uuid_in (wenv w) (ses_ID s) = Some (ses_ID s)"
    "\<forall>x \<in> set (sessions (db w)). ses_ID x = ses_ID s \<longrightarrow> ses_Status x = SessionStatusPendingPairing"
proof -
  show s: "s \<in> set (sessions (db w))" "ses_Status s = SessionStatusPendingPairing"
    "ses_PairingCode s = ToUpper (upper_table (wenv w)) (TrimSpace code)"
    using assms(1) by (auto simp: live_code_def)
  show "uuid_in (wenv w) (ses_ID s) = Some (ses_ID s)"
    using s(1) assms(3) wf_dbD(7)[OF assms(2)] by (auto simp: uuid_cast_ok_def keys_ok_def)
  show "\<forall>x \<in> set (sessions (db w)). ses_ID x = ses_ID s \<longrightarrow> ses_Status x = SessionStatusPendingPairing"
    using s id_owner[OF assms(2) s(1)] by metis
qed

lemma VerifyPairingCode_success:
  assumes run: "run_state (VerifyPairingCode code key) w = (r, w')" and ok: "pr_Success r"
    and wf: "wf_db (db w)" and cast: "uuid_cast_ok (wenv w)"
  obtains s u token p t where "live_code code w s" "fresh_account u token (db w)" "IsValidUUID u"
    "token = hex_encode (take tokenBytes (entropy w))"
    "db w' = paired_db (ses_ID s) u key token p t (db w)"
    "r = \<lparr>pr_Success = True, pr_SessionID = ses_ID s, pr_AccountID = u, pr_RelayToken = token,
          pr_Error = []\<rparr>"
proof (cases rule: VerifyPairingCode_cases[of code key w])
  case (not_found w'')
  with run ok show thesis by (auto simp: pair_failed_def)
next
  case (found s w1)
  obtain a token where tx: "run_state (WithTx (pair_tx (ses_ID s) key)) w1 = (Inr (a, token), w')"
    and r: "r = \<lparr>pr_Success = True, pr_SessionID = ses_ID s, pr_AccountID = acc_ID a,
                 pr_RelayToken = token, pr_Error = []\<rparr>"
    using run ok found(7) by (auto simp: pair_failed_def split: prod.splits sum.splits)
  from WithTx_ok[OF tx] obtain w2 now w3
    where t: "run_state time_now (w1\<lparr>db_faults := tl (db_faults w1)\<rparr>) = (now, w2)"
      and b: "run_state (pair_tx (ses_ID s) key) (w2\<lparr>tx_now := Some now\<rparr>) = (Inr (a, token), w3)"
      and w': "w' = w3\<lparr>db_faults := tl (db_faults w3), tx_now := None\<rparr>" .
  have w2: "db w2 = db w" "wenv w2 = wenv w" "entropy w2 = entropy w"
    using t found by (auto simp: run_time_now)
  note l = live_codeD[OF found(1) wf cast]
  obtain u p where "IsValidUUID u" "fresh_account u token (db w)" "a = new_account u token now"
    "token = hex_encode (take tokenBytes (entropy w))" "db w3 = paired_db (ses_ID s) u key token p now (db w)"
    by (rule pair_tx_ok[OF b]) (use w2 l cast in auto)
  then show thesis using found(1) r w' by (intro that) (auto simp: new_account_def)
qed

lemma VerifyPairingCode_forward:
  assumes live: "live_code code w s" and sup: "supplied u w"
    and wf: "wf_db (db w)" and cast: "uuid_cast_ok (wenv w)"
  obtains w' where "run_state (VerifyPairingCode code key) w =
    (\<lparr>pr_Success = True, pr_SessionID = ses_ID s, pr_AccountID = u,
      pr_RelayToken = hex_encode (take tokenBytes (entropy w)), pr_Error = []\<rparr>, w')"
proof (cases rule: VerifyPairingCode_cases[of code key w])
  case (not_found w'')
  with live sup show thesis by (auto simp: supplied_def)
next
  case (found s' w1)
  note l = live_codeD[OF live wf cast] and l' = live_codeD[OF found(1) wf cast]
  have s': "s' = s" using code_owner[OF wf l(1) l'(1)] l(3) l'(3) by simp
  have "supplied u w1" using sup found by (simp add: supplied_def)
  then obtain p t w' where "run_state (WithTx (pair_tx (ses_ID s) key)) w1 =
      (Inr (new_account u (hex_encode (take tokenBytes (entropy w))) t,
            hex_encode (take tokenBytes (entropy w))), w')"
    by (rule run_WithTx_pair_tx) (use l cast found in auto)
  then show thesis using found(7) s' by (intro that[of w']) (simp add: new_account_def)
qed

text \<open>The example world: its pending session is live and the supplies suffice.\<close>

lemma ex_live: "live_code '' abcd-2345 '' ex_world ex_pending"
proof -
  have "ToUpper (\<lambda>s. s) (TrimSpace '' abcd-2345 '') = ''ABCD-2345''" by code_simp
  then show ?thesis
    by (simp add: live_code_def ex_db_def ex_pending_def second_def)
qed

lemma ex_supplied: "supplied (ex_uuid (CHR ''8'')) ex_world"
  by (simp add: supplied_def ex_uuid_valid fresh_account_def ex_db_def ex_account_def tokenBytes_def)

lemma ex_pairing:
  obtains r w' where "run_state (VerifyPairingCode '' abcd-2345 '' ''channel:guest'') ex_world = (r, w')"
    and "pr_Success r"
proof -
  obtain w' where "run_state (VerifyPairingCode '' abcd-2345 '' ''channel:guest'') ex_world =
    (\<lparr>pr_Success = True, pr_SessionID = ses_ID ex_pending, pr_AccountID = ex_uuid (CHR ''8''),
      pr_RelayToken = hex_encode (take tokenBytes (entropy ex_world)), pr_Error = []\<rparr>, w')"
    by (rule VerifyPairingCode_forward[OF ex_live ex_supplied, of "''channel:guest''"])
       (simp_all add: ex_db_wf)
  then show thesis by (rule that) simp
qed

lemma ex_pairing_failed:
  "run_state (VerifyPairingCode ''WRONG'' ''channel:guest'') ex_world = (pair_failed ''INVALID_CODE'', ex_world)"
proof -
  have "ToUpper (\<lambda>s. s) (TrimSpace ''WRONG'') = ''WRONG''" by code_simp
  then show ?thesis
    by (simp add: VerifyPairingCode_def run_FindByPairingCode Let_def ex_db_def pairing_candidate_def
        ex_pending_def ex_paired_def)
qed

text \<open>
  C9. What a successful pairing did. There was exactly one pending session with the code the user
  typed (blanks trimmed, upper case) that had not expired; the database gained one account whose
  token hash is the hash of a token made of 32 fresh random bytes, and that session, and no other
  row, became paired with this account and conversation and keeps the token for the client to
  fetch. The result names exactly this session, account and token.
\<close>

theorem pairing_success:
  assumes "run_state (VerifyPairingCode code key) w = (r, w')" and "pr_Success r"
    and "wf_db (db w)" and "uuid_cast_ok (wenv w)"
  shows "\<exists>s u p t. let token = hex_encode (take tokenBytes (entropy w)) in
      (\<forall>x. live_code code w x \<longleftrightarrow> x = s)
      \<and> IsValidUUID u \<and> fresh_account u token (db w)
      \<and> db w' = paired_db (ses_ID s) u key token p t (db w)
      \<and> r = \<lparr>pr_Success = True, pr_SessionID = ses_ID s, pr_AccountID = u, pr_RelayToken = token,
             pr_Error = []\<rparr>"
proof -
  obtain s u token p t where s: "live_code code w s" "fresh_account u token (db w)" "IsValidUUID u"
    "token = hex_encode (take tokenBytes (entropy w))"
    "db w' = paired_db (ses_ID s) u key token p t (db w)"
    "r = \<lparr>pr_Success = True, pr_SessionID = ses_ID s, pr_AccountID = u, pr_RelayToken = token,
          pr_Error = []\<rparr>"
    by (rule VerifyPairingCode_success[OF assms])
  have "live_code code w x \<longleftrightarrow> x = s" for x
    using s(1) code_owner[OF assms(3), of s x] live_codeD[OF _ assms(3,4)] by metis
  with s show ?thesis unfolding Let_def by metis
qed

theorem pairing_success_witness:
  "\<exists>r w'. run_state (VerifyPairingCode '' abcd-2345 '' ''channel:guest'') ex_world = (r, w')
     \<and> pr_Success r \<and> (\<exists>u p t token. db w' = paired_db (ses_ID ex_pending) u ''channel:guest'' token p t ex_db)"
proof -
  obtain r w' where r: "run_state (VerifyPairingCode '' abcd-2345 '' ''channel:guest'') ex_world = (r, w')"
    and ok: "pr_Success r" by (rule ex_pairing)
  obtain s u p t token where s: "\<forall>x. live_code '' abcd-2345 '' ex_world x \<longleftrightarrow> x = s"
    and d: "db w' = paired_db (ses_ID s) u ''channel:guest'' token p t ex_db"
    using pairing_success[OF r ok] ex_db_wf ex_env_cast unfolding Let_def ex_world_simps by blast
  from s[rule_format, of ex_pending] ex_live have "s = ex_pending" by simp
  with r ok d show ?thesis by blast
qed

text \<open>
  C10. Pairing is all or nothing. When VerifyPairingCode does not report success, whatever failed
  (the lookup, the random source, any statement, the commit, the rollback) and wherever, the
  database is as it was; the error is INVALID_CODE or INTERNAL_ERROR, the latter only when a live
  session was found.
\<close>

theorem pairing_atomic:
  assumes "run_state (VerifyPairingCode code key) w = (r, w')" and "\<not> pr_Success r"
  shows "db w' = db w
    \<and> (r = pair_failed ''INVALID_CODE'' \<or> r = pair_failed ''INTERNAL_ERROR'' \<and> (\<exists>s. live_code code w s))"
proof (cases rule: VerifyPairingCode_cases[of code key w])
  case (not_found w'')
  with assms show ?thesis by simp
next
  case (found s w1)
  then show ?thesis
    using assms by (auto split: prod.splits sum.splits dest: WithTx_error_unchanged)
qed

theorem pairing_atomic_witness:
  "\<exists>w'. run_state (VerifyPairingCode ''WRONG'' ''channel:guest'') ex_world = (pair_failed ''INVALID_CODE'', w')
     \<and> db w' = ex_db"
  using pairing_atomic[OF ex_pairing_failed] ex_pairing_failed by (simp add: pair_failed_def)

text \<open>
  C11. A pairing code works once. After a successful pairing, the same code, typed in any way and
  from any conversation, fails with INVALID_CODE and changes nothing, in every later world with
  this database, at any time and with any failures.
\<close>

theorem pairing_single_use:
  assumes "run_state (VerifyPairingCode code key) w = (r, w')" and "pr_Success r"
    and "wf_db (db w)" and "uuid_cast_ok (wenv w)"
    and "db v = db w'" and "wenv v = wenv w"
    and "ToUpper (upper_table (wenv w)) (TrimSpace code') = ToUpper (upper_table (wenv w)) (TrimSpace code)"
    and "run_state (VerifyPairingCode code' key') v = (r', v')"
  shows "r' = pair_failed ''INVALID_CODE'' \<and> db v' = db v"
proof -
  obtain s u token p t where s: "live_code code w s"
    "db w' = paired_db (ses_ID s) u key token p t (db w)"
    by (rule VerifyPairingCode_success[OF assms(1-4)])
  note l = live_codeD[OF s(1) assms(3,4)]
  have "\<not> live_code code' v x" for x
  proof
    assume x: "live_code code' v x"
    have "x \<in> set (upd_where (\<lambda>y. ses_ID y = ses_ID s) (pair_session u key token p t) (sessions (db w)))"
      and c: "ses_PairingCode x = ses_PairingCode s" "ses_Status x = SessionStatusPendingPairing"
      using x s(2) l(3) assms(5-7) by (auto simp: live_code_def paired_db_def)
    then have "x \<in> set (sessions (db w))" "ses_ID x \<noteq> ses_ID s"
      by (auto simp: set_upd_where)
    with code_owner[OF assms(3) l(1)] c(1) show False by auto
  qed
  then show ?thesis
    using assms(8) by (cases rule: VerifyPairingCode_cases[of code' key' v]) auto
qed


theorem pairing_single_use_witness:
  "\<exists>r w'. run_state (VerifyPairingCode '' abcd-2345 '' ''channel:guest'') ex_world = (r, w') \<and> pr_Success r
     \<and> fst (run_state (VerifyPairingCode '' abcd-2345 '' ''other:user'') w') = pair_failed ''INVALID_CODE''"
proof -
  obtain r w' where r: "run_state (VerifyPairingCode '' abcd-2345 '' ''channel:guest'') ex_world = (r, w')"
    and ok: "pr_Success r" by (rule ex_pairing)
  obtain r2 w2 where r2: "run_state (VerifyPairingCode '' abcd-2345 '' ''other:user'') w' = (r2, w2)"
    by fastforce
  have "good ex_world w'" using io_rel_run[OF VerifyPairingCode_eff(1)] r by (metis snd_conv)
  then have "wenv w' = ex_env" by (simp add: good_def)
  with pairing_single_use[OF r ok _ _ refl _ refl r2] ex_db_wf have "r2 = pair_failed ''INVALID_CODE''"
    by simp
  with r ok r2 show ?thesis by simp
qed

text \<open>
  C12. A valid code pairs. When a pending, unexpired session has the code and nothing fails (no
  database fault, a fresh UUID, 32 bytes of entropy whose token hash is new), VerifyPairingCode
  reports success for that session: no state of the database can make a live code unusable.
\<close>

theorem pairing_live_code_works:
  assumes "live_code code w s" and "supplied u w" and "wf_db (db w)" and "uuid_cast_ok (wenv w)"
  shows "fst (run_state (VerifyPairingCode code key) w) =
    \<lparr>pr_Success = True, pr_SessionID = ses_ID s, pr_AccountID = u,
      pr_RelayToken = hex_encode (take tokenBytes (entropy w)), pr_Error = []\<rparr>"
  using VerifyPairingCode_forward[OF assms] by (metis fst_conv)

theorem pairing_live_code_works_witness:
  "pr_Success (fst (run_state (VerifyPairingCode '' abcd-2345 '' ''channel:guest'') ex_world))"
  by (subst pairing_live_code_works[OF ex_live ex_supplied]) (simp_all add: ex_db_wf)



end
