(* ===== verification/SessionLife.thy ===== *)
theory SessionLife
  imports Pairing
begin

text \<open>
  The life of a session as its client sees it: creation, polling while pending, the hand-over of the
  relay token after pairing, and expiry.
\<close>

section \<open>Creation\<close>

lemma sessionRepo_Create_ok:
  assumes "run_state (sessionRepo_Create p) w = (Inr s, w')"
  obtains u t where "IsValidUUID u"
    "\<forall>x \<in> set (sessions (db w)). ses_ID x \<noteq> u \<and> ses_SessionTokenHash x \<noteq> cs_SessionTokenHash p
        \<and> ses_PairingCode x \<noteq> cs_PairingCode p"
    "s = \<lparr>ses_ID = u, ses_SessionTokenHash = cs_SessionTokenHash p, ses_PairingCode = cs_PairingCode p,
          ses_Status = SessionStatusPendingPairing, ses_AccountID = None, ses_PairedConversationKey = None,
          ses_Metadata = cs_Metadata p, ses_ExpiresAt = cs_ExpiresAt p, ses_PairedAt = None,
          ses_CreatedAt = t, ses_UpdatedAt = t\<rparr>"
    "db w' = db w\<lparr>sessions := sessions (db w) @ [s]\<rparr>"
proof -
  obtain u us t w1 where u: "uuids w = u # us" "IsValidUUID u"
    and t: "run_state sql_now (w\<lparr>uuids := us\<rparr>) = (t, w1)"
    and q: "run_state (exec (get_context (sql_insert_session p u t))) w1 = (Inr s, w')"
    using assms
    by (auto simp: sessionRepo_Create_def run_gen_random_uuid split: list.splits if_splits prod.splits)
  have w1: "db w1 = db w" using sql_now_frame(1)[of "w\<lparr>uuids := us\<rparr>"] t by simp
  show thesis
    by (rule that[OF u(2)])
       (use q w1 in \<open>auto simp: run_exec get_context_def sql_insert_session_def Let_def
          split: option.splits if_splits\<close>)
qed

lemma sessionRepo_Create_error:
  "run_state (sessionRepo_Create p) w = (Inl e, w') \<Longrightarrow> db w' = db w"
  by (auto simp: sessionRepo_Create_def run_gen_random_uuid run_sql_now run_time_now run_exec
      split: list.splits if_splits prod.splits option.splits sum.splits)

lemma pairing_part_rest: "pairing_part n e = Some (cs, rest) \<Longrightarrow> rest = drop n e"
  by (induction n e arbitrary: cs rest rule: pairing_part.induct)
     (auto simp: rand_Int32_def split: option.splits list.splits)

text \<open>CreateSession step by step: two draws from the entropy, one reading of the clock, one INSERT.\<close>

lemma CreateSession_draws:
  assumes "run_state CreateSession w = (r, w')"
  obtains (failed) "db w' = db w" "\<forall>c. r \<noteq> Some (Inr c)"
  | (stored) token code w1 q where "token = hex_encode (take 32 (entropy w))" "length token = 64"
      "generateSessionPairingCode (drop 32 (entropy w)) = Some (code, drop 40 (entropy w))" "db w1 = db w"
      "run_state (sessionRepo_Create \<lparr>cs_SessionTokenHash = HashToken token, cs_PairingCode = code,
         cs_ExpiresAt = fst (run_state time_now w) + 5 * minute, cs_Metadata = None\<rparr>) w1 = (q, w')"
      "r = (case q of Inl err \<Rightarrow> Some (Inl (Wrapf ''create session: '' err ''''))
          | Inr s \<Rightarrow> Some (Inr \<lparr>cr_SessionToken = token, cr_PairingCode = code, cr_ExpiresIn = 300,
              cr_Status = session_status_text SessionStatusPendingPairing,
              cr_ExpiresAt = fst (run_state time_now w) + 5 * minute\<rparr>))"
proof (cases "\<exists>token rest code rest'. GenerateToken (entropy w) = Some (token, rest)
    \<and> generateSessionPairingCode rest = Some (code, rest')")
  case False
  with assms have "db w' = db w" "\<forall>c. r \<noteq> Some (Inr c)"
    by (auto simp: CreateSession_def run_generate_token pairing_code_def Let_def split: option.splits)
  then show thesis by (rule failed)
next
  case True
  then obtain token rest code rest' where g: "GenerateToken (entropy w) = Some (token, rest)"
    and c: "generateSessionPairingCode rest = Some (code, rest')" by blast
  have token: "token = hex_encode (take 32 (entropy w))" "32 \<le> length (entropy w)" "rest = drop 32 (entropy w)"
    using g by (auto simp: GenerateToken_Some tokenBytes_def)
  have rest': "rest' = drop 40 (entropy w)"
    using c token by (auto simp: generateSessionPairingCode_def split: option.splits dest!: pairing_part_rest)
  obtain now w1 where n: "run_state time_now (w\<lparr>entropy := rest'\<rparr>) = (now, w1)" by fastforce
  have now: "now = fst (run_state time_now w)" "db w1 = db w" using n by (auto simp: run_time_now)
  obtain q w2 where q: "run_state (sessionRepo_Create \<lparr>cs_SessionTokenHash = HashToken token, cs_PairingCode = code,
      cs_ExpiresAt = now + 5 * minute, cs_Metadata = None\<rparr>) w1 = (q, w2)" by fastforce
  have "w' = w2" "r = (case q of Inl err \<Rightarrow> Some (Inl (Wrapf ''create session: '' err ''''))
      | Inr s \<Rightarrow> Some (Inr \<lparr>cr_SessionToken = token, cr_PairingCode = code, cr_ExpiresIn = 300,
          cr_Status = session_status_text SessionStatusPendingPairing, cr_ExpiresAt = now + 5 * minute\<rparr>))"
    using assms g c n q
    by (auto simp: CreateSession_def run_generate_token pairing_code_def Let_def sessionPairingExpiryMins_def split: sum.splits)
  with q now c token(2) show thesis
    by (intro stored[of token code w1 q]) (simp_all add: token(1,3) rest' hex_encode_chars split: sum.split)
qed

text \<open>
  C22. Creating a session. On success exactly one row was added: a pending session, with no account,
  whose token hash is the hash of the token handed to the client (64 hexadecimal digits, made of the
  next 32 random bytes), whose code is the one handed out, made of the eight bytes after them and
  different from the code of every stored session, and which expires five minutes after the call
  read the clock. On an error or a panic of the code generator nothing was stored.
\<close>

theorem create_session_spec:
  assumes "run_state CreateSession w = (r, w')"
  shows "case r of
      Some (Inr c) \<Rightarrow>
        (\<exists>u t. let token = hex_encode (take 32 (entropy w)) in
           IsValidUUID u \<and> length token = 64
           \<and> cr_SessionToken c = token
           \<and> generateSessionPairingCode (drop 32 (entropy w)) = Some (cr_PairingCode c, drop 40 (entropy w))
           \<and> (\<forall>x \<in> set (sessions (db w)). ses_PairingCode x \<noteq> cr_PairingCode c)
           \<and> cr_ExpiresAt c = fst (run_state time_now w) + 5 * minute \<and> cr_ExpiresIn c = 300
           \<and> db w' = db w\<lparr>sessions := sessions (db w) @
               [\<lparr>ses_ID = u, ses_SessionTokenHash = HashToken token, ses_PairingCode = cr_PairingCode c,
                 ses_Status = SessionStatusPendingPairing, ses_AccountID = None,
                 ses_PairedConversationKey = None, ses_Metadata = None, ses_ExpiresAt = cr_ExpiresAt c,
                 ses_PairedAt = None, ses_CreatedAt = t, ses_UpdatedAt = t\<rparr>]\<rparr>)
    | _ \<Rightarrow> db w' = db w"
  using assms
proof (cases rule: CreateSession_draws)
  case failed
  then show ?thesis by (cases r) (auto split: sum.split)
next
  case (stored token code w1 q)
  show ?thesis
  proof (cases q)
    case (Inl e)
    with stored(4-6) show ?thesis by (auto dest: sessionRepo_Create_error)
  next
    case (Inr s)
    obtain u t where s: "IsValidUUID u"
      "\<forall>x \<in> set (sessions (db w1)). ses_ID x \<noteq> u \<and> ses_SessionTokenHash x \<noteq> HashToken token \<and> ses_PairingCode x \<noteq> code"
      "s = \<lparr>ses_ID = u, ses_SessionTokenHash = HashToken token, ses_PairingCode = code,
         ses_Status = SessionStatusPendingPairing, ses_AccountID = None, ses_PairedConversationKey = None,
         ses_Metadata = None, ses_ExpiresAt = fst (run_state time_now w) + 5 * minute, ses_PairedAt = None,
         ses_CreatedAt = t, ses_UpdatedAt = t\<rparr>"
      "db w' = db w1\<lparr>sessions := sessions (db w1) @ [s]\<rparr>"
      by (rule sessionRepo_Create_ok[OF stored(5)[unfolded Inr]]) simp
    with stored Inr show ?thesis by (auto simp: Let_def)
  qed
qed

lemma HashToken_neq: "length s \<noteq> 64 \<Longrightarrow> HashToken t \<noteq> s" "length s \<noteq> 64 \<Longrightarrow> s \<noteq> HashToken t"
  using HashToken_shape[of t] by auto

theorem create_session_spec_witness:
  "\<exists>c w'. run_state CreateSession (ex_world\<lparr>db := ex_db\<lparr>sessions := [ex_pending]\<rparr>\<rparr>) = (Some (Inr c), w') \<and> cr_PairingCode c = ''2222-2222''
     \<and> length (cr_SessionToken c) = 64 \<and> length (sessions (db w')) = 2"
proof -
  have g: "GenerateToken (replicate 64 (CHR ''x'')) =
      Some (hex_encode (replicate 32 (CHR ''x'')), replicate 32 (CHR ''x''))"
    by (simp add: GenerateToken_Some tokenBytes_def)
  have c: "generateSessionPairingCode (replicate 32 (CHR ''x'')) = Some (''2222-2222'', replicate 24 (CHR ''x''))"
    by code_simp
  obtain c w' where r: "run_state CreateSession (ex_world\<lparr>db := ex_db\<lparr>sessions := [ex_pending]\<rparr>\<rparr>) = (Some (Inr c), w')"
    and code: "cr_PairingCode c = ''2222-2222''"
    using g c by (auto simp: CreateSession_def run_simps pairing_code_def Let_def sessionRepo_Create_def
        ex_uuid_valid get_context_def sql_insert_session_def ex_db_def ex_pending_def ex_paired_def
        HashToken_neq next_fault_def)
  from create_session_spec[OF r] code have "length (cr_SessionToken c) = 64" "length (sessions (db w')) = 2"
    by (auto simp: Let_def ex_db_def)
  with r code show ?thesis by blast
qed


section \<open>Status\<close>

lemma run_FindByTokenHash:
  "run_state (sessionRepo_FindByTokenHash h) w =
     (case next_fault w of Some e \<Rightarrow> Inl e
      | None \<Rightarrow> Inr (find_row (\<lambda>s. ses_SessionTokenHash s = h \<and> active_status (ses_Status s)) (sessions (db w))),
      w\<lparr>db_faults := tl (db_faults w)\<rparr>)"
  by (simp add: sessionRepo_FindByTokenHash_def run_simps)

lemma find_session:
  assumes "wf_db d" "s \<in> set (sessions d)" "active_status (ses_Status s)"
  shows "find_row (\<lambda>x. ses_SessionTokenHash x = ses_SessionTokenHash s \<and> active_status (ses_Status x))
           (sessions d) = Some s"
  by (rule find_unique_col[where pk = ses_ID and col = ses_SessionTokenHash])
     (use assms wf_dbD[OF assms(1)] in \<open>auto simp: keys_ok_def\<close>)

lemma relay_token_roundtrip: "relay_token_of (Some (JObj [(''relayToken'', JStr tok)])) = Some tok"
  by (simp add: relay_token_of_def unmarshal_string_map_def)

lemma VerifyPairingCode_wf:
  "run_state (VerifyPairingCode code key) w = (r, w') \<Longrightarrow> wf_db (db w) \<Longrightarrow> wf_db (db w')"
  using io_rel_run[OF VerifyPairingCode_eff(1), of w code key] by (simp add: good_def)



lemma run_MarkExpired:
  assumes "uuid_in (wenv w) rid = Some rid" "db_faults w = []"
  obtains t w' where "run_state (sessionRepo_MarkExpired rid) w = (Inr (), w')"
    and "db w' = upd_session rid (set_ses_status SessionStatusExpired t) (db w)"
proof -
  obtain t w1 where n: "run_state time_now w = (t, w1)" by fastforce
  then have w1: "db w1 = db w" "wenv w1 = wenv w" "db_faults w1 = []"
    using assms(2) by (auto simp: run_time_now)
  have "run_state (sessionRepo_MarkExpired rid) w =
      (Inr (), w1\<lparr>db := upd_session rid (set_ses_status SessionStatusExpired t) (db w), db_faults := []\<rparr>)"
    using assms(1) n w1 by (simp add: sessionRepo_MarkExpired_def run_exec_env run_exec uuid_arg_def)
  then show thesis by (rule that) simp
qed

text \<open>
  C23. Expiry is reported once. Polling a pending session whose time is over answers expired, gives
  away nothing, and marks the row (and only it); every later poll with the same token finds no
  session at all, and the code cannot be paired any more.
\<close>

theorem status_expiry:
  assumes "wf_db (db v)" and "uuid_cast_ok (wenv v)" and "s \<in> set (sessions (db v))"
    and "ses_Status s = SessionStatusPendingPairing"
    and "ses_ExpiresAt s < fst (run_state time_now v)" and "db_faults v = []"
    and "run_state (GetStatus (ses_SessionTokenHash s)) v = (r, v')"
    and "db v2 = db v'" and "db_faults v2 = []"
  shows "r = Inr (Some \<lparr>sr_Status = SessionStatusExpired, sr_PairedAt = None, sr_KakaoUserID = None,
        sr_AccountID = None, sr_RelayToken = None\<rparr>)
    \<and> (\<exists>t. db v' = upd_session (ses_ID s) (set_ses_status SessionStatusExpired t) (db v))
    \<and> fst (run_state (GetStatus (ses_SessionTokenHash s)) v2) = Inr None
    \<and> (\<forall>x now. x \<in> set (sessions (db v')) \<and> ses_ID x = ses_ID s \<longrightarrow> \<not> pairing_candidate code now x)"
proof -
  have f: "find_row (\<lambda>x. ses_SessionTokenHash x = ses_SessionTokenHash s \<and> active_status (ses_Status x))
      (sessions (db v)) = Some s"
    using find_session[OF assms(1,3)] assms(4) by (simp add: active_status_def)
  have sid: "uuid_in (wenv v) (ses_ID s) = Some (ses_ID s)"
    using assms(2,3) wf_dbD(7)[OF assms(1)] by (auto simp: uuid_cast_ok_def keys_ok_def)
  obtain now v1 where n: "run_state time_now (v\<lparr>db_faults := tl (db_faults v)\<rparr>) = (now, v1)" by fastforce
  then have v1: "now = fst (run_state time_now v)" "db v1 = db v" "wenv v1 = wenv v" "db_faults v1 = []"
    using assms(6) by (auto simp: run_time_now)
  obtain t0 v3 where m: "run_state (sessionRepo_MarkExpired (ses_ID s)) v1 = (Inr (), v3)"
    and v3: "db v3 = upd_session (ses_ID s) (set_ses_status SessionStatusExpired t0) (db v)"
    by (rule run_MarkExpired[of v1 "ses_ID s"]) (use v1 sid in auto)
  have "run_state (GetStatus (ses_SessionTokenHash s)) v = (Inr (Some \<lparr>sr_Status = SessionStatusExpired,
      sr_PairedAt = None, sr_KakaoUserID = None, sr_AccountID = None, sr_RelayToken = None\<rparr>), v3)"
    using f n m assms(4-6) v1(1) by (simp add: GetStatus_def run_FindByTokenHash)
  then have r: "r = Inr (Some \<lparr>sr_Status = SessionStatusExpired, sr_PairedAt = None, sr_KakaoUserID = None,
        sr_AccountID = None, sr_RelayToken = None\<rparr>)"
    and d: "\<exists>t. db v' = upd_session (ses_ID s) (set_ses_status SessionStatusExpired t) (db v)"
    using assms(7) v3 by auto
  from d obtain t where t: "db v' = upd_session (ses_ID s) (set_ses_status SessionStatusExpired t) (db v)" ..
  have "\<not> (ses_SessionTokenHash x = ses_SessionTokenHash s \<and> active_status (ses_Status x))"
    if "x \<in> set (sessions (db v'))" for x
  proof
    assume x: "ses_SessionTokenHash x = ses_SessionTokenHash s \<and> active_status (ses_Status x)"
    from that x have "x \<in> set (sessions (db v))" "ses_ID x \<noteq> ses_ID s"
      by (auto simp: t upd_session_def set_upd_where set_ses_status_def active_status_def)
    moreover have "unique_col ses_ID ses_SessionTokenHash (sessions (db v))" using wf_dbD(8)[OF assms(1)] .
    ultimately show False using x assms(3) unfolding unique_col_def by blast
  qed
  then have "find_row (\<lambda>x. ses_SessionTokenHash x = ses_SessionTokenHash s \<and> active_status (ses_Status x))
      (sessions (db v2)) = None"
    unfolding assms(8) by (auto simp: find_None_iff)
  then have "fst (run_state (GetStatus (ses_SessionTokenHash s)) v2) = Inr None"
    using assms(9) by (simp add: GetStatus_def run_FindByTokenHash)
  moreover have "\<not> pairing_candidate code now x" if "x \<in> set (sessions (db v'))" "ses_ID x = ses_ID s" for x now
    using that by (auto simp: t upd_session_def set_upd_where set_ses_status_def pairing_candidate_def)
  ultimately show ?thesis using r d by blast
qed

theorem status_expiry_witness:
  "\<exists>v'. run_state (GetStatus ''h2'') (ex_world\<lparr>clock := 301 * second\<rparr>) =
      (Inr (Some \<lparr>sr_Status = SessionStatusExpired, sr_PairedAt = None, sr_KakaoUserID = None,
        sr_AccountID = None, sr_RelayToken = None\<rparr>), v')
    \<and> fst (run_state (GetStatus ''h2'') (v'\<lparr>db_faults := []\<rparr>)) = Inr None"
proof -
  define v where "v = ex_world\<lparr>clock := 301 * second\<rparr>"
  obtain r v' where r: "run_state (GetStatus ''h2'') v = (r, v')" by fastforce
  have "ex_pending \<in> set (sessions (db v))" "ses_Status ex_pending = SessionStatusPendingPairing"
    "ses_ExpiresAt ex_pending < fst (run_state time_now v)" "ses_SessionTokenHash ex_pending = ''h2''"
    by (simp_all add: v_def ex_db_def ex_pending_def run_time_now second_def)
  with status_expiry[of v ex_pending r v' "v'\<lparr>db_faults := []\<rparr>"] r ex_db_wf show ?thesis
    unfolding v_def by simp
qed

text \<open>
  Conversation keys. When channel identifiers contain no colon the key determines channel and
  user, and the user told to the polling client is the user key up to its first colon: a user key
  with a colon is cut short.
\<close>

theorem conversation_key_spec:
  assumes "CHR '':'' \<notin> set channel" and "CHR '':'' \<notin> set channel'"
  shows "(BuildConversationKey channel user = BuildConversationKey channel' user' \<longleftrightarrow>
      channel = channel' \<and> user = user')
    \<and> kakao_user_of (BuildConversationKey channel user) = Some (takeWhile (\<lambda>c. c \<noteq> CHR '':'') user)"
proof -
  have split: "takeWhile (\<lambda>c. c \<noteq> CHR '':'') (ch @ '':'' @ u) = ch"
    "tl (dropWhile (\<lambda>c. c \<noteq> CHR '':'') (ch @ '':'' @ u)) = u" if "CHR '':'' \<notin> set ch" for ch u
    using that by (induction ch) auto
  have head: "hd (split_byte (CHR '':'') u) = takeWhile (\<lambda>c. c \<noteq> CHR '':'') u" for u
    by (induction u) (auto split: list.splits)
  have "split_byte (CHR '':'') (BuildConversationKey channel user) = channel # split_byte (CHR '':'') user"
    using assms(1) by (simp add: BuildConversationKey_def split_byte_append)
  then have "kakao_user_of (BuildConversationKey channel user) = Some (hd (split_byte (CHR '':'') user))"
    by (cases "split_byte (CHR '':'') user") (auto simp: kakao_user_of_def)
  then show ?thesis
    using split[OF assms(1), of user] split[OF assms(2), of user'] by (auto simp: BuildConversationKey_def head)
qed

theorem conversation_key_spec_witness:
  "kakao_user_of (BuildConversationKey ''bot'' ''us:er'') = Some ''us''
   \<and> BuildConversationKey ''bot'' ''user'' \<noteq> BuildConversationKey ''bot'' ''guest''"
proof -
  have "takeWhile (\<lambda>c. c \<noteq> CHR '':'') ''us:er'' = ''us''" by simp
  with conversation_key_spec[of "''bot''" "''bot''" "''us:er''" "[]"]
    conversation_key_spec[of "''bot''" "''bot''" "''user''" "''guest''"] show ?thesis by simp
qed

end
