(* ===== verification/Gates.thy ===== *)
theory Gates
  imports SessionLife Middleware
begin

text \<open>
  What a request has to pass: authentication, webhook signatures, the size of the body and the rate
  limits. Each middleware either answers itself or hands a known request to the next handler.
\<close>

section \<open>Authentication\<close>

text \<open>The account Auth puts into the context for a session, as the database has it.\<close>

definition session_account :: "database \<Rightarrow> Session \<Rightarrow> Account option" where
  "session_account d s =
     (case (ses_Status s = SessionStatusPaired, ses_AccountID s) of
        (True, Some a) \<Rightarrow> find_row (\<lambda>x. acc_ID x = a) (accounts d)
      | _ \<Rightarrow> None)"

definition session_of_token :: "database \<Rightarrow> string \<Rightarrow> Session option" where
  "session_of_token d token =
     find_row (\<lambda>s. ses_SessionTokenHash s = HashToken token \<and> active_status (ses_Status s)) (sessions d)"

lemma session_account_exists:
  assumes wf: "wf_db d" and s: "s \<in> set (sessions d)" "ses_AccountID s = Some a"
  obtains x where "x \<in> set (accounts d)" "acc_ID x = a" "find_row (\<lambda>y. acc_ID y = a) (accounts d) = Some x"
    "IsValidUUID a"
proof -
  have "ses_row (account_ids d) s" using wf_dbD(10)[OF wf] s(1) by blast
  then obtain x where x: "x \<in> set (accounts d)" "acc_ID x = a"
    using s(2) by (auto simp: ses_row_def ref_ok_def account_ids_def)
  moreover have "keys_ok acc_ID (accounts d)" using wf_dbD(1)[OF wf] .
  ultimately show thesis
    using find_row_key[of acc_ID "accounts d" x] by (intro that[of x]) (auto simp: keys_ok_def)
qed

text \<open>The whole middleware as one equation.\<close>

lemma Auth_run:
  assumes "wf_db (db w)" and "uuid_cast_ok (wenv w)" and "db_faults w = []" and "rq_Account r = None"
  shows "run_state (Auth_Handler h r) w =
    (if extractToken r = [] then (Response (WriteJSON 401 (json_error ''Missing authentication token'')), w)
     else case session_of_token (db w) (extractToken r) of
       None \<Rightarrow> (Response (WriteJSON 401 (json_error ''Invalid token'')), w)
     | Some s \<Rightarrow> run_state (h (r\<lparr>rq_Session := Some s, rq_Account := session_account (db w) s\<rparr>)) w)"
proof (cases "session_of_token (db w) (extractToken r)")
  case None
  then show ?thesis
    using assms(3) by (simp add: Auth_Handler_def run_FindByTokenHash session_of_token_def Let_def)
next
  case (Some s)
  have s: "s \<in> set (sessions (db w))"
    using find_row_SomeD[OF Some[unfolded session_of_token_def]] by simp
  have w: "w\<lparr>db_faults := []\<rparr> = w" using assms(3) by simp
  show ?thesis
  proof (cases "ses_Status s = SessionStatusPaired \<and> ses_AccountID s \<noteq> None")
    case True
    then obtain a where a: "ses_AccountID s = Some a" by auto
    obtain x where x: "find_row (\<lambda>y. acc_ID y = a) (accounts (db w)) = Some x" "IsValidUUID a"
      by (rule session_account_exists[OF assms(1) s a])
    have acc: "run_state (accountRepo_FindByID a) w = (Inr (Some x), w)"
      using assms(2,3) x by (simp add: accountRepo_FindByID_def run_select_uuid uuid_cast_ok_def w)
    have eq: "session_account (db w) s = Some x" using True a x by (simp add: session_account_def)
    show ?thesis
      using Some True a assms(3)
      by (simp add: Auth_Handler_def run_FindByTokenHash session_of_token_def Let_def w acc eq)
  next
    case False
    then have eq: "session_account (db w) s = None"
      by (auto simp: session_account_def split: option.splits bool.splits)
    show ?thesis
      using Some False assms(3,4)
      by (cases "ses_AccountID s"; cases "ses_Status s = SessionStatusPaired")
         (simp_all add: Auth_Handler_def run_FindByTokenHash session_of_token_def Let_def w eq)
  qed
qed

text \<open>
  C24. Authentication, equationally. In a well-formed database and without database failures the
  middleware is this: no token, 401; a token whose hash is not the hash of a pending or paired
  session, 401; otherwise the next handler runs once, with that session, and with the account of the
  session if and only if the session is paired.
\<close>

theorem auth_spec:
  assumes "wf_db (db w)" and "uuid_cast_ok (wenv w)" and "db_faults w = []" and "rq_Account r = None"
  shows "run_state (Auth_Handler h r) w =
    (if extractToken r = [] then (Response (WriteJSON 401 (json_error ''Missing authentication token'')), w)
     else case session_of_token (db w) (extractToken r) of
       None \<Rightarrow> (Response (WriteJSON 401 (json_error ''Invalid token'')), w)
     | Some s \<Rightarrow> run_state (h (r\<lparr>rq_Session := Some s, rq_Account := session_account (db w) s\<rparr>)) w)"
  by (rule Auth_run[OF assms])

definition ex_request :: request where
  "ex_request = \<lparr>rq_Query = [(''token'', ''secret'')], rq_Headers = [], rq_Params = [],
     rq_RemoteAddr = ''10.0.0.1:4711'', rq_ContentLength = 5, rq_Body = ''reply'', rq_MaxBytes = None,
     rq_Flusher = True, rq_Account = None, rq_Session = None, rq_KakaoBody = None\<rparr>"

lemma ex_session: "session_of_token ex_db ''secret'' = Some ex_paired"
  by (simp add: session_of_token_def ex_db_def ex_pending_def ex_paired_def active_status_def)

lemma ex_session_account: "session_account ex_db ex_paired = Some ex_account"
  by (simp add: session_account_def ex_paired_def ex_db_def ex_account_def)

lemma ex_token: "extractToken ex_request = ''secret''"
  by (simp add: extractToken_def ex_request_def get_value_def)

theorem auth_spec_witness:
  "\<forall>h. run_state (Auth_Handler h ex_request) ex_world =
     run_state (h (ex_request\<lparr>rq_Session := Some ex_paired, rq_Account := Some ex_account\<rparr>)) ex_world"
  by (intro allI, subst auth_spec) (simp_all add: ex_db_wf ex_token ex_session ex_session_account, simp add: ex_request_def)

text \<open>
  C25. Authentication fails closed. If no active session has the token's hash (a relay token, for
  example: the hashes stored with accounts are never looked at), then whatever the database does the
  next handler does not run: the answer is 401 or 500 and nothing but the supplies of the
  environment is touched.
\<close>

theorem auth_fails_closed:
  assumes "session_of_token (db w) (extractToken r) = None"
  shows "\<exists>resp w'. run_state (Auth_Handler h r) w = (Response resp, w') \<and> status resp \<in> {401, 500}
    \<and> db w' = db w \<and> only_db w w'"
proof (cases "extractToken r = []")
  case True
  then show ?thesis by (simp add: Auth_Handler_def WriteJSON_def only_db.R_refl)
next
  case False
  have "only_db w (w\<lparr>db_faults := tl (db_faults w)\<rparr>)" by (simp add: only_db_def)
  with False assms show ?thesis
    by (cases "next_fault w")
       (simp_all add: Auth_Handler_def run_FindByTokenHash session_of_token_def Let_def WriteJSON_def)
qed

theorem auth_fails_closed_witness:
  "\<forall>h. \<exists>resp w'. run_state (Auth_Handler h ex_request) (ex_world\<lparr>db := ex_db\<lparr>sessions := [ex_pending],
        accounts := [ex_account\<lparr>acc_RelayTokenHash := Some (HashToken ''secret'')\<rparr>]\<rparr>\<rparr>) = (Response resp, w')
     \<and> status resp \<in> {401, 500}"
proof
  fix h
  have "session_of_token (ex_db\<lparr>sessions := [ex_pending], accounts :=
      [ex_account\<lparr>acc_RelayTokenHash := Some (HashToken ''secret'')\<rparr>]\<rparr>) (extractToken ex_request) = None"
    by (simp add: session_of_token_def ex_pending_def)
  with auth_fails_closed[of "ex_world\<lparr>db := ex_db\<lparr>sessions := [ex_pending],
      accounts := [ex_account\<lparr>acc_RelayTokenHash := Some (HashToken ''secret'')\<rparr>]\<rparr>\<rparr>" ex_request h]
  show "\<exists>resp w'. run_state (Auth_Handler h ex_request) (ex_world\<lparr>db := ex_db\<lparr>sessions := [ex_pending],
        accounts := [ex_account\<lparr>acc_RelayTokenHash := Some (HashToken ''secret'')\<rparr>]\<rparr>\<rparr>) = (Response resp, w')
     \<and> status resp \<in> {401, 500}" by auto
qed


section \<open>Signatures\<close>

text \<open>
  C27. The webhook signature check is equality. With a secret configured, the constant-time
  comparison amounts to this: the next handler runs exactly when the header is the lower-case
  hexadecimal HMAC-SHA256 of the body under the secret, the body fits the limit and is JSON; it then
  sees the whole body. Every other request is answered 401, 500 or 400 and changes nothing.
\<close>

theorem signature_spec:
  assumes "secret \<noteq> []"
  shows "run_state (KakaoSignature_Handler secret h r) w =
    (let sig = get_value ''X-Kakao-Signature'' (rq_Headers r);
         refuse = (\<lambda>st msg. (Response (WriteJSON st (json_error msg)), w))
     in if sig = [] then refuse 401 ''Missing signature''
        else if (\<exists>n. rq_MaxBytes r = Some n \<and> int (length (rq_Body r)) > n)
        then refuse 500 ''Failed to read request body''
        else if sig \<noteq> hex_encode (hmac_sum secret (rq_Body r)) then refuse 401 ''Invalid signature''
        else case json_whole (wenv w) (rq_Body r) of
          None \<Rightarrow> refuse 400 ''Invalid JSON body''
        | Some j \<Rightarrow> run_state (h (r\<lparr>rq_MaxBytes := None, rq_KakaoBody := Some j\<rparr>)) w)"
proof (cases "\<exists>n. rq_MaxBytes r = Some n \<and> int (length (rq_Body r)) > n")
  case True
  then have "read_body r = None" by (auto simp: read_body_def)
  with True assms show ?thesis by (simp add: KakaoSignature_Handler_def Let_def)
next
  case False
  then have b: "read_body r = Some (rq_Body r)" by (auto simp: read_body_def split: option.splits)
  have ct: "ConstantTimeEqual (HmacSHA256 secret (rq_Body r)) sig \<longleftrightarrow> sig = hex_encode (hmac_sum secret (rq_Body r))"
    for sig by (auto simp: ConstantTimeEqual_iff HmacSHA256_def)
  show ?thesis
    using assms unfolding KakaoSignature_Handler_def Let_def b if_not_P[OF False]
    by (cases "json_whole (wenv w) (rq_Body r)") (simp_all add: ct)
qed

theorem signature_spec_witness:
  "\<forall>h. run_state (KakaoSignature_Handler ''key'' h (ex_request\<lparr>rq_Headers :=
      [(''X-Kakao-Signature'', hex_encode (hmac_sum ''key'' ''reply''))]\<rparr>)) ex_world =
   run_state (h (ex_request\<lparr>rq_Headers := [(''X-Kakao-Signature'', hex_encode (hmac_sum ''key'' ''reply''))],
      rq_KakaoBody := ex_json ''reply''\<rparr>)) ex_world"
proof -
  have "length (hex_encode (hmac_sum ''key'' ''reply'')) = 64" by (simp add: hmac_sum_def Let_def)
  then have "hex_encode (hmac_sum ''key'' ''reply'') \<noteq> []" by fastforce
  then show ?thesis
    by (intro allI, subst signature_spec) (simp_all add: ex_request_def get_value_def Let_def ex_json_def)
qed


section \<open>Rate limits\<close>

lemma run_script_fault:
  "redis_faults w = Some e # fs \<Longrightarrow>
   run_state (run_script script key) w = (Inl (Foreign e), w\<lparr>redis_faults := fs\<rparr>)"
  by (simp add: run_script_def redis_call_def)



end
