(* ===== verification/Replies.thy ===== *)
theory Replies
  imports Gates ApiHandlers
begin

text \<open>
  What a reply of OpenClaw may cause: at most one callback, to the URL of a message of the account
  itself, and one row that records how it went.
\<close>

section \<open>The statements of a reply\<close>

lemma run_FindInboundByID:
  "run_state (FindInboundByID rid) w =
     (case next_fault w of Some e \<Rightarrow> Inl e
      | None \<Rightarrow> (case uuid_in (wenv w) rid of None \<Rightarrow> Inl uuid_syntax
                | Some i \<Rightarrow> Inr (find_row (\<lambda>m. in_ID m = i) (inbounds (db w)))),
      w\<lparr>db_faults := tl (db_faults w)\<rparr>)"
  by (simp add: FindInboundByID_def inboundRepo_FindByID_def run_select_uuid)

text \<open>Everything but the outbound messages.\<close>

definition but_outbounds :: "database \<Rightarrow> database \<Rightarrow> bool" where
  "but_outbounds d d' \<longleftrightarrow> d' = d\<lparr>outbounds := outbounds d'\<rparr>"

text \<open>
  The effect of a reply on the log: the rows of other accounts are as they were, and at most one row
  was added.
\<close>

definition others_kept :: "string \<Rightarrow> database \<Rightarrow> database \<Rightarrow> bool" where
  "others_kept a d d' \<longleftrightarrow>
     but_outbounds d d'
     \<and> filter (\<lambda>m. out_AccountID m \<noteq> a) (outbounds d') = filter (\<lambda>m. out_AccountID m \<noteq> a) (outbounds d)"

lemma others_kept_refl [simp]: "others_kept a d d"
  by (simp add: others_kept_def but_outbounds_def)

lemma others_kept_trans: "others_kept a d d' \<Longrightarrow> others_kept a d' d'' \<Longrightarrow> others_kept a d d''"
  by (cases d; cases d'; cases d'') (auto simp: others_kept_def but_outbounds_def)

lemma others_kept_new: "out_AccountID m = a \<Longrightarrow> others_kept a d (d\<lparr>outbounds := outbounds d @ [m]\<rparr>)"
  by (simp add: others_kept_def but_outbounds_def)

lemma filter_upd_other:
  assumes "\<And>m. m \<in> set rows \<Longrightarrow> P m \<Longrightarrow> \<not> Q m" "\<And>m. Q (f m) = Q m"
  shows "filter Q (upd_where P f rows) = filter Q rows"
  using assms by (induction rows) (auto simp: upd_where_def)

lemma others_kept_upd:
  assumes "\<And>m. m \<in> set (outbounds d) \<Longrightarrow> out_ID m = i \<Longrightarrow> out_AccountID m = a"
    and "\<And>m. out_AccountID (f m) = out_AccountID m"
  shows "others_kept a d (upd_outbound i f d)"
  using assms filter_upd_other[of "outbounds d" "\<lambda>m. out_ID m = i" "\<lambda>m. out_AccountID m \<noteq> a" f]
  by (simp add: others_kept_def but_outbounds_def upd_outbound_def)

text \<open>The row a successful CreateOutbound adds.\<close>

lemma CreateOutbound_ok:
  assumes "run_state (CreateOutbound p) w = (Inr m, w')" and "uuid_in (wenv w) (co_AccountID p) = Some (co_AccountID p)"
  shows "out_AccountID m = co_AccountID p" "IsValidUUID (out_ID m)"
    "\<forall>x \<in> set (outbounds (db w)). out_ID x \<noteq> out_ID m" "wenv w' = wenv w"
    "db w' = db w\<lparr>outbounds := outbounds (db w) @ [m]\<rparr>" "out_Status m = OutboundStatusPending"
    "out_InboundMessageID m = Option.bind (co_InboundMessageID p) (uuid_in (wenv w))"
    "out_ConversationKey m = co_ConversationKey p" "co_ResponsePayload p = Some (out_ResponsePayload m)"
proof -
  obtain u us t w1 where u: "uuids w = u # us" "IsValidUUID u"
    and t: "run_state sql_now (w\<lparr>uuids := us\<rparr>) = (t, w1)"
    and q: "run_state (exec_env (\<lambda>e. get_context (uuid_arg e (co_AccountID p) (\<lambda>a.
          uuid_opt_arg e (co_InboundMessageID p) (\<lambda>m.
            sql_insert_outbound (p\<lparr>co_AccountID := a, co_InboundMessageID := m\<rparr>) u t))))) w1 = (Inr m, w')"
    using assms(1)
    by (auto simp: CreateOutbound_def outboundRepo_Create_def run_gen_random_uuid
        split: list.splits if_splits prod.splits sum.splits)
  have w1: "db w1 = db w" "wenv w1 = wenv w" using sql_now_frame[of "w\<lparr>uuids := us\<rparr>"] t by simp_all
  show "out_AccountID m = co_AccountID p" "IsValidUUID (out_ID m)"
    "\<forall>x \<in> set (outbounds (db w)). out_ID x \<noteq> out_ID m" "wenv w' = wenv w"
    "db w' = db w\<lparr>outbounds := outbounds (db w) @ [m]\<rparr>" "out_Status m = OutboundStatusPending"
    "out_InboundMessageID m = Option.bind (co_InboundMessageID p) (uuid_in (wenv w))"
    "out_ConversationKey m = co_ConversationKey p" "co_ResponsePayload p = Some (out_ResponsePayload m)"
    using q w1 u(2) assms(2)
    by (auto simp: run_exec_env run_exec get_context_def uuid_arg_def uuid_opt_arg_def
        sql_insert_outbound_def Let_def split: option.splits if_splits)
qed

lemma CreateOutbound_error: "run_state (CreateOutbound p) w = (Inl e, w') \<Longrightarrow> db w' = db w"
  by (auto simp: CreateOutbound_def outboundRepo_Create_def run_gen_random_uuid run_sql_now run_time_now
      run_exec_env run_exec split: list.splits if_splits prod.splits option.splits sum.splits)

text \<open>Marking a row: either nothing happened or exactly the row of this key was changed.\<close>

lemma mark_outbound:
  assumes "IsValidUUID i" "uuid_cast_ok (wenv w)"
  shows "\<exists>t. db (snd (run_state (MarkOutboundSent i) w)) \<in> {db w, upd_outbound i (set_sent t) (db w)}"
    and "db (snd (run_state (MarkOutboundFailed i msg) w)) \<in> {db w, upd_outbound i (set_failed msg) (db w)}"
  using assms
  by (auto simp: MarkOutboundSent_def outboundRepo_MarkSent_def MarkOutboundFailed_def outboundRepo_MarkFailed_def
      run_sql_now run_time_now run_exec_env run_exec uuid_arg_def uuid_cast_ok_def split: option.splits)


lemma SendCallback_log:
  "callbacks (snd (run_state (SendCallback url p) w)) =
     (if isValidCallbackURL (wenv w) url then callbacks w @ [(url, p)] else callbacks w)"
  "db (snd (run_state (SendCallback url p) w)) = db w"
  "wenv (snd (run_state (SendCallback url p) w)) = wenv w"
  using client_Do_effect(1,3,4)[of url p w] by (auto simp: SendCallback_def split: sum.split prod.split)

lemma only_db_run: "state_io_rel only_db m \<Longrightarrow> run_state m w = (x, w') \<Longrightarrow> callbacks w' = callbacks w \<and> wenv w' = wenv w"
  using io_rel_run[of only_db m w] by (auto simp: only_db_def)

text \<open>What follows the creation of the row: the callback, and one mark on the row.\<close>

lemma reply_send_marks:
  assumes run: "run_state (reply_send a req m url) w = (out, w')"
    and c: "run_state (CreateOutbound \<lparr>co_AccountID = acc_ID a, co_InboundMessageID = Some (rr_MessageID req),
        co_ConversationKey = in_ConversationKey m, co_KakaoTarget = JObj [], co_ResponsePayload = rr_Response req\<rparr>) w
      = (Inr o1, w1)"
    and cast: "uuid_cast_ok (wenv w1)" and o1: "IsValidUUID (out_ID o1)"
  shows "\<exists>t msg. db w' \<in> {db w1, upd_outbound (out_ID o1) (set_sent t) (db w1), upd_outbound (out_ID o1) (set_failed msg) (db w1)}"
    and "callbacks w' \<in> {callbacks w1, callbacks w1 @ [(url, any_payload (rr_Response req))]}"
proof -
  obtain sent w2 where sent: "run_state (SendCallback url (any_payload (rr_Response req))) w1 = (sent, w2)"
    by fastforce
  have w2: "db w2 = db w1" "wenv w2 = wenv w1"
    "callbacks w2 \<in> {callbacks w1, callbacks w1 @ [(url, any_payload (rr_Response req))]}"
    using SendCallback_log[of url "any_payload (rr_Response req)" w1] sent by (auto split: if_splits)
  note mark = mark_outbound[OF o1, of w2, unfolded w2, OF cast]
  have "(\<exists>t msg. db w' \<in> {db w1, upd_outbound (out_ID o1) (set_sent t) (db w1), upd_outbound (out_ID o1) (set_failed msg) (db w1)})
    \<and> callbacks w' = callbacks w2"
  proof (cases sent)
    case None
    obtain x w3 where m: "run_state (MarkOutboundSent (out_ID o1)) w2 = (x, w3)" by fastforce
    then have "db w' = db w3 \<and> callbacks w' = callbacks w3"
      using run c sent None by (auto simp: reply_send_def run_time_now)
    moreover have "callbacks w3 = callbacks w2"
      using only_db_run[OF _ m] by (auto intro: only_db_intros)
    ultimately show ?thesis using mark(1) m by auto
  next
    case (Some err)
    obtain x w3 where m: "run_state (MarkOutboundFailed (out_ID o1) (Error err)) w2 = (x, w3)" by fastforce
    then have "w' = w3" using run c sent Some by (simp add: reply_send_def)
    moreover have "callbacks w3 = callbacks w2"
      using only_db_run[OF _ m] by (auto intro: only_db_intros)
    ultimately show ?thesis using mark(2)[of "Error err"] m by auto
  qed
  with w2 show "\<exists>t msg. db w' \<in> {db w1, upd_outbound (out_ID o1) (set_sent t) (db w1), upd_outbound (out_ID o1) (set_failed msg) (db w1)}"
    and "callbacks w' \<in> {callbacks w1, callbacks w1 @ [(url, any_payload (rr_Response req))]}"
    by auto
qed

lemma reply_send_isolation:
  assumes run: "run_state (reply_send a req m url) w = (out, w')"
    and cast: "uuid_cast_ok (wenv w)" and a: "IsValidUUID (acc_ID a)"
  shows "others_kept (acc_ID a) (db w) (db w')"
    and "callbacks w' \<in> {callbacks w, callbacks w @ [(url, any_payload (rr_Response req))]}"
proof -
  define p where "p = \<lparr>co_AccountID = acc_ID a, co_InboundMessageID = Some (rr_MessageID req),
        co_ConversationKey = in_ConversationKey m, co_KakaoTarget = JObj [],
        co_ResponsePayload = rr_Response req\<rparr>"
  obtain c w1 where c: "run_state (CreateOutbound p) w = (c, w1)" by fastforce
  have w1: "callbacks w1 = callbacks w" "wenv w1 = wenv w"
    using only_db_run[OF _ c] by (auto intro: only_db_intros)
  have "others_kept (acc_ID a) (db w) (db w')
      \<and> callbacks w' \<in> {callbacks w, callbacks w @ [(url, any_payload (rr_Response req))]}"
  proof (cases c)
    case (Inl e)
    then have "w' = w1" using run c by (simp add: reply_send_def flip: p_def)
    then show ?thesis using CreateOutbound_error c Inl w1 by simp
  next
    case (Inr o1)
    have pa: "uuid_in (wenv w) (co_AccountID p) = Some (co_AccountID p)"
      using cast a by (simp add: p_def uuid_cast_ok_def)
    have o1: "out_AccountID o1 = acc_ID a" "IsValidUUID (out_ID o1)"
      "\<forall>x \<in> set (outbounds (db w)). out_ID x \<noteq> out_ID o1"
      "db w1 = db w\<lparr>outbounds := outbounds (db w) @ [o1]\<rparr>"
      using CreateOutbound_ok[OF c[unfolded Inr] pa] by (simp_all add: p_def)
    have upd: "others_kept (acc_ID a) (db w1) (upd_outbound (out_ID o1) f (db w1))"
      if "\<And>x. out_AccountID (f x) = out_AccountID x" for f
      using o1 that by (intro others_kept_upd) auto
    note marks = reply_send_marks[OF run c[unfolded Inr p_def] _ o1(2), unfolded w1, OF cast]
    have "others_kept (acc_ID a) (db w1) (db w')"
      using marks(1) upd[of "set_sent _"] upd[of "set_failed _"] by (auto simp: set_sent_def set_failed_def)
    moreover have "others_kept (acc_ID a) (db w) (db w1)"
      using others_kept_new[OF o1(1), of "db w"] o1(4) by simp
    ultimately show ?thesis using marks(2) by (blast intro: others_kept_trans)
  qed
  then show "others_kept (acc_ID a) (db w) (db w')"
    and "callbacks w' \<in> {callbacks w, callbacks w @ [(url, any_payload (rr_Response req))]}" by blast+
qed


section \<open>The handler\<close>

text \<open>The message a reply answers: the account's own, with a callback URL that is still good.\<close>

definition answerable :: "world \<Rightarrow> Account \<Rightarrow> InboundMessage \<Rightarrow> string \<Rightarrow> bool" where
  "answerable w a m url \<longleftrightarrow>
     m \<in> set (inbounds (db w)) \<and> in_AccountID m = acc_ID a \<and> in_CallbackURL m = Some url
     \<and> (case in_CallbackExpiresAt m of None \<Rightarrow> True | Some t \<Rightarrow> clock w < t)"

text \<open>Reply ends early without touching database or network, or sends for an answerable message.\<close>

lemma reply_message_cases:
  assumes run: "run_state (reply_message a req) w = (out, w')"
  shows "(db w' = db w \<and> callbacks w' = callbacks w) \<or>
    (\<exists>m url w1. answerable w a m url \<and> db w1 = db w \<and> callbacks w1 = callbacks w
       \<and> wenv w1 = wenv w \<and> run_state (reply_send a req m url) w1 = (out, w'))"
proof -
  obtain f w1 where f: "run_state (FindInboundByID (rr_MessageID req)) w = (f, w1)" by fastforce
  have w1: "db w1 = db w" "callbacks w1 = callbacks w" "wenv w1 = wenv w" "clock w1 = clock w" "ticks w1 = ticks w"
    using f by (auto simp: run_FindInboundByID)
  show ?thesis
  proof (cases "\<exists>m url. f = Inr (Some m) \<and> in_AccountID m = acc_ID a \<and> in_CallbackURL m = Some url")
    case False
    with run f w1 show ?thesis by (auto simp: reply_message_def split: sum.splits option.splits if_splits)
  next
    case True
    then obtain m url where m: "f = Inr (Some m)" "in_AccountID m = acc_ID a" "in_CallbackURL m = Some url" by auto
    have mem: "m \<in> set (inbounds (db w))"
      using f m(1) by (auto simp: run_FindInboundByID split: option.splits dest!: find_row_SomeD)
    obtain now w2 where n: "run_state time_now w1 = (now, w2)" by fastforce
    have w2: "db w2 = db w" "callbacks w2 = callbacks w" "wenv w2 = wenv w" "clock w \<le> now"
      using n w1 by (auto simp: run_time_now)
    have "run_state (reply_message a req) w = (case in_CallbackExpiresAt m of
        None \<Rightarrow> run_state (reply_send a req m url) w1
      | Some t \<Rightarrow> run_state (if now < t then reply_send a req m url else respond_app_error CallbackExpired) w2)"
      using f m n by (simp add: reply_message_def split: option.split)
    with run w1 w2 mem m show ?thesis
      by (cases "in_CallbackExpiresAt m") (auto simp: answerable_def split: if_splits)
  qed
qed

lemma Reply_cases:
  assumes "run_state (Reply r) w = (out, w')"
  shows "(db w' = db w \<and> callbacks w' = callbacks w) \<or>
    (\<exists>a req m url w1. rq_Account r = Some a \<and> answerable w a m url \<and> db w1 = db w \<and> callbacks w1 = callbacks w
       \<and> wenv w1 = wenv w \<and> run_state (reply_send a req m url) w1 = (out, w'))"
proof (cases "\<exists>a req. rq_Account r = Some a \<and> run_state (reply_message a req) w = (out, w')")
  case True
  then show ?thesis using reply_message_cases by metis
next
  case False
  with assms have "w' = w"
    by (cases "case decode_body (wenv w) r of None \<Rightarrow> None | Some j \<Rightarrow> decode_reply j")
       (auto simp: Reply_def split: option.splits if_splits)
  then show ?thesis by simp
qed

text \<open>
  C16. Redirections are followed unchecked. A callback whose URL is not permitted sends nothing. One
  that is permitted is posted once; then the HTTP client follows up to nine redirections, to exactly
  the locations the answers name, in their order, whatever host they are on; and a request that
  carries a body is a POST of the whole payload.
\<close>

theorem callback_redirects:
  assumes "run_state (SendCallback url payload) w = (r, w')"
  shows "if isValidCallbackURL (wenv w) url
    then callbacks w' = callbacks w @ [(url, payload)]
      \<and> (\<exists>zs. hops w' = hops w @ zs \<and> length zs \<le> 9
           \<and> map (\<lambda>z. fst (snd z)) zs = take (length zs) (locations (http_replies w))
           \<and> (\<forall>(v, u, content) \<in> set zs. content = None \<or> v = ''POST'' \<and> content = Some payload))
    else r = Some (Errorf ''invalid callback URL'') \<and> w' = w"
proof (cases "isValidCallbackURL (wenv w) url")
  case True
  with assms have "w' = snd (run_state (client_Do url payload) w)"
    by (auto simp: SendCallback_def split: sum.splits prod.splits if_splits)
  with True client_Do_effect(1,5)[of url payload w] show ?thesis by simp
qed (use assms in \<open>simp add: SendCallback_def\<close>)

text \<open>
  C15. Tenant isolation of replies. Whatever a request to the reply endpoint contains, and whatever
  fails, it changes no table but the outbound messages, and there no row of another account; it
  posts at most one callback, and only to the callback URL of an unexpired inbound message of its
  own account.
\<close>

theorem reply_isolation:
  assumes "run_state (Reply r) w = (out, w')" and "rq_Account r = Some a"
    and "uuid_cast_ok (wenv w)" and "IsValidUUID (acc_ID a)"
  shows "others_kept (acc_ID a) (db w) (db w')
    \<and> (callbacks w' = callbacks w
       \<or> (\<exists>m url payload. answerable w a m url \<and> callbacks w' = callbacks w @ [(url, payload)]))"
  using Reply_cases[OF assms(1)]
proof (elim disjE conjE exE)
  fix a' req m url w1
  assume "rq_Account r = Some a'" "answerable w a' m url" "db w1 = db w" "callbacks w1 = callbacks w"
    "wenv w1 = wenv w" "run_state (reply_send a' req m url) w1 = (out, w')"
  with reply_send_isolation[of a' req m url w1 out w'] assms(2-4) show ?thesis by auto
qed simp

section \<open>A reply that is delivered\<close>

text \<open>The statements of a reply when the database works.\<close>

lemma CreateOutbound_works:
  assumes "uuid_cast_ok (wenv w)" "db_faults w = []" "uuids w = u # us" "IsValidUUID u" "u \<notin> out_ID ` set (outbounds (db w))"
    and "IsValidUUID ai" "ai \<in> acc_ID ` set (accounts (db w))" "IsValidUUID i" "i \<in> in_ID ` set (inbounds (db w))"
  obtains o1 w1 where "run_state (CreateOutbound \<lparr>co_AccountID = ai, co_InboundMessageID = Some i,
        co_ConversationKey = key, co_KakaoTarget = target, co_ResponsePayload = Some j\<rparr>) w = (Inr o1, w1)"
    "out_ID o1 = u \<and> out_AccountID o1 = ai \<and> out_InboundMessageID o1 = Some i \<and> out_ResponsePayload o1 = j"
    "db w1 = db w\<lparr>outbounds := outbounds (db w) @ [o1]\<rparr>" "wenv w1 = wenv w" "db_faults w1 = []"
    "callbacks w1 = callbacks w" "http_replies w1 = http_replies w"
proof -
  obtain t v where n: "run_state sql_now (w\<lparr>uuids := us\<rparr>) = (t, v)" by fastforce
  have v: "wenv v = wenv w" "db v = db w" "db_faults v = []" "callbacks v = callbacks w"
    "http_replies v = http_replies w"
    using n assms(2) by (auto simp: run_sql_now run_time_now split: option.splits)
  define o1 where "o1 = \<lparr>out_ID = u, out_AccountID = ai, out_InboundMessageID = Some i,
      out_ConversationKey = key, out_KakaoTarget = target, out_ResponsePayload = j,
      out_Status = OutboundStatusPending, out_ErrorMessage = None, out_CreatedAt = t, out_SentAt = None\<rparr>"
  have cast: "uuid_in (wenv w) ai = Some ai" "uuid_in (wenv w) i = Some i"
    using assms(1,6,8) by (simp_all add: uuid_cast_ok_def)
  have fresh: "\<not> (\<exists>x \<in> set (outbounds (db w)). out_ID x = u)" using assms(5) by auto
  show thesis
    by (rule that[of o1 "v\<lparr>db := db w\<lparr>outbounds := outbounds (db w) @ [o1]\<rparr>, db_faults := []\<rparr>"])
       (use n v assms(3,4,7,9) fresh cast in \<open>simp_all add: CreateOutbound_def outboundRepo_Create_def
          run_gen_random_uuid run_exec_env run_exec next_fault_def uuid_arg_def uuid_opt_arg_def
          get_context_def sql_insert_outbound_def Let_def o1_def\<close>)
qed

lemma SendCallback_works:
  assumes "isValidCallbackURL (wenv w) url" "http_replies w = reply # rs" "\<forall>c l. reply \<noteq> HttpRedirect c l"
  obtains sent where "run_state (SendCallback url p) w
      = (sent, w\<lparr>callbacks := callbacks w @ [(url, p)], http_replies := rs\<rparr>)"
    "sent = None \<longleftrightarrow> (\<exists>c. reply = HttpStatus c \<and> 200 \<le> c \<and> c < 300)"
proof -
  have "run_state (SendCallback url p) w = (case reply of
      HttpError err \<Rightarrow> Some (Wrapf ''callback request failed: '' (Foreign err) '''')
    | HttpRedirect c l \<Rightarrow> None
    | HttpStatus c \<Rightarrow> if c < 200 \<or> 300 \<le> c then Some (Errorf (''callback failed with status '' @ Itoa c)) else None,
    w\<lparr>callbacks := callbacks w @ [(url, p)], http_replies := rs\<rparr>)"
    using assms by (cases reply) (simp_all add: SendCallback_def client_Do_def run_http_post)
  then show thesis by (rule that) (use assms(3) in \<open>auto split: http_result.splits\<close>)
qed

lemma MarkOutbound_works:
  assumes "uuid_cast_ok (wenv w)" "db_faults w = []" "IsValidUUID u"
  obtains t w' v where "run_state (MarkOutboundSent u) w = (Inr (), w')"
    "db w' = upd_outbound u (set_sent t) (db w)" "callbacks w' = callbacks w"
    "run_state (MarkOutboundFailed u msg) w = (Inr (), v)"
    "db v = upd_outbound u (set_failed msg) (db w)" "callbacks v = callbacks w"
proof -
  obtain t w1 where n: "run_state time_now w = (t, w1)" by fastforce
  then have w1: "wenv w1 = wenv w" "db w1 = db w" "db_faults w1 = []" "callbacks w1 = callbacks w"
    using assms(2) by (auto simp: run_time_now)
  have "uuid_in (wenv w) u = Some u" using assms(1,3) by (simp add: uuid_cast_ok_def)
  with n w1 assms(2) show thesis
    by (intro that[of "w1\<lparr>db := upd_outbound u (set_sent t) (db w), db_faults := []\<rparr>" t
          "w\<lparr>db := upd_outbound u (set_failed msg) (db w), db_faults := []\<rparr>"])
       (simp_all add: MarkOutboundSent_def outboundRepo_MarkSent_def MarkOutboundFailed_def
         outboundRepo_MarkFailed_def run_exec_env run_exec next_fault_def uuid_arg_def)
qed

lemma upd_outbound_new:
  assumes "out_ID x = u" "u \<notin> out_ID ` set (outbounds d)"
  shows "upd_outbound u f (d\<lparr>outbounds := outbounds d @ [x]\<rparr>) = d\<lparr>outbounds := outbounds d @ [f x]\<rparr>"
proof -
  have "upd_where (\<lambda>m. out_ID m = u) f (outbounds d) = outbounds d"
    using assms(2) by (auto simp: upd_where_def intro!: map_idI)
  then show ?thesis using assms(1) by (simp add: upd_outbound_def upd_where_def)
qed

lemma reply_send_outcome:
  assumes "IsValidUUID (acc_ID a)" and "uuid_cast_ok (wenv w)" and "db_faults w = []"
    and "uuids w = u # us" and "IsValidUUID u" and "u \<notin> out_ID ` set (outbounds (db w))"
    and "acc_ID a \<in> acc_ID ` set (accounts (db w))" and "m \<in> set (inbounds (db w))"
    and "rr_MessageID req = in_ID m" and "IsValidUUID (in_ID m)" and "rr_Response req = Some j"
    and "isValidCallbackURL (wenv w) url" and "http_replies w = reply # rs"
    and "\<forall>c l. reply \<noteq> HttpRedirect c l"
  shows "\<exists>o1 t out w'. run_state (reply_send a req m url) w = (out, w')
    \<and> callbacks w' = callbacks w @ [(url, any_json j)]
    \<and> out_ID o1 = u \<and> out_AccountID o1 = acc_ID a \<and> out_InboundMessageID o1 = Some (in_ID m)
    \<and> out_ResponsePayload o1 = j
    \<and> (if \<exists>c. reply = HttpStatus c \<and> 200 \<le> c \<and> c < 300
       then db w' = db w\<lparr>outbounds := outbounds (db w) @ [set_sent t o1]\<rparr>
          \<and> (\<exists>resp. out = Response resp \<and> status resp = 200)
       else (\<exists>reason. db w' = db w\<lparr>outbounds := outbounds (db w) @ [set_failed reason o1]\<rparr>)
          \<and> out = Response (WriteError (CallbackFailed ''Kakao callback failed'')))"
proof -
  have mem: "in_ID m \<in> in_ID ` set (inbounds (db w))" using assms(8) by simp
  obtain o1 w1 where created: "run_state (CreateOutbound \<lparr>co_AccountID = acc_ID a, co_InboundMessageID = Some (in_ID m),
        co_ConversationKey = in_ConversationKey m, co_KakaoTarget = JObj [], co_ResponsePayload = Some j\<rparr>) w = (Inr o1, w1)"
    and o1: "out_ID o1 = u \<and> out_AccountID o1 = acc_ID a \<and> out_InboundMessageID o1 = Some (in_ID m) \<and> out_ResponsePayload o1 = j"
    and w1: "db w1 = db w\<lparr>outbounds := outbounds (db w) @ [o1]\<rparr>" "wenv w1 = wenv w" "db_faults w1 = []"
    "callbacks w1 = callbacks w" "http_replies w1 = http_replies w"
    by (rule CreateOutbound_works[OF assms(2-6,1,7,10) mem])
  define w2 where "w2 = w1\<lparr>callbacks := callbacks w @ [(url, any_json j)], http_replies := rs\<rparr>"
  obtain sent where sent: "run_state (SendCallback url (any_json j)) w1 = (sent, w2)"
    "sent = None \<longleftrightarrow> (\<exists>c. reply = HttpStatus c \<and> 200 \<le> c \<and> c < 300)"
    using SendCallback_works[of w1 url reply rs "any_json j"] assms(12-14) w1 unfolding w2_def by metis
  have w2: "uuid_cast_ok (wenv w2)" "db_faults w2 = []" "db w2 = db w1"
    "callbacks w2 = callbacks w @ [(url, any_json j)]"
    using w1 assms(2) by (simp_all add: w2_def)
  define msg where "msg = (case sent of None \<Rightarrow> [] | Some err \<Rightarrow> Error err)"
  obtain t v x where v: "run_state (MarkOutboundSent u) w2 = (Inr (), v)"
    "db v = upd_outbound u (set_sent t) (db w2)" "callbacks v = callbacks w2"
    and x: "run_state (MarkOutboundFailed u msg) w2 = (Inr (), x)"
    "db x = upd_outbound u (set_failed msg) (db w2)" "callbacks x = callbacks w2"
    by (rule MarkOutbound_works[OF w2(1,2) assms(5)])
  note upd = upd_outbound_new[of o1 u "db w"]
  show ?thesis
  proof (cases sent)
    case None
    obtain now w5 where n5: "run_state time_now v = (now, w5)" by fastforce
    then have "db w5 = db v" "callbacks w5 = callbacks v" by (auto simp: run_time_now)
    moreover have "run_state (reply_send a req m url) w =
        (Response (WriteJSON 200 (JObj [(''deliveredAt'', JInt (UnixMilli now)), (''success'', JBool True)])), w5)"
      using created sent None v n5 assms(9,11) o1 by (simp add: reply_send_def any_payload_def)
    ultimately show ?thesis
      using None sent(2) o1 v w2 w1 upd assms(6) by (auto simp: WriteJSON_def)
  next
    case (Some err)
    have "run_state (reply_send a req m url) w =
        (Response (WriteError (CallbackFailed ''Kakao callback failed'')), x)"
      using created sent Some x(1) assms(9,11) o1 by (simp add: reply_send_def any_payload_def msg_def)
    then show ?thesis
      using Some sent(2) o1 x(2,3) w2 w1 upd assms(6) by auto
  qed
qed

text \<open>The checks before it, for the account's own message.\<close>

lemma Reply_sends:
  fixes r :: request
  assumes request: "rq_Account r = Some a" "decode_body (wenv w) r = Some b" "decode_reply b = Some req"
    and message: "m \<in> set (inbounds (db w))" "in_ID m = rr_MessageID req" "in_AccountID m = acc_ID a"
      "in_CallbackURL m = Some url" "\<forall>t. in_CallbackExpiresAt m = Some t \<longrightarrow> fst (run_state time_now w) < t"
    and works: "wf_db (db w)" "uuid_cast_ok (wenv w)" "db_faults w = []"
  obtains v where "run_state (Reply r) w = run_state (reply_send a req m url) v"
    "db v = db w" "wenv v = wenv w" "db_faults v = []" "uuids v = uuids w" "http_replies v = http_replies w"
    "callbacks v = callbacks w"
proof -
  have ids: "distinct (map in_ID (inbounds (db w)))" "IsValidUUID (in_ID m)"
    using works(1) message(1) by (simp_all add: wf_db_def wf_inbounds_def keys_ok_def)
  have "find_row (\<lambda>x. in_ID x = in_ID m) (inbounds (db w)) = Some m" by (rule find_row_key[OF ids(1) message(1)])
  then have found: "run_state (FindInboundByID (rr_MessageID req)) w = (Inr (Some m), w)"
    using works(2,3) ids(2) message(2) by (simp add: run_FindInboundByID next_fault_def uuid_cast_ok_def)
  have nonempty: "rr_MessageID req \<noteq> []" using ids(2) message(2) by (auto simp: IsValidUUID_def)
  show thesis
  proof (cases "in_CallbackExpiresAt m")
    case None
    with request message(3,4) found nonempty show thesis
      by (intro that[of w]) (simp_all add: Reply_def reply_message_def works(3))
  next
    case (Some t)
    with request message(3-5) found nonempty show thesis
      by (intro that[of "snd (run_state time_now w)"])
         (simp_all add: Reply_def reply_message_def works(3) run_time_now)
  qed
qed


lemma ex_url: "isValidCallbackURL ex_env ''https://bot-api.kakao.com/callback''"
  by code_simp

lemma ex_elsewhere: "\<not> isValidCallbackURL ex_env ''https://example.org/x''"
  by code_simp

theorem callback_redirects_witness:
  "\<exists>w'. run_state (SendCallback ''https://bot-api.kakao.com/callback'' (JStr ''private''))
        (ex_world\<lparr>http_replies := [HttpRedirect 307 ''https://example.org/x'', HttpStatus 200]\<rparr>) = (None, w')
     \<and> length (callbacks w') = 1 \<and> hops w' = [(''POST'', ''https://example.org/x'', Some (JStr ''private''))]
     \<and> \<not> isValidCallbackURL ex_env ''https://example.org/x''"
proof -
  obtain w' where run: "run_state (SendCallback ''https://bot-api.kakao.com/callback'' (JStr ''private''))
      (ex_world\<lparr>http_replies := [HttpRedirect 307 ''https://example.org/x'', HttpStatus 200]\<rparr>) = (None, w')"
    and hops: "hops w' = [(''POST'', ''https://example.org/x'', Some (JStr ''private''))]"
    by (simp add: SendCallback_def client_Do_def run_http_post run_http_hop redirectBehavior_def ex_url
        numeral_eq_Suc)
  from callback_redirects[OF run] have "length (callbacks w') = 1" by (simp add: ex_url)
  with run hops ex_elsewhere show ?thesis by blast
qed

definition ex_reply :: ReplyRequest where
  "ex_reply = \<lparr>rr_MessageID = ex_uuid (CHR ''6''), rr_Response = Some (JObj [(''version'', JStr ''2.0'')])\<rparr>"

lemmas ex_rows = ex_db_def ex_account_def ex_inbound_def ex_reply_def

lemma second_pos [simp]: "0 < second"
  by (simp add: second_def)

lemma ex_reply_facts:
  "decode_reply (the (ex_json ''reply'')) = Some ex_reply" "rr_Response ex_reply = Some (JObj [(''version'', JStr ''2.0'')])"
  "ex_inbound (CHR ''6'') (1 * second) \<in> set (inbounds ex_db)"
  "in_ID (ex_inbound (CHR ''6'') (1 * second)) = rr_MessageID ex_reply"
  "in_AccountID (ex_inbound (CHR ''6'') (1 * second)) = acc_ID ex_account"
  "in_CallbackURL (ex_inbound (CHR ''6'') (1 * second)) = Some ''https://bot-api.kakao.com/callback''"
  "in_CallbackExpiresAt (ex_inbound (CHR ''6'') (1 * second)) = Some (60 * second)" "outbounds ex_db = []"
  by (simp_all add: ex_rows ex_json_def decode_reply_def decode_struct_def field_def decode_string_def decode_raw_def
      find_field_def)

lemma ex_Reply:
  assumes r: "rq_Account r = Some ex_account" "decode_body ex_env r = ex_json ''reply''"
    and w: "wenv w = ex_env" "db w = ex_db" "db_faults w = []" "clock w = 10 * second" "ticks w = []"
    "uuids w = uuids ex_world" "http_replies w = [HttpStatus 200]" "callbacks w = []"
  obtains resp w' where "run_state (Reply r) w = (Response resp, w')"
    "map fst (callbacks w') = [''https://bot-api.kakao.com/callback'']" "status resp = 200"
proof -
  note f = ex_reply_facts
  have body: "decode_body (wenv w) r = Some (the (ex_json ''reply''))"
    using r(2) w(1) by (simp add: ex_json_def)
  have time: "\<forall>t. in_CallbackExpiresAt (ex_inbound (CHR ''6'') (1 * second)) = Some t \<longrightarrow> fst (run_state time_now w) < t"
    using w(4,5) by (simp add: ex_inbound_def run_time_now)
  obtain v where v: "run_state (Reply r) w = run_state (reply_send ex_account ex_reply
      (ex_inbound (CHR ''6'') (1 * second)) ''https://bot-api.kakao.com/callback'') v"
    "db v = ex_db" "wenv v = ex_env" "db_faults v = []" "uuids v = uuids w" "http_replies v = http_replies w"
    "callbacks v = []"
    using Reply_sends[OF r(1) body f(1) _ f(4,5,6) time] w f(3) ex_db_wf by auto
  show thesis
    using reply_send_outcome[of ex_account v "ex_uuid (CHR ''8'')" "[ex_uuid (CHR ''9'')]"
        "ex_inbound (CHR ''6'') (1 * second)" ex_reply "JObj [(''version'', JStr ''2.0'')]"
        "''https://bot-api.kakao.com/callback''" "HttpStatus 200" "[]"] v w
    by (auto simp: ex_rows ex_uuid_valid ex_url intro: that)
qed


lemma ex_reply_request:
  "decode_body ex_env (ex_request\<lparr>rq_Session := s, rq_Account := a\<rparr>) = ex_json ''reply''"
  by (simp add: decode_body_def ex_request_def)

theorem reply_isolation_witness:
  "\<exists>resp w'. run_state (Reply (ex_request\<lparr>rq_Account := Some ex_account\<rparr>))
        (ex_world\<lparr>http_replies := [HttpStatus 200]\<rparr>) = (Response resp, w')
     \<and> status resp = 200 \<and> others_kept (acc_ID ex_account) ex_db (db w')
     \<and> (\<exists>m url payload. answerable ex_world ex_account m url \<and> callbacks w' = [(url, payload)])"
proof -
  obtain resp w' where run: "run_state (Reply (ex_request\<lparr>rq_Account := Some ex_account\<rparr>))
      (ex_world\<lparr>http_replies := [HttpStatus 200]\<rparr>) = (Response resp, w')"
    "map fst (callbacks w') = [''https://bot-api.kakao.com/callback'']" "status resp = 200"
    by (rule ex_Reply[of "ex_request\<lparr>rq_Account := Some ex_account\<rparr>" "ex_world\<lparr>http_replies := [HttpStatus 200]\<rparr>"])
       (simp_all add: decode_body_def ex_request_def)
  have "answerable (ex_world\<lparr>http_replies := [HttpStatus 200]\<rparr>) ex_account m url \<Longrightarrow>
      answerable ex_world ex_account m url" for m url
    by (auto simp: answerable_def split: option.splits)
  with reply_isolation[OF run(1), of ex_account] run show ?thesis
    by (auto simp: ex_rows ex_uuid_valid)
qed

end
