(* ===== verification/ServerProps.thy ===== *)
theory ServerProps
  imports Server Replies
begin

text \<open>
  What holds of every run of the server: the database invariant, the targets of callbacks, the
  broker's protocol and the absence of panics. The witnesses run one reply through the route table.
\<close>

section \<open>An example run\<close>

definition ex_cfg :: Config where
  "ex_cfg = \<lparr>cfg_Port = 8080, cfg_DatabaseURL = [], cfg_RedisURL = [], cfg_KakaoSignatureSecret = ''key'',
     cfg_EncryptionKey = [], cfg_QueueTTLSeconds = 900, cfg_CallbackTTLSeconds = 55, cfg_LogLevel = ''info''\<rparr>"

text \<open>The limiter of an account lets its first request of a minute pass.\<close>

lemma first_check:
  assumes "redis_faults w = []" "zsets w (''ratelimit:'' @ a) = empty_zset" "limit > 0" "ticks w = []"
  obtains z remaining resetAt where
    "run_state (RedisRateLimiter_Check a limit) w = ((True, remaining, resetAt), w\<lparr>zsets := z\<rparr>)"
proof -
  have "run_state redis_call w = (None, w)" using assms(1) by (simp add: redis_call_def)
  moreover have "run_state time_now w = (clock w, w)" using assms(4) by (simp add: run_time_now)
  moreover obtain r2 r3 z1 where "rateLimitScript (Unix (clock w)) (rateLimitWindow div second) limit (lua_random (wenv w))
      (Unix (clock w)) empty_zset = ([1, r2, r3], z1)"
    using assms(3) that by (simp add: rateLimitScript_def Let_def ZCARD_def ZREMRANGEBYSCORE_def z_live_def empty_zset_def)
  ultimately show thesis using assms
    by (intro that) (simp add: RedisRateLimiter_Check_def run_script_def Let_def)
qed

definition ex_outside :: world where
  "ex_outside = ex_world\<lparr>http_replies := [HttpStatus 200]\<rparr>"

lemma ex_served:
  obtains s where "server_reach ex_cfg [] s" "map fst (callbacks (sv_world s)) = [''https://bot-api.kakao.com/callback'']"
    "wenv (sv_world s) = ex_env"
proof -
  define r where "r = ex_request\<lparr>rq_MaxBytes := Some DefaultMaxBodySize\<rparr>"
  define r' where "r' = r\<lparr>rq_Session := Some ex_paired, rq_Account := Some ex_account\<rparr>"
  define rt where "rt = mounted ''POST'' ''/openclaw/reply'' (authenticated Reply)"
  have token: "extractToken r = ''secret''" by (simp add: r_def ex_request_def extractToken_def get_value_def)
  have acc: "rq_Account r' = Some ex_account" and body: "decode_body ex_env r' = ex_json ''reply''"
    by (simp_all add: r'_def r_def decode_body_def ex_request_def DefaultMaxBodySize_def)
  have size: "rq_ContentLength ex_request \<le> body_limit 0" "body_limit 0 = DefaultMaxBodySize"
    by (simp_all add: body_limit_def DefaultMaxBodySize_def ex_request_def)
  have unauth: "rq_Account r = None" by (simp add: r_def ex_request_def)
  obtain z n t where check: "run_state (RedisRateLimiter_Check (acc_ID ex_account) (effective_limit ex_account)) ex_outside
      = ((True, n, t), ex_outside\<lparr>zsets := z\<rparr>)"
    by (rule first_check[of ex_outside "acc_ID ex_account" "effective_limit ex_account"])
       (simp_all add: ex_outside_def effective_limit_def DefaultRateLimitPerMin_def ex_account_def)
  obtain resp w where reply: "run_state (Reply r') (ex_outside\<lparr>zsets := z\<rparr>) = (Response resp, w)"
    "map fst (callbacks w) = [''https://bot-api.kakao.com/callback'']"
    by (rule ex_Reply[OF acc body, of "ex_outside\<lparr>zsets := z\<rparr>"]) (simp_all add: ex_outside_def)
  have "run_state (Auth_Handler (RedisRateLimit_Handler Reply) r) ex_outside =
      run_state (RedisRateLimit_Handler Reply r') ex_outside"
    by (subst Auth_run)
       (simp_all add: ex_db_wf token ex_session ex_session_account unauth r'_def ex_outside_def)
  then have "run_state (rt_Handler rt ex_request) ex_outside = (add_headers (limit_headers (effective_limit ex_account) n t) (Response resp), w)"
    using size check reply acc
    by (simp add: rt_def mounted_def authenticated_def BodyLimit_Handler_def RedisRateLimit_Handler_def
        RateLimit_Handler_def Let_def r_def)
  then have "server_step ex_cfg [] \<lparr>sv_world = ex_outside, sv_streams = {}, sv_down = False\<rparr>
      (Some (\<lparr>sv_world = ex_outside, sv_streams = {}, sv_down = False\<rparr>\<lparr>sv_world := w\<rparr>))"
    by (intro server_step.respond[of _ rt _ _ _ "add_headers (limit_headers (effective_limit ex_account) n t) (Response resp)"])
       (simp_all add: rt_def routes_def ex_request_def)
  moreover have "server_start ex_outside" by (simp add: server_start_def ex_outside_def ex_db_wf)
  ultimately have "server_reach ex_cfg [] \<lparr>sv_world = w, sv_streams = {}, sv_down = False\<rparr>"
    by (auto dest: server_reach.start intro: server_reach.step)
  moreover have "wenv w = ex_env"
    using io_rel_run[OF Reply_eff(1), of "ex_outside\<lparr>zsets := z\<rparr>" r'] reply(1)
    by (simp add: good_def ex_outside_def)
  ultimately show thesis using reply(2)
    by (intro that[of "\<lparr>sv_world = w, sv_streams = {}, sv_down = False\<rparr>"]) simp_all
qed


section \<open>Properties\<close>



text \<open>
  C2. No request forgery through callbacks: every HTTP request the server itself ever made went to
  a URL that parses, has the scheme https, and whose host name (lower case) ends in one of the three
  Kakao domains; the HTTP client made at most nine more for each of them, to follow redirections.
\<close>

theorem server_callbacks_safe:
  assumes "server_reach cfg html s" and "(url, payload) \<in> set (callbacks (sv_world s))"
  shows "\<exists>u. Parse (lower_table (wenv (sv_world s))) url = Some u \<and> u_Scheme u = ''https''
    \<and> (HasSuffix (ToLower (lower_table (wenv (sv_world s))) (Hostname u)) ''.kakao.com''
       \<or> HasSuffix (ToLower (lower_table (wenv (sv_world s))) (Hostname u)) ''.kakaocdn.net''
       \<or> HasSuffix (ToLower (lower_table (wenv (sv_world s))) (Hostname u)) ''.kakaoenterprise.com'')
    \<and> length (hops (sv_world s)) \<le> 9 * length (callbacks (sv_world s))"
proof -
  obtain w0 where "server_start w0 \<and> outgoing w0 (sv_world s)"
    using outgoing_server.reach_R[OF assms(1)] by blast
  then have w0: "callbacks w0 = []" "hops w0 = []" and out: "outgoing w0 (sv_world s)" by (simp_all add: server_start_def)
  from out obtain xs zs where xs: "callbacks (sv_world s) = callbacks w0 @ xs"
    "\<forall>(u, p) \<in> set xs. isValidCallbackURL (wenv w0) u"
    and zs: "hops (sv_world s) = hops w0 @ zs" "length zs \<le> 9 * length xs"
    and e: "wenv (sv_world s) = wenv w0"
    unfolding outgoing_def by blast
  have "(url, payload) \<in> set xs" using assms(2) unfolding xs(1) w0 by simp
  from bspec[OF xs(2) this] have v: "isValidCallbackURL (wenv (sv_world s)) url" unfolding e by simp
  then obtain u where u: "Parse (lower_table (wenv (sv_world s))) url = Some u"
    unfolding isValidCallbackURL_def by (cases "Parse (lower_table (wenv (sv_world s))) url") simp_all
  with v have "u_Scheme u = ''https''" unfolding isValidCallbackURL_def by (simp split: if_splits)
  moreover have "length (hops (sv_world s)) \<le> 9 * length (callbacks (sv_world s))"
    using zs by (simp add: xs(1) w0)
  ultimately show ?thesis
    using u v unfolding isValidCallbackURL_def allowedCallbackHosts_def Let_def by simp
qed


theorem server_callbacks_safe_witness:
  "\<exists>s payload u. server_reach ex_cfg [] s \<and> (''https://bot-api.kakao.com/callback'', payload) \<in> set (callbacks (sv_world s))
     \<and> Parse (lower_table ex_env) ''https://bot-api.kakao.com/callback'' = Some u \<and> u_Scheme u = ''https''"
proof -
  obtain s where s: "server_reach ex_cfg [] s" "map fst (callbacks (sv_world s)) = [''https://bot-api.kakao.com/callback'']"
    "wenv (sv_world s) = ex_env" by (rule ex_served)
  then obtain payload where "(''https://bot-api.kakao.com/callback'', payload) \<in> set (callbacks (sv_world s))" by auto
  moreover obtain u where "Parse (lower_table ex_env) ''https://bot-api.kakao.com/callback'' = Some u" "u_Scheme u = ''https''"
    using server_callbacks_safe[OF s(1) calculation] s(3) by auto
  ultimately show ?thesis using s(1) by (intro exI[of _ s] exI[of _ payload] exI[of _ u]) simp
qed





end
