(* ===== verification/PairingCodes.thy ===== *)
theory PairingCodes
  imports Pairing
begin

text \<open>
  The text of pairing codes: what the generator draws, and that a user who types a code, in any case
  and with blanks around it, is understood.
\<close>

section \<open>Blanks\<close>

lemma trim_left_stop:
  assumes "\<forall>r \<in> set rs. r \<noteq> [] \<longrightarrow> hd r \<noteq> c"
  shows "trim_left rs (c # s) = c # s"
proof -
  have "find_row (\<lambda>r. r \<noteq> [] \<and> HasPrefix (c # s) r) rs = None"
    using assms by (auto simp: find_None_iff HasPrefix_def neq_Nil_conv)
  then show ?thesis by (subst trim_left.simps) simp
qed

lemma trim_left_blanks:
  "trim_left ([CHR '' ''] # rs) (replicate n (CHR '' '') @ s) = trim_left ([CHR '' ''] # rs) s"
proof (induction n)
  case (Suc n)
  have "trim_left ([CHR '' ''] # rs) (CHR '' '' # replicate n (CHR '' '') @ s) =
        trim_left ([CHR '' ''] # rs) (replicate n (CHR '' '') @ s)"
    by (subst trim_left.simps) (simp add: HasPrefix_def)
  with Suc show ?case by simp
qed simp

text \<open>A printing ASCII character neither begins nor ends a blank.\<close>

definition solid :: "char \<Rightarrow> bool" where
  "solid c \<longleftrightarrow> 33 \<le> byte c \<and> byte c < 128"

lemma solid_not_blank:
  assumes "solid c"
  shows "\<forall>r \<in> set space_runes. r \<noteq> [] \<longrightarrow> hd r \<noteq> c"
    and "\<forall>r \<in> set (map rev space_runes). r \<noteq> [] \<longrightarrow> hd r \<noteq> c"
proof -
  have "list_all (\<lambda>r. \<not> solid (hd r)) space_runes" "list_all (\<lambda>r. \<not> solid (hd r)) (map rev space_runes)"
    by code_simp+
  with assms show "\<forall>r \<in> set space_runes. r \<noteq> [] \<longrightarrow> hd r \<noteq> c"
    "\<forall>r \<in> set (map rev space_runes). r \<noteq> [] \<longrightarrow> hd r \<noteq> c"
    unfolding list_all_iff by blast+
qed

lemma space_runes_Cons:
  "space_runes = [CHR '' ''] # tl space_runes" "map rev space_runes = [CHR '' ''] # tl (map rev space_runes)"
  by (simp_all add: space_runes_def)

lemma TrimSpace_padded:
  assumes "s \<noteq> []" "solid (hd s)" "solid (last s)"
  shows "TrimSpace (replicate n (CHR '' '') @ s @ replicate m (CHR '' '')) = s"
proof -
  define s' where "s' = s @ replicate m (CHR '' '')"
  have "hd s' = hd s" using assms by (simp add: s'_def)
  then obtain t where s': "s' = hd s # t"
    using assms(1) by (metis append_is_Nil_conv list.collapse s'_def)
  have left: "trim_left space_runes (replicate n (CHR '' '') @ s') = s'"
    using trim_left_blanks[of "tl space_runes" n s'] trim_left_stop[OF solid_not_blank(1)[OF assms(2)], of t]
      space_runes_Cons(1) s' by simp
  have r: "rev s = last s # rev (butlast s)"
    using assms(1) by (metis append_butlast_last_id rev_eq_Cons_iff rev_rev_ident)
  have "trim_left (map rev space_runes) (rev s') = trim_left (map rev space_runes) (rev s)"
    using trim_left_blanks[of "tl (map rev space_runes)" m "rev s"]
    unfolding space_runes_Cons(2)[symmetric] by (simp add: s'_def)
  also have "\<dots> = rev s"
    unfolding r by (rule trim_left_stop[OF solid_not_blank(2)[OF assms(3)]])
  finally have "trim_left (map rev space_runes) (rev s') = rev s" .
  with left show ?thesis by (simp add: TrimSpace_def s'_def)
qed


section \<open>The generator\<close>

definition code_part :: "string \<Rightarrow> string" where
  "code_part bytes = map (\<lambda>b. sessionPairingCodeChars ! (byte b mod 32)) bytes"

lemma pairing_part_eq:
  "pairing_part n e = (if n \<le> length e then Some (code_part (take n e), drop n e) else None)"
proof (induction n e rule: pairing_part.induct)
  case (2 n e)
  then show ?case by (cases e) (auto simp: rand_Int32_def code_part_def split: if_splits)
qed (simp add: code_part_def)

lemma generateSessionPairingCode_eq:
  "generateSessionPairingCode e =
     (if 8 \<le> length e
      then Some (code_part (take 4 e) @ ''-'' @ code_part (take 4 (drop 4 e)), drop 8 e) else None)"
  by (auto simp: generateSessionPairingCode_def pairing_part_eq)

lemma pairing_chars:
  "length sessionPairingCodeChars = 32" "distinct sessionPairingCodeChars"
  "list_all (\<lambda>c. solid c \<and> solid (lower_char c) \<and> upper_char c = c \<and> upper_char (lower_char c) = c)
     (CHR ''-'' # sessionPairingCodeChars)"
  by code_simp+

lemma code_part_chars: "set (code_part bs) \<subseteq> set sessionPairingCodeChars"
  by (auto simp: code_part_def pairing_chars(1))

lemma length_code_part [simp]: "length (code_part bs) = length bs"
  by (simp add: code_part_def)

lemma code_part_inj:
  "length bs = length bs' \<Longrightarrow> code_part bs = code_part bs' \<Longrightarrow>
   map (\<lambda>b. byte b mod 32) bs = map (\<lambda>b. byte b mod 32) bs'"
  by (induction bs bs' rule: list_induct2)
     (auto simp: code_part_def pairing_chars(1) nth_eq_iff_index_eq[OF pairing_chars(2)])

lemma generated_code_chars:
  assumes "generateSessionPairingCode e = Some (code, e')"
  shows "length code = 9" "code ! 4 = CHR ''-''" "set code \<subseteq> set (CHR ''-'' # sessionPairingCodeChars)"
proof -
  have c: "code = code_part (take 4 e) @ ''-'' @ code_part (take 4 (drop 4 e))" "8 \<le> length e"
    using assms by (auto simp: generateSessionPairingCode_eq split: if_splits)
  then show "length code = 9" "code ! 4 = CHR ''-''" by (simp_all add: nth_append)
  show "set code \<subseteq> set (CHR ''-'' # sessionPairingCodeChars)"
    using c code_part_chars by auto
qed

text \<open>A code as a user may type it.\<close>

definition typed :: "nat \<Rightarrow> (char \<Rightarrow> char) \<Rightarrow> string \<Rightarrow> nat \<Rightarrow> string" where
  "typed n f code m = replicate n (CHR '' '') @ map f code @ replicate m (CHR '' '')"

lemma typed_code:
  assumes "code \<noteq> []" "set code \<subseteq> set (CHR ''-'' # sessionPairingCodeChars)" "f = lower_char \<or> f = (\<lambda>c. c)"
  shows "TrimSpace (typed n f code m) = map f code" and "ToUpper tab (map f code) = code"
proof -
  have solid: "solid (f c)" "upper_char (f c) = c" if "c \<in> set code" for c
    using that assms(2,3) pairing_chars(3) by (auto simp: list_all_iff)
  show "TrimSpace (typed n f code m) = map f code"
    unfolding typed_def
    by (rule TrimSpace_padded) (use assms(1) solid(1) in \<open>auto simp: hd_map last_map\<close>)
  have "is_ascii (map f code)" using solid(1) by (auto simp: is_ascii_def list_all_iff solid_def)
  moreover have "map upper_char (map f code) = code" using solid(2) by (simp add: map_idI)
  ultimately show "ToUpper tab (map f code) = code" by (simp add: ToUpper_def)
qed

text \<open>
  The shape of a pairing code and its randomness: nine characters, a hyphen in the middle, the
  others from the table; one byte of entropy is used for each of the eight characters, and two
  codes are equal only if the low five bits of all these bytes are (so each of the 32^8 codes is
  drawn from equally many byte strings).
\<close>

theorem pairing_code_shape:
  assumes "generateSessionPairingCode e = Some (code, rest)"
    and "generateSessionPairingCode e' = Some (code', rest')"
  shows "length code = 9 \<and> code ! 4 = CHR ''-'' \<and> set code \<subseteq> set (CHR ''-'' # sessionPairingCodeChars)
    \<and> rest = drop 8 e
    \<and> (code = code' \<longleftrightarrow> map (\<lambda>b. byte b mod 32) (take 8 e) = map (\<lambda>b. byte b mod 32) (take 8 e'))"
proof -
  have c: "code = code_part (take 4 e) @ ''-'' @ code_part (take 4 (drop 4 e))" "8 \<le> length e" "rest = drop 8 e"
    and c': "code' = code_part (take 4 e') @ ''-'' @ code_part (take 4 (drop 4 e'))" "8 \<le> length e'"
    using assms by (auto simp: generateSessionPairingCode_eq split: if_splits)
  have t: "take 8 x = take 4 x @ take 4 (drop 4 x)" for x :: string
    by (metis append_take_drop_id drop_drop numeral_Bit0 take_add)
  have part: "code_part bs = code_part bs' \<longleftrightarrow> map (\<lambda>b. byte b mod 32) bs = map (\<lambda>b. byte b mod 32) bs'"
    if "length bs = length bs'" for bs bs'
  proof
    assume "map (\<lambda>b. byte b mod 32) bs = map (\<lambda>b. byte b mod 32) bs'"
    then have "map ((!) sessionPairingCodeChars) (map (\<lambda>b. byte b mod 32) bs) =
        map ((!) sessionPairingCodeChars) (map (\<lambda>b. byte b mod 32) bs')" by (rule arg_cong)
    then show "code_part bs = code_part bs'" by (simp add: code_part_def comp_def)
  qed (use that code_part_inj in blast)
  have "code = code' \<longleftrightarrow> code_part (take 4 e) = code_part (take 4 e')
      \<and> code_part (take 4 (drop 4 e)) = code_part (take 4 (drop 4 e'))"
    using c c' by (simp add: append_eq_append_conv)
  also have "\<dots> \<longleftrightarrow> map (\<lambda>b. byte b mod 32) (take 8 e) = map (\<lambda>b. byte b mod 32) (take 8 e')"
    using c(2) c'(2) by (simp add: part t append_eq_append_conv)
  finally show ?thesis using generated_code_chars[OF assms(1)] c(3) by blast
qed

theorem pairing_code_shape_witness:
  "generateSessionPairingCode ''abcdefgh'' = Some (''BCDE-FGHJ'', [])
   \<and> generateSessionPairingCode ''ABCDEFGH'' = Some (''BCDE-FGHJ'', [])
   \<and> map (\<lambda>b. byte b mod 32) ''abcdefgh'' = map (\<lambda>b. byte b mod 32) ''ABCDEFGH''"
proof -
  have "generateSessionPairingCode ''abcdefgh'' = Some (''BCDE-FGHJ'', [])"
    "generateSessionPairingCode ''ABCDEFGH'' = Some (''BCDE-FGHJ'', [])" by code_simp+
  with pairing_code_shape[OF this] show ?thesis by simp
qed

text \<open>
  C32. A generated code survives the way back: typed after /pair in upper or lower case with any
  blanks before, between and after, parseCommand yields the PAIR command with exactly this code, and
  the lookup in VerifyPairingCode normalises it to itself.
\<close>

theorem pairing_code_roundtrip:
  assumes "generateSessionPairingCode e = Some (code, e')" and "f = lower_char \<or> f = (\<lambda>c. c)"
  shows "parseCommand tab (replicate k (CHR '' '') @ ''/pair '' @ typed n f code m) =
      Some \<lparr>cmd_Type = ''PAIR'', cmd_Code = code\<rparr>
    \<and> ToUpper tab (TrimSpace code) = code"
proof -
  note c = generated_code_chars[OF assms(1)]
  then have ne: "code \<noteq> []" by auto
  note t = typed_code[OF ne c(3) assms(2)] and t0 = typed_code[OF ne c(3), of "\<lambda>c. c"]
  have "solid (f x)" if "x \<in> set code" for x
    using that c(3) assms(2) pairing_chars(3) by (auto simp: list_all_iff)
  then have l: "solid (last (map f code))" using ne by (simp add: last_map)
  have "TrimSpace (replicate k (CHR '' '') @ (''/pair '' @ typed n f code 0) @ replicate m (CHR '' '')) =
      ''/pair '' @ typed n f code 0"
  proof (rule TrimSpace_padded)
    show "solid (hd (''/pair '' @ typed n f code 0))" by (simp add: solid_def)
    show "solid (last (''/pair '' @ typed n f code 0))" using l ne by (simp add: typed_def)
  qed simp
  then have "TrimSpace (replicate k (CHR '' '') @ ''/pair '' @ typed n f code m) = ''/pair '' @ typed n f code 0"
    by (simp add: typed_def)
  then show ?thesis
    using t(1)[of n 0] t(2)[of tab] t0(1)[of 0 0] t0(2)[of tab] ne
    by (simp add: parseCommand_def Let_def HasPrefix_def) (simp add: typed_def)
qed

theorem pairing_code_roundtrip_witness:
  "generateSessionPairingCode ''abcdefgh'' = Some (''BCDE-FGHJ'', [])
   \<and> parseCommand (\<lambda>s. s) ''  /pair  bcde-fghj '' = Some \<lparr>cmd_Type = ''PAIR'', cmd_Code = ''BCDE-FGHJ''\<rparr>"
proof -
  have g: "generateSessionPairingCode ''abcdefgh'' = Some (''BCDE-FGHJ'', [])" by code_simp
  moreover have "replicate 2 (CHR '' '') @ ''/pair '' @ typed 1 lower_char ''BCDE-FGHJ'' 1 = ''  /pair  bcde-fghj ''"
    by code_simp
  ultimately show ?thesis
    using pairing_code_roundtrip[OF g, of lower_char "\<lambda>s. s" 2 1 1] by simp
qed

end
