(* ===== verification/Inbox.thy ===== *)
theory Inbox
  imports Gates KakaoHandler
begin

text \<open>
  What a call of the webhook may cause: nothing but an announcement of a pairing, or one queued
  message for the account its conversation is paired with. A fourth interpretation of the rules for
  effects carries the frame conditions through the commands.
\<close>

section \<open>Commands leave the messages alone\<close>

definition same_log :: "database \<Rightarrow> database \<Rightarrow> bool" where
  "same_log d d' \<longleftrightarrow> inbounds d' = inbounds d \<and> outbounds d' = outbounds d"

text \<open>Messages and callbacks as before; everything published announces a pairing.\<close>

definition announces :: "world \<Rightarrow> world \<Rightarrow> bool" where
  "announces w w' \<longleftrightarrow> same_log (db w) (db w') \<and> callbacks w' = callbacks w \<and> wenv w' = wenv w
     \<and> (\<exists>xs. bus w' = bus w @ xs \<and> (\<forall>(ch, e) \<in> set xs. ev_Type e = ''pairing_complete''))"

lemma announces_quiet:
  "same_log (db w) (db w') \<Longrightarrow> callbacks w' = callbacks w \<Longrightarrow> wenv w' = wenv w \<Longrightarrow> bus w' = bus w \<Longrightarrow>
   announces w w'"
  by (simp add: announces_def)

interpretation announces: effect_order announces
proof
  show "announces w w" for w by (rule announces_quiet) (simp_all add: same_log_def)
  fix u v w :: world
  assume uv: "announces u v" and vw: "announces v w"
  then obtain xs ys where "bus v = bus u @ xs" "\<forall>(ch, e) \<in> set xs. ev_Type e = ''pairing_complete''"
    "bus w = bus v @ ys" "\<forall>(ch, e) \<in> set ys. ev_Type e = ''pairing_complete''"
    unfolding announces_def by blast
  with uv vw show "announces u w"
    unfolding announces_def same_log_def by (intro conjI exI[of _ "xs @ ys"]) auto
qed

named_theorems announces_intros

text \<open>A statement that does not write the message tables.\<close>

definition keeps_log :: "'a stmt \<Rightarrow> bool" where
  "keeps_log q \<longleftrightarrow> (\<forall>d x d'. q d = Inr (x, d') \<longrightarrow> same_log d d')"

named_theorems keeps_log_intros

lemma keeps_log_rules [keeps_log_intros]:
  "keeps_log (reads f)"
  "(\<And>d. same_log d (g d)) \<Longrightarrow> keeps_log (writes g)"
  "keeps_log p \<Longrightarrow> keeps_log (get_context p)"
  "(\<And>i. keeps_log (q i)) \<Longrightarrow> keeps_log (uuid_arg e s q)"
  "(\<And>r. keeps_log (q' r)) \<Longrightarrow> keeps_log (uuid_opt_arg e s' q')"
  by (fastforce simp: keeps_log_def same_log_def reads_def writes_def get_context_def uuid_arg_def
      uuid_opt_arg_def split: sum.splits prod.splits list.splits option.splits)+

lemma keeps_log_sql [keeps_log_intros]:
  "keeps_log (sql_upsert_conversation params rid now)"
  "keeps_log (sql_update_conv_state key st acc at)"
  "keeps_log (sql_insert_account cp rid now)"
  "keeps_log (sql_mark_paired sid a key now)"
  by (auto simp: keeps_log_def same_log_def sql_upsert_conversation_def sql_update_conv_state_def
      sql_insert_account_def sql_mark_paired_def Let_def upd_session_def split: if_splits)

lemma exec_announces [announces_intros]: "keeps_log q \<Longrightarrow> state_io_rel announces (exec q)"
  by (rule io_relI_snd)
     (auto simp: run_exec keeps_log_def same_log_def intro!: announces_quiet split: option.split sum.split)

lemma exec_env_announces [announces_intros]:
  "(\<And>e. keeps_log (q e)) \<Longrightarrow> state_io_rel announces (exec_env q)"
  unfolding exec_env_def by (intro announces.eff_rules announces_intros)

lemma supplies_announce [announces_intros]:
  "state_io_rel announces time_now" "state_io_rel announces sql_now"
  "state_io_rel announces gen_random_uuid" "state_io_rel announces generate_token"
  by (auto intro!: io_relI_snd announces_quiet simp: run_time_now run_sql_now run_gen_random_uuid
      run_generate_token same_log_def split: option.split list.split)

lemma WithTx_announces [announces_intros]:
  assumes "state_io_rel announces fn"
  shows "state_io_rel announces (WithTx fn)"
  by (rule WithTx_io_rel[OF assms announces.R_refl announces.R_trans _ _ supplies_announce(1)])
     (auto simp: announces_def same_log_def)

lemma repos_announce [announces_intros]:
  "state_io_rel announces (conversationRepo_Upsert params)"
  "state_io_rel announces (conversationRepo_UpdateState key st acc)"
  "state_io_rel announces (sessionRepo_FindByPairingCode code)"
  "state_io_rel announces (sessionRepo_FindByID sid)"
  "state_io_rel announces (sessionRepo_MarkPaired sid a key)"
  "state_io_rel announces (sessionRepo_UpdateMetadata sid j)"
  "state_io_rel announces (accountRepo_Create cp)"
  "state_io_rel announces (inboundRepo_CountByAccountID a)"
  "state_io_rel announces (inboundRepo_CountByAccountIDSince a t)"
  "state_io_rel announces (outboundRepo_CountByAccountID a)"
  "state_io_rel announces (outboundRepo_CountByAccountIDSince a t)"
  "state_io_rel announces (outboundRepo_CountByAccountIDAndStatus a ost)"
  unfolding conversation_defs session_defs account_defs inbound_defs outbound_defs
    select_one_def select_uuid_def count_uuid_def count_rows_def
  by (auto intro!: announces.eff_rules announces_intros keeps_log_intros simp: same_log_def upd_session_def)

lemma services_announce [announces_intros]:
  "state_io_rel announces (FindOrCreate ch u url expires)"
  "state_io_rel announces (ConversationService_UpdateState key st acc)"
  "state_io_rel announces (VerifyPairingCode code key)"
  "state_io_rel announces (SessionService_FindByID sid)"
  "state_io_rel announces (GetQuickStats a)"
  unfolding FindOrCreate_def ConversationService_UpdateState_def VerifyPairingCode_def pair_tx_def bindE_def
    createAccountForSessionTx_def SessionService_FindByID_def GetQuickStats_def Let_def
  by (auto intro!: announces.eff_rules announces_intros split: option.split)

lemma Publish_announces [announces_intros]:
  "ev_Type e = ''pairing_complete'' \<Longrightarrow> state_io_rel announces (Publish a e)"
  by (rule io_relI_snd)
     (auto simp: Publish_def redis_call_def announces_def same_log_def split: list.split option.split)

lemma PublishPairingComplete_announces [announces_intros]:
  "state_io_rel announces (PublishPairingComplete session key)"
  unfolding PublishPairingComplete_def Let_def
  by (auto intro!: announces.eff_rules announces_intros split: option.split)

lemma handleCommand_announces [announces_intros]: "state_io_rel announces (handleCommand cmd conv key)"
  unfolding handleCommand_def Let_def
  by (auto intro!: announces.eff_rules announces_intros split: option.split sum.split bool.split)


section \<open>The message of a paired conversation\<close>

text \<open>The conversation a webhook works with is the one of the table, or a new unpaired one.\<close>

lemma FindOrCreate_conv:
  assumes "run_state (FindOrCreate ch u url expires) w = (Inr c, w1)"
  shows "conv_ConversationKey c = BuildConversationKey ch u
    \<and> (conv_State c = PairingStateUnpaired \<and> conv_AccountID c = None
         \<and> (\<forall>c0 \<in> set (conversations (db w)). conv_ConversationKey c0 \<noteq> BuildConversationKey ch u)
       \<or> (\<exists>c0 \<in> set (conversations (db w)). conv_ConversationKey c0 = BuildConversationKey ch u
            \<and> conv_State c0 = conv_State c \<and> conv_AccountID c0 = conv_AccountID c))"
proof -
  let ?k = "BuildConversationKey ch u"
  let ?p = "\<lparr>uc_ConversationKey = ?k, uc_KakaoChannelID = ch, uc_PlusfriendUserKey = u,
      uc_CallbackURL = url, uc_CallbackExpiresAt = expires\<rparr>"
  obtain rid us t v d' where "run_state sql_now (w\<lparr>uuids := us\<rparr>) = (t, v)"
    and q: "get_context (sql_upsert_conversation ?p rid t) (db v) = Inr (c, d')"
    using assms
    by (auto simp: FindOrCreate_def conversationRepo_Upsert_def run_gen_random_uuid run_exec
        split: list.splits if_splits prod.splits option.splits sum.splits)
  then have v: "db v = db w" using sql_now_frame[of "w\<lparr>uuids := us\<rparr>"] by simp
  show ?thesis
  proof (cases "\<exists>c0 \<in> set (conversations (db w)). conv_ConversationKey c0 = ?k")
    case True
    let ?rows = "upd_where (\<lambda>c. conv_ConversationKey c = ?k) (touch_conv url expires t) (conversations (db w))"
    obtain cs where "filter (\<lambda>c. conv_ConversationKey c = ?k) ?rows = c # cs"
      using q True unfolding v
      by (auto simp: get_context_def sql_upsert_conversation_def Let_def split: list.splits)
    then have "c \<in> set (filter (\<lambda>c. conv_ConversationKey c = ?k) ?rows)" by (metis list.set_intros(1))
    then show ?thesis by (auto simp: set_upd_where touch_conv_def)
  next
    case False
    with q show ?thesis unfolding v
      by (auto simp: get_context_def sql_upsert_conversation_def Let_def split: if_splits)
  qed
qed

lemma conv_owner:
  assumes "wf_db d" "c \<in> set (conversations d)" "c' \<in> set (conversations d)"
    "conv_ConversationKey c' = conv_ConversationKey c"
  shows "c' = c"
  using assms wf_dbD[OF assms(1)] by (auto simp: keys_ok_def intro: unique_colD)

lemma conv_account_valid:
  assumes wf: "wf_db d" and "c \<in> set (conversations d)" and "conv_AccountID c = Some a"
  shows "IsValidUUID a" "a \<in> acc_ID ` set (accounts d)"
proof -
  have "conv_row (account_ids d) c" using wf_dbD(6)[OF wf] assms(2) by blast
  then show "a \<in> acc_ID ` set (accounts d)"
    using assms(3) by (auto simp: conv_row_def ref_ok_def account_ids_def)
  moreover have "keys_ok acc_ID (accounts d)" using wf_dbD(1)[OF wf] .
  ultimately show "IsValidUUID a" by (auto simp: keys_ok_def)
qed

text \<open>The row a successful CreateInbound adds.\<close>

lemma CreateInbound_ok:
  assumes "run_state (CreateInbound p) w = (Inr m, w')" and "uuid_in (wenv w) (ci_AccountID p) = Some (ci_AccountID p)"
  shows "in_AccountID m = ci_AccountID p" "in_ConversationKey m = ci_ConversationKey p"
    "in_KakaoPayload m = ci_KakaoPayload p" "in_NormalizedMessage m = ci_NormalizedMessage p"
    "in_CallbackURL m = ci_CallbackURL p" "in_CallbackExpiresAt m = ci_CallbackExpiresAt p"
    "in_Status m = InboundStatusQueued" "in_DeliveredAt m = None"
    "db w' = db w\<lparr>inbounds := inbounds (db w) @ [m]\<rparr>" "wenv w' = wenv w"
proof -
  obtain rid us t w1 where u: "uuids w = rid # us" "IsValidUUID rid"
    and t: "run_state sql_now (w\<lparr>uuids := us\<rparr>) = (t, w1)"
    and q: "run_state (exec_env (\<lambda>e. get_context (uuid_arg e (ci_AccountID p)
          (\<lambda>a. sql_insert_inbound (p\<lparr>ci_AccountID := a\<rparr>) rid t)))) w1 = (Inr m, w')"
    using assms(1)
    by (auto simp: CreateInbound_def inboundRepo_Create_def run_gen_random_uuid
        split: list.splits if_splits prod.splits sum.splits)
  have w1: "db w1 = db w" "wenv w1 = wenv w" using sql_now_frame[of "w\<lparr>uuids := us\<rparr>"] t by simp_all
  show "in_AccountID m = ci_AccountID p" "in_ConversationKey m = ci_ConversationKey p"
    "in_KakaoPayload m = ci_KakaoPayload p" "in_NormalizedMessage m = ci_NormalizedMessage p"
    "in_CallbackURL m = ci_CallbackURL p" "in_CallbackExpiresAt m = ci_CallbackExpiresAt p"
    "in_Status m = InboundStatusQueued" "in_DeliveredAt m = None"
    "db w' = db w\<lparr>inbounds := inbounds (db w) @ [m]\<rparr>" "wenv w' = wenv w"
    using q w1 u(2) assms(2)
    by (auto simp: run_exec_env run_exec get_context_def uuid_arg_def
        sql_insert_inbound_def Let_def split: option.splits if_splits)
qed

lemma CreateInbound_error: "run_state (CreateInbound p) w = (Inl e, w') \<Longrightarrow> db w' = db w"
  by (auto simp: CreateInbound_def inboundRepo_Create_def run_gen_random_uuid run_sql_now run_time_now
      run_exec_env run_exec split: list.splits if_splits prod.splits option.splits sum.splits)

text \<open>What the account of a paired conversation gets.\<close>

definition message_event :: "env \<Rightarrow> InboundMessage \<Rightarrow> Event" where
  "message_event e m = \<lparr>ev_Type = ''message'', ev_Data = ToSSEEventData e m\<rparr>"

definition queues :: "string \<Rightarrow> string \<Rightarrow> world \<Rightarrow> world \<Rightarrow> bool" where
  "queues a key w w' \<longleftrightarrow> outbounds (db w') = outbounds (db w) \<and> callbacks w' = callbacks w
     \<and> (\<exists>m. inbounds (db w') = inbounds (db w) @ [m] \<and> in_AccountID m = a \<and> in_ConversationKey m = key
          \<and> in_Status m = InboundStatusQueued
          \<and> bus w' \<in> {bus w, bus w @ [(MessageChannel a, message_event (wenv w) m)]})"

lemma run_Publish:
  "run_state (Publish a e) w =
     (case redis_faults w of
        [] \<Rightarrow> (None, w\<lparr>bus := bus w @ [(MessageChannel a, e)], broker := redis_deliver (MessageChannel a) e (broker w)\<rparr>)
      | None # fs \<Rightarrow> (None, w\<lparr>redis_faults := fs, bus := bus w @ [(MessageChannel a, e)],
            broker := redis_deliver (MessageChannel a) e (broker w)\<rparr>)
      | Some err # fs \<Rightarrow> (Some (Foreign err), w\<lparr>redis_faults := fs\<rparr>))"
  by (simp add: Publish_def redis_call_def split: list.split option.split)

lemma webhook_message_effect:
  assumes run: "run_state (webhook_message req url expires conv) w = (out, w')"
    and cast: "uuid_cast_ok (wenv w)"
    and valid: "\<And>a. conv_AccountID conv = Some a \<Longrightarrow> IsValidUUID a"
  shows "(\<exists>resp. out = Response resp \<and> status resp = 200)
    \<and> (announces w w' \<or> (\<exists>a. conv_State conv = PairingStatePaired \<and> conv_AccountID conv = Some a
         \<and> queues a (BuildConversationKey (GetChannelID req) (GetPlusfriendUserKey req)) w w'))"
proof (cases "parseCommand (upper_table (wenv w)) (kr_Utterance (kw_UserRequest req))")
  case (Some cmd)
  obtain x v where h: "run_state (handleCommand cmd conv
      (BuildConversationKey (GetChannelID req) (GetPlusfriendUserKey req))) w = (x, v)" by fastforce
  then have "announces w v" using io_rel_run[OF handleCommand_announces, of w] by (metis snd_conv)
  with run Some h show ?thesis by (auto simp: webhook_message_def Let_def WriteJSON_def)
next
  case None
  show ?thesis
  proof (cases "conv_State conv = PairingStatePaired \<and> conv_AccountID conv \<noteq> None")
    case False
    then have "w' = w \<and> out = Response (WriteJSON 200 (encode_response (NewTextResponse text_not_paired)))"
      using run None
      by (cases "conv_AccountID conv"; cases "conv_State conv") (auto simp: webhook_message_def Let_def)
    then show ?thesis by (simp add: WriteJSON_def announces.R_refl)
  next
    case True
    then obtain a where a: "conv_State conv = PairingStatePaired" "conv_AccountID conv = Some a" by auto
    define key where "key = BuildConversationKey (GetChannelID req) (GetPlusfriendUserKey req)"
    define p where "p = \<lparr>ci_AccountID = a, ci_ConversationKey = key,
        ci_KakaoPayload = ToJSON req, ci_NormalizedMessage = Some (JObj [(''channelId'', JStr (GetChannelID req)),
          (''text'', JStr (kr_Utterance (kw_UserRequest req))), (''userId'', JStr (GetPlusfriendUserKey req))]),
        ci_CallbackURL = url, ci_CallbackExpiresAt = expires, ci_SourceEventID = None\<rparr>"
    obtain r v where c: "run_state (CreateInbound p) w = (r, v)" by fastforce
    have v: "callbacks v = callbacks w" "bus v = bus w" "wenv v = wenv w"
      using io_rel_run[of only_db "CreateInbound p" w] c by (auto intro: only_db_intros simp: only_db_def)
    show ?thesis
    proof (cases r)
      case (Inl e)
      have "announces w v" using CreateInbound_error[OF c[unfolded Inl]] v
        by (intro announces_quiet) (simp_all add: same_log_def)
      with run None a c Inl show ?thesis
        by (auto simp: webhook_message_def Let_def WriteJSON_def p_def key_def)
    next
      case (Inr m)
      have m: "in_AccountID m = a" "in_ConversationKey m = key" "in_Status m = InboundStatusQueued"
        "db v = db w\<lparr>inbounds := inbounds (db w) @ [m]\<rparr>"
        using CreateInbound_ok[OF c[unfolded Inr]] cast valid[OF a(2)] by (simp_all add: p_def uuid_cast_ok_def)
      obtain y w2 where pub: "run_state (Publish a (message_event (wenv w) m)) v = (y, w2)" by fastforce
      have w2: "db w2 = db v" "callbacks w2 = callbacks v"
        "bus w2 \<in> {bus w, bus w @ [(MessageChannel a, message_event (wenv w) m)]}"
        using pub v by (auto simp: run_Publish split: list.splits option.splits)
      have "queues a key w w2" unfolding queues_def
        using m w2 v by (intro conjI exI[of _ m]) simp_all
      with run None a c Inr pub show ?thesis
        by (auto simp: webhook_message_def Let_def WriteJSON_def p_def key_def message_event_def)
    qed
  qed
qed


text \<open>With a working database and a fresh UUID neither statement fails.\<close>

lemma FindOrCreate_works:
  assumes "db_faults w = []" "uuids w = rid # us" "IsValidUUID rid"
    and "\<exists>c \<in> set (conversations (db w)). conv_ConversationKey c = BuildConversationKey ch u"
  shows "\<exists>c w1. run_state (FindOrCreate ch u url expires) w = (Inr c, w1) \<and> uuids w1 = us
    \<and> db_faults w1 = [] \<and> accounts (db w1) = accounts (db w)"
proof -
  let ?k = "BuildConversationKey ch u"
  obtain t v where n: "run_state sql_now (w\<lparr>uuids := us\<rparr>) = (t, v)" by fastforce
  have v: "db v = db w" "db_faults v = []" "uuids v = us"
    using n assms(1) by (auto simp: run_sql_now run_time_now split: option.splits)
  define rows where "rows = upd_where (\<lambda>c. conv_ConversationKey c = ?k) (touch_conv url expires t) (conversations (db w))"
  have "?k \<in> conv_ConversationKey ` set (conversations (db w))" using assms(4) by force
  moreover have "map conv_ConversationKey rows = map conv_ConversationKey (conversations (db w))"
    unfolding rows_def by (rule map_upd_where_frame) (simp add: touch_conv_def)
  ultimately have "?k \<in> conv_ConversationKey ` set rows" by (metis set_map)
  then have "filter (\<lambda>c. conv_ConversationKey c = ?k) rows \<noteq> []" by (auto simp: filter_empty_conv)
  then obtain c cs where "filter (\<lambda>c. conv_ConversationKey c = ?k) rows = c # cs" by (auto simp: neq_Nil_conv)
  with n v assms(2-4) show ?thesis
    by (auto simp: FindOrCreate_def conversationRepo_Upsert_def run_gen_random_uuid run_exec next_fault_def
        get_context_def sql_upsert_conversation_def Let_def rows_def)
qed

lemma CreateInbound_works:
  assumes "db_faults w = []" "uuids w = rid # us" "IsValidUUID rid" "\<forall>m \<in> set (inbounds (db w)). in_ID m \<noteq> rid"
    and "uuid_in (wenv w) (ci_AccountID p) = Some (ci_AccountID p)"
    and "ci_AccountID p \<in> acc_ID ` set (accounts (db w))" "ci_SourceEventID p = None"
  shows "\<exists>m w'. run_state (CreateInbound p) w = (Inr m, w')"
proof -
  obtain t v where n: "run_state sql_now (w\<lparr>uuids := us\<rparr>) = (t, v)" by fastforce
  have v: "db v = db w" "db_faults v = []" "wenv v = wenv w"
    using n assms(1) by (auto simp: run_sql_now run_time_now split: option.splits)
  have "\<not> (\<exists>m \<in> set (inbounds (db w)). in_ID m = rid)" using assms(4) by blast
  then have "\<not> (\<exists>m \<in> set (inbounds (db w)). in_ID m = rid
      \<or> (in_SourceEventID m \<noteq> None \<and> in_SourceEventID m = ci_SourceEventID p))" using assms(7) by auto
  then obtain m d where "sql_insert_inbound p rid t (db w) = Inr ([m], d)"
    using assms(6) unfolding sql_insert_inbound_def Let_def by simp
  then show ?thesis using n v assms
    by (simp add: CreateInbound_def inboundRepo_Create_def run_gen_random_uuid run_exec_env run_exec
        next_fault_def uuid_arg_def get_context_def)
qed

section \<open>The webhook\<close>


definition ex_call :: request where
  "ex_call = ex_request\<lparr>rq_Body := ''webhook''\<rparr>"

definition ex_hook :: KakaoWebhookRequest where
  "ex_hook = the (decode_webhook (the (ex_json ''webhook'')))"

lemma ex_hook:
  "decode_webhook (the (ex_json ''webhook'')) = Some ex_hook"
  "GetChannelID ex_hook = ''channel''" "GetPlusfriendUserKey ex_hook = ''user''"
  "kr_Utterance (kw_UserRequest ex_hook) = ''hello''" "kr_CallbackURL (kw_UserRequest ex_hook) = []"
  "parseCommand (\<lambda>s. s) ''hello'' = None" "BuildConversationKey ''channel'' ''user'' = ''channel:user''"
  by code_simp+

lemma ex_call: "decode_body ex_env ex_call = Some (the (ex_json ''webhook''))"
  by (simp add: decode_body_def ex_call_def ex_request_def ex_json_def)


lemma Webhook_message:
  assumes "wf_db (db w)" "uuid_cast_ok (wenv w)" "db_faults w = []" "redis_faults w = []"
    and "uuids w = rid # mid # us" "IsValidUUID rid" "IsValidUUID mid"
    and "\<forall>m \<in> set (inbounds (db w)). in_ID m \<noteq> mid"
    and "decode_body (wenv w) r = Some j" "decode_webhook j = Some req"
    and "parseCommand (upper_table (wenv w)) (kr_Utterance (kw_UserRequest req)) = None"
    and "c \<in> set (conversations (db w))" "conv_State c = PairingStatePaired" "conv_AccountID c = Some a"
    and "conv_ConversationKey c = BuildConversationKey (GetChannelID req) (GetPlusfriendUserKey req)"
  shows "\<exists>m w'. run_state (Webhook ttl r) w = (Response (WriteJSON 200 (encode_response NewCallbackResponse)), w')
    \<and> inbounds (db w') = inbounds (db w) @ [m] \<and> in_AccountID m = a
    \<and> in_ConversationKey m = conv_ConversationKey c \<and> in_Status m = InboundStatusQueued
    \<and> in_KakaoPayload m = ToJSON req
    \<and> in_NormalizedMessage m = Some (JObj [(''channelId'', JStr (GetChannelID req)),
          (''text'', JStr (kr_Utterance (kw_UserRequest req))), (''userId'', JStr (GetPlusfriendUserKey req))])
    \<and> (if kr_CallbackURL (kw_UserRequest req) = [] then in_CallbackURL m = None
       else in_CallbackURL m = Some (kr_CallbackURL (kw_UserRequest req))
         \<and> (\<exists>t \<ge> clock w. in_CallbackExpiresAt m = Some (t + ttl)))
    \<and> bus w' = bus w @ [(MessageChannel a, message_event (wenv w) m)]"
proof -
  let ?ch = "GetChannelID req" and ?u = "GetPlusfriendUserKey req"
  let ?url = "kr_CallbackURL (kw_UserRequest req)"
  obtain url expires w0 where w0: "run_state (if ?url \<noteq> []
      then do { now \<leftarrow> time_now; State_Monad.return (Some ?url, Some (now + ttl)) }
      else State_Monad.return (None, None)) w = ((url, expires), w0)"
    by (metis surj_pair)
  have v0: "db w0 = db w" "bus w0 = bus w" "wenv w0 = wenv w" "uuids w0 = uuids w" "db_faults w0 = []"
    "redis_faults w0 = []" and url: "if ?url = [] then url = None
      else url = Some ?url \<and> (\<exists>t \<ge> clock w. expires = Some (t + ttl))"
    using w0 assms(3,4) by (auto simp: run_time_now split: if_splits)
  obtain conv w1 where f: "run_state (FindOrCreate ?ch ?u url expires) w0 = (Inr conv, w1)"
    and v1: "uuids w1 = mid # us" "db_faults w1 = []" "accounts (db w1) = accounts (db w0)"
    using FindOrCreate_works[of w0 rid "mid # us" ?ch ?u url expires] v0 assms(5,6,12,15) by auto
  have w1: "inbounds (db w1) = inbounds (db w)"
    using io_rel_run[OF services_announce(1), of w0 ?ch ?u url expires] f v0
    by (simp add: announces_def same_log_def)
  have o1: "bus w1 = bus w" "wenv w1 = wenv w" "redis_faults w1 = []"
    using io_rel_run[OF FindOrCreate_eff(2), of w0 ?ch ?u url expires] f v0 by (simp_all add: only_db_def)
  have same: "c0 = c" if "c0 \<in> set (conversations (db w))" "conv_ConversationKey c0 = BuildConversationKey ?ch ?u" for c0
    using that conv_owner[OF assms(1) assms(12), of c0] assms(15) by simp
  have conv: "conv_State conv = PairingStatePaired" "conv_AccountID conv = Some a"
    using FindOrCreate_conv[OF f] same assms(12-15) unfolding v0(1) by metis+
  define p where "p = \<lparr>ci_AccountID = a, ci_ConversationKey = BuildConversationKey ?ch ?u,
      ci_KakaoPayload = ToJSON req, ci_NormalizedMessage = Some (JObj [(''channelId'', JStr ?ch),
        (''text'', JStr (kr_Utterance (kw_UserRequest req))), (''userId'', JStr ?u)]),
      ci_CallbackURL = url, ci_CallbackExpiresAt = expires, ci_SourceEventID = None\<rparr>"
  note a = conv_account_valid[OF assms(1,12,14)]
  have pa: "uuid_in (wenv w1) (ci_AccountID p) = Some (ci_AccountID p)"
    using assms(2) a(1) o1 by (simp add: uuid_cast_ok_def p_def)
  have fresh: "\<forall>m \<in> set (inbounds (db w1)). in_ID m \<noteq> mid" using assms(8) w1 by simp
  have acc: "ci_AccountID p \<in> acc_ID ` set (accounts (db w1))"
    using a(2) v1(3) v0(1) unfolding p_def CreateInboundMessageParams.simps by metis
  have src: "ci_SourceEventID p = None" by (simp add: p_def)
  obtain m w2 where m: "run_state (CreateInbound p) w1 = (Inr m, w2)"
    using CreateInbound_works[OF v1(2,1) assms(7) fresh pa acc src] by blast
  have only2: "bus w2 = bus w" "redis_faults w2 = []" "wenv w2 = wenv w"
    using io_rel_run[of only_db "CreateInbound p" w1] m o1 by (auto intro: only_db_intros simp: only_db_def)
  define w3 where "w3 = w2\<lparr>bus := bus w @ [(MessageChannel a, message_event (wenv w) m)],
      broker := redis_deliver (MessageChannel a) (message_event (wenv w) m) (broker w2)\<rparr>"
  have pub: "run_state (Publish a (message_event (wenv w) m)) w2 = (None, w3)"
    using only2 by (simp add: run_Publish w3_def)
  have "run_state (Webhook ttl r) w = run_state (webhook_message req url expires conv) w1"
    using assms(9,10) w0 f by (simp add: Webhook_def Let_def)
  also have "\<dots> = (Response (WriteJSON 200 (encode_response NewCallbackResponse)), w3)"
    using conv assms(11) o1(2) m[unfolded p_def] pub[unfolded message_event_def]
    by (simp add: webhook_message_def Let_def)
  finally have "run_state (Webhook ttl r) w = (Response (WriteJSON 200 (encode_response NewCallbackResponse)), w3)" .
  moreover note CreateInbound_ok[OF m pa]
  moreover have "inbounds (db w3) = inbounds (db w) @ [m]"
    using CreateInbound_ok(9)[OF m pa] w1 by (simp add: w3_def)
  moreover have "bus w3 = bus w @ [(MessageChannel a, message_event (wenv w) m)]" by (simp add: w3_def)
  ultimately show ?thesis using url assms(15)
    unfolding p_def CreateInboundMessageParams.simps by (intro exI[of _ m] exI[of _ w3]) auto
qed

text \<open>
  C19. A message of a paired conversation arrives. With database and Redis working, a webhook call
  that is not a command stores exactly one queued message for the account of its conversation, with
  the whole request as payload, the normalized text and the callback URL with its deadline, and
  publishes it on that account's channel; Kakao is told to wait for the callback.
\<close>

theorem webhook_queues:
  assumes "wf_db (db w)" "uuid_cast_ok (wenv w)" "db_faults w = []" "redis_faults w = []"
    and "uuids w = rid # mid # us" "IsValidUUID rid" "IsValidUUID mid"
    and "\<forall>m \<in> set (inbounds (db w)). in_ID m \<noteq> mid"
    and "decode_body (wenv w) r = Some j" "decode_webhook j = Some req"
    and "parseCommand (upper_table (wenv w)) (kr_Utterance (kw_UserRequest req)) = None"
    and "c \<in> set (conversations (db w))" "conv_State c = PairingStatePaired" "conv_AccountID c = Some a"
    and "conv_ConversationKey c = BuildConversationKey (GetChannelID req) (GetPlusfriendUserKey req)"
  shows "\<exists>m w'. run_state (Webhook ttl r) w = (Response (WriteJSON 200 (encode_response NewCallbackResponse)), w')
    \<and> inbounds (db w') = inbounds (db w) @ [m] \<and> in_AccountID m = a
    \<and> in_ConversationKey m = conv_ConversationKey c \<and> in_Status m = InboundStatusQueued
    \<and> in_KakaoPayload m = ToJSON req
    \<and> in_NormalizedMessage m = Some (JObj [(''channelId'', JStr (GetChannelID req)),
          (''text'', JStr (kr_Utterance (kw_UserRequest req))), (''userId'', JStr (GetPlusfriendUserKey req))])
    \<and> (if kr_CallbackURL (kw_UserRequest req) = [] then in_CallbackURL m = None
       else in_CallbackURL m = Some (kr_CallbackURL (kw_UserRequest req))
         \<and> (\<exists>t \<ge> clock w. in_CallbackExpiresAt m = Some (t + ttl)))
    \<and> bus w' = bus w @ [(MessageChannel a, message_event (wenv w) m)]"
  by (rule Webhook_message[OF assms])

theorem webhook_queues_witness:
  "\<exists>m w'. run_state (Webhook (55 * second) ex_call) ex_world =
       (Response (WriteJSON 200 (encode_response NewCallbackResponse)), w')
     \<and> inbounds (db w') = inbounds ex_db @ [m] \<and> in_AccountID m = ex_uuid (CHR ''1'')
     \<and> bus w' = [(MessageChannel (ex_uuid (CHR ''1'')), message_event ex_env m)]"
proof -
  have c: "ex_conv \<in> set (conversations (db ex_world))" "conv_State ex_conv = PairingStatePaired"
    "conv_AccountID ex_conv = Some (ex_uuid (CHR ''1''))" "conv_ConversationKey ex_conv = ''channel:user''"
    by (simp_all add: ex_db_def ex_conv_def)
  have fresh: "\<forall>m \<in> set (inbounds (db ex_world)). in_ID m \<noteq> ex_uuid (CHR ''9'')"
    by (simp add: ex_db_def ex_inbound_def)
  have cmd: "parseCommand (upper_table (wenv ex_world)) (kr_Utterance (kw_UserRequest ex_hook)) = None"
    using ex_hook by simp
  have key: "conv_ConversationKey ex_conv = BuildConversationKey (GetChannelID ex_hook) (GetPlusfriendUserKey ex_hook)"
    using ex_hook c(4) by simp
  show ?thesis
    using webhook_queues[of ex_world "ex_uuid (CHR ''8'')" "ex_uuid (CHR ''9'')" "[]" ex_call
        "the (ex_json ''webhook'')" ex_hook ex_conv "ex_uuid (CHR ''1'')" "55 * second", OF _ _ _ _ _ ex_uuid_valid(8,9) fresh _ ex_hook(1) cmd c(1,2,3) key]
      ex_db_wf ex_call by auto
qed


section \<open>Conversations of a deleted account\<close>

definition command :: "string \<Rightarrow> string \<Rightarrow> Command" where
  "command t code = \<lparr>cmd_Type = t, cmd_Code = code\<rparr>"



end
