(* ===== verification/Streams.thy ===== *)
theory Streams
  imports SessionLife ApiHandlers
begin

text \<open>
  What a client of the event stream receives: on connecting the queued messages of its account,
  oldest first, each marked as delivered once it is written; afterwards live events, which are not
  marked.
\<close>

section \<open>Marking\<close>

text \<open>The two writes of an event, and the table after some messages were marked.\<close>

definition message_chunks :: "env \<Rightarrow> nat \<Rightarrow> InboundMessage \<Rightarrow> (nat \<times> sse_chunk) list" where
  "message_chunks e c m = [(c, EventLine ''message''), (c, DataLine (ToSSEEventData e m))]"

definition marked :: "InboundMessage set \<Rightarrow> InboundMessage \<Rightarrow> InboundMessage \<Rightarrow> bool" where
  "marked ms m m' \<longleftrightarrow> (if m \<in> ms then \<exists>t. m' = set_delivered t m else m' = m)"

lemma run_MarkDelivered_ok:
  assumes "IsValidUUID i" "uuid_cast_ok (wenv w)" "db_faults w = []"
  obtains t w' where "run_state (MarkDelivered i) w = (None, w')"
    "db w' = upd_inbound i (set_delivered t) (db w)" "db_faults w' = []" "wenv w' = wenv w"
    "sse_out w' = sse_out w" "write_faults w' = write_faults w"
proof -
  obtain t v where n: "run_state time_now w = (t, v)" by fastforce
  then have v: "db v = db w" "db_faults v = []" "wenv v = wenv w" "sse_out v = sse_out w" "write_faults v = write_faults w"
    using assms(3) by (auto simp: run_time_now)
  have "uuid_in (wenv v) i = Some i" using assms(1,2) v by (simp add: uuid_cast_ok_def)
  then have "run_state (MarkDelivered i) w = (None, v\<lparr>db := upd_inbound i (set_delivered t) (db w), db_faults := []\<rparr>)"
    using n v by (simp add: MarkDelivered_def inboundRepo_MarkDelivered_def run_exec_env run_exec
        next_fault_def uuid_arg_def)
  then show thesis by (rule that) (simp_all add: v)
qed

text \<open>A write to the connection: it succeeds, or nothing was written.\<close>

lemma write_chunk_cases:
  obtains w' where "run_state (write_chunk c chunk) w = (True, w')" "sse_out w' = sse_out w @ [(c, chunk)]"
    "db w' = db w" "db_faults w' = db_faults w" "wenv w' = wenv w" "write_faults w' = tl (write_faults w)"
  | w' where "run_state (write_chunk c chunk) w = (False, w')" "sse_out w' = sse_out w" "True \<in> set (write_faults w)"
    "db w' = db w" "db_faults w' = db_faults w" "wenv w' = wenv w"
proof (cases "write_faults w")
  case Nil
  then show thesis by (intro that(1)[of "w\<lparr>sse_out := sse_out w @ [(c, chunk)], write_faults := []\<rparr>"])
      (simp_all add: write_chunk_def)
next
  case (Cons f fs)
  show thesis
  proof (cases f)
    case True
    with Cons show thesis by (intro that(2)[of "w\<lparr>write_faults := fs\<rparr>"]) (simp_all add: write_chunk_def)
  next
    case False
    with Cons show thesis by (intro that(1)[of "w\<lparr>sse_out := sse_out w @ [(c, chunk)], write_faults := fs\<rparr>"])
        (simp_all add: write_chunk_def)
  qed
qed

lemma sendRawEvent_cases:
  obtains w' where "run_state (sendRawEvent c ev) w = (True, w')"
    "sse_out w' = sse_out w @ [(c, EventLine (ev_Type ev)), (c, DataLine (ev_Data ev))]"
    "db w' = db w" "db_faults w' = db_faults w" "wenv w' = wenv w"
    "set (write_faults w') \<subseteq> set (write_faults w)"
  | w' part where "run_state (sendRawEvent c ev) w = (False, w')" "sse_out w' = sse_out w @ part"
    "part \<in> {[], [(c, EventLine (ev_Type ev))]}" "True \<in> set (write_faults w)"
    "db w' = db w" "db_faults w' = db_faults w" "wenv w' = wenv w"
proof (cases rule: write_chunk_cases[of c "EventLine (ev_Type ev)" w])
  case (2 w1)
  then show thesis by (intro that(2)[of w1 "[]"]) (simp_all add: sendRawEvent_def)
next
  case first: (1 w1)
  have sub: "set (tl xs) \<subseteq> set xs" for xs :: "bool list" by (cases xs) auto
  show thesis
  proof (cases rule: write_chunk_cases[of c "DataLine (ev_Data ev)" w1])
    case (1 w2)
    with first show thesis
      by (intro that(1)[of w2]) (auto simp: sendRawEvent_def dest!: subsetD[OF sub])
  next
    case (2 w2)
    with first show thesis by (intro that(2)[of w2 "[(c, EventLine (ev_Type ev))]"])
        (auto simp: sendRawEvent_def dest!: subsetD[OF sub])
  qed
qed

text \<open>Marking one row and then others is marking them all, when their keys differ.\<close>

lemma marked_step:
  assumes "list_all2 (marked {m}) xs ys" "list_all2 (marked ms) ys zs" "\<forall>x \<in> ms. in_ID x \<noteq> in_ID m"
  shows "list_all2 (marked (insert m ms)) xs zs"
proof (rule list_all2_trans[OF _ assms(1,2)])
  fix x y z assume xy: "marked {m} x y" and yz: "marked ms y z"
  have new: "set_delivered t m \<notin> ms" "m \<notin> ms" for t using assms(3) by (force simp: set_delivered_def)+
  show "marked (insert m ms) x z" using xy yz new by (cases "x = m") (auto simp: marked_def split: if_splits)
qed

text \<open>One message of the queue is marked: its row, and no key changes.\<close>

lemma MarkDelivered_row:
  assumes m: "m \<in> set (inbounds (db w))" and keys: "\<forall>m \<in> set (inbounds (db w)). IsValidUUID (in_ID m)"
    "distinct (map in_ID (inbounds (db w)))" and ok: "uuid_cast_ok (wenv w)" "db_faults w = []"
  obtains w' where "run_state (MarkDelivered (in_ID m)) w = (None, w')"
    "list_all2 (marked {m}) (inbounds (db w)) (inbounds (db w'))"
    "\<forall>x \<in> set (inbounds (db w)). x \<noteq> m \<longrightarrow> x \<in> set (inbounds (db w'))"
    "map in_ID (inbounds (db w')) = map in_ID (inbounds (db w))" "\<forall>m \<in> set (inbounds (db w')). IsValidUUID (in_ID m)"
    "db_faults w' = []" "wenv w' = wenv w" "sse_out w' = sse_out w" "write_faults w' = write_faults w"
proof -
  obtain t w' where run: "run_state (MarkDelivered (in_ID m)) w = (None, w')"
    "db w' = upd_inbound (in_ID m) (set_delivered t) (db w)" "db_faults w' = []" "wenv w' = wenv w"
    "sse_out w' = sse_out w" "write_faults w' = write_faults w"
    by (rule run_MarkDelivered_ok[of "in_ID m" w]) (use m keys(1) ok in simp_all)
  have "x \<in> set (inbounds (db w)) \<Longrightarrow> in_ID x = in_ID m \<longleftrightarrow> x = m" for x
    using keys(2) m by (auto dest: distinct_map_eqD)
  then have inb: "inbounds (db w') = map (\<lambda>x. if x = m then set_delivered t x else x) (inbounds (db w))"
    unfolding run(2) by (auto simp: upd_inbound_def upd_where_def)
  have "list_all2 (marked {m}) (inbounds (db w)) (inbounds (db w'))"
    unfolding inb list_all2_map2 list_all2_same by (auto simp: marked_def)
  moreover have ids: "map in_ID (inbounds (db w')) = map in_ID (inbounds (db w))"
    unfolding inb by (simp add: set_delivered_def)
  moreover have "\<forall>m \<in> set (inbounds (db w')). IsValidUUID (in_ID m)"
    using keys(1) ids by (metis (no_types, lifting) imageE imageI set_map)
  moreover have "\<forall>x \<in> set (inbounds (db w)). x \<noteq> m \<longrightarrow> x \<in> set (inbounds (db w'))"
    unfolding inb by (auto intro!: image_eqI)
  ultimately show thesis using run(1,3-6) by (intro that)
qed

text \<open>
  The loop: some number of messages from the front is written and marked; it is all of them unless a
  write failed.
\<close>

lemma send_queued_outcome:
  assumes "\<forall>m \<in> set msgs. m \<in> set (inbounds (db w))" "distinct (map in_ID msgs)"
    and "\<forall>m \<in> set (inbounds (db w)). IsValidUUID (in_ID m)" "distinct (map in_ID (inbounds (db w)))"
    and "uuid_cast_ok (wenv w)" "db_faults w = []"
  shows "\<exists>k ok w' part. run_state (send_queued c msgs) w = (ok, w') \<and> k \<le> length msgs
    \<and> (ok \<longleftrightarrow> k = length msgs) \<and> (ok \<longrightarrow> part = []) \<and> (\<not> ok \<longrightarrow> True \<in> set (write_faults w))
    \<and> sse_out w' = sse_out w @ concat (map (message_chunks (wenv w) c) (take k msgs)) @ part
    \<and> part \<in> {[], [(c, EventLine ''message'')]}
    \<and> list_all2 (marked (set (take k msgs))) (inbounds (db w)) (inbounds (db w'))
    \<and> db_faults w' = []"
  using assms
proof (induction msgs arbitrary: w)
  case Nil
  show ?case by (intro exI[of _ 0] exI[of _ True] exI[of _ w] exI[of _ "[]"])
      (simp add: Nil.prems list_all2_same marked_def)
next
  case (Cons m msgs)
  define ev where "ev = \<lparr>ev_Type = ''message'', ev_Data = ToSSEEventData (wenv w) m\<rparr>"
  have mem: "m \<in> set (inbounds (db w))" using Cons.prems(1) by simp
  show ?case
  proof (cases rule: sendRawEvent_cases[of c ev w])
    case (2 w1 part)
    then show ?thesis using Cons.prems(6)
      by (intro exI[of _ 0] exI[of _ False] exI[of _ w1] exI[of _ part])
         (auto simp: ev_def list_all2_same marked_def)
  next
    case (1 w1)
    obtain w2 where m2: "run_state (MarkDelivered (in_ID m)) w1 = (None, w2)"
      "list_all2 (marked {m}) (inbounds (db w)) (inbounds (db w2))"
      "\<forall>x \<in> set (inbounds (db w)). x \<noteq> m \<longrightarrow> x \<in> set (inbounds (db w2))"
      "map in_ID (inbounds (db w2)) = map in_ID (inbounds (db w))" "\<forall>m \<in> set (inbounds (db w2)). IsValidUUID (in_ID m)"
      "db_faults w2 = []" "wenv w2 = wenv w1" "sse_out w2 = sse_out w1" "write_faults w2 = write_faults w1"
      by (rule MarkDelivered_row[of m w1]) (use 1 Cons.prems in simp_all)
    have "\<forall>x \<in> set msgs. x \<in> set (inbounds (db w2))" "distinct (map in_ID msgs)"
      "distinct (map in_ID (inbounds (db w2)))" "uuid_cast_ok (wenv w2)"
      using Cons.prems m2(3,4,7) 1 by auto
    from Cons.IH[OF this(1,2) m2(5) this(3,4) m2(6)] obtain k ok w' part where run:
      "run_state (send_queued c msgs) w2 = (ok, w')" "k \<le> length msgs" "ok \<longleftrightarrow> k = length msgs" "ok \<longrightarrow> part = []"
      "\<not> ok \<longrightarrow> True \<in> set (write_faults w2)"
      "sse_out w' = sse_out w2 @ concat (map (message_chunks (wenv w2) c) (take k msgs)) @ part"
      "part \<in> {[], [(c, EventLine ''message'')]}"
      "list_all2 (marked (set (take k msgs))) (inbounds (db w2)) (inbounds (db w'))" "db_faults w' = []"
      by blast
    have "\<forall>x \<in> set (take k msgs). in_ID x \<noteq> in_ID m"
      using Cons.prems(2) by (metis distinct.simps(2) imageI in_set_takeD list.simps(9) set_map)
    then have "list_all2 (marked (set (take (Suc k) (m # msgs)))) (inbounds (db w)) (inbounds (db w'))"
      using marked_step[OF m2(2) run(8)] by simp
    moreover have "message_chunks (wenv w) c m = [(c, EventLine (ev_Type ev)), (c, DataLine (ev_Data ev))]"
      by (simp add: message_chunks_def ev_def)
    ultimately show ?thesis using run m2 1 unfolding ev_def[symmetric]
      by (intro exI[of _ "Suc k"] exI[of _ ok] exI[of _ w'] exI[of _ part])
         (auto simp flip: ev_def)
  qed
qed

lemma sendQueued_outcome:
  assumes "wf_db (db w)" "uuid_cast_ok (wenv w)" "db_faults w = []" "IsValidUUID a"
  shows "\<exists>msgs k ok w' part. run_state (sendQueuedMessages c a) w = (ok, w')
    \<and> set msgs = {m \<in> set (inbounds (db w)). queued_for a m} \<and> distinct msgs \<and> sorted (map in_CreatedAt msgs)
    \<and> k \<le> length msgs \<and> (ok \<longleftrightarrow> k = length msgs) \<and> (True \<notin> set (write_faults w) \<longrightarrow> ok)
    \<and> sse_out w' = sse_out w @ concat (map (message_chunks (wenv w) c) (take k msgs)) @ part
    \<and> part \<in> {[], [(c, EventLine ''message'')]} \<and> (ok \<longrightarrow> part = [])
    \<and> list_all2 (marked (set (take k msgs))) (inbounds (db w)) (inbounds (db w'))"
proof -
  define msgs where "msgs = order_by_asc in_CreatedAt (filter (queued_for a) (inbounds (db w)))"
  have keys: "distinct (map in_ID (inbounds (db w)))" "\<forall>m \<in> set (inbounds (db w)). IsValidUUID (in_ID m)"
    using wf_dbD(11)[OF assms(1)] by (auto simp: keys_ok_def)
  have w: "w\<lparr>db_faults := []\<rparr> = w" using assms(3) by simp
  have "run_state (FindQueuedByAccountID a) w = (Inr msgs, w)"
    using assms(2-4) by (simp add: FindQueuedByAccountID_def inboundRepo_FindQueuedByAccountID_def run_exec_env
        run_exec next_fault_def uuid_arg_def uuid_cast_ok_def reads_def msgs_def w)
  then have run: "run_state (sendQueuedMessages c a) w = run_state (send_queued c msgs) w"
    by (simp add: sendQueuedMessages_def)
  have "mset msgs = mset (filter (queued_for a) (inbounds (db w)))" by (simp add: msgs_def order_by_asc_def)
  then have "mset (map in_ID msgs) = mset (map in_ID (filter (queued_for a) (inbounds (db w))))" by simp
  moreover have "distinct (map in_ID (filter (queued_for a) (inbounds (db w))))"
    using keys(1) by (simp add: distinct_map_filter)
  ultimately have ids: "distinct (map in_ID msgs)" by (metis mset_eq_imp_distinct_iff)
  have set_msgs: "set msgs = {m \<in> set (inbounds (db w)). queued_for a m}" by (auto simp: msgs_def)
  then have mem: "\<forall>m \<in> set msgs. m \<in> set (inbounds (db w))" by blast
  have "sorted (map in_CreatedAt msgs)" unfolding msgs_def by (rule sorted_order_by_asc)
  moreover have "distinct msgs" using ids by (simp add: distinct_map)
  ultimately show ?thesis
    using send_queued_outcome[OF mem ids keys(2,1) assms(2,3), of c] run set_msgs
    by (intro exI[of _ msgs]) fastforce
qed

text \<open>
  C20. Queued messages are delivered in order and accounted for. With a working database a new stream
  first gets messages from the front of the account's queue, oldest first and no other account's,
  each completely; exactly those are marked as delivered, every other row stays as it is. It is the
  whole queue unless a write to the client failed, and then at most one more line was written.
\<close>

theorem queue_delivery:
  assumes "wf_db (db w)" "uuid_cast_ok (wenv w)" "db_faults w = []" "IsValidUUID a"
  shows "\<exists>msgs k ok w' part. run_state (sendQueuedMessages c a) w = (ok, w')
    \<and> set msgs = {m \<in> set (inbounds (db w)). queued_for a m} \<and> distinct msgs \<and> sorted (map in_CreatedAt msgs)
    \<and> k \<le> length msgs \<and> (ok \<longleftrightarrow> k = length msgs) \<and> (True \<notin> set (write_faults w) \<longrightarrow> ok)
    \<and> sse_out w' = sse_out w @ concat (map (message_chunks (wenv w) c) (take k msgs)) @ part
    \<and> part \<in> {[], [(c, EventLine ''message'')]} \<and> (ok \<longrightarrow> part = [])
    \<and> list_all2 (marked (set (take k msgs))) (inbounds (db w)) (inbounds (db w'))"
  by (rule sendQueued_outcome[OF assms])

theorem queue_delivery_witness:
  "\<exists>msgs w'. run_state (sendQueuedMessages 0 (ex_uuid (CHR ''1''))) ex_world = (True, w')
     \<and> length msgs = 2 \<and> sse_out w' = concat (map (message_chunks ex_env 0) msgs)
     \<and> list_all2 (marked (set msgs)) (inbounds ex_db) (inbounds (db w'))"
proof -
  obtain msgs k w' where r: "run_state (sendQueuedMessages 0 (ex_uuid (CHR ''1''))) ex_world = (True, w')"
    "set msgs = {m \<in> set (inbounds ex_db). queued_for (ex_uuid (CHR ''1'')) m}" "distinct msgs" "k = length msgs"
    "sse_out w' = concat (map (message_chunks ex_env 0) (take k msgs))"
    "list_all2 (marked (set (take k msgs))) (inbounds ex_db) (inbounds (db w'))"
    using queue_delivery[of ex_world "ex_uuid (CHR ''1'')" 0] ex_db_wf ex_uuid_valid(1) by auto
  have "set msgs = {ex_inbound (CHR ''6'') (1 * second), ex_inbound (CHR ''7'') (2 * second)}"
    unfolding r(2) by (auto simp: ex_db_def ex_inbound_def queued_for_def)
  moreover have "ex_inbound (CHR ''6'') (1 * second) \<noteq> ex_inbound (CHR ''7'') (2 * second)"
    by (simp add: ex_inbound_def)
  ultimately have "length msgs = 2" using distinct_card[OF r(3)] by simp
  with r show ?thesis by (intro exI[of _ msgs] exI[of _ w']) simp
qed


section \<open>Live messages\<close>


definition ex_live :: world where
  "ex_live = ex_world\<lparr>broker := NewBroker\<lparr>br_heap := [NewClient (ex_uuid (CHR ''1''))
     \<lparr>cl_Events := [\<lparr>ev_Type = ''message'', ev_Data = ToSSEEventData ex_env (ex_inbound (CHR ''6'') (1 * second))\<rparr>]\<rparr>]\<rparr>\<rparr>"


end
