(* ===== verification/Limits.thy ===== *)
theory Limits
  imports Gates Dashboard
begin

text \<open>
  The edges of the program: which URLs a callback may go to, what an error tells the client, what
  the dashboard's lists, deletions and token renewals do, and what the cleanup job removes.
\<close>

section \<open>Callback URLs\<close>




section \<open>Errors\<close>

text \<open>
  An error answer depends on the outermost application error alone. Its status is one of eight,
  the text of a wrapped cause never reaches the client, errors without an application error are the
  generic 500, and no prefix added with fmt.Errorf changes anything.
\<close>

theorem error_hides_cause:
  "status (WriteError e) = statusFromCode (GetCode e)
   \<and> status (WriteError e) \<in> {400, 401, 403, 404, 409, 429, 500, 502}
   \<and> WriteError (AppError code msg details cause) = WriteError (AppError code msg details None)
   \<and> WriteError (Wrapf pre e post) = WriteError e
   \<and> (AsAppError e = None \<longrightarrow>
        body (WriteError e) = JObj [(''error'', JStr ''An unexpected error occurred''), (''code'', JStr ''INTERNAL_ERROR'')])"
  using statusFromCode_range[of "GetCode e"]
  by (auto simp: status_WriteError) (simp_all add: WriteError_def Internal_def NewErr_def ErrorResponse_def)

theorem error_hides_cause_witness:
  "body (WriteError (Wrapf ''query: '' (Foreign ''password=secret'') '''')) =
     JObj [(''error'', JStr ''An unexpected error occurred''), (''code'', JStr ''INTERNAL_ERROR'')]
   \<and> WriteError (Database (Foreign ''password=secret'')) = WriteError (AppError ErrCodeDatabase ''Database error'' None None)"
  using error_hides_cause[of "Wrapf ''query: '' (Foreign ''password=secret'') ''''" ErrCodeDatabase
      "''Database error''" None "Some (Foreign ''password=secret'')"]
  by (simp add: Database_def WrapErr_def)


section \<open>Pages of messages\<close>

text \<open>
  The message list of the dashboard is a page. Whatever the query says, the limit is between 1 and
  100 and the offset is not negative; with a working database the answer is then exactly this page
  of the account's inbound messages, newest first.
\<close>

theorem messages_page:
  assumes "parsePagination r = (l, off)"
    and "get_value ''type'' (rq_Query r) \<noteq> ''outbound''"
    and "IsValidUUID (get_value ''id'' (rq_Params r))" "uuid_cast_ok (wenv w)" "db_faults w = []"
  shows "1 \<le> l \<and> l \<le> 100 \<and> 0 \<le> off
    \<and> run_state (AccountMessages r) w =
        (Response (WriteJSON 200 (JArr (map (encode_inbound (wenv w)) (take (nat l) (drop (nat off)
          (order_by_desc in_CreatedAt
            (filter (\<lambda>m. in_AccountID m = get_value ''id'' (rq_Params r)) (inbounds (db w))))))))), w)"
proof -
  have b: "1 \<le> l" "l \<le> 100" "0 \<le> off"
    using assms(1) by (auto simp: parsePagination_def Let_def split: if_splits option.splits)
  have w: "w\<lparr>db_faults := []\<rparr> = w" using assms(5) by simp
  show ?thesis using assms(2-5) b
    by (simp add: AccountMessages_def assms(1) inboundRepo_FindByAccountID_def run_exec_env run_exec next_fault_def
        uuid_arg_def uuid_cast_ok_def page_def w)
qed

definition ex_page :: request where
  "ex_page = ex_request\<lparr>rq_Query := [(''limit'', ''1''), (''offset'', ''1'')], rq_Params := [(''id'', ex_uuid (CHR ''1''))]\<rparr>"

theorem messages_page_witness:
  "run_state (AccountMessages ex_page) ex_world =
     (Response (WriteJSON 200 (JArr [encode_inbound ex_env (ex_inbound (CHR ''6'') (1 * second))])), ex_world)"
proof -
  have p: "parsePagination ex_page = (1, 1)" by code_simp
  have q: "get_value ''type'' (rq_Query ex_page) \<noteq> ''outbound''" "get_value ''id'' (rq_Params ex_page) = ex_uuid (CHR ''1'')"
    by (simp_all add: ex_page_def get_value_def)
  have "order_by_desc in_CreatedAt (filter (\<lambda>m. in_AccountID m = ex_uuid (CHR ''1'')) (inbounds ex_db)) =
      [ex_inbound (CHR ''7'') (2 * second), ex_inbound (CHR ''6'') (1 * second)]"
    by (simp add: order_by_desc_def ex_db_def ex_inbound_def second_def)
  then show ?thesis using messages_page[OF p q(1)] q(2) ex_uuid_valid(1) by simp
qed


section \<open>Deleting an account\<close>




section \<open>The cleanup job\<close>

lemma run_maintenance:
  assumes "db_faults w = f # fs" "tx_now w = None"
  shows "\<exists>t v. clock w \<le> t \<and> clock v = t \<and> tx_now v = None \<and> db_faults v = fs
    \<and> run_state (runCleanup inboundRepo_MarkExpired) w = ((), v)
    \<and> db v = (if f = None then (db w)\<lparr>inbounds := upd_where (overdue t) set_in_expired (inbounds (db w))\<rparr> else db w)"
    and "\<exists>t v. clock w \<le> t \<and> clock v = t \<and> tx_now v = None \<and> db_faults v = fs
    \<and> run_state (runCleanup sessionRepo_DeleteExpired) w = ((), v)
    \<and> db v = (if f = None then (db w)\<lparr>sessions := del_where (stale_session t) (sessions (db w))\<rparr> else db w)"
proof -
  obtain t v where n: "run_state sql_now w = (t, v)" by fastforce
  then have v: "clock w \<le> t" "clock v = t" "tx_now v = None" "db_faults v = f # fs" "db v = db w"
    using assms by (auto simp: run_sql_now run_time_now split: option.splits)
  show "\<exists>t v. clock w \<le> t \<and> clock v = t \<and> tx_now v = None \<and> db_faults v = fs
    \<and> run_state (runCleanup inboundRepo_MarkExpired) w = ((), v)
    \<and> db v = (if f = None then (db w)\<lparr>inbounds := upd_where (overdue t) set_in_expired (inbounds (db w))\<rparr> else db w)"
    using n v by (cases f) (auto simp: runCleanup_def inboundRepo_MarkExpired_def run_exec next_fault_def sql_expire_inbound_def)
  show "\<exists>t v. clock w \<le> t \<and> clock v = t \<and> tx_now v = None \<and> db_faults v = fs
    \<and> run_state (runCleanup sessionRepo_DeleteExpired) w = ((), v)
    \<and> db v = (if f = None then (db w)\<lparr>sessions := del_where (stale_session t) (sessions (db w))\<rparr> else db w)"
    using n v by (cases f) (auto simp: runCleanup_def sessionRepo_DeleteExpired_def run_exec next_fault_def
        sql_delete_expired_sessions_def)
qed

text \<open>
  C39. What the cleanup job removes. Its two statements are independent: a failure of one leaves its
  table alone and does not stop the other. The first marks exactly the overdue queued messages as
  expired, the second deletes exactly the sessions that are expired, disconnected or pending past
  their deadline. No message is ever deleted, and one without a deadline never changes.
\<close>

theorem cleanup_exact:
  assumes "db_faults w = f1 # f2 # fs" "tx_now w = None"
  shows "\<exists>t1 t2 w'. run_state cleanup w = ((), w') \<and> clock w \<le> t1 \<and> t1 \<le> t2
    \<and> db w' = (db w)\<lparr>
        inbounds := (if f1 = None then upd_where (overdue t1) set_in_expired (inbounds (db w)) else inbounds (db w)),
        sessions := (if f2 = None then del_where (stale_session t2) (sessions (db w)) else sessions (db w))\<rparr>
    \<and> map in_ID (inbounds (db w')) = map in_ID (inbounds (db w))
    \<and> (\<forall>m \<in> set (inbounds (db w)). in_CallbackExpiresAt m = None \<longrightarrow> m \<in> set (inbounds (db w')))"
proof -
  obtain t1 w1 where 1: "clock w \<le> t1" "clock w1 = t1" "tx_now w1 = None" "db_faults w1 = f2 # fs"
    "run_state (runCleanup inboundRepo_MarkExpired) w = ((), w1)"
    "db w1 = (if f1 = None then (db w)\<lparr>inbounds := upd_where (overdue t1) set_in_expired (inbounds (db w))\<rparr> else db w)"
    using run_maintenance(1)[OF assms] by blast
  obtain t2 w2 where 2: "t1 \<le> t2" "run_state (runCleanup sessionRepo_DeleteExpired) w1 = ((), w2)"
    "db w2 = (if f2 = None then (db w1)\<lparr>sessions := del_where (stale_session t2) (sessions (db w1))\<rparr> else db w1)"
    using run_maintenance(2)[OF 1(4,3)] 1(2) by blast
  have "run_state cleanup w = ((), w2)" using 1(5) 2(2) by (simp add: cleanup_def)
  moreover have db: "db w2 = (db w)\<lparr>
        inbounds := (if f1 = None then upd_where (overdue t1) set_in_expired (inbounds (db w)) else inbounds (db w)),
        sessions := (if f2 = None then del_where (stale_session t2) (sessions (db w)) else sessions (db w))\<rparr>"
    using 1(6) 2(3) by (cases f1; cases f2) simp_all
  moreover have "map in_ID (inbounds (db w2)) = map in_ID (inbounds (db w))"
    unfolding db by (simp add: in_expire.map_key_upd)
  moreover have "m \<in> set (inbounds (db w2))" if "m \<in> set (inbounds (db w))" "in_CallbackExpiresAt m = None" for m
    using that unfolding db by (auto simp: set_upd_where overdue_def)
  ultimately show ?thesis using 1(1) 2(1) by (intro exI[of _ t1] exI[of _ t2] exI[of _ w2]) blast
qed

definition ex_late :: world where
  "ex_late = ex_world\<lparr>clock := 400 * second, db_faults := [Some ''lost'', None]\<rparr>"

theorem cleanup_exact_witness:
  "\<exists>w'. run_state cleanup ex_late = ((), w') \<and> inbounds (db w') = inbounds ex_db \<and> sessions (db w') = [ex_paired]"
proof -
  obtain t1 t2 w' where w': "run_state cleanup ex_late = ((), w')" "clock ex_late \<le> t1" "t1 \<le> t2"
    "db w' = ex_db\<lparr>inbounds := inbounds ex_db, sessions := del_where (stale_session t2) (sessions ex_db)\<rparr>"
    using cleanup_exact[of ex_late "Some ''lost''" None "[]"] by (auto simp: ex_late_def)
  moreover have "del_where (stale_session t2) (sessions ex_db) = [ex_paired]"
    using w'(2,3) by (simp add: ex_late_def del_where_def ex_db_def stale_session_def ex_pending_def ex_paired_def second_def)
  ultimately show ?thesis by (intro exI[of _ w']) simp
qed


section \<open>Renewing a relay token\<close>

lemma UpdateToken_sessions:
  "run_state (accountRepo_UpdateToken a h) w = (x, w') \<Longrightarrow> sessions (db w') = sessions (db w)"
  by (auto simp: accountRepo_UpdateToken_def run_sql_now run_time_now run_exec_env run_exec get_context_def
      uuid_arg_def sql_update_token_def Let_def split: option.splits sum.splits list.splits if_splits)

lemma UpdateToken_ok:
  assumes "run_state (accountRepo_UpdateToken a h) w = (Inr x, w')" "uuid_cast_ok (wenv w)" "IsValidUUID a"
  shows "\<exists>t. accounts (db w') = upd_where (\<lambda>y. acc_ID y = a) (set_token_hash h t) (accounts (db w))"
proof -
  obtain t v where n: "run_state time_now w = (t, v)" by fastforce
  then have v: "wenv v = wenv w" "db v = db w" by (auto simp: run_time_now)
  have c: "uuid_in (wenv v) a = Some a" using assms(2,3) v by (simp add: uuid_cast_ok_def)
  define d where "d = (db w)\<lparr>accounts := upd_where (\<lambda>y. acc_ID y = a) (set_token_hash h t) (accounts (db w))\<rparr>"
  have nf: "next_fault v = None"
    using assms(1) n next_fault_not_no_rows[of v]
    by (cases "next_fault v") (auto simp: accountRepo_UpdateToken_def run_exec_env run_exec split: if_splits)
  have ok: "sql_update_token a h t (db w) = Inr (filter (\<lambda>y. acc_ID y = a) (accounts d), d)"
    if "sql_update_token a h t (db w) \<noteq> Inl unique_violation"
    using that unfolding sql_update_token_def Let_def d_def[symmetric] by presburger
  have run: "run_state (accountRepo_UpdateToken a h) w = (case get_context (sql_update_token a h t) (db w) of
      Inl e \<Rightarrow> (HandleNotFound (Inl e), v\<lparr>db_faults := tl (db_faults v)\<rparr>)
    | Inr (y, d') \<Rightarrow> (Inr (Some y), v\<lparr>db := d', db_faults := tl (db_faults v)\<rparr>))"
    using n v c nf
    by (simp add: accountRepo_UpdateToken_def run_exec_env run_exec uuid_arg_def split: sum.split prod.split)
  have "sql_update_token a h t (db w) \<noteq> Inl unique_violation"
    using assms(1) run by (auto simp: get_context_def unique_violation_def)
  from ok[OF this] have "db w' = d \<or> db w' = db w \<and> filter (\<lambda>y. acc_ID y = a) (accounts d) = []"
    using assms(1) run v by (cases "filter (\<lambda>y. acc_ID y = a) (accounts d)") (auto simp: get_context_def)
  moreover have "accounts d = accounts (db w)" if "filter (\<lambda>y. acc_ID y = a) (accounts d) = []"
  proof -
    have acs: "accounts d = upd_where (\<lambda>y. acc_ID y = a) (set_token_hash h t) (accounts (db w))"
      by (simp add: d_def)
    have "a \<notin> acc_ID ` set (accounts d)" using that by (auto simp: filter_empty_conv)
    then have "\<forall>y \<in> set (accounts (db w)). acc_ID y \<noteq> a" unfolding acs acc_token.keys_upd by blast
    then show ?thesis unfolding acs upd_where_def by (intro map_idI) simp
  qed
  moreover have "accounts d = upd_where (\<lambda>y. acc_ID y = a) (set_token_hash h t) (accounts (db w))"
    by (simp add: d_def)
  ultimately show ?thesis by (intro exI[of _ t]) metis
qed

text \<open>
  C35. A renewed relay token is stored and never accepted. When the dashboard hands out a new token,
  its hash is the account's from now on and no other account changes; but authentication looks at
  session tokens only, so a request with the new token is refused with 401 (unless some session
  token has the same SHA-256).
\<close>

theorem regenerated_token_refused:
  assumes "run_state (RegenerateToken r) w = (Response resp, w')" "status resp = 200"
    and "body resp = JObj [(''relayToken'', JStr token)]"
    and "uuid_cast_ok (wenv w)" "IsValidUUID (get_value ''id'' (rq_Params r))"
    and "\<forall>s \<in> set (sessions (db w)). ses_SessionTokenHash s \<noteq> HashToken token"
    and "db_faults w' = []" "extractToken r' = token"
  shows "\<exists>t. accounts (db w') = upd_where (\<lambda>a. acc_ID a = get_value ''id'' (rq_Params r))
      (set_token_hash (HashToken token) t) (accounts (db w))
    \<and> run_state (Auth_Handler h r') w' = (Response (WriteJSON 401 (json_error ''Invalid token'')), w')"
proof -
  obtain tok rest v where g: "run_state generate_token w = (Inr tok, v)" "GenerateToken (entropy w) = Some (tok, rest)"
    "db v = db w" "wenv v = wenv w"
    using assms(1,2) by (auto simp: RegenerateToken_def run_generate_token WriteJSON_def split: option.splits)
  obtain x where u: "run_state (accountRepo_UpdateToken (get_value ''id'' (rq_Params r)) (HashToken tok)) v = (Inr x, w')"
    "token = tok"
    using assms(1-3) g(1)
    by (cases "run_state (accountRepo_UpdateToken (get_value ''id'' (rq_Params r)) (HashToken tok)) v")
       (auto simp: RegenerateToken_def WriteJSON_def split: sum.splits)
  have "sessions (db w') = sessions (db w)" using UpdateToken_sessions[OF u(1)] g(3) by simp
  then have none: "find_row (\<lambda>s. ses_SessionTokenHash s = HashToken token \<and> active_status (ses_Status s)) (sessions (db w')) = None"
    using assms(6) by (auto simp: find_None_iff)
  have w: "w'\<lparr>db_faults := []\<rparr> = w'" using assms(7) by simp
  have ne: "token \<noteq> []" using GenerateToken_shape[OF g(2)] u(2) by auto
  have "run_state (Auth_Handler h r') w' = (Response (WriteJSON 401 (json_error ''Invalid token'')), w')"
    using none assms(7,8) ne w by (simp add: Auth_Handler_def run_FindByTokenHash Let_def)
  moreover have "uuid_cast_ok (wenv v)" using assms(4) g(4) by simp
  ultimately show ?thesis using UpdateToken_ok[OF u(1) _ assms(5)] g(3) u(2) by auto
qed

definition ex_renewal :: request where
  "ex_renewal = ex_request\<lparr>rq_Params := [(''id'', ex_uuid (CHR ''1''))]\<rparr>"

theorem regenerated_token_refused_witness:
  "\<exists>token w'. run_state (RegenerateToken ex_renewal) (ex_world\<lparr>db := ex_db\<lparr>sessions := [ex_pending]\<rparr>\<rparr>) =
       (Response (WriteJSON 200 (JObj [(''relayToken'', JStr token)])), w')
     \<and> map acc_RelayTokenHash (accounts (db w')) = [Some (HashToken token)]
     \<and> run_state (Auth_Handler Overview (ex_request\<lparr>rq_Query := [(''token'', token)]\<rparr>)) w' =
         (Response (WriteJSON 401 (json_error ''Invalid token'')), w')"
proof -
  define w where "w = ex_world\<lparr>db := ex_db\<lparr>sessions := [ex_pending]\<rparr>\<rparr>"
  define token where "token = hex_encode (take tokenBytes (entropy ex_world))"
  define v where "v = w\<lparr>entropy := drop tokenBytes (entropy ex_world)\<rparr>"
  have w: "wenv w = ex_env" "uuid_cast_ok (wenv w)" "\<forall>s \<in> set (sessions (db w)). ses_SessionTokenHash s \<noteq> HashToken token"
    by (simp_all add: w_def ex_pending_def)
  have gen: "run_state generate_token w = (Inr token, v)"
    by (simp add: run_generate_token GenerateToken_def rand_Read_def w_def v_def token_def tokenBytes_def)
  have id: "get_value ''id'' (rq_Params ex_renewal) = ex_uuid (CHR ''1'')"
    by (simp add: ex_renewal_def get_value_def)
  obtain x w' where upd: "run_state (accountRepo_UpdateToken (ex_uuid (CHR ''1'')) (HashToken token)) v = (Inr x, w')"
    "db_faults w' = []"
    by (simp add: accountRepo_UpdateToken_def run_sql_now run_time_now run_exec_env run_exec next_fault_def uuid_arg_def
        get_context_def sql_update_token_def Let_def v_def w_def ex_uuid_valid ex_db_def ex_account_def upd_where_def
        set_token_hash_def)
  have run: "run_state (RegenerateToken ex_renewal) w = (Response (WriteJSON 200 (JObj [(''relayToken'', JStr token)])), w')"
    using gen upd by (simp add: RegenerateToken_def id)
  have "length token = 64" by (simp add: token_def tokenBytes_def hex_encode_chars)
  then have tok: "extractToken (ex_request\<lparr>rq_Query := [(''token'', token)]\<rparr>) = token"
    by (cases token) (auto simp: extractToken_def get_value_def)
  note facts = regenerated_token_refused[OF run _ _ w(2) _ w(3) upd(2) tok, of Overview]
  obtain t where t: "accounts (db w') = upd_where (\<lambda>a. acc_ID a = ex_uuid (CHR ''1'')) (set_token_hash (HashToken token) t) (accounts (db w))"
    "run_state (Auth_Handler Overview (ex_request\<lparr>rq_Query := [(''token'', token)]\<rparr>)) w' =
      (Response (WriteJSON 401 (json_error ''Invalid token'')), w')"
    using facts by (auto simp: id ex_uuid_valid)
  have "map acc_RelayTokenHash (accounts (db w')) = [Some (HashToken token)]"
    unfolding t(1) by (simp add: w_def ex_db_def ex_account_def upd_where_def set_token_hash_def)
  with run t(2) show ?thesis unfolding w_def by (intro exI[of _ token] exI[of _ w'] conjI)
qed

end
