(* ===== verification/Outcomes.thy ===== *)
theory Outcomes
  imports Server
begin

text \<open>
  What a handler may answer. A predicate on outcomes that holds of the responses the code writes
  holds of whatever a route answers; interpreted for the shape of the answers, and for the routes
  that never turn into an event stream.
\<close>

section \<open>Rules for outcomes\<close>

definition all_outcomes :: "(outcome \<Rightarrow> bool) \<Rightarrow> (world, outcome) state \<Rightarrow> bool" where
  "all_outcomes P m \<longleftrightarrow> (\<forall>w. P (fst (run_state m w)))"

definition error_status :: "int \<Rightarrow> bool" where
  "error_status st \<longleftrightarrow> st \<in> {400, 401, 404, 413, 429, 500}"

named_theorems outcome_intros

lemma error_statuses [outcome_intros]:
  "error_status 400" "error_status 401" "error_status 404" "error_status 413" "error_status 429" "error_status 500"
  by (simp_all add: error_status_def)

locale outcome_shape =
  fixes P :: "outcome \<Rightarrow> bool"
  assumes shape_ok: "P (Response (WriteJSON 200 data))"
    and shape_error: "error_status st \<Longrightarrow> P (Response (WriteJSON st (json_error msg)))"
    and shape_app: "P (Response (WriteError e))"
    and shape_page: "status pg \<in> {200, 302} \<Longrightarrow> P (Page pg)"
    and shape_recovered: "P recovered"
    and shape_headers: "P out \<Longrightarrow> P (add_headers hs out)"
begin

lemma shape_bind: "(\<And>x. all_outcomes P (f x)) \<Longrightarrow> all_outcomes P (State_Monad.bind m f)"
  by (simp add: all_outcomes_def split: prod.split)

lemma shape_return:
  "P out \<Longrightarrow> all_outcomes P (State_Monad.return out)"
  "all_outcomes P (respond 200 data)" "error_status st \<Longrightarrow> all_outcomes P (respond_error st msg)"
  "all_outcomes P (respond_app_error err)"
  by (simp_all add: all_outcomes_def respond_def respond_error_def respond_app_error_def shape_ok shape_error shape_app)

lemma shape_add_headers:
  "all_outcomes P m \<Longrightarrow> all_outcomes P (State_Monad.bind m (\<lambda>out. State_Monad.return (add_headers hs out)))"
  by (simp add: all_outcomes_def shape_headers split_beta)

lemma shape_case:
  "all_outcomes P m \<Longrightarrow> (\<And>y. all_outcomes P (f y)) \<Longrightarrow> all_outcomes P (case x of None \<Rightarrow> m | Some y \<Rightarrow> f y)"
  "(\<And>y. all_outcomes P (g y)) \<Longrightarrow> (\<And>y. all_outcomes P (h y)) \<Longrightarrow>
   all_outcomes P (case z of Inl y \<Rightarrow> g y | Inr y \<Rightarrow> h y)"
  "(\<And>y u. all_outcomes P (k y u)) \<Longrightarrow> all_outcomes P (case p of (y, u) \<Rightarrow> k y u)"
  "(b \<Longrightarrow> all_outcomes P m1) \<Longrightarrow> (\<not> b \<Longrightarrow> all_outcomes P m2) \<Longrightarrow> all_outcomes P (if b then m1 else m2)"
  by (cases x; cases z; cases p; simp)+

lemmas shape_rules = shape_bind shape_return shape_add_headers shape_case shape_recovered

lemma shape_middleware:
  assumes "\<And>r. all_outcomes P (h r)"
  shows "all_outcomes P (Auth_Handler h r)"
    and "all_outcomes P (KakaoSignature_Handler secret h r)"
    and "all_outcomes P (BodyLimit_Handler n h r)"
    and "all_outcomes P (RedisRateLimit_Handler h r)"
    and "all_outcomes P (IPRateLimit_Handler limit window prefix h r)"
  unfolding Auth_Handler_def KakaoSignature_Handler_def BodyLimit_Handler_def RedisRateLimit_Handler_def
    RateLimit_Handler_def IPRateLimit_Handler_def Let_def
  by (auto intro!: shape_rules outcome_intros assms split: option.split bool.split)

lemma shape_plain:
  "all_outcomes P (redirect_dashboard r)" "all_outcomes P (health r)" "all_outcomes P (ServeIndex html r)"
  unfolding redirect_dashboard_def health_def ServeIndex_def
  by (auto intro!: shape_rules shape_page)

lemma shape_handlers:
  "all_outcomes P (Webhook ttl r)" "all_outcomes P (Reply r)"
  "all_outcomes P (CreateSession_Handler r)" "all_outcomes P (GetSessionStatus r)"
  unfolding Webhook_def webhook_message_def
    Reply_def reply_message_def reply_send_def CreateSession_Handler_def GetSessionStatus_def Let_def
  by (auto intro!: shape_rules outcome_intros split: option.split bool.split)

lemma shape_dashboard:
  "all_outcomes P (Overview r)" "all_outcomes P (ListAccounts r)" "all_outcomes P (AccountConversations r)"
  "all_outcomes P (AccountMessages r)" "all_outcomes P (AccountStats r)" "all_outcomes P (AccountFailedMessages r)"
  "all_outcomes P (ListSessions r)" "all_outcomes P (Dashboard_CreateSession r)" "all_outcomes P (RegenerateToken r)"
  "all_outcomes P (DeleteAccount r)" "all_outcomes P (DisconnectSession r)" "all_outcomes P (DeleteSession r)"
  "all_outcomes P (DeleteConversation r)"
  unfolding dashboard_handler_defs Let_def
  by (auto intro!: shape_rules outcome_intros split: prod.split option.split)

lemma shape_mounted: "(\<And>r. all_outcomes P (h r)) \<Longrightarrow> all_outcomes P (rt_Handler (mounted m p h) r)"
  by (simp add: mounted_def shape_middleware)

text \<open>All routes but the one of the event stream.\<close>

lemma shape_routes:
  "list_all (\<lambda>rt. rt = mounted ''GET'' ''/v1/events'' (authenticated Events_ServeHTTP)
     \<or> (\<forall>r. all_outcomes P (rt_Handler rt r))) (routes cfg html)"
  unfolding routes_def list.pred_inject(2) authenticated_def sessionCreateRateLimit_def sessionStatusRateLimit_def
  by (intro conjI list.pred_inject(1);
      ((rule disjI1, rule refl)
        | (rule disjI2, rule allI, rule shape_mounted,
           (rule shape_middleware shape_plain shape_handlers shape_dashboard)+)))

end


section \<open>Interpretations\<close>

definition no_stream :: "outcome \<Rightarrow> bool" where
  "no_stream out \<longleftrightarrow> (\<forall>hs c. out \<noteq> Stream hs c)"

interpretation no_stream: outcome_shape no_stream
proof
  fix out hs
  show "no_stream out \<Longrightarrow> no_stream (add_headers hs out)" by (cases out) (simp_all add: no_stream_def)
qed (simp_all add: no_stream_def recovered_def)

text \<open>
  The shape of answers: JSON with one of the documented statuses and, from 400 on, an object with a
  string member \<open>error\<close>; the recoverer's 500 has no body.
\<close>

definition error_body :: "json \<Rightarrow> bool" where
  "error_body j \<longleftrightarrow> (\<exists>ms msg. j = JObj ms \<and> map_of ms ''error'' = Some (JStr msg))"

definition well_shaped :: "outcome \<Rightarrow> bool" where
  "well_shaped out = (case out of
     Response resp \<Rightarrow>
       (status resp = 200 \<or> status resp \<in> {400, 401, 403, 404, 409, 413, 429, 500, 502} \<and> error_body (body resp))
         \<and> map_of (rev (headers resp)) ''Content-Type'' = Some ''application/json''
       \<or> status resp = 500 \<and> body resp = JNull
   | Page pg \<Rightarrow> status pg \<in> {200, 302}
   | Stream hs c \<Rightarrow> map_of (rev hs) ''Content-Type'' = Some ''text/event-stream'')"


lemma json_error_body: "error_body (json_error msg)"
  by (auto simp: error_body_def json_error_def)

lemma ErrorResponse_body: "error_body (ErrorResponse code msg details)"
  by (auto simp: error_body_def ErrorResponse_def)

lemma statusFromCode_cases: "statusFromCode code \<in> {400, 401, 403, 404, 409, 429, 500, 502}"
  by (cases code) simp_all

lemma WriteError_shape:
  "status (WriteError e) \<in> {400, 401, 403, 404, 409, 429, 500, 502}" "error_body (body (WriteError e))"
  "headers (WriteError e) = [(''Content-Type'', ''application/json'')]"
proof -
  have w: "status (write_app_error a) \<in> {400, 401, 403, 404, 409, 429, 500, 502} \<and> error_body (body (write_app_error a))
      \<and> headers (write_app_error a) = [(''Content-Type'', ''application/json'')]" for a
    using statusFromCode_cases by (cases a rule: write_app_error.cases) (auto simp: WriteJSON_def ErrorResponse_body)
  then show "status (WriteError e) \<in> {400, 401, 403, 404, 409, 429, 500, 502}" "error_body (body (WriteError e))"
    "headers (WriteError e) = [(''Content-Type'', ''application/json'')]"
    unfolding WriteError_def Let_def by blast+
qed

interpretation well_shaped: outcome_shape well_shaped
proof
  show "well_shaped (Response (WriteJSON 200 data))" for data by (simp add: well_shaped_def WriteJSON_def)
  show "error_status st \<Longrightarrow> well_shaped (Response (WriteJSON st (json_error msg)))" for st msg
    by (auto simp: well_shaped_def WriteJSON_def error_status_def json_error_body)
  show "well_shaped (Response (WriteError e))" for e
    using WriteError_shape[of e] by (auto simp: well_shaped_def)
  show "well_shaped out \<Longrightarrow> well_shaped (add_headers hs out)" for out hs
    by (cases out) (auto simp: well_shaped_def map_add_Some_iff map_of_append map_add_def split: option.splits)
qed (simp_all add: well_shaped_def recovered_def)

lemma Events_shape: "all_outcomes well_shaped (Events_ServeHTTP r)"
proof -
  have "all_outcomes well_shaped (events_start sid a ses)" for sid a ses
    unfolding all_outcomes_def
  proof
    fix w
    obtain c v where "run_state (events_start sid a ses) w = (Stream stream_headers c, v)"
      using events_start_outcome by blast
    then show "well_shaped (fst (run_state (events_start sid a ses) w))"
      by (simp add: well_shaped_def stream_headers_def)
  qed
  then show ?thesis
    unfolding Events_ServeHTTP_def
    by (auto intro!: well_shaped.shape_rules outcome_intros split: option.split)
qed

text \<open>
  C26. The type of every answer. Whatever request arrives at whatever route, in any state and with any
  failures, the answer is a JSON response with status 200, or with one of nine error statuses and a
  body that is an object whose member error is a string (only the recoverer's 500 has no body), the
  page or its redirection, or an event stream.
\<close>

theorem routes_well_shaped:
  assumes "rt \<in> set (routes cfg html)"
  shows "well_shaped (fst (run_state (rt_Handler rt r) w))"
proof -
  have "all_outcomes well_shaped (rt_Handler (mounted ''GET'' ''/v1/events'' (authenticated Events_ServeHTTP)) r)"
    unfolding authenticated_def by (intro well_shaped.shape_mounted well_shaped.shape_middleware Events_shape)
  then have "all_outcomes well_shaped (rt_Handler rt r)"
    using well_shaped.shape_routes[of cfg html] assms by (auto simp: list_all_iff)
  then show ?thesis by (simp add: all_outcomes_def)
qed

theorem routes_well_shaped_witness:
  "\<forall>r w. well_shaped (fst (run_state (rt_Handler (mounted ''GET'' ''/v1/events'' (authenticated Events_ServeHTTP)) r) w))"
  by (intro allI, rule routes_well_shaped[where cfg = "\<lparr>cfg_Port = 8080, cfg_DatabaseURL = [], cfg_RedisURL = [],
        cfg_KakaoSignatureSecret = [], cfg_EncryptionKey = [], cfg_QueueTTLSeconds = 900, cfg_CallbackTTLSeconds = 55,
        cfg_LogLevel = []\<rparr>" and html = "[]"]) (simp add: routes_def)

end
