(* ===== verification/Isolation.thy ===== *)
theory Isolation
  imports ServerProps Streams Outcomes
begin

text \<open>
  Who sees what on the event streams of the whole server: a client is subscribed under one name, the
  account of the session its token belongs to (or the session itself while it waits for its
  pairing), and is written nothing that was not published under this name or queued for it.
\<close>

section \<open>Only one route streams\<close>

lemma only_events_stream:
  assumes "rt \<in> set (routes cfg html)" "run_state (rt_Handler rt r) w = (Stream hs c, w')"
  shows "rt = mounted ''GET'' ''/v1/events'' (authenticated Events_ServeHTTP)"
proof -
  have "\<not> all_outcomes no_stream (rt_Handler rt r)"
    using assms(2) unfolding all_outcomes_def no_stream_def by (metis fst_conv)
  with no_stream.shape_routes[of cfg html] assms(1) show ?thesis by (auto simp: list_all_iff)
qed


section \<open>The name a client is subscribed under\<close>

definition named :: "Broker \<Rightarrow> string list" where
  "named b = map cl_AccountID (br_heap b)"

text \<open>Clients are never renamed: the list of names only grows.\<close>

definition keeps_names :: "Broker \<Rightarrow> Broker \<Rightarrow> bool" where
  "keeps_names b b' \<longleftrightarrow> (\<exists>ys. named b' = named b @ ys)"

lemma keeps_names_refl: "named b' = named b \<Longrightarrow> keeps_names b b'"
  by (simp add: keeps_names_def)

lemma keeps_names_trans: "keeps_names a b \<Longrightarrow> keeps_names b c \<Longrightarrow> keeps_names a c"
  by (auto simp: keeps_names_def)

lemma keeps_namesD:
  assumes "keeps_names b b'" "c < length (br_heap b)"
  shows "cl_AccountID (br_heap b' ! c) = cl_AccountID (br_heap b ! c)"
proof -
  obtain ys where ys: "named b' = named b @ ys" using assms(1) by (auto simp: keeps_names_def)
  then have "length (br_heap b) \<le> length (br_heap b')" by (metis le_add1 length_append length_map named_def)
  moreover have "named b' ! c = named b ! c" using ys assms(2) by (simp add: nth_append named_def)
  ultimately show ?thesis using assms(2) by (simp add: named_def)
qed

lemma named_update:
  "cl_AccountID x = cl_AccountID (heap ! c) \<Longrightarrow> map cl_AccountID (heap[c := x]) = map cl_AccountID heap"
  by (metis list_update_beyond list_update_id linorder_not_less map_update)

lemma named_offers:
  "map cl_AccountID (fold (\<lambda>c heap. heap[c := offer e (heap ! c)]) cs heap) = map cl_AccountID heap"
  by (induction cs arbitrary: heap) (simp_all add: named_update)

lemma named_ops:
  "named (redis_deliver ch e b) = named b"
  "named (broadcast a e b) = named b"
  "named (subscribeToRedis_start i b) = named b"
  "named (subscribeToRedis_step i b) = named b"
  "named (subscribeToRedis_exit i b) = named b"
  "receive c b = Some (e, b') \<Longrightarrow> named b' = named b"
  "close_done c b = Some b' \<Longrightarrow> named b' = named b"
proof -
  show bc: "named (broadcast a e b) = named b" for a e b
    by (simp add: named_def broadcast_def named_offers)
  show "named (redis_deliver ch e b) = named b" "named (subscribeToRedis_start i b) = named b"
    "named (subscribeToRedis_exit i b) = named b"
    by (simp_all add: named_def redis_deliver_def subscribeToRedis_start_def subscribeToRedis_exit_def)
  show "named (subscribeToRedis_step i b) = named b"
    by (simp add: subscribeToRedis_step_def Let_def bc split: list.split) (simp add: named_def)
  show "receive c b = Some (e, b') \<Longrightarrow> named b' = named b"
    by (auto simp: named_def receive_def named_update split: list.splits)
  show "close_done c b = Some b' \<Longrightarrow> named b' = named b"
    by (auto simp: named_def close_done_Some named_update)
qed

lemma named_close_all: "close_all cs b = Some b' \<Longrightarrow> named b' = named b"
  by (induction cs arbitrary: b) (auto dest: named_ops(7) split: option.splits)

lemma named_close: "Close b = Some b' \<Longrightarrow> named b' = named b"
  by (auto simp: Close_def dest!: named_close_all) (simp_all add: named_def)

lemma named_unsubscribe: "Unsubscribe c b = Some b' \<Longrightarrow> named b' = named b"
  by (auto simp: Unsubscribe_def Let_def dest: named_ops(7) split: option.splits) (simp_all add: named_def close_done_Some named_update)

lemma named_deliver_all: "named (deliver_all ms b) = named b"
  by (induction ms arbitrary: b) (simp_all add: deliver_all_def split_beta named_ops)

lemma named_subscribe: "Subscribe sid b = (c, b') \<Longrightarrow> named b' = named b @ [sid] \<and> c = length (named b)"
  by (auto simp: Subscribe_def Let_def named_def NewClient_def split: if_splits)


lemma server_step_names:
  assumes "server_step cfg html s (Some t)"
  shows "keeps_names (broker (sv_world s)) (broker (sv_world t))"
  using assms
proof cases
  case (respond rt r out w)
  have "delivers (sv_world s) w" by (rule respond_delivers[OF respond(3,6,7)])
  with respond(1) show ?thesis by (auto simp: delivers_def named_deliver_all intro: keeps_names_refl)
next
  case (connect rt r hs c w)
  obtain v sid b where v: "delivers (sv_world s) v"
    and b: "Subscribe sid (broker v) = (c, b)" "streams_to c (v\<lparr>broker := b\<rparr>) w"
    by (rule connect_starts[OF connect(3,6)])
  have "named (broker v) = named (broker (sv_world s))"
    using v by (auto simp: delivers_def named_deliver_all)
  moreover have "named (broker w) = named b" using b(2) by (auto simp: streams_to_def named_deliver_all)
  ultimately show ?thesis using connect(1) named_subscribe[OF b(1)] by (simp add: keeps_names_def)
next
  case (turn c which w)
  with events_turn_broker[OF turn(4)] show ?thesis by (auto intro: keeps_names_refl dest: named_ops(6))
next
  case (leave c which w b)
  have "named (broker w) = named (broker (sv_world s))"
    using events_turn_broker[OF leave(4)] by (auto dest: named_ops(6))
  with leave(1) named_unsubscribe[OF leave(5)] show ?thesis by (simp add: keeps_names_refl)
next
  case (cleanup_tick x w)
  have "delivers (sv_world s) w" by (rule cleanup_runs_deliver[OF cleanup_tick(2)])
  with cleanup_tick(1) show ?thesis by (auto simp: delivers_def named_deliver_all intro: keeps_names_refl)
qed (auto simp: environment_def named_ops intro: keeps_names_refl dest: named_close)


section \<open>What is written to a connection\<close>

text \<open>Only the connection of the client is written, and the data of its events is in a set.\<close>

definition sends_to :: "nat \<Rightarrow> json set \<Rightarrow> world \<Rightarrow> world \<Rightarrow> bool" where
  "sends_to c J w w' \<longleftrightarrow>
     (\<exists>xs. sse_out w' = sse_out w @ map (Pair c) xs \<and> (\<forall>j. DataLine j \<in> set xs \<longrightarrow> j \<in> J))"

lemma writes_same: "sse_out w' = sse_out w \<Longrightarrow> sends_to c J w w'"
  by (simp add: sends_to_def exI[of _ "[]"])

lemma writes_trans: "sends_to c J u v \<Longrightarrow> sends_to c J v w \<Longrightarrow> sends_to c J u w"
proof -
  assume "sends_to c J u v" "sends_to c J v w"
  then obtain xs ys where "sse_out v = sse_out u @ map (Pair c) xs" "\<forall>j. DataLine j \<in> set xs \<longrightarrow> j \<in> J"
    "sse_out w = sse_out v @ map (Pair c) ys" "\<forall>j. DataLine j \<in> set ys \<longrightarrow> j \<in> J"
    unfolding sends_to_def by blast
  then show "sends_to c J u w" unfolding sends_to_def by (intro exI[of _ "xs @ ys"]) auto
qed

lemma writes_mono: "sends_to c J w w' \<Longrightarrow> J \<subseteq> K \<Longrightarrow> sends_to c K w w'"
  unfolding sends_to_def by blast

lemma writes_chunk: "sends_to c {j. chunk = DataLine j} w (snd (run_state (write_chunk c chunk) w))"
proof (cases rule: write_chunk_cases[of c chunk w])
  case (1 w')
  then show ?thesis by (auto simp: sends_to_def intro!: exI[of _ "[chunk]"])
next
  case (2 w')
  then show ?thesis by (simp add: writes_same)
qed

lemma writes_raw: "sends_to c {ev_Data ev} w (snd (run_state (sendRawEvent c ev) w))"
proof (cases rule: sendRawEvent_cases[of c ev w])
  case (1 w')
  then show ?thesis
    by (auto simp: sends_to_def intro!: exI[of _ "[EventLine (ev_Type ev), DataLine (ev_Data ev)]"])
next
  case (2 w' part)
  then show ?thesis by (auto simp: sends_to_def intro: exI[of _ "[]"] exI[of _ "[EventLine (ev_Type ev)]"])
qed

lemma writes_queued:
  "sends_to c (ToSSEEventData (wenv w) ` set msgs) w (snd (run_state (send_queued c msgs) w))"
proof (induction msgs arbitrary: w)
  case Nil
  show ?case by (simp add: writes_same)
next
  case (Cons m msgs)
  let ?J = "ToSSEEventData (wenv w) ` set (m # msgs)"
  define ev where "ev = \<lparr>ev_Type = ''message'', ev_Data = ToSSEEventData (wenv w) m\<rparr>"
  obtain ok w1 where r: "run_state (sendRawEvent c ev) w = (ok, w1)" by fastforce
  have first: "sends_to c ?J w w1"
    using writes_raw[of c ev w] r by (auto simp: ev_def intro: writes_mono)
  have env1: "wenv w1 = wenv w"
    using io_rel_run[OF write_streams(2), of c w ev] r by (simp add: streams_to_def)
  show ?case
  proof (cases ok)
    case False
    with r first show ?thesis by (simp add: ev_def)
  next
    case True
    obtain x w2 where m2: "run_state (MarkDelivered (in_ID m)) w1 = (x, w2)" by fastforce
    have "only_db w1 w2"
      using io_rel_run[of only_db "MarkDelivered (in_ID m)" w1] services_only_db m2 by (auto simp: only_db_intros)
    then have w2: "sse_out w2 = sse_out w1" "wenv w2 = wenv w" by (simp_all add: only_db_def env1)
    have "sends_to c ?J w2 (snd (run_state (send_queued c msgs) w2))"
      by (rule writes_mono[OF Cons.IH[of w2]]) (auto simp: w2)
    with first writes_same[OF w2(1)] have "sends_to c ?J w (snd (run_state (send_queued c msgs) w2))"
      by (blast intro: writes_trans)
    with r True m2 show ?thesis by (simp add: ev_def)
  qed
qed

lemma writes_sendQueued:
  assumes "uuid_cast_ok (wenv w)" "IsValidUUID a"
  shows "sends_to c (ToSSEEventData (wenv w) ` {m \<in> set (inbounds (db w)). queued_for a m}) w
    (snd (run_state (sendQueuedMessages c a) w))"
proof -
  obtain r v where r: "run_state (FindQueuedByAccountID a) w = (r, v)" by fastforce
  then have v: "wenv v = wenv w" "sse_out v = sse_out w"
    and msgs: "\<forall>ms. r = Inr ms \<longrightarrow> set ms \<subseteq> {m \<in> set (inbounds (db w)). queued_for a m}"
    using assms by (auto simp: FindQueuedByAccountID_def inboundRepo_FindQueuedByAccountID_def run_exec_env run_exec
        uuid_arg_def uuid_cast_ok_def reads_def split: option.splits)
  show ?thesis
  proof (cases r)
    case (Inl e)
    with r v show ?thesis by (simp add: sendQueuedMessages_def writes_same)
  next
    case (Inr ms)
    have "sends_to c (ToSSEEventData (wenv w) ` {m \<in> set (inbounds (db w)). queued_for a m}) v
        (snd (run_state (send_queued c ms) v))"
      by (rule writes_mono[OF writes_queued]) (use msgs Inr v in auto)
    with r Inr v show ?thesis by (simp add: sendQueuedMessages_def sends_to_def)
  qed
qed

text \<open>The start of a stream: the queue of the account, and the description of the connection.\<close>

lemma writes_start:
  assumes "run_state (events_start sid a ses) w = (Stream hs c, w')"
    and "uuid_cast_ok (wenv w)" "a = [] \<or> IsValidUUID a"
  shows "sends_to c (insert (connected_data a ses)
    (if a = [] then {} else ToSSEEventData (wenv w) ` {m \<in> set (inbounds (db w)). queued_for a m})) w w'"
    (is "sends_to c ?J w w'")
proof -
  obtain b where b: "Subscribe sid (broker w) = (c, b)" by (rule events_start_streams[OF assms(1)])
  obtain x w1 where w1: "run_state (if a \<noteq> [] then sendQueuedMessages c a else State_Monad.return True) (w\<lparr>broker := b\<rparr>) = (x, w1)"
    by fastforce
  obtain y w2 where w2: "run_state (sendEvent c ''connected'' (connected_data a ses)) w1 = (y, w2)" by fastforce
  have "w' = w2" using assms(1) b w1 w2 by (simp add: events_start_def broker_subscribe_def)
  moreover have "sends_to c ?J (w\<lparr>broker := b\<rparr>) w1"
  proof (cases "a = []")
    case True
    with w1 show ?thesis by (simp add: writes_same)
  next
    case False
    with assms(2,3) w1 writes_sendQueued[of "w\<lparr>broker := b\<rparr>" a c] show ?thesis
      by (auto intro: writes_mono)
  qed
  moreover have "sends_to c ?J w1 w2"
    using writes_raw[of c "\<lparr>ev_Type = ''connected'', ev_Data = connected_data a ses\<rparr>" w1] w2
    by (auto simp: sendEvent_def intro: writes_mono)
  moreover have "sends_to c ?J w (w\<lparr>broker := b\<rparr>)" by (rule writes_same) simp
  ultimately show ?thesis by (blast intro: writes_trans)
qed



section \<open>Who may connect\<close>

text \<open>
  The names a session may be subscribed under, and the account whose queue it is sent: its account
  when it is paired, else only itself.
\<close>

definition subscribes :: "Session \<Rightarrow> string \<Rightarrow> string \<Rightarrow> bool" where
  "subscribes ses sid a \<longleftrightarrow>
     (sid = ''session:'' @ ses_ID ses \<and> a = [])
     \<or> (ses_Status ses = SessionStatusPaired \<and> ses_AccountID ses = Some a \<and> sid = a)"

lemma check_same_db: "db (snd (run_state (RedisRateLimiter_Check a limit) w)) = db w"
proof -
  have "db (snd (run_state (run_script script key) v)) = db v" for script key v
    by (auto simp: run_script_def redis_call_def split: list.split option.split prod.split)
  then show ?thesis
    by (auto simp: RedisRateLimiter_Check_def Let_def run_time_now split_beta split: list.split option.split sum.split)
qed

lemma limited_start:
  assumes "run_state (RedisRateLimit_Handler h r) w = (Stream hs c, w')"
  obtains v hs' where "db v = db w" "delivers w v" "run_state (h r) v = (Stream hs' c, w')"
proof (cases "rq_Account r")
  case None
  with assms that[of w hs] show thesis by (simp add: RedisRateLimit_Handler_def RateLimit_Handler_def delivers.R_refl)
next
  case (Some x)
  obtain ok n t v where check: "run_state (RedisRateLimiter_Check (acc_ID x) (effective_limit x)) w = ((ok, n, t), v)"
    by (metis surj_pair)
  have v: "db v = db w" "delivers w v"
    using check_same_db[of "acc_ID x" "effective_limit x" w] io_rel_run[OF limit_checks_delivers(2), of w "acc_ID x" "effective_limit x"]
      check by simp_all
  obtain out v' where h: "run_state (h r) v = (out, v')" by fastforce
  have "ok \<and> add_headers (limit_headers (effective_limit x) n t) out = Stream hs c \<and> v' = w'"
    using assms Some check h
    by (auto simp: RedisRateLimit_Handler_def RateLimit_Handler_def Let_def respond_error_def split: if_splits)
  then obtain hs' where "out = Stream hs' c" "v' = w'" by (cases out) auto
  with that v h show thesis by blast
qed

lemma Events_start:
  assumes "run_state (Events_ServeHTTP r) w = (Stream hs c, w')" "rq_Session r = Some ses"
  shows "\<exists>sid a. run_state (events_start sid a (Some ses)) w = (Stream stream_headers c, w')
    \<and> (case rq_Account r of None \<Rightarrow> sid = ''session:'' @ ses_ID ses \<and> a = [] | Some x \<Rightarrow> sid = acc_ID x \<and> a = acc_ID x)"
proof -
  define sid where "sid = (case rq_Account r of None \<Rightarrow> ''session:'' @ ses_ID ses | Some x \<Rightarrow> acc_ID x)"
  define a where "a = (case rq_Account r of None \<Rightarrow> [] | Some x \<Rightarrow> acc_ID x)"
  have "run_state (events_start sid a (Some ses)) w = (Stream hs c, w')"
    using assms by (cases "rq_Account r") (auto simp: Events_ServeHTTP_def sid_def a_def respond_error_def split: if_splits)
  moreover from this have "hs = stream_headers"
    using events_start_outcome[of sid a "Some ses" w] by auto
  ultimately show ?thesis
    by (intro exI[of _ sid] exI[of _ a]) (simp add: sid_def a_def split: option.split)
qed

text \<open>What Auth hands to the next handler: the session of the token, and the account of a paired one.\<close>

lemma auth_hands_over:
  assumes run: "run_state (Auth_Handler h r) w = (Stream hs c, w')"
    and wf: "wf_db (db w)" and cast: "uuid_cast_ok (wenv w)" and none: "rq_Account r = None"
  obtains ses acc w2 where "ses \<in> set (sessions (db w))" "active_status (ses_Status ses)"
    "ses_SessionTokenHash ses = HashToken (extractToken r)" "db w2 = db w" "delivers w w2"
    "run_state (h (r\<lparr>rq_Session := Some ses, rq_Account := acc\<rparr>)) w2 = (Stream hs c, w')"
    "\<forall>x. acc = Some x \<longrightarrow> ses_Status ses = SessionStatusPaired \<and> ses_AccountID ses = Some (acc_ID x) \<and> IsValidUUID (acc_ID x)"
proof -
  have "extractToken r \<noteq> []" using run by (auto simp: Auth_Handler_def Let_def respond_error_def)
  define w1 where "w1 = w\<lparr>db_faults := tl (db_faults w)\<rparr>"
  obtain ses where f: "next_fault w = None"
    and ses: "find_row (\<lambda>s. ses_SessionTokenHash s = HashToken (extractToken r) \<and> active_status (ses_Status s)) (sessions (db w)) = Some ses"
    using run by (auto simp: Auth_Handler_def Let_def run_FindByTokenHash respond_error_def split: option.splits if_splits)
  have mem: "ses \<in> set (sessions (db w))" "ses_SessionTokenHash ses = HashToken (extractToken r)" "active_status (ses_Status ses)"
    using find_row_SomeD[OF ses] by simp_all
  have w1: "db w1 = db w" "delivers w w1" "wenv w1 = wenv w" by (simp_all add: w1_def same_broker_delivers)
  have "\<exists>acc w2. db w2 = db w \<and> delivers w w2
    \<and> run_state (h (r\<lparr>rq_Session := Some ses, rq_Account := acc\<rparr>)) w2 = (Stream hs c, w')
    \<and> (\<forall>x. acc = Some x \<longrightarrow> ses_Status ses = SessionStatusPaired \<and> ses_AccountID ses = Some (acc_ID x) \<and> IsValidUUID (acc_ID x))"
  proof (cases "ses_Status ses = SessionStatusPaired \<and> ses_AccountID ses \<noteq> None")
    case True
    then obtain a where a: "ses_AccountID ses = Some a" by auto
    obtain x0 where valid: "IsValidUUID a" by (rule session_account_exists[OF wf mem(1) a])
    obtain res w2 where res: "run_state (accountRepo_FindByID a) w1 = (res, w2)" by fastforce
    have found: "acc_ID x = a" if "res = Inr (Some x)" for x
      using res that valid cast w1(3)
      by (auto simp: accountRepo_FindByID_def run_select_uuid uuid_cast_ok_def dest!: find_row_SomeD split: option.splits)
    have w2: "db w2 = db w1" using res by (auto simp: accountRepo_FindByID_def run_select_uuid)
    have "delivers w1 w2" using io_rel_run[OF repo_delivers(4), of w1 a] res by simp
    moreover have "run_state (h (r\<lparr>rq_Session := Some ses,
        rq_Account := (case res of Inl err \<Rightarrow> None | Inr x \<Rightarrow> x)\<rparr>)) w2 = (Stream hs c, w')"
      using run ses f True a res none \<open>extractToken r \<noteq> []\<close>
      by (auto simp: Auth_Handler_def Let_def run_FindByTokenHash w1_def[symmetric] split: sum.splits option.splits)
    ultimately show ?thesis using True a w1 w2 found valid delivers.R_trans[of w w1 w2]
      by (intro exI[of _ "case res of Inl err \<Rightarrow> None | Inr x \<Rightarrow> x"] exI[of _ w2]) (auto split: sum.splits)
  next
    case False
    then show ?thesis using run ses f none \<open>extractToken r \<noteq> []\<close> w1
      by (intro exI[of _ None] exI[of _ w1])
         (cases "ses_AccountID ses"; cases "ses_Status ses = SessionStatusPaired";
          auto simp: Auth_Handler_def Let_def run_FindByTokenHash w1_def[symmetric])
  qed
  with mem that show thesis by blast
qed

lemma authenticated_start:
  assumes run: "run_state (Auth_Handler (RedisRateLimit_Handler Events_ServeHTTP) r) w = (Stream hs c, w')"
    and wf: "wf_db (db w)" and cast: "uuid_cast_ok (wenv w)" and none: "rq_Account r = None"
  obtains ses sid a v where "ses \<in> set (sessions (db w))" "active_status (ses_Status ses)"
    "ses_SessionTokenHash ses = HashToken (extractToken r)" "subscribes ses sid a" "a = [] \<or> IsValidUUID a"
    "db v = db w" "delivers w v" "run_state (events_start sid a (Some ses)) v = (Stream stream_headers c, w')"
proof -
  obtain ses acc w2 where ses: "ses \<in> set (sessions (db w))" "active_status (ses_Status ses)"
      "ses_SessionTokenHash ses = HashToken (extractToken r)"
    and w2: "db w2 = db w" "delivers w w2"
    and rest: "run_state (RedisRateLimit_Handler Events_ServeHTTP (r\<lparr>rq_Session := Some ses, rq_Account := acc\<rparr>)) w2 = (Stream hs c, w')"
    and acc: "\<forall>x. acc = Some x \<longrightarrow> ses_Status ses = SessionStatusPaired \<and> ses_AccountID ses = Some (acc_ID x) \<and> IsValidUUID (acc_ID x)"
    by (rule auth_hands_over[OF run wf cast none])
  obtain v hs' where v: "db v = db w2" "delivers w2 v"
    "run_state (Events_ServeHTTP (r\<lparr>rq_Session := Some ses, rq_Account := acc\<rparr>)) v = (Stream hs' c, w')"
    by (rule limited_start[OF rest])
  obtain sid a where start: "run_state (events_start sid a (Some ses)) v = (Stream stream_headers c, w')"
    and sid: "case acc of None \<Rightarrow> sid = ''session:'' @ ses_ID ses \<and> a = [] | Some x \<Rightarrow> sid = acc_ID x \<and> a = acc_ID x"
    using Events_start[OF v(3), of ses] by auto
  have "subscribes ses sid a" "a = [] \<or> IsValidUUID a"
    using acc sid by (auto simp: subscribes_def split: option.splits)
  moreover have "db v = db w" "delivers w v" using v(1,2) w2 delivers.R_trans by auto
  ultimately show thesis using that[OF ses] start by blast
qed


section \<open>Isolation\<close>

definition subscribed :: "server \<Rightarrow> nat \<Rightarrow> string" where
  "subscribed s c = cl_AccountID (br_heap (broker (sv_world s)) ! c)"

text \<open>
  What may be written to a client: while it is connected, data published on the channel of its name;
  when it connects, the description of its session and the queue of the session's account.
\<close>

definition live_data :: "server \<Rightarrow> nat \<Rightarrow> json set" where
  "live_data s c = {ev_Data e | e. (MessageChannel (subscribed s c), e) \<in> set (bus (sv_world s))}"

definition start_data :: "server \<Rightarrow> string \<Rightarrow> json set" where
  "start_data s sid = {j. \<exists>ses \<in> set (sessions (db (sv_world s))). \<exists>a.
     active_status (ses_Status ses) \<and> subscribes ses sid a
     \<and> (j = connected_data a (Some ses)
        \<or> a \<noteq> [] \<and> (\<exists>m \<in> set (inbounds (db (sv_world s))). queued_for a m \<and> j = ToSSEEventData (wenv (sv_world s)) m))}"

lemma streams_exist:
  assumes "server_reach cfg html s" "c \<in> sv_streams s"
  shows "c < length (br_heap (broker (sv_world s)))"
proof -
  obtain bs where "refines s bs" using server_refines_broker[OF assms(1)] by blast
  with conns_inv_reach[of bs] assms(2) show ?thesis by (auto simp: refines_def conns_inv_def)
qed

lemma turn_writes:
  assumes reach: "server_reach cfg html s" and c: "c \<in> sv_streams s"
    and run: "run_state (events_turn c which) (sv_world s) = (go, w)"
  shows "sends_to c (live_data s c) (sv_world s) w"
proof -
  let ?w = "sv_world s"
  have live: "ev_Data e \<in> live_data s c" if "receive c (broker ?w) = Some (e, b)" for e b
  proof -
    obtain bs where bs: "refines s bs" using server_refines_broker[OF reach] by blast
    have "br_heap (broker ?w) ! c \<in> set (br_heap (broker ?w))" using streams_exist[OF reach c] by simp
    moreover have "e \<in> set (cl_Events (br_heap (broker ?w) ! c))"
      using that by (auto simp: receive_def split: list.splits)
    ultimately have "published bs (subscribed s c) e"
      using bs isolation_reach[of bs] unfolding refines_def isolation_inv_def subscribed_def by auto
    then show ?thesis using bs by (auto simp: published_def refines_def live_data_def)
  qed
  show ?thesis
  proof (cases which)
    case EventReady
    show ?thesis
    proof (cases "receive c (broker ?w)")
      case None
      with run EventReady show ?thesis by (simp add: events_turn_def writes_same)
    next
      case (Some eb)
      then obtain e b where r: "receive c (broker ?w) = Some (e, b)" by (cases eb) auto
      with run EventReady have "w = snd (run_state (sendRawEvent c e) (?w\<lparr>broker := b\<rparr>))"
        by (simp add: events_turn_def)
      then have "sends_to c (live_data s c) (?w\<lparr>broker := b\<rparr>) w"
        using writes_raw[of c e "?w\<lparr>broker := b\<rparr>"] live[OF r] by (auto intro: writes_mono)
      then show ?thesis by (simp add: sends_to_def)
    qed
  next
    case HeartbeatTick
    with run have "w = snd (run_state (write_chunk c PingLine) ?w)" by (simp add: events_turn_def)
    with writes_chunk[of c PingLine ?w] show ?thesis by (auto intro: writes_mono)
  qed (use run in \<open>simp_all add: events_turn_def writes_same\<close>)
qed

lemma connect_writes:
  assumes reach: "server_reach cfg html s" and cast: "uuid_cast_ok (wenv (sv_world s))"
    and rt: "rt \<in> set (routes cfg html)" "rq_Account r = None"
    and run: "run_state (rt_Handler rt r) (sv_world s) = (Stream hs c, w)"
  shows "c \<notin> sv_streams s \<and> sends_to c (start_data s (cl_AccountID (br_heap (broker w) ! c))) (sv_world s) w"
proof -
  let ?w = "sv_world s"
  define r' where "r' = r\<lparr>rq_MaxBytes := Some (body_limit 0)\<rparr>"
  have "run_state (Auth_Handler (RedisRateLimit_Handler Events_ServeHTTP) r') ?w = (Stream hs c, w)"
    using run unfolding only_events_stream[OF rt(1) run]
    by (auto simp: mounted_def authenticated_def BodyLimit_Handler_def r'_def respond_error_def split: if_splits)
  moreover have "wf_db (db ?w)" using good_server.reach_R[OF reach] by (auto simp: server_start_def good_def)
  moreover have "rq_Account r' = None" using rt(2) by (simp add: r'_def)
  ultimately obtain ses sid a v where ses: "ses \<in> set (sessions (db ?w))" "active_status (ses_Status ses)"
    "subscribes ses sid a" "a = [] \<or> IsValidUUID a" "db v = db ?w" "delivers ?w v"
    "run_state (events_start sid a (Some ses)) v = (Stream stream_headers c, w)"
    using cast by (elim authenticated_start)
  obtain b where b: "Subscribe sid (broker v) = (c, b)" "streams_to c (v\<lparr>broker := b\<rparr>) w"
    by (rule events_start_streams[OF ses(7)])
  have v: "named (broker v) = named (broker ?w)" "wenv v = wenv ?w" "sse_out v = sse_out ?w"
    using ses(6) by (auto simp: delivers_def named_deliver_all)
  have name: "named (broker w) = named (broker ?w) @ [sid]" "c = length (named (broker ?w))"
    using b(2) named_subscribe[OF b(1)] v(1) by (auto simp: streams_to_def named_deliver_all)
  then have "named (broker w) ! c = sid" "c < length (named (broker w))" by simp_all
  then have sid: "cl_AccountID (br_heap (broker w) ! c) = sid" by (simp add: named_def)
  have "c \<notin> sv_streams s" using streams_exist[OF reach, of c] name(2) by (auto simp: named_def)
  moreover have "sends_to c (start_data s sid) v w"
    by (rule writes_mono[OF writes_start[OF ses(7)]])
       (use cast ses v in \<open>auto simp: start_data_def split: if_splits\<close>)
  ultimately show ?thesis using v(3) by (simp add: sid sends_to_def)
qed

lemma quiet_steps:
  assumes "server_step cfg html s (Some t)"
  obtains (connect) rt r hs c where "rt \<in> set (routes cfg html)" "rq_Account r = None"
      "run_state (rt_Handler rt r) (sv_world s) = (Stream hs c, sv_world t)"
  | (turn) c which go w where "c \<in> sv_streams s" "run_state (events_turn c which) (sv_world s) = (go, w)"
      "sse_out (sv_world t) = sse_out w"
  | (quiet) "sse_out (sv_world t) = sse_out (sv_world s)"
  using assms
proof cases
  case (respond rt r out w)
  have "delivers (sv_world s) w" by (rule respond_delivers[OF respond(3,6,7)])
  with respond(1) quiet show thesis by (simp add: delivers_def)
next
  case (connect rt r hs c w)
  then show thesis by (intro that(1)[of rt r hs c]) simp_all
next
  case (turn c which w)
  then show thesis by (intro that(2)[of c which True w]) simp_all
next
  case (leave c which w b)
  then show thesis by (intro that(2)[of c which False w]) simp_all
next
  case (cleanup_tick x w)
  have "delivers (sv_world s) w" by (rule cleanup_runs_deliver[OF cleanup_tick(2)])
  with cleanup_tick(1) quiet show thesis by (simp add: delivers_def)
qed (auto simp: environment_def intro: that)

lemma stream_isolation:
  assumes reach: "server_reach cfg html s" and cast: "uuid_cast_ok (wenv (sv_world s))"
    and step: "server_step cfg html s (Some t)"
  shows "\<exists>c. sends_to c (if c \<in> sv_streams s then live_data s c else start_data s (subscribed t c)) (sv_world s) (sv_world t)"
  using step
proof (cases rule: quiet_steps)
  case (connect rt r hs c)
  from connect_writes[OF reach cast this] show ?thesis by (intro exI[of _ c]) (simp add: subscribed_def)
next
  case (turn c which go w)
  from turn_writes[OF reach this(1,2)] turn(1,3) show ?thesis by (intro exI[of _ c]) (simp add: sends_to_def)
next
  case quiet
  then show ?thesis by (intro exI[of _ 0]) (simp add: writes_same)
qed


section \<open>An example connection\<close>

text \<open>A world without messages, the state of a server in it, and what a connection makes of it.\<close>

definition ex_quiet :: world where
  "ex_quiet = ex_outside\<lparr>db := ex_db\<lparr>inbounds := []\<rparr>\<rparr>"

definition ex_start :: server where
  "ex_start = \<lparr>sv_world = ex_quiet, sv_streams = {}, sv_down = False\<rparr>"

definition ex_events :: request where
  "ex_events = ex_request\<lparr>rq_Flusher := True\<rparr>"

definition ex_open :: "(string \<Rightarrow> zset) \<Rightarrow> server" where
  "ex_open z = \<lparr>sv_world = ex_quiet\<lparr>zsets := z, broker := snd (Subscribe (acc_ID ex_account) NewBroker),
       sse_out := [(0, EventLine ''connected''),
         (0, DataLine (connected_data (acc_ID ex_account) (Some ex_paired)))]\<rparr>,
     sv_streams = {0}, sv_down = False\<rparr>"

lemma ex_quiet_simps [simp]:
  "wenv ex_quiet = ex_env" "db ex_quiet = ex_db\<lparr>inbounds := []\<rparr>" "broker ex_quiet = NewBroker"
  "db_faults ex_quiet = []" "redis_faults ex_quiet = []" "write_faults ex_quiet = []" "sse_out ex_quiet = []"
  "callbacks ex_quiet = []" "hops ex_quiet = []" "bus ex_quiet = []" "ticks ex_quiet = []" "zsets ex_quiet = (\<lambda>_. empty_zset)"
  "uuids ex_quiet = [ex_uuid (CHR ''8''), ex_uuid (CHR ''9'')]"
  by (simp_all add: ex_quiet_def ex_outside_def)

lemma ex_quiet_wf: "wf_db (ex_db\<lparr>inbounds := []\<rparr>)"
  by (simp add: wf_db_def wf_parts ex_db_def keys_ok_def unique_col_def unique_nullable_def ex_account_def
      ex_pending_def ex_paired_def ex_conv_def ex_other_conv_def ex_uuid_valid conv_row_def
      ses_row_def ref_ok_def account_ids_def BuildConversationKey_def)

lemma ex_start_reach: "server_reach ex_cfg [] ex_start"
  unfolding ex_start_def by (rule server_reach.start) (simp add: server_start_def ex_quiet_wf)

lemma ex_events_start:
  "run_state (events_start (acc_ID ex_account) (acc_ID ex_account) (Some ex_paired)) (ex_quiet\<lparr>zsets := z\<rparr>)
     = (Stream stream_headers 0, sv_world (ex_open z))"
proof -
  have valid: "IsValidUUID (acc_ID ex_account)" by (simp add: ex_account_def ex_uuid_valid)
  then have "acc_ID ex_account \<noteq> []" by (auto simp: IsValidUUID_def)
  moreover have "run_state (FindQueuedByAccountID (acc_ID ex_account)) (ex_quiet\<lparr>zsets := z, broker := b\<rparr>)
      = (Inr [], ex_quiet\<lparr>zsets := z, broker := b\<rparr>)" for b
    using valid by (simp add: FindQueuedByAccountID_def inboundRepo_FindQueuedByAccountID_def run_exec_env
        run_exec next_fault_def uuid_arg_def reads_def order_by_asc_def)
  moreover obtain b where "Subscribe (acc_ID ex_account) NewBroker = (0, b)"
    by (simp add: Subscribe_def Let_def NewBroker_def)
  ultimately show ?thesis
    by (simp add: events_start_def broker_subscribe_def sendQueuedMessages_def sendEvent_def sendRawEvent_def write_chunk_def
        ex_open_def connected_data_def)
qed

lemma ex_connected:
  obtains z where "server_step ex_cfg [] ex_start (Some (ex_open z))"
proof -
  define rt where "rt = mounted ''GET'' ''/v1/events'' (authenticated Events_ServeHTTP)"
  define r where "r = ex_events\<lparr>rq_MaxBytes := Some DefaultMaxBodySize\<rparr>"
  define r' where "r' = r\<lparr>rq_Session := Some ex_paired, rq_Account := Some ex_account\<rparr>"
  have token: "extractToken r = ''secret''"
    by (simp add: r_def ex_events_def ex_request_def extractToken_def get_value_def)
  have unauth: "rq_Account r = None" "rq_Account ex_events = None" "rq_Session ex_events = None"
    by (simp_all add: r_def ex_events_def ex_request_def)
  have found: "session_of_token (ex_db\<lparr>inbounds := []\<rparr>) ''secret'' = Some ex_paired"
    "session_account (ex_db\<lparr>inbounds := []\<rparr>) ex_paired = Some ex_account"
    by (simp_all add: session_of_token_def session_account_def ex_db_def ex_pending_def ex_paired_def ex_account_def
        active_status_def)
  obtain z n t where check: "run_state (RedisRateLimiter_Check (acc_ID ex_account) (effective_limit ex_account)) ex_quiet
      = ((True, n, t), ex_quiet\<lparr>zsets := z\<rparr>)"
    by (rule first_check[of ex_quiet "acc_ID ex_account" "effective_limit ex_account"])
       (simp_all add: effective_limit_def DefaultRateLimitPerMin_def ex_account_def)
  have "run_state (Auth_Handler (RedisRateLimit_Handler Events_ServeHTTP) r) ex_quiet =
      run_state (RedisRateLimit_Handler Events_ServeHTTP r') ex_quiet"
    by (subst Auth_run) (simp_all add: ex_quiet_wf token found unauth r'_def)
  then have run: "run_state (rt_Handler rt ex_events) ex_quiet
      = (Stream (limit_headers (effective_limit ex_account) n t @ stream_headers) 0, sv_world (ex_open z))"
    using check ex_events_start[of z]
    by (simp add: rt_def mounted_def authenticated_def BodyLimit_Handler_def RedisRateLimit_Handler_def
        RateLimit_Handler_def Let_def r_def r'_def body_limit_def DefaultMaxBodySize_def Events_ServeHTTP_def
        ex_events_def ex_request_def)
  have "server_step ex_cfg [] ex_start
      (Some (ex_start\<lparr>sv_world := sv_world (ex_open z), sv_streams := insert 0 (sv_streams ex_start)\<rparr>))"
    by (rule server_step.connect[of ex_start rt _ _ ex_events "limit_headers (effective_limit ex_account) n t @ stream_headers"])
       (use run unauth in \<open>simp_all add: ex_start_def, simp add: rt_def routes_def\<close>)
  then show thesis by (intro that[of z]) (simp add: ex_start_def ex_open_def)
qed


section \<open>Properties\<close>

text \<open>
  C3. Tenant isolation of the event streams. Whatever step a running server takes, it writes to the
  connection of at most one client. To a client that is connected it writes only data published on
  the channel of the name it is subscribed under; to one that connects, only the description of its
  session and the queued messages of that session's account, where the name is the account of a
  paired session or else the session itself. The name of a connected client never changes.
\<close>

theorem server_stream_isolation:
  assumes "server_reach cfg html s" and "uuid_cast_ok (wenv (sv_world s))"
    and "server_step cfg html s (Some t)"
  shows "(\<exists>c. sends_to c (if c \<in> sv_streams s then live_data s c else start_data s (subscribed t c))
            (sv_world s) (sv_world t))
    \<and> (\<forall>c \<in> sv_streams s. subscribed t c = subscribed s c)"
  using stream_isolation[OF assms]
    keeps_namesD[OF server_step_names[OF assms(3)] streams_exist[OF assms(1)]]
  by (simp add: subscribed_def)

theorem server_stream_isolation_witness:
  "\<exists>z c. server_step ex_cfg [] ex_start (Some (ex_open z)) \<and> subscribed (ex_open z) 0 = acc_ID ex_account
     \<and> sends_to c (start_data ex_start (subscribed (ex_open z) c)) ex_quiet (sv_world (ex_open z))"
proof -
  obtain z where z: "server_step ex_cfg [] ex_start (Some (ex_open z))" by (rule ex_connected)
  have "uuid_cast_ok (wenv (sv_world ex_start))" by (simp add: ex_start_def)
  moreover have "subscribed (ex_open z) 0 = acc_ID ex_account"
    by (simp add: subscribed_def ex_open_def Subscribe_def Let_def NewBroker_def NewClient_def)
  moreover have "sv_streams ex_start = {}" "sv_world ex_start = ex_quiet" by (simp_all add: ex_start_def)
  ultimately show ?thesis using server_stream_isolation[OF ex_start_reach _ z] z by auto
qed

end
