(* ===== verification/EndToEnd.thy ===== *)
theory EndToEnd
  imports Isolation Inbox
begin

text \<open>
  The way of a message through the whole program: a webhook call, Redis, the listener of the account
  and one turn of the event stream.
\<close>

lemma sent_single: "sent ms = [(MessageChannel a, e)] \<Longrightarrow> ms = [(a, e)]"
  by (cases ms) (auto simp: sent_def split: prod.splits)

text \<open>A message that is published while listener and client are idle is the next one the client gets.\<close>

lemma broadcast_receive:
  assumes inv: "broker_inv b" and c: "c \<in> registered b" "cl_AccountID (br_heap b ! c) = a"
    and idle: "cl_Events (br_heap b ! c) = []"
    and i: "i < length (br_listeners b)" "li_Ready (br_listeners b ! i)" "li_AccountID (br_listeners b ! i) = a"
      "li_Queue (br_listeners b ! i) = []"
  obtains b' where "receive c (subscribeToRedis_step i (redis_deliver (MessageChannel a) e b)) = Some (e, b')"
proof -
  define b1 where "b1 = redis_deliver (MessageChannel a) e b"
  define b2 where "b2 = b1\<lparr>br_listeners := (br_listeners b1)[i := (br_listeners b1 ! i)\<lparr>li_Queue := []\<rparr>]\<rparr>"
  have q: "li_Queue (br_listeners b1 ! i) = [e]" "li_AccountID (br_listeners b1 ! i) = a"
    using i by (simp_all add: b1_def redis_deliver_def)
  then have step: "subscribeToRedis_step i b1 = broadcast a e b2"
    by (simp add: subscribeToRedis_step_def Let_def b2_def)
  have heap: "br_heap b2 = br_heap b" "br_clients b2 = br_clients b"
    by (simp_all add: b2_def b1_def redis_deliver_def)
  have "broker_inv b2" unfolding b2_def b1_def using inv by simp
  moreover have "registered b2 = registered b" using heap(2) by (rule registered_cong)
  ultimately have "br_heap (broadcast a e b2) ! c = offer e (br_heap b ! c)"
    using broadcast_heap(2)[of b2 a e c] c heap by simp
  then have ev: "cl_Events (br_heap (subscribeToRedis_step i b1) ! c) = [e]"
    using idle by (simp add: step offer_def event_buffer_def)
  then show thesis by (intro that[folded b1_def]) (simp add: receive_def)
qed

lemma run_turn_event:
  assumes "receive c (broker w) = Some (\<lparr>ev_Type = ''message'', ev_Data = ToSSEEventData (wenv w) m\<rparr>, b)"
    and "write_faults w = []"
  shows "\<exists>w'. run_state (events_turn c EventReady) w = (True, w') \<and> sse_out w' = sse_out w @ message_chunks (wenv w) c m"
  using assms by (simp add: events_turn_def sendRawEvent_def write_chunk_def message_chunks_def)

lemma Webhook_arrival:
  assumes "wf_db (db w)" "uuid_cast_ok (wenv w)" "db_faults w = []" "redis_faults w = []"
    and "uuids w = rid # mid # us" "IsValidUUID rid" "IsValidUUID mid"
    and "\<forall>m \<in> set (inbounds (db w)). in_ID m \<noteq> mid"
    and "decode_body (wenv w) r = Some j" "decode_webhook j = Some req"
    and "parseCommand (upper_table (wenv w)) (kr_Utterance (kw_UserRequest req)) = None"
    and "c \<in> set (conversations (db w))" "conv_State c = PairingStatePaired" "conv_AccountID c = Some a"
    and "conv_ConversationKey c = BuildConversationKey (GetChannelID req) (GetPlusfriendUserKey req)"
  obtains m w' where "run_state (Webhook ttl r) w = (Response (WriteJSON 200 (encode_response NewCallbackResponse)), w')"
    "inbounds (db w') = inbounds (db w) @ [m]" "queued_for a m" "in_KakaoPayload m = ToJSON req"
    "bus w' = bus w @ [(MessageChannel a, message_event (wenv w) m)]"
proof -
  show thesis
    by (insert Webhook_message[OF assms, of ttl], (erule exE)+, (erule conjE)+, rule that, assumption, assumption)
       (simp_all only: queued_for_def HOL.simp_thms)
qed

text \<open>The route of the webhook lets a signed request of the right size through.\<close>

lemma webhook_route:
  fixes r :: request
  assumes "rt = mounted ''POST'' ''/kakao/webhook''
      (KakaoSignature_Handler (cfg_KakaoSignatureSecret cfg) (Webhook (CallbackTTL cfg)))"
    and "rq_ContentLength r \<le> body_limit 0" "int (length (rq_Body r)) \<le> body_limit 0"
    and "cfg_KakaoSignatureSecret cfg = []
      \<or> get_value ''X-Kakao-Signature'' (rq_Headers r) = hex_encode (hmac_sum (cfg_KakaoSignatureSecret cfg) (rq_Body r))"
    and "json_whole (wenv w) (rq_Body r) = Some j" "json_first (wenv w) (rq_Body r) = Some j"
  obtains r' where "run_state (rt_Handler rt r) w = run_state (Webhook (CallbackTTL cfg) r') w"
    "decode_body (wenv w) r' = Some j"
proof -
  define r1 where "r1 = r\<lparr>rq_MaxBytes := Some (body_limit 0)\<rparr>"
  have limited: "run_state (rt_Handler rt r) w
      = run_state (KakaoSignature_Handler (cfg_KakaoSignatureSecret cfg) (Webhook (CallbackTTL cfg)) r1) w"
    using assms(1,2) by (simp add: mounted_def BodyLimit_Handler_def r1_def)
  have read: "read_body r1 = Some (rq_Body r)" "decode_body (wenv w) r1 = Some j"
    using assms(3,6) by (simp_all add: read_body_def decode_body_def r1_def)
  show thesis
  proof (cases "cfg_KakaoSignatureSecret cfg = []")
    case True
    with limited read(2) show thesis by (intro that[of r1]) (simp_all add: KakaoSignature_Handler_def)
  next
    case False
    let ?sig = "get_value ''X-Kakao-Signature'' (rq_Headers r1)"
    have sig: "?sig = HmacSHA256 (cfg_KakaoSignatureSecret cfg) (rq_Body r)"
      using False assms(4) by (simp add: r1_def HmacSHA256_def)
    have "length (HmacSHA256 (cfg_KakaoSignatureSecret cfg) (rq_Body r)) = 64"
      by (simp add: HmacSHA256_def hmac_sum_def Let_def)
    then have "?sig \<noteq> []" using sig by fastforce
    with False limited read sig assms(5,6) show thesis
      by (intro that[of "r1\<lparr>rq_Body := rq_Body r, rq_MaxBytes := None, rq_KakaoBody := Some j\<rparr>"])
         (simp_all add: KakaoSignature_Handler_def Let_def ConstantTimeEqual_iff decode_body_def r1_def)
  qed
qed


text \<open>The call of the webhook as a step of the server: the message is stored, published and in the listeners' queues.\<close>

lemma webhook_arrives:
  fixes r :: request
  assumes wf: "wf_db (db (sv_world s))" and up: "\<not> sv_down s"
    and request: "rq_Account r = None" "rq_Session r = None" "rq_ContentLength r \<le> body_limit 0"
      "int (length (rq_Body r)) \<le> body_limit 0"
      "cfg_KakaoSignatureSecret cfg = []
        \<or> get_value ''X-Kakao-Signature'' (rq_Headers r) = hex_encode (hmac_sum (cfg_KakaoSignatureSecret cfg) (rq_Body r))"
      "json_whole (wenv (sv_world s)) (rq_Body r) = Some j" "json_first (wenv (sv_world s)) (rq_Body r) = Some j"
      "decode_webhook j = Some req"
      "parseCommand (upper_table (wenv (sv_world s))) (kr_Utterance (kw_UserRequest req)) = None"
    and conv: "cv \<in> set (conversations (db (sv_world s)))" "conv_State cv = PairingStatePaired" "conv_AccountID cv = Some a"
      "conv_ConversationKey cv = BuildConversationKey (GetChannelID req) (GetPlusfriendUserKey req)"
    and supplies: "uuid_cast_ok (wenv (sv_world s))" "db_faults (sv_world s) = []" "redis_faults (sv_world s) = []"
      "uuids (sv_world s) = rid # mid # us" "IsValidUUID rid" "IsValidUUID mid"
      "\<forall>m \<in> set (inbounds (db (sv_world s))). in_ID m \<noteq> mid"
  obtains m w where "server_step cfg html s (Some (s\<lparr>sv_world := w\<rparr>))"
    "inbounds (db w) = inbounds (db (sv_world s)) @ [m]" "queued_for a m" "in_KakaoPayload m = ToJSON req"
    "bus w = bus (sv_world s) @ [(MessageChannel a, message_event (wenv (sv_world s)) m)]"
    "broker w = redis_deliver (MessageChannel a) (message_event (wenv (sv_world s)) m) (broker (sv_world s))"
    "sse_out w = sse_out (sv_world s)" "write_faults w = write_faults (sv_world s)" "wenv w = wenv (sv_world s)"
proof -
  let ?w = "sv_world s"
  define rt where "rt = mounted ''POST'' ''/kakao/webhook''
      (KakaoSignature_Handler (cfg_KakaoSignatureSecret cfg) (Webhook (CallbackTTL cfg)))"
  obtain r' where r': "run_state (rt_Handler rt r) ?w = run_state (Webhook (CallbackTTL cfg) r') ?w"
    "decode_body (wenv ?w) r' = Some j"
    by (rule webhook_route[OF rt_def request(3-7)])
  obtain m w where w: "run_state (Webhook (CallbackTTL cfg) r') ?w
      = (Response (WriteJSON 200 (encode_response NewCallbackResponse)), w)"
    and m: "inbounds (db w) = inbounds (db ?w) @ [m]" "queued_for a m" "in_KakaoPayload m = ToJSON req"
      "bus w = bus ?w @ [(MessageChannel a, message_event (wenv ?w) m)]"
    by (rule Webhook_arrival[OF wf supplies r'(2) request(8,9) conv])
  have "delivers ?w w"
    using Webhook_connects[of "CallbackTTL cfg" r'] w by (auto simp: connects_def dest!: spec[of _ ?w])
  then obtain ms where ms: "broker w = deliver_all ms (broker ?w)" "bus w = bus ?w @ sent ms"
    and frame: "sse_out w = sse_out ?w" "write_faults w = write_faults ?w" "wenv w = wenv ?w"
    unfolding delivers_def by auto
  have "ms = [(a, message_event (wenv ?w) m)]" using ms(2) m(4) by (simp add: sent_single)
  then have "broker w = redis_deliver (MessageChannel a) (message_event (wenv ?w) m) (broker ?w)"
    using ms(1) by (simp add: deliver_all_def)
  moreover have "server_step cfg html s (Some (s\<lparr>sv_world := w\<rparr>))"
  proof (rule server_step.respond[OF up _ request(1,2)])
    show "rt \<in> set (routes cfg html)" by (simp add: rt_def routes_def)
    show "run_state (rt_Handler rt r) ?w = (Response (WriteJSON 200 (encode_response NewCallbackResponse)), w)"
      using r'(1) w by simp
  qed simp
  ultimately show thesis using m frame by (intro that)
qed


section \<open>Properties\<close>

text \<open>
  C4. End to end. On a running server with a client connected for account a whose buffer is empty,
  and a listener of the account in force, a signed webhook call with a message of a conversation
  paired with a (no command, database, Redis and connection working) is stored as a queued message
  of a; three steps of the server later (the request, one turn of the listener, one turn of the
  stream) exactly the two lines of this message have been written, to this client.
\<close>

theorem message_reaches_client:
  fixes r :: request
  assumes reach: "server_reach cfg html s" and up: "\<not> sv_down s" and client: "c \<in> sv_streams s" "subscribed s c = a"
    and idle: "cl_Events (br_heap (broker (sv_world s)) ! c) = []"
    and listener: "i < length (br_listeners (broker (sv_world s)))" "li_Ready (br_listeners (broker (sv_world s)) ! i)"
      "li_AccountID (br_listeners (broker (sv_world s)) ! i) = a" "li_Queue (br_listeners (broker (sv_world s)) ! i) = []"
    and request: "rq_Account r = None" "rq_Session r = None" "rq_ContentLength r \<le> body_limit 0"
      "int (length (rq_Body r)) \<le> body_limit 0"
      "cfg_KakaoSignatureSecret cfg = []
        \<or> get_value ''X-Kakao-Signature'' (rq_Headers r) = hex_encode (hmac_sum (cfg_KakaoSignatureSecret cfg) (rq_Body r))"
      "json_whole (wenv (sv_world s)) (rq_Body r) = Some j" "json_first (wenv (sv_world s)) (rq_Body r) = Some j"
      "decode_webhook j = Some req"
      "parseCommand (upper_table (wenv (sv_world s))) (kr_Utterance (kw_UserRequest req)) = None"
    and conv: "cv \<in> set (conversations (db (sv_world s)))" "conv_State cv = PairingStatePaired" "conv_AccountID cv = Some a"
      "conv_ConversationKey cv = BuildConversationKey (GetChannelID req) (GetPlusfriendUserKey req)"
    and supplies: "uuid_cast_ok (wenv (sv_world s))" "db_faults (sv_world s) = []" "redis_faults (sv_world s) = []"
      "write_faults (sv_world s) = []" "uuids (sv_world s) = rid # mid # us" "IsValidUUID rid" "IsValidUUID mid"
      "\<forall>m \<in> set (inbounds (db (sv_world s))). in_ID m \<noteq> mid"
  shows "\<exists>m s1 s2 s3. server_step cfg html s (Some s1) \<and> server_step cfg html s1 (Some s2) \<and> server_step cfg html s2 (Some s3)
    \<and> inbounds (db (sv_world s1)) = inbounds (db (sv_world s)) @ [m] \<and> queued_for a m \<and> in_KakaoPayload m = ToJSON req
    \<and> sse_out (sv_world s3) = sse_out (sv_world s) @ message_chunks (wenv (sv_world s)) c m"
proof -
  let ?w = "sv_world s"
  have wf: "wf_db (db ?w)" using good_server.reach_R[OF reach] by (auto simp: server_start_def good_def)
  obtain m w1 where step1: "server_step cfg html s (Some (s\<lparr>sv_world := w1\<rparr>))"
    and w1: "inbounds (db w1) = inbounds (db ?w) @ [m]" "queued_for a m" "in_KakaoPayload m = ToJSON req"
    and b1: "broker w1 = redis_deliver (MessageChannel a) (message_event (wenv ?w) m) (broker ?w)"
    and frame: "sse_out w1 = sse_out ?w" "write_faults w1 = []" "wenv w1 = wenv ?w"
    using webhook_arrives[OF wf up request conv supplies(1-3,5-8)] supplies(4) by metis
  obtain bs where bs: "refines s bs" using server_refines_broker[OF reach] by blast
  then have "\<not> br_cancelled (bs_broker bs)" "conns_inv bs" using up conns_inv_reach[of bs] by (auto simp: refines_def)
  then have inv: "broker_inv (broker ?w)" "c \<in> registered (broker ?w)"
    using bs client(1) by (auto simp: conns_inv_def refines_def)
  obtain b' where recv: "receive c (subscribeToRedis_step i (broker w1)) = Some (message_event (wenv ?w) m, b')"
    using broadcast_receive[OF inv client(2)[unfolded subscribed_def] idle listener] unfolding b1 by blast
  define s1 where "s1 = s\<lparr>sv_world := w1\<rparr>"
  define w2 where "w2 = w1\<lparr>broker := subscribeToRedis_step i (broker w1)\<rparr>"
  define s2 where "s2 = s1\<lparr>sv_world := w2\<rparr>"
  have "length (br_listeners (broker w1)) = length (br_listeners (broker ?w))" by (simp add: b1 redis_deliver_def)
  then have step2: "server_step cfg html s1 (Some s2)"
    unfolding s2_def w2_def using server_step.listener_step[of i s1 cfg html] listener(1) by (simp add: s1_def)
  have e2: "receive c (broker w2) = Some (\<lparr>ev_Type = ''message'', ev_Data = ToSSEEventData (wenv w2) m\<rparr>, b')"
    "write_faults w2 = []"
    using recv frame by (simp_all add: w2_def message_event_def)
  then obtain w3 where w3: "run_state (events_turn c EventReady) w2 = (True, w3)"
    "sse_out w3 = sse_out w2 @ message_chunks (wenv w2) c m"
    using run_turn_event by blast
  have "cl_Events (br_heap (broker w2) ! c) \<noteq> []" using e2(1) by (auto simp: receive_def)
  then have "server_step cfg html s2 (Some (s2\<lparr>sv_world := w3\<rparr>))"
    using w3(1) client(1) by (intro server_step.turn[of c _ EventReady]) (simp_all add: s2_def s1_def select_ready_def)
  with step1[folded s1_def] step2 w1 w3 frame show ?thesis
    by (intro exI[of _ m] exI[of _ s1] exI[of _ s2] exI[of _ "s2\<lparr>sv_world := w3\<rparr>"]) (simp add: s1_def w2_def)
qed


definition ex_signed :: request where
  "ex_signed = ex_call\<lparr>rq_Headers := [(''X-Kakao-Signature'', hex_encode (hmac_sum ''key'' ''webhook''))]\<rparr>"

definition ex_ready :: "(string \<Rightarrow> zset) \<Rightarrow> server" where
  "ex_ready z = (ex_open z)\<lparr>sv_world := (sv_world (ex_open z))
     \<lparr>broker := subscribeToRedis_start 0 (broker (sv_world (ex_open z)))\<rparr>\<rparr>"

lemma ex_ready_reach:
  assumes "server_step ex_cfg [] ex_start (Some (ex_open z))"
  shows "server_reach ex_cfg [] (ex_ready z)"
proof -
  have "server_reach ex_cfg [] (ex_open z)" by (rule server_reach.step[OF ex_start_reach assms])
  moreover have "server_step ex_cfg [] (ex_open z) (Some (ex_ready z))"
    unfolding ex_ready_def
    by (rule server_step.listener_start) (simp add: ex_open_def Subscribe_def Let_def NewBroker_def)
  ultimately show ?thesis by (rule server_reach.step)
qed

lemma ex_ready_state:
  "sv_world (ex_ready z) = ex_quiet\<lparr>zsets := z, broker := broker (sv_world (ex_ready z)),
     sse_out := sse_out (sv_world (ex_open z))\<rparr>"
  "sv_streams (ex_ready z) = {0}" "\<not> sv_down (ex_ready z)"
  "subscribed (ex_ready z) 0 = ex_uuid (CHR ''1'')"
  "cl_Events (br_heap (broker (sv_world (ex_ready z))) ! 0) = []"
  "br_listeners (broker (sv_world (ex_ready z))) = [\<lparr>li_AccountID = ex_uuid (CHR ''1''), li_Ready = True, li_Queue = []\<rparr>]"
  by (simp_all add: ex_ready_def ex_open_def subscribed_def Subscribe_def Let_def NewBroker_def NewClient_def
      NewListener_def subscribeToRedis_start_def ex_account_def)

lemma ex_ready_world:
  "wenv (sv_world (ex_ready z)) = ex_env" "db (sv_world (ex_ready z)) = ex_db\<lparr>inbounds := []\<rparr>"
  "db_faults (sv_world (ex_ready z)) = []" "redis_faults (sv_world (ex_ready z)) = []"
  "write_faults (sv_world (ex_ready z)) = []"
  "uuids (sv_world (ex_ready z)) = [ex_uuid (CHR ''8''), ex_uuid (CHR ''9'')]"
  by (subst ex_ready_state(1), simp)+

lemma ex_signed:
  "rq_Account ex_signed = None" "rq_Session ex_signed = None" "rq_ContentLength ex_signed \<le> body_limit 0"
  "int (length (rq_Body ex_signed)) \<le> body_limit 0" "rq_Body ex_signed = ''webhook''"
  "get_value ''X-Kakao-Signature'' (rq_Headers ex_signed) = hex_encode (hmac_sum ''key'' ''webhook'')"
  by (simp_all add: ex_signed_def ex_call_def ex_request_def body_limit_def DefaultMaxBodySize_def get_value_def)

text \<open>The signed call and what it needs, in every world with the example's database and environment.\<close>

lemma ex_signed_in:
  assumes "wenv w = ex_env" "db w = ex_db\<lparr>inbounds := []\<rparr>"
  shows "cfg_KakaoSignatureSecret ex_cfg = [] \<or> get_value ''X-Kakao-Signature'' (rq_Headers ex_signed)
      = hex_encode (hmac_sum (cfg_KakaoSignatureSecret ex_cfg) (rq_Body ex_signed))"
    and "json_whole (wenv w) (rq_Body ex_signed) = Some (the (ex_json ''webhook''))"
    and "json_first (wenv w) (rq_Body ex_signed) = Some (the (ex_json ''webhook''))"
    and "decode_webhook (the (ex_json ''webhook'')) = Some ex_hook"
    and "parseCommand (upper_table (wenv w)) (kr_Utterance (kw_UserRequest ex_hook)) = None"
    and "ex_conv \<in> set (conversations (db w))" "conv_State ex_conv = PairingStatePaired"
    "conv_AccountID ex_conv = Some (ex_uuid (CHR ''1''))"
    "conv_ConversationKey ex_conv = BuildConversationKey (GetChannelID ex_hook) (GetPlusfriendUserKey ex_hook)"
  using ex_hook assms by (simp_all add: ex_signed ex_cfg_def ex_json_def ex_db_def ex_conv_def)

theorem message_reaches_client_witness:
  "\<exists>s m s1 s2 s3. server_reach ex_cfg [] s \<and> server_step ex_cfg [] s (Some s1) \<and> server_step ex_cfg [] s1 (Some s2)
     \<and> server_step ex_cfg [] s2 (Some s3) \<and> queued_for (ex_uuid (CHR ''1'')) m \<and> in_KakaoPayload m = ToJSON ex_hook
     \<and> sse_out (sv_world s3) = sse_out (sv_world s) @ message_chunks ex_env 0 m"
proof -
  obtain z where z: "server_step ex_cfg [] ex_start (Some (ex_open z))" by (rule ex_connected)
  note reach = ex_ready_reach[OF z]
  note call = ex_signed_in[of "sv_world (ex_ready z)", OF ex_ready_world(1,2)]
  obtain m s1 s2 s3 where r: "server_step ex_cfg [] (ex_ready z) (Some s1)" "server_step ex_cfg [] s1 (Some s2)"
    "server_step ex_cfg [] s2 (Some s3)" "queued_for (ex_uuid (CHR ''1'')) m" "in_KakaoPayload m = ToJSON ex_hook"
    "sse_out (sv_world s3) = sse_out (sv_world (ex_ready z)) @ message_chunks (wenv (sv_world (ex_ready z))) 0 m"
    using message_reaches_client[OF reach ex_ready_state(3) _ ex_ready_state(4,5) _ _ _ _ ex_signed(1-4) call
        _ _ _ _ ex_ready_world(6) ex_uuid_valid(8,9), of 0]
    by (auto simp: ex_ready_state(2,6) ex_ready_world(1-5))
  with reach show ?thesis
    by (intro exI[of _ "ex_ready z"] exI[of _ m] exI[of _ s1] exI[of _ s2] exI[of _ s3]) (simp add: ex_ready_world(1))
qed

end
