(* ===== verification/Waiting.thy ===== *)
theory Waiting
  imports EndToEnd
begin

text \<open>
  A message that is published before the goroutine subscribeToRedis of its account has subscribed to
  the Redis channel: nobody listens, so the connected client is not told, however long the server
  runs, until another message is published or another stream is opened.
\<close>

section \<open>Runs in which nothing new is announced\<close>

text \<open>No listener has an event to hand on and no connected client one to read.\<close>

definition drained :: "server \<Rightarrow> bool" where
  "drained s \<longleftrightarrow> (\<forall>l \<in> set (br_listeners (broker (sv_world s))). li_Queue l = [])
     \<and> (\<forall>c \<in> sv_streams s. cl_Events (br_heap (broker (sv_world s)) ! c) = [])"

text \<open>Any steps of the server that publish nothing and open no stream.\<close>

inductive silent_run :: "Config \<Rightarrow> string \<Rightarrow> server \<Rightarrow> server \<Rightarrow> bool" for cfg html s where
  stop: "silent_run cfg html s s"
| go: "silent_run cfg html s t \<Longrightarrow> server_step cfg html t (Some u) \<Longrightarrow> bus (sv_world u) = bus (sv_world t) \<Longrightarrow>
    sv_streams u \<subseteq> sv_streams t \<Longrightarrow> silent_run cfg html s u"

definition pings :: "nat list \<Rightarrow> (nat \<times> sse_chunk) list" where
  "pings cs = map (\<lambda>c. (c, PingLine)) cs"

lemma pings_simps [simp]: "pings [] = []" "pings (cs @ cs') = pings cs @ pings cs'" "pings [c] = [(c, PingLine)]"
  by (simp_all add: pings_def)

text \<open>Such steps leave everything drained and write nothing but pings.\<close>

definition only_pings :: "world \<Rightarrow> world \<Rightarrow> bool" where
  "only_pings w w' \<longleftrightarrow> (\<exists>cs. sse_out w' = sse_out w @ pings cs)"

lemma only_pings_same: "sse_out w' = sse_out w \<Longrightarrow> only_pings w w'"
  unfolding only_pings_def by (intro exI[of _ "[]"]) simp

lemma only_pings_trans: "only_pings u v \<Longrightarrow> only_pings v w \<Longrightarrow> only_pings u w"
  unfolding only_pings_def by (metis append.assoc pings_simps(2))

lemma delivers_silent:
  assumes "delivers w w'" and "bus w' = bus w"
  shows "broker w' = broker w" "sse_out w' = sse_out w"
  using assms by (auto simp: delivers_def sent_def)

lemma turn_drained:
  assumes "cl_Events (br_heap (broker w) ! c) = []" and "run_state (events_turn c which) w = (ok, w')"
  shows "broker w' = broker w" "only_pings w w'"
  using assms
  by (auto simp: events_turn_def receive_def write_chunk_def only_pings_def
           intro: exI[of _ "[]"] exI[of _ "[c]"] split: select_case.splits list.splits bool.splits prod.splits)

lemma listener_drained:
  assumes "\<forall>l \<in> set (br_listeners b). li_Queue l = []" and "i < length (br_listeners b)"
  shows "subscribeToRedis_step i b = b"
    and "\<forall>l \<in> set (br_listeners (subscribeToRedis_start i b)). li_Queue l = []"
    and "\<forall>l \<in> set (br_listeners (subscribeToRedis_exit i b)). li_Queue l = []"
  using assms
  by (auto simp: subscribeToRedis_step_def subscribeToRedis_start_def subscribeToRedis_exit_def Let_def
           dest!: set_update_subset_insert[THEN subsetD] split: list.splits)

lemma drained_cong:
  assumes "drained s" and "br_listeners (broker (sv_world t)) = br_listeners (broker (sv_world s))"
    and "\<And>i. cl_Events (br_heap (broker (sv_world t)) ! i) = cl_Events (br_heap (broker (sv_world s)) ! i)"
    and "sv_streams t \<subseteq> sv_streams s"
  shows "drained t"
  using assms by (auto simp: drained_def)

lemma listener_heap:
  "br_heap (subscribeToRedis_start i b) = br_heap b" "br_heap (subscribeToRedis_exit i b) = br_heap b"
  by (simp_all add: subscribeToRedis_start_def subscribeToRedis_exit_def)

text \<open>A stream that is opened gets a new client, so it is not among those already open.\<close>

lemma connect_new:
  assumes ref: "refines s bs" and route: "rt \<in> set (routes cfg html)"
    and run: "run_state (rt_Handler rt r) (sv_world s) = (Stream hs c, w)"
  shows "c \<notin> sv_streams s"
proof -
  obtain v sid b where v: "delivers (sv_world s) v" "Subscribe sid (broker v) = (c, b)"
    by (rule connect_starts[OF route run])
  then have "c = length (br_heap (broker v))" by (auto simp: Subscribe_def Let_def)
  moreover obtain ms where "broker v = deliver_all ms (broker (sv_world s))" using v(1) by (auto simp: delivers_def)
  then have "br_heap (broker v) = br_heap (broker (sv_world s))"
    by (simp add: deliver_all_heap)
  moreover have "\<forall>c \<in> sv_streams s. c < length (br_heap (broker (sv_world s)))"
    using ref conns_inv_reach[of bs] by (auto simp: refines_def conns_inv_def)
  ultimately show ?thesis by auto
qed

text \<open>The goroutine of a listener, the end of a stream and Close leave a drained server drained.\<close>

lemma drained_listener:
  assumes "drained s" and "i < length (br_listeners (broker (sv_world s)))"
    and "b \<in> {subscribeToRedis_start i (broker (sv_world s)), subscribeToRedis_step i (broker (sv_world s)),
      subscribeToRedis_exit i (broker (sv_world s))}"
  shows "drained (s\<lparr>sv_world := (sv_world s)\<lparr>broker := b\<rparr>\<rparr>)"
  using assms listener_drained[of "broker (sv_world s)" i] by (auto simp: drained_def listener_heap)

lemma drained_leave:
  assumes empty: "drained s" and ref: "refines s bs" and c: "c \<in> sv_streams s"
    and unsub: "Unsubscribe c (broker (sv_world s)) = Some b"
  shows "drained (s\<lparr>sv_world := w\<lparr>broker := b\<rparr>, sv_streams := sv_streams s - {c}\<rparr>)"
proof -
  have conns: "conns_inv bs" "bs_broker bs = broker (sv_world s)" "bs_conns bs = sv_streams s"
    using ref conns_inv_reach[of bs] by (auto simp: refines_def)
  from Unsubscribe_frame[OF conns(1), of c b] c unsub
  have "br_listeners b = br_listeners (broker (sv_world s))"
    "\<And>i. cl_Events (br_heap b ! i) = cl_Events (br_heap (broker (sv_world s)) ! i)"
    unfolding conns(2,3) by blast+
  then show ?thesis by (intro drained_cong[OF empty]) simp_all
qed

lemma drained_close:
  assumes empty: "drained s" and ref: "refines s bs" and close: "Close (broker (sv_world s)) = Some b"
  shows "drained (s\<lparr>sv_world := (sv_world s)\<lparr>broker := b\<rparr>\<rparr>)"
proof -
  have "broker_inv (broker (sv_world s))" using ref conns_inv_reach[of bs] by (auto simp: refines_def conns_inv_def)
  then obtain b' where "Close (broker (sv_world s)) = Some b'" "br_listeners b' = br_listeners (broker (sv_world s))"
    "\<And>i. cl_Events (br_heap b' ! i) = cl_Events (br_heap (broker (sv_world s)) ! i)"
    by (rule Close_result) blast
  with close show ?thesis by (intro drained_cong[OF empty]) simp_all
qed

lemma drained_delivers:
  assumes "drained s" and "delivers (sv_world s) w" and "bus w = bus (sv_world s)"
  shows "drained (s\<lparr>sv_world := w\<rparr>) \<and> only_pings (sv_world s) w"
  using delivers_silent[OF assms(2,3)] assms(1) by (auto intro: drained_cong only_pings_same)

lemma silent_step:
  assumes reach: "server_reach cfg html s" and empty: "drained s" and step: "server_step cfg html s (Some t)"
    and quiet: "bus (sv_world t) = bus (sv_world s)" "sv_streams t \<subseteq> sv_streams s"
  shows "drained t \<and> only_pings (sv_world s) (sv_world t)"
proof -
  obtain bs where ref: "refines s bs" using server_refines_broker[OF reach] by blast
  show ?thesis
    using step
  proof cases
    case (respond rt r out w)
    with drained_delivers[OF empty respond_delivers[OF respond(3,6,7)]] quiet(1) show ?thesis by simp
  next
    case (connect rt r hs c w)
    with connect_new[OF ref connect(3,6)] quiet(2) show ?thesis by simp
  next
    case (turn c which w)
    with turn_drained[OF _ turn(4)] empty show ?thesis by (auto simp: drained_def)
  next
    case (leave c which w b)
    then have w: "broker w = broker (sv_world s)" "only_pings (sv_world s) w"
      using turn_drained[OF _ leave(4)] empty by (auto simp: drained_def)
    with drained_leave[OF empty ref leave(2)] leave(1,5) show ?thesis by (simp add: only_pings_def)
  next
    case (cleanup_tick x w)
    with drained_delivers[OF empty cleanup_runs_deliver[OF cleanup_tick(2)]] quiet(1) show ?thesis by simp
  next
    case (close b)
    with drained_close[OF empty ref close(4)] show ?thesis by (simp add: only_pings_same)
  next
    case (environment_step w)
    with empty show ?thesis by (auto simp: environment_def drained_def only_pings_same)
  next
    case (remote_publish a e)
    with quiet(1) show ?thesis by simp
  qed (use empty drained_listener[OF empty] in \<open>simp_all add: only_pings_same drained_def[of "s\<lparr>sv_down := True\<rparr>"], simp add: drained_def\<close>)
qed

lemma silent_run_pings:
  assumes "silent_run cfg html s t" and "server_reach cfg html s" "drained s"
  shows "server_reach cfg html t \<and> drained t \<and> only_pings (sv_world s) (sv_world t)"
  using assms
proof induction
  case stop
  then show ?case by (simp add: only_pings_same)
next
  case (go t u)
  then show ?case using silent_step[of cfg html t u] server_reach.step[of cfg html t u] only_pings_trans by blast
qed


lemma drained_deliver:
  assumes "drained s" and "\<forall>l \<in> set (br_listeners (broker (sv_world s))). li_AccountID l = a \<longrightarrow> \<not> li_Ready l"
  shows "redis_deliver (MessageChannel a) e (broker (sv_world s)) = broker (sv_world s)"
proof -
  have "map (\<lambda>l. if li_Ready l \<and> MessageChannel (li_AccountID l) = MessageChannel a
      then l\<lparr>li_Queue := li_Queue l @ [e]\<rparr> else l) (br_listeners (broker (sv_world s))) = br_listeners (broker (sv_world s))"
    using assms(2) by (intro map_idI) auto
  then show ?thesis by (simp add: redis_deliver_def)
qed


section \<open>Properties\<close>

text \<open>
  C5. A message can miss its client. Subscribe starts the listener of an account in the background.
  When a signed webhook call with a message of a conversation paired with a arrives before the
  listener has subscribed to the channel (database and Redis working, nothing else waiting), the
  message is stored as queued and published, but nobody receives it: as long as nothing else is
  published and no stream is opened, whatever steps the server takes, in whatever order, it
  writes nothing but pings to any client, those connected for a included.
\<close>

theorem early_message_missed:
  fixes r :: request
  assumes reach: "server_reach cfg html s" and up: "\<not> sv_down s" and empty: "drained s"
    and early: "\<forall>l \<in> set (br_listeners (broker (sv_world s))). li_AccountID l = a \<longrightarrow> \<not> li_Ready l"
    and request: "rq_Account r = None" "rq_Session r = None" "rq_ContentLength r \<le> body_limit 0"
      "int (length (rq_Body r)) \<le> body_limit 0"
      "cfg_KakaoSignatureSecret cfg = []
        \<or> get_value ''X-Kakao-Signature'' (rq_Headers r) = hex_encode (hmac_sum (cfg_KakaoSignatureSecret cfg) (rq_Body r))"
      "json_whole (wenv (sv_world s)) (rq_Body r) = Some j" "json_first (wenv (sv_world s)) (rq_Body r) = Some j"
      "decode_webhook j = Some req"
      "parseCommand (upper_table (wenv (sv_world s))) (kr_Utterance (kw_UserRequest req)) = None"
    and conv: "cv \<in> set (conversations (db (sv_world s)))" "conv_State cv = PairingStatePaired" "conv_AccountID cv = Some a"
      "conv_ConversationKey cv = BuildConversationKey (GetChannelID req) (GetPlusfriendUserKey req)"
    and supplies: "uuid_cast_ok (wenv (sv_world s))" "db_faults (sv_world s) = []" "redis_faults (sv_world s) = []"
      "uuids (sv_world s) = rid # mid # us" "IsValidUUID rid" "IsValidUUID mid"
      "\<forall>m \<in> set (inbounds (db (sv_world s))). in_ID m \<noteq> mid"
  shows "\<exists>m s1. server_step cfg html s (Some s1)
    \<and> inbounds (db (sv_world s1)) = inbounds (db (sv_world s)) @ [m] \<and> queued_for a m
    \<and> bus (sv_world s1) = bus (sv_world s) @ [(MessageChannel a, message_event (wenv (sv_world s)) m)]
    \<and> sv_streams s1 = sv_streams s
    \<and> (\<forall>t. silent_run cfg html s1 t \<longrightarrow> (\<exists>cs. sse_out (sv_world t) = sse_out (sv_world s) @ pings cs))"
proof -
  have "wf_db (db (sv_world s))" using good_server.reach_R[OF reach] by (auto simp: server_start_def good_def)
  from webhook_arrives[OF this up request conv supplies] obtain m w where
    step: "server_step cfg html s (Some (s\<lparr>sv_world := w\<rparr>))"
    and m: "inbounds (db w) = inbounds (db (sv_world s)) @ [m]" "queued_for a m"
      "bus w = bus (sv_world s) @ [(MessageChannel a, message_event (wenv (sv_world s)) m)]"
    and w: "broker w = redis_deliver (MessageChannel a) (message_event (wenv (sv_world s)) m) (broker (sv_world s))"
      "sse_out w = sse_out (sv_world s)" by metis
  have "broker w = broker (sv_world s)" using w(1) drained_deliver[OF empty early] by simp
  then have "drained (s\<lparr>sv_world := w\<rparr>)" using empty by (simp add: drained_def)
  then have "\<exists>cs. sse_out (sv_world t) = sse_out (sv_world s) @ pings cs" if "silent_run cfg html (s\<lparr>sv_world := w\<rparr>) t" for t
    using silent_run_pings[OF that server_reach.step[OF reach step]] w(2) by (simp add: only_pings_def)
  with step m show ?thesis by (intro exI[of _ m] exI[of _ "s\<lparr>sv_world := w\<rparr>"]) simp
qed

lemma ex_open_state:
  "sv_streams (ex_open z) = {0}" "\<not> sv_down (ex_open z)"
  "cl_AccountID (br_heap (broker (sv_world (ex_open z))) ! 0) = ex_uuid (CHR ''1'')" "drained (ex_open z)"
  "\<forall>l \<in> set (br_listeners (broker (sv_world (ex_open z)))). li_AccountID l = ex_uuid (CHR ''1'') \<longrightarrow> \<not> li_Ready l"
  by (simp_all add: drained_def ex_open_def Subscribe_def Let_def NewBroker_def NewClient_def NewListener_def ex_account_def)

lemma ex_open_world:
  "wenv (sv_world (ex_open z)) = ex_env" "db (sv_world (ex_open z)) = ex_db\<lparr>inbounds := []\<rparr>"
  "db_faults (sv_world (ex_open z)) = []" "redis_faults (sv_world (ex_open z)) = []"
  "uuids (sv_world (ex_open z)) = [ex_uuid (CHR ''8''), ex_uuid (CHR ''9'')]"
  by (simp_all add: ex_open_def)

theorem early_message_missed_witness:
  "\<exists>s m s1. server_reach ex_cfg [] s \<and> sv_streams s1 = {0} \<and> subscribed s 0 = ex_uuid (CHR ''1'')
     \<and> server_step ex_cfg [] s (Some s1) \<and> inbounds (db (sv_world s1)) = [m] \<and> queued_for (ex_uuid (CHR ''1'')) m
     \<and> (\<forall>t. silent_run ex_cfg [] s1 t \<longrightarrow> (\<exists>cs. sse_out (sv_world t) = sse_out (sv_world s) @ pings cs))"
proof -
  obtain z where "server_step ex_cfg [] ex_start (Some (ex_open z))" by (rule ex_connected)
  then have reach: "server_reach ex_cfg [] (ex_open z)" by (rule server_reach.step[OF ex_start_reach])
  note call = ex_signed_in[of "sv_world (ex_open z)", OF ex_open_world(1,2)]
  obtain m s1 where "server_step ex_cfg [] (ex_open z) (Some s1)" "inbounds (db (sv_world s1)) = [m]"
    "queued_for (ex_uuid (CHR ''1'')) m" "sv_streams s1 = {0}"
    "\<forall>t. silent_run ex_cfg [] s1 t \<longrightarrow> (\<exists>cs. sse_out (sv_world t) = sse_out (sv_world (ex_open z)) @ pings cs)"
    using early_message_missed[OF reach ex_open_state(2,4,5) ex_signed(1-4) call
        _ _ _ ex_open_world(5) ex_uuid_valid(8,9)] ex_open_state(1)
    by (auto simp: ex_open_world)
  with reach ex_open_state(3) show ?thesis unfolding subscribed_def by blast
qed

end
