(* ===== verification/Shutdown.thy ===== *)
theory Shutdown
  imports Isolation
begin

text \<open>
  How the open event streams end when the process stops: only Close tells them, and then all of them
  can go.
\<close>

section \<open>Close reaches every stream\<close>

definition done_inv :: "broker_sys \<Rightarrow> bool" where
  "done_inv s \<longleftrightarrow> (br_cancelled (bs_broker s) \<longrightarrow> (\<forall>c \<in> bs_conns s. cl_Done (br_heap (bs_broker s) ! c)))"

definition keeps_done :: "Broker \<Rightarrow> Broker \<Rightarrow> bool" where
  "keeps_done b b' \<longleftrightarrow> (\<forall>c < length (br_heap b). cl_Done (br_heap b ! c) \<longrightarrow> cl_Done (br_heap b' ! c))"

lemma done_update:
  "cl_Done (heap ! i) \<Longrightarrow> i < length heap \<Longrightarrow> (c = i \<Longrightarrow> cl_Done x) \<Longrightarrow> cl_Done (heap[c := x] ! i)"
  by (cases "c = i") simp_all

lemma keeps_done_ops:
  "keeps_done b (redis_deliver ch e b)" "keeps_done b (subscribeToRedis_start i b)"
  "keeps_done b (subscribeToRedis_exit i b)"
  "receive c b = Some (e', b') \<Longrightarrow> keeps_done b b'"
  "broker_inv b \<Longrightarrow> keeps_done b (subscribeToRedis_step i b)"
proof -
  show "keeps_done b (redis_deliver ch e b)" "keeps_done b (subscribeToRedis_start i b)"
    "keeps_done b (subscribeToRedis_exit i b)"
    by (simp_all add: keeps_done_def redis_deliver_def subscribeToRedis_start_def subscribeToRedis_exit_def)
  show "receive c b = Some (e', b') \<Longrightarrow> keeps_done b b'"
    by (auto simp: keeps_done_def receive_def intro!: done_update split: list.splits)
  assume inv: "broker_inv b"
  show "keeps_done b (subscribeToRedis_step i b)"
    by (auto simp: keeps_done_def subscribeToRedis_step_def Let_def broadcast_heap(2) inv split: list.split)
qed

lemma close_all_done:
  "close_all cs b = Some b' \<Longrightarrow> \<forall>c \<in> set cs. c < length (br_heap b) \<Longrightarrow>
   keeps_done b b' \<and> length (br_heap b') = length (br_heap b) \<and> (\<forall>c \<in> set cs. cl_Done (br_heap b' ! c))"
proof (induction cs arbitrary: b)
  case (Cons c cs)
  obtain b1 where b1: "close_done c b = Some b1" "close_all cs b1 = Some b'"
    using Cons.prems(1) by (auto split: option.splits)
  have one: "length (br_heap b1) = length (br_heap b)" "cl_Done (br_heap b1 ! c)" "keeps_done b b1"
    using b1(1) Cons.prems(2) by (auto simp: close_done_Some keeps_done_def nth_upd)
  with Cons.IH[OF b1(2)] Cons.prems(2) show ?case by (auto simp: keeps_done_def)
qed (simp add: keeps_done_def)

lemma Close_done:
  assumes inv: "broker_inv b" and close: "Close b = Some b'"
  shows "\<forall>c \<in> registered b. cl_Done (br_heap b' ! c)"
proof -
  have cs: "set (concat (map snd (br_clients b))) = registered b" by (auto simp: registered_def)
  obtain b1 where b1: "close_all (concat (map snd (br_clients b))) (b\<lparr>br_cancelled := True\<rparr>) = Some b1"
    "b' = b1\<lparr>br_clients := []\<rparr>"
    using close by (auto simp: Close_def)
  have "\<forall>c \<in> set (concat (map snd (br_clients b))). c < length (br_heap (b\<lparr>br_cancelled := True\<rparr>))"
    unfolding cs using registeredD(1)[OF inv] by simp
  from close_all_done[OF b1(1) this] show ?thesis unfolding cs by (simp add: b1(2))
qed

lemma done_step:
  assumes conns: "conns_inv s" and inv: "done_inv s" and step: "broker_step False s (Some t)"
  shows "done_inv t"
  using step
proof cases
  case (subscribe a c b)
  then show ?thesis using ops_cancelled(1)[of a "bs_broker s"] by (simp add: done_inv_def)
next
  case (unsubscribe c b)
  show ?thesis
  proof (cases "br_cancelled (bs_broker s)")
    case True
    then have "b = bs_broker s" using conns unsubscribe by (simp add: conns_inv_def Unsubscribe_forgotten)
    with inv unsubscribe show ?thesis by (simp add: done_inv_def)
  next
    case False
    with unsubscribe ops_cancelled(2) show ?thesis by (simp add: done_inv_def)
  qed
next
  case (close b)
  have b: "broker_inv (bs_broker s)" "bs_conns s = registered (bs_broker s)"
    using conns close by (simp_all add: conns_inv_def)
  from Close_done[OF b(1) close(3)] b(2) close(1) show ?thesis by (simp add: done_inv_def)
next
  case (publish a e)
  then show ?thesis using conns inv keeps_done_ops(1)[of "bs_broker s" "MessageChannel a" e]
    by (simp add: done_inv_def conns_inv_def keeps_done_def ops_cancelled)
next
  case (start i)
  then show ?thesis using conns inv keeps_done_ops(2)[of "bs_broker s" i]
    by (simp add: done_inv_def conns_inv_def keeps_done_def ops_cancelled)
next
  case (exit i)
  then show ?thesis using conns inv keeps_done_ops(3)[of "bs_broker s" i]
    by (simp add: done_inv_def conns_inv_def keeps_done_def ops_cancelled)
next
  case (listen i)
  then show ?thesis using conns inv keeps_done_ops(5)[of "bs_broker s" i]
    by (simp add: done_inv_def conns_inv_def keeps_done_def ops_cancelled)
next
  case (receive c e b)
  then show ?thesis using conns inv keeps_done_ops(4)[OF receive(3)] ops_cancelled(3)[OF receive(3)]
    by (simp add: done_inv_def conns_inv_def keeps_done_def)
qed

lemma done_reach: "broker_reach False s \<Longrightarrow> done_inv s"
proof (induction rule: broker_reach.induct)
  case init
  show ?case by (simp add: done_inv_def broker_init_def NewBroker_def)
next
  case (step s t)
  from done_step[OF conns_inv_reach[OF step.hyps(1)] step.IH step.hyps(2)] show ?case .
qed


section \<open>The streams of the server\<close>

abbreviation server_runs :: "Config \<Rightarrow> string \<Rightarrow> server \<Rightarrow> server \<Rightarrow> bool" where
  "server_runs cfg html \<equiv> (\<lambda>s t. server_step cfg html s (Some t))\<^sup>*\<^sup>*"

lemma stream_leaves:
  assumes "server_reach cfg html s" "br_cancelled (broker (sv_world s))" "c \<in> sv_streams s"
  shows "server_step cfg html s (Some (s\<lparr>sv_streams := sv_streams s - {c}\<rparr>))"
proof -
  obtain bs where bs: "refines s bs" using server_refines_broker[OF assms(1)] by blast
  then have inv: "conns_inv bs" "done_inv bs" "bs_broker bs = broker (sv_world s)" "bs_conns bs = sv_streams s"
    using conns_inv_reach[of bs] done_reach[of bs] by (simp_all add: refines_def)
  have "select_ready c ClientDone (broker (sv_world s))"
    using inv assms(2,3) by (simp add: done_inv_def select_ready_def)
  moreover have "Unsubscribe c (broker (sv_world s)) = Some (broker (sv_world s))"
    using inv assms(2) by (simp add: conns_inv_def Unsubscribe_forgotten)
  ultimately show ?thesis
    using server_step.leave[OF assms(3), of ClientDone "sv_world s" "broker (sv_world s)" cfg html]
    by (simp add: events_turn_def)
qed

lemma streams_leave:
  assumes "finite F"
  shows "server_reach cfg html s \<Longrightarrow> br_cancelled (broker (sv_world s)) \<Longrightarrow> sv_streams s = F \<Longrightarrow>
    server_runs cfg html s (s\<lparr>sv_streams := {}\<rparr>)"
  using assms
proof (induction F arbitrary: s)
  case empty
  then have "s\<lparr>sv_streams := {}\<rparr> = s" by simp
  then show ?case by simp
next
  case (insert c F)
  define t where "t = s\<lparr>sv_streams := F\<rparr>"
  have "sv_streams s - {c} = F" using insert.hyps insert.prems by auto
  then have step: "server_step cfg html s (Some t)"
    using stream_leaves[OF insert.prems(1,2), of c] insert.prems(3) by (simp add: t_def)
  have "server_runs cfg html t (t\<lparr>sv_streams := {}\<rparr>)"
    by (rule insert.IH) (use insert.prems step in \<open>auto simp: t_def intro: server_reach.step\<close>)
  with step show ?case by (simp add: t_def converse_rtranclp_into_rtranclp)
qed

lemma finite_streams: "server_reach cfg html s \<Longrightarrow> finite (sv_streams s)"
  using streams_exist[of cfg html s] by (meson finite_nat_set_iff_bounded)



text \<open>The example connection, after the server was shut down and the broker closed.\<close>

definition ex_closed :: "(string \<Rightarrow> zset) \<Rightarrow> server" where
  "ex_closed z = (ex_open z)\<lparr>sv_down := True, sv_world := (sv_world (ex_open z))
     \<lparr>broker := the (Close (broker (sv_world (ex_open z))))\<rparr>\<rparr>"

lemma ex_closed_reach:
  assumes "server_step ex_cfg [] ex_start (Some (ex_open z))"
  shows "server_reach ex_cfg [] (ex_closed z)" "br_cancelled (broker (sv_world (ex_closed z)))"
proof -
  have opened: "server_reach ex_cfg [] (ex_open z)" by (rule server_reach.step[OF ex_start_reach assms])
  then have down: "server_reach ex_cfg [] ((ex_open z)\<lparr>sv_down := True\<rparr>)"
    by (rule server_reach.step) (rule server_step.shutdown)
  obtain b where b: "Close (broker (sv_world (ex_open z))) = Some b" "br_cancelled b"
    and up: "\<not> br_cancelled (broker (sv_world (ex_open z)))"
    by (simp add: ex_open_def Subscribe_def Let_def NewBroker_def NewClient_def NewListener_def Close_def
        close_done_def clients_of_def)
  have "server_step ex_cfg [] ((ex_open z)\<lparr>sv_down := True\<rparr>) (Some (ex_closed z))"
    using server_step.close[of "(ex_open z)\<lparr>sv_down := True\<rparr>" b ex_cfg "[]"] b up by (simp add: ex_closed_def)
  with down show "server_reach ex_cfg [] (ex_closed z)" by (rule server_reach.step)
  show "br_cancelled (broker (sv_world (ex_closed z)))" using b by (simp add: ex_closed_def)
qed


end
