(* ===== verification/KakaoCodec.thy ===== *)
theory KakaoCodec
  imports KakaoTypes
begin

text \<open>
  The payload of a message: the webhook request as it was decoded is encoded again, stored and sent
  to the agent. Decoding that payload gives the request back.
\<close>

section \<open>Maps in canonical form\<close>

lemma str_less_irrefl: "\<not> str_less s s"
  by (induction s) auto

lemma str_less_trans: "str_less s t \<Longrightarrow> str_less t u \<Longrightarrow> str_less s u"
proof (induction s u arbitrary: t rule: str_less.induct)
  case (1 s)
  then show ?case by (cases t) auto
next
  case (3 a s c u)
  then show ?case by (cases t) auto
qed simp

lemma str_less_total: "s \<noteq> t \<Longrightarrow> \<not> str_less s t \<Longrightarrow> str_less t s"
proof (induction s t rule: str_less.induct)
  case (1 s)
  then show ?case by (cases s) auto
next
  case (3 a s c t)
  then show ?case by (metis char_of_char linorder_neqE_nat str_less.simps(3))
qed simp

definition sorted_keys :: "(string \<times> 'v) list \<Rightarrow> bool" where
  "sorted_keys m \<longleftrightarrow> sorted_wrt str_less (map fst m)"

definition canon_map :: "(string \<times> json) list \<Rightarrow> bool" where
  "canon_map m \<longleftrightarrow> sorted_keys m \<and> (\<forall>(k, v) \<in> set m. any_json v = v)"

lemma map_put_keys: "fst ` set (map_put k v m) = insert k (fst ` set m)"
proof (induction m)
  case (Cons p m)
  then show ?case by (cases p) (simp add: insert_commute)
qed simp

lemma map_put_values: "(k', v') \<in> set (map_put k v m) \<Longrightarrow> v' = v \<or> (k', v') \<in> set m"
  by (induction m) (auto split: if_splits)

lemma sorted_map_put: "sorted_keys m \<Longrightarrow> sorted_keys (map_put k v m)"
proof (induction m)
  case (Cons p m)
  obtain k' v' where p: "p = (k', v')" by fastforce
  have rest: "\<forall>x \<in> fst ` set m. str_less k' x" and m: "sorted_keys m"
    using Cons.prems p by (auto simp: sorted_keys_def)
  show ?case
  proof (cases "k = k' \<or> str_less k k'")
    case True
    then show ?thesis using Cons.prems p rest by (auto simp: sorted_keys_def intro: str_less_trans)
  next
    case False
    then have "str_less k' k" using str_less_total by blast
    then have "\<forall>x \<in> fst ` set (map_put k v m). str_less k' x" using rest by (simp add: map_put_keys)
    with Cons.IH[OF m] False p show ?thesis by (auto simp: sorted_keys_def)
  qed
qed (simp add: sorted_keys_def)

lemma map_put_last: "\<forall>x \<in> fst ` set m. str_less x k \<Longrightarrow> map_put k v m = m @ [(k, v)]"
proof (induction m)
  case (Cons p m)
  obtain k' v' where p: "p = (k', v')" by fastforce
  have "str_less k' k" using Cons.prems p by simp
  then have "k \<noteq> k'" "\<not> str_less k k'" using str_less_irrefl str_less_trans by blast+
  with Cons p show ?case by simp
qed simp

lemma canon_map_put: "canon_map m \<Longrightarrow> any_json v = v \<Longrightarrow> canon_map (map_put k v m)"
  unfolding canon_map_def by (auto simp: sorted_map_put dest!: map_put_values)

lemma any_members_canon:
  "sorted_keys (acc @ ms) \<Longrightarrow> \<forall>(k, v) \<in> set ms. any_json v = v \<Longrightarrow> any_members ms acc = acc @ ms"
proof (induction ms arbitrary: acc)
  case (Cons p ms)
  obtain k v where p: "p = (k, v)" by fastforce
  have "\<forall>x \<in> fst ` set acc. str_less x k"
    using Cons.prems(1) p by (auto simp: sorted_keys_def sorted_wrt_append)
  then have "map_put k v acc = acc @ [(k, v)]" by (rule map_put_last)
  with Cons p show ?case by simp
qed simp

lemma any_members_id: "canon_map m \<Longrightarrow> any_members m [] = m"
  using any_members_canon[of "[]" m] by (simp add: canon_map_def)

text \<open>What json.Unmarshal makes of a value is in canonical form.\<close>

lemma any_canon:
  "any_json (any_json j) = any_json j"
  "canon_map acc \<Longrightarrow> canon_map (any_members ms acc)"
  "any_list (any_list xs) = any_list xs"
proof (induction j and ms acc and xs rule: any_json_any_members_any_list.induct)
  case (6 ms)
  then have "canon_map (any_members ms [])" by (simp add: canon_map_def sorted_keys_def)
  then show ?case by (simp add: any_members_id)
next
  case (8 k v ms acc)
  then show ?case by (simp add: canon_map_put)
qed simp_all

lemma put_strings_sorted: "sorted_keys m \<Longrightarrow> put_strings ms m = Some m' \<Longrightarrow> sorted_keys m'"
  by (induction ms m rule: put_strings.induct) (auto simp: sorted_map_put split: option.splits)

lemma put_strings_id:
  "sorted_keys (acc @ m) \<Longrightarrow> put_strings (map (\<lambda>(k, v). (k, JStr v)) m) acc = Some (acc @ m)"
proof (induction m arbitrary: acc)
  case (Cons p m)
  obtain k v where p: "p = (k, v)" by fastforce
  have "\<forall>x \<in> fst ` set acc. str_less x k"
    using Cons.prems p by (auto simp: sorted_keys_def sorted_wrt_append)
  then have "map_put k v acc = acc @ [(k, v)]" by (rule map_put_last)
  with Cons p show ?case by (simp add: decode_string_def)
qed simp


section \<open>Decoded requests are canonical\<close>

definition canon_any :: "(string \<times> json) list option \<Rightarrow> bool" where
  "canon_any p \<longleftrightarrow> (case p of None \<Rightarrow> True | Some m \<Rightarrow> canon_map m)"

definition canon_strings :: "(string \<times> string) list option \<Rightarrow> bool" where
  "canon_strings p \<longleftrightarrow> (case p of None \<Rightarrow> True | Some m \<Rightarrow> sorted_keys m)"

definition canon_action :: "KakaoAction \<Rightarrow> bool" where
  "canon_action a \<longleftrightarrow> canon_strings (ka_Params a) \<and> canon_any (ka_DetailParams a) \<and> canon_any (ka_ClientExtra a)"

lemma find_field_mem: "find_field fds k = Some d \<Longrightarrow> d \<in> snd ` set fds"
proof (cases "map_of fds k")
  case None
  assume "find_field fds k = Some d"
  with None obtain x where "List.find (\<lambda>(n, _). fold_name n = fold_name k) fds = Some x" "d = snd x"
    by (auto simp: find_field_def)
  then have "x \<in> set fds" by (simp add: find_row_SomeD(1))
  then show ?thesis using \<open>d = snd x\<close> by simp
next
  case (Some d')
  assume "find_field fds k = Some d"
  with Some have "map_of fds k = Some d" by (simp add: find_field_def)
  then have "(k, d) \<in> set fds" by (rule map_of_SomeD)
  then show ?thesis by (metis image_eqI snd_conv)
qed

lemma decode_struct_inv:
  assumes "decode_struct fds j a = Some a'" and "P a"
    and "\<forall>d \<in> snd ` set fds. \<forall>v a a'. P a \<longrightarrow> d v a = Some a' \<longrightarrow> P a'"
  shows "P a'"
proof -
  have "P a \<Longrightarrow> decode_members fds ms a = Some a' \<Longrightarrow> P a'" for ms
  proof (induction ms arbitrary: a)
    case (Cons p ms)
    obtain k v where p: "p = (k, v)" by fastforce
    with Cons assms(3) find_field_mem[of fds k] show ?case by (fastforce split: option.splits)
  qed simp
  with assms(1,2) show ?thesis by (auto simp: decode_struct_def split: json.splits)
qed

lemma canon_Nil: "canon_map []" "sorted_keys []"
  by (simp_all add: canon_map_def sorted_keys_def)

lemma decode_maps_canon:
  "canon_any p \<Longrightarrow> decode_any_map j p = Some p' \<Longrightarrow> canon_any p'"
  "canon_strings q \<Longrightarrow> decode_string_map j q = Some q' \<Longrightarrow> canon_strings q'"
  using put_strings_sorted[OF canon_Nil(2)]
  by (auto simp: canon_any_def canon_strings_def decode_any_map_def decode_string_map_def canon_Nil
      intro: any_canon(2) put_strings_sorted split: json.splits option.splits)


lemma decode_user_canon:
  assumes "decode_user j u = Some u'" "canon_any (ku_Properties u)"
  shows "canon_any (ku_Properties u')"
  using assms unfolding decode_user_def
  by (rule decode_struct_inv[where P = "\<lambda>u. canon_any (ku_Properties u)"])
     (auto simp: field_def dest: decode_maps_canon)

definition canon_user_request :: "KakaoUserRequest \<Rightarrow> bool" where
  "canon_user_request r \<longleftrightarrow> canon_any (ku_Properties (kr_User r)) \<and> canon_strings (kr_Params r)"

lemma decode_user_request_canon:
  assumes "decode_user_request j r = Some r'" "canon_user_request r"
  shows "canon_user_request r'"
  using assms unfolding decode_user_request_def
  by (rule decode_struct_inv)
     (auto simp: field_def canon_user_request_def dest: decode_maps_canon decode_user_canon)

lemma decode_action_canon:
  assumes "decode_action j a = Some a'" "canon_action a"
  shows "canon_action a'"
  using assms unfolding decode_action_def
  by (rule decode_struct_inv) (auto simp: field_def canon_action_def dest: decode_maps_canon)

definition canon_ptr :: "KakaoAction option \<Rightarrow> bool" where
  "canon_ptr p \<longleftrightarrow> (case p of None \<Rightarrow> True | Some a \<Rightarrow> canon_action a)"

definition canon_contexts :: "json list option \<Rightarrow> bool" where
  "canon_contexts p \<longleftrightarrow> (case p of None \<Rightarrow> True | Some xs \<Rightarrow> any_list xs = xs)"

lemma decode_ptr_canon:
  assumes "decode_ptr \<lparr>ka_ID = [], ka_Name = [], ka_Params = None, ka_DetailParams = None, ka_ClientExtra = None\<rparr>
      decode_action v p = Some p'" "canon_ptr p"
  shows "canon_ptr p'"
proof -
  have "canon_action (case p of None \<Rightarrow> \<lparr>ka_ID = [], ka_Name = [], ka_Params = None, ka_DetailParams = None,
      ka_ClientExtra = None\<rparr> | Some x \<Rightarrow> x)"
    using assms(2) by (auto simp: canon_ptr_def canon_action_def canon_any_def canon_strings_def split: option.split)
  from decode_action_canon[OF _ this, of v] assms(1) show ?thesis
    by (auto simp: decode_ptr_def canon_ptr_def split: json.splits)
qed

lemma decode_contexts_canon: "decode_any_list v p = Some p' \<Longrightarrow> canon_contexts p'"
  by (auto simp: decode_any_list_def canon_contexts_def any_canon(3) split: json.splits)

definition canon_request :: "KakaoWebhookRequest \<Rightarrow> bool" where
  "canon_request r \<longleftrightarrow> canon_user_request (kw_UserRequest r) \<and> canon_ptr (kw_Action r) \<and> canon_contexts (kw_Contexts r)"

lemma decode_webhook_canon:
  assumes "decode_webhook j = Some r"
  shows "canon_request r"
proof -
  have "canon_request zero_webhook"
    by (simp add: canon_request_def canon_user_request_def canon_ptr_def canon_contexts_def zero_webhook_def
        zero_user_def canon_any_def canon_strings_def)
  with assms show ?thesis unfolding decode_webhook_def
    by (rule decode_struct_inv)
       (auto simp: field_def canon_request_def dest: decode_ptr_canon decode_contexts_canon decode_user_request_canon)
qed



section \<open>Decoding what was encoded\<close>

text \<open>Empty maps and lists are left out by the encoding, so they come back as nil.\<close>

definition tidy_list :: "'a list option \<Rightarrow> 'a list option" where
  "tidy_list p = (if p = Some [] then None else p)"

definition tidy_user :: "KakaoUser \<Rightarrow> KakaoUser" where
  "tidy_user u = u\<lparr>ku_Properties := tidy_list (ku_Properties u)\<rparr>"

definition tidy_user_request :: "KakaoUserRequest \<Rightarrow> KakaoUserRequest" where
  "tidy_user_request r = r\<lparr>kr_User := tidy_user (kr_User r), kr_Params := tidy_list (kr_Params r)\<rparr>"

definition tidy_action :: "KakaoAction \<Rightarrow> KakaoAction" where
  "tidy_action a = a\<lparr>ka_Params := tidy_list (ka_Params a), ka_DetailParams := tidy_list (ka_DetailParams a),
     ka_ClientExtra := tidy_list (ka_ClientExtra a)\<rparr>"

definition tidy :: "KakaoWebhookRequest \<Rightarrow> KakaoWebhookRequest" where
  "tidy r = r\<lparr>kw_UserRequest := tidy_user_request (kw_UserRequest r), kw_Action := map_option tidy_action (kw_Action r),
     kw_Contexts := tidy_list (kw_Contexts r)\<rparr>"

lemma decode_members_append:
  "decode_members fds (xs @ ys) a =
     (case decode_members fds xs a of None \<Rightarrow> None | Some b \<Rightarrow> decode_members fds ys b)"
  by (induction fds xs a rule: decode_members.induct) (auto split: option.splits)

lemma decode_omit_string:
  assumes "find_field fds k = Some (field get put decode_string)" "s = [] \<Longrightarrow> put s a = a"
  shows "decode_members fds (omit_string k s) a = Some (put s a)"
  using assms by (simp add: omit_string_def field_def decode_string_def)

lemma decode_omit_any_map:
  assumes "find_field fds k = Some (field get put decode_any_map)" "get a = None" "put None a = a" "canon_any p"
  shows "decode_members fds (omit_any_map k p) a = Some (put (tidy_list p) a)"
  using assms by (auto simp: omit_any_map_def field_def decode_any_map_def tidy_list_def canon_any_def any_members_id
      split: option.split)

lemma decode_omit_string_map:
  assumes "find_field fds k = Some (field get put decode_string_map)" "get a = None" "put None a = a" "canon_strings p"
  shows "decode_members fds (omit_string_map k p) a = Some (put (tidy_list p) a)"
  using assms put_strings_id[of "[]"]
  by (auto simp: omit_string_map_def string_map_def field_def decode_string_map_def tidy_list_def canon_strings_def
      split: option.split)

lemma decode_omit_ptr:
  assumes "find_field fds k = Some (field get put (decode_ptr zero d))" "get a = None" "put None a = a"
    and "\<And>x. p = Some x \<Longrightarrow> enc x \<noteq> JNull \<and> d (enc x) zero = Some (f x)"
  shows "decode_members fds (omit_ptr k enc p) a = Some (put (map_option f p) a)"
  using assms(1-3) assms(4) by (cases p) (auto simp: omit_ptr_def field_def decode_ptr_def split: json.split)

lemmas decode_omit = decode_omit_string decode_omit_any_map decode_omit_string_map decode_omit_ptr

lemma decode_encode_user:
  "canon_any (ku_Properties u) \<Longrightarrow> decode_user (encode_user u) zero_user = Some (tidy_user u)"
  by (simp add: decode_user_def encode_user_def decode_struct_def decode_members_append find_field_def
      decode_omit_string[where get = ku_Type and put = "\<lambda>x a. a\<lparr>ku_Type := x\<rparr>"]
      decode_omit_any_map[where get = ku_Properties and put = "\<lambda>x a. a\<lparr>ku_Properties := x\<rparr>"]
      field_def[of ku_ID] decode_string_def zero_user_def tidy_user_def)

lemma decode_encode_block: "decode_block (encode_block b) \<lparr>kb_ID = [], kb_Name = []\<rparr> = Some b"
  by (simp add: decode_block_def encode_block_def decode_struct_def find_field_def field_def decode_string_def)

lemma decode_encode_intent: "decode_intent (encode_intent i) \<lparr>ki_ID = [], ki_Name = []\<rparr> = Some i"
  by (simp add: decode_intent_def encode_intent_def decode_struct_def find_field_def field_def decode_string_def)

lemma decode_encode_bot: "decode_bot (encode_bot b) \<lparr>bot_ID = [], bot_Name = []\<rparr> = Some b"
  by (simp add: decode_bot_def encode_bot_def decode_struct_def find_field_def field_def decode_string_def omit_string_def)


lemma encode_not_null [simp]:
  "encode_user u \<noteq> JNull" "encode_block b \<noteq> JNull" "encode_user_request r \<noteq> JNull" "encode_bot bt \<noteq> JNull"
  "encode_intent i \<noteq> JNull" "encode_action a \<noteq> JNull"
  by (simp_all add: encode_user_def encode_block_def encode_user_request_def encode_bot_def encode_intent_def
      encode_action_def)

definition zero_user_request :: KakaoUserRequest where
  "zero_user_request = \<lparr>kr_User = zero_user, kr_Utterance = [], kr_CallbackURL = [], kr_Params = None, kr_Block = None\<rparr>"

definition zero_action :: KakaoAction where
  "zero_action = \<lparr>ka_ID = [], ka_Name = [], ka_Params = None, ka_DetailParams = None, ka_ClientExtra = None\<rparr>"

lemma decode_encode_user_request:
  assumes "canon_user_request r"
  shows "decode_user_request (encode_user_request r) zero_user_request = Some (tidy_user_request r)"
proof -
  have "canon_any (ku_Properties (kr_User r))" "canon_strings (kr_Params r)"
    using assms by (simp_all add: canon_user_request_def)
  then show ?thesis
    by (simp add: decode_user_request_def encode_user_request_def decode_struct_def decode_members_append find_field_def
      decode_omit_string[where get = kr_CallbackURL and put = "\<lambda>x a. a\<lparr>kr_CallbackURL := x\<rparr>"]
      decode_omit_string_map[where get = kr_Params and put = "\<lambda>x a. a\<lparr>kr_Params := x\<rparr>"]
      decode_omit_ptr[where get = kr_Block and put = "\<lambda>x a. a\<lparr>kr_Block := x\<rparr>" and d = decode_block
        and zero = "\<lparr>kb_ID = [], kb_Name = []\<rparr>" and f = "\<lambda>b. b"]
      decode_encode_block field_def[of kr_User] field_def[of kr_Utterance]
      decode_string_def zero_user_request_def decode_encode_user tidy_user_request_def option.map_ident)
qed

lemma decode_encode_action:
  assumes "canon_action a"
  shows "decode_action (encode_action a) zero_action = Some (tidy_action a)"
proof -
  have "canon_strings (ka_Params a)" "canon_any (ka_DetailParams a)" "canon_any (ka_ClientExtra a)"
    using assms by (simp_all add: canon_action_def)
  then show ?thesis
    by (simp add: decode_action_def encode_action_def decode_struct_def decode_members_append find_field_def
      decode_omit_string_map[where get = ka_Params and put = "\<lambda>x a. a\<lparr>ka_Params := x\<rparr>"]
      decode_omit_any_map[where get = ka_DetailParams and put = "\<lambda>x a. a\<lparr>ka_DetailParams := x\<rparr>"]
      decode_omit_any_map[where get = ka_ClientExtra and put = "\<lambda>x a. a\<lparr>ka_ClientExtra := x\<rparr>"]
      field_def[of ka_ID] field_def[of ka_Name] decode_string_def zero_action_def tidy_action_def)
qed


lemma decode_encode_webhook:
  assumes "canon_request r"
  shows "decode_webhook (ToJSON r) = Some (tidy r)"
proof -
  have u: "canon_user_request (kw_UserRequest r)" and a: "\<And>x. kw_Action r = Some x \<Longrightarrow> canon_action x"
    and xs: "\<And>xs. kw_Contexts r = Some xs \<Longrightarrow> any_list xs = xs"
    using assms by (auto simp: canon_request_def canon_ptr_def canon_contexts_def)
  define contexts where "contexts = (case kw_Contexts r of None \<Rightarrow> [] | Some xs \<Rightarrow> if xs = [] then [] else [(''contexts'', JArr xs)])"
  have z: "zero_webhook = \<lparr>kw_UserRequest = zero_user_request, kw_Bot = None, kw_Intent = None, kw_Action = None, kw_Contexts = None\<rparr>"
    by (simp add: zero_webhook_def zero_user_request_def)
  have c: "decode_members fds contexts b = Some (b\<lparr>kw_Contexts := tidy_list (kw_Contexts r)\<rparr>)"
    if "find_field fds ''contexts'' = Some (field kw_Contexts (\<lambda>x a. a\<lparr>kw_Contexts := x\<rparr>) decode_any_list)"
      "kw_Contexts b = None" for fds b
    using that xs by (cases "kw_Contexts r") (auto simp: contexts_def field_def decode_any_list_def tidy_list_def)
  have "decode_webhook (JObj ([(''userRequest'', encode_user_request (kw_UserRequest r))]
     @ omit_ptr ''bot'' encode_bot (kw_Bot r) @ omit_ptr ''intent'' encode_intent (kw_Intent r)
     @ omit_ptr ''action'' encode_action (kw_Action r) @ contexts)) = Some (tidy r)"
    using u a unfolding decode_webhook_def z
    by (simp add: decode_struct_def decode_members_append find_field_def c
        decode_omit_ptr[where get = kw_Bot and put = "\<lambda>x a. a\<lparr>kw_Bot := x\<rparr>" and d = decode_bot
          and zero = "\<lparr>bot_ID = [], bot_Name = []\<rparr>" and f = "\<lambda>b. b"]
        decode_omit_ptr[where get = kw_Intent and put = "\<lambda>x a. a\<lparr>kw_Intent := x\<rparr>" and d = decode_intent
          and zero = "\<lparr>ki_ID = [], ki_Name = []\<rparr>" and f = "\<lambda>b. b"]
        decode_omit_ptr[where get = kw_Action and put = "\<lambda>x a. a\<lparr>kw_Action := x\<rparr>" and d = decode_action
          and zero = zero_action and f = tidy_action, unfolded zero_action_def]
        field_def[of kw_UserRequest] decode_encode_user_request decode_encode_bot decode_encode_intent
        decode_encode_action[unfolded zero_action_def] option.map_ident tidy_def)
  then show ?thesis by (simp add: ToJSON_def contexts_def)
qed


section \<open>Properties\<close>

lemma tidy_keys: "GetPlusfriendUserKey (tidy r) = GetPlusfriendUserKey r" "GetChannelID (tidy r) = GetChannelID r"
  by (auto simp: GetPlusfriendUserKey_def GetChannelID_def tidy_def tidy_user_request_def tidy_user_def tidy_list_def
      Let_def split: option.split json.split)

text \<open>
  C21. The stored payload is the request. Whatever body a webhook call carried, with members missing,
  repeated, unknown or spelled in other cases: decoding the payload that is stored and sent to the
  agent gives the decoded request back, up to empty maps and lists, which come back as nil; so
  channel, user key, utterance and callback URL are the ones the relay worked with.
\<close>

theorem payload_roundtrip:
  assumes "decode_webhook j = Some r"
  shows "decode_webhook (ToJSON r) = Some (tidy r)
    \<and> GetPlusfriendUserKey (tidy r) = GetPlusfriendUserKey r \<and> GetChannelID (tidy r) = GetChannelID r
    \<and> kr_Utterance (kw_UserRequest (tidy r)) = kr_Utterance (kw_UserRequest r)
    \<and> kr_CallbackURL (kw_UserRequest (tidy r)) = kr_CallbackURL (kw_UserRequest r)"
  using decode_encode_webhook[OF decode_webhook_canon[OF assms]]
  by (simp add: tidy_keys) (simp add: tidy_def tidy_user_request_def)

theorem payload_roundtrip_witness:
  "\<exists>r. decode_webhook (JObj [(''userrequest'', JObj [(''Utterance'', JStr ''hi''), (''other'', JInt 1),
       (''user'', JObj [(''id'', JStr ''u''), (''properties'', JObj [(''b'', JInt 2), (''a'', JNull), (''b'', JInt 1)])])])]) = Some r
     \<and> decode_webhook (ToJSON r) = Some r"
proof -
  define r where "r = zero_webhook\<lparr>kw_UserRequest := zero_user_request\<lparr>kr_Utterance := ''hi'',
      kr_User := \<lparr>ku_ID = ''u'', ku_Type = [], ku_Properties = Some [(''a'', JNull), (''b'', JInt 1)]\<rparr>\<rparr>\<rparr>"
  have d: "decode_webhook (JObj [(''userrequest'', JObj [(''Utterance'', JStr ''hi''), (''other'', JInt 1),
       (''user'', JObj [(''id'', JStr ''u''), (''properties'', JObj [(''b'', JInt 2), (''a'', JNull), (''b'', JInt 1)])])])]) = Some r"
    unfolding r_def by code_simp
  have "tidy r = r"
    by (simp add: r_def tidy_def tidy_user_request_def tidy_user_def tidy_list_def zero_webhook_def zero_user_request_def)
  with d payload_roundtrip[OF d] show ?thesis by auto
qed

end
