(* ===== verification/Encryption.thy ===== *)
theory Encryption
  imports Crypto
begin

text \<open>
  internal/util/encryption.go over a model of crypto/aes, crypto/cipher (GCM with a nonce of 12
  bytes and a tag of 16) and encoding/base64 that computes. Bytes are words of 8 bits, a block is a
  list of 16 of them.
\<close>

section \<open>Bytes\<close>

type_synonym w8 = "8 word"

definition bytes :: "string \<Rightarrow> w8 list" where
  "bytes s = map (\<lambda>c. word_of_nat (byte c)) s"

definition chars :: "w8 list \<Rightarrow> string" where
  "chars bs = map (\<lambda>b. char_of (unat b)) bs"

definition xor_bytes :: "w8 list \<Rightarrow> w8 list \<Rightarrow> w8 list" where
  "xor_bytes xs ys = map2 (XOR) xs ys"

lemma chars_bytes [simp]: "chars (bytes s) = s"
proof -
  have "char_of (unat (word_of_nat (byte c) :: w8)) = c" for c
    by (simp add: unat_of_nat)
  then show ?thesis by (simp add: bytes_def chars_def comp_def)
qed

lemma bytes_chars [simp]: "bytes (chars bs) = bs"
proof -
  have "word_of_nat (byte (char_of (unat b))) = b" for b :: w8
    using unsigned_less[of b, where 'a = nat] by (simp add: byte_char_of_small)
  then show ?thesis by (simp add: bytes_def chars_def comp_def)
qed

lemma length_bytes [simp]: "length (bytes s) = length s" "length (chars bs) = length bs"
  by (simp_all add: bytes_def chars_def)

lemma bytes_append [simp]: "bytes (s @ t) = bytes s @ bytes t"
  by (simp add: bytes_def)

lemma bytes_take_drop: "bytes (take n s) = take n (bytes s)" "bytes (drop n s) = drop n (bytes s)"
  by (simp_all add: bytes_def take_map drop_map)

lemma length_xor_bytes [simp]: "length (xor_bytes xs ys) = min (length xs) (length ys)"
  by (simp add: xor_bytes_def)

lemma xor_bytes_twice: "length xs \<le> length ks \<Longrightarrow> xor_bytes (xor_bytes xs ks) ks = xs"
proof (induction xs arbitrary: ks)
  case (Cons x xs)
  then obtain k ks' where "ks = k # ks'" by (cases ks) auto
  with Cons show ?case by (simp add: xor_bytes_def xor.assoc)
qed (simp add: xor_bytes_def)


section \<open>encoding/base64\<close>

definition b64_alphabet :: string where
  "b64_alphabet = ''ABCDEFGHIJKLMNOPQRSTUVWXYZabcdefghijklmnopqrstuvwxyz0123456789+/''"

definition b64_value :: "char \<Rightarrow> nat option" where
  "b64_value c =
     (let i = length (takeWhile (\<lambda>d. d \<noteq> c) b64_alphabet) in if i < 64 then Some i else None)"

definition b64_char :: "nat \<Rightarrow> char" where
  "b64_char n = b64_alphabet ! n"

fun b64_encode :: "string \<Rightarrow> string" where
  "b64_encode [] = []"
| "b64_encode [a] = [b64_char (byte a div 4), b64_char (byte a mod 4 * 16), CHR ''='', CHR ''='']"
| "b64_encode [a, b] =
     [b64_char (byte a div 4), b64_char (byte a mod 4 * 16 + byte b div 16), b64_char (byte b mod 16 * 4), CHR ''='']"
| "b64_encode (a # b # c # rest) =
     b64_char (byte a div 4) # b64_char (byte a mod 4 * 16 + byte b div 16)
     # b64_char (byte b mod 16 * 4 + byte c div 64) # b64_char (byte c mod 64) # b64_encode rest"

text \<open>Quanta of four characters; padding only in the last one. Unused low bits are ignored.\<close>

fun b64_quanta :: "string \<Rightarrow> string option" where
  "b64_quanta [] = Some []"
| "b64_quanta (c0 # c1 # c2 # c3 # rest) =
     (case (b64_value c0, b64_value c1) of
        (Some v0, Some v1) \<Rightarrow>
          (let b0 = char_of (v0 * 4 + v1 div 16)
           in if c2 = CHR ''='' then (if c3 = CHR ''='' \<and> rest = [] then Some [b0] else None)
              else (case b64_value c2 of
                      None \<Rightarrow> None
                    | Some v2 \<Rightarrow>
                        (let b1 = char_of (v1 mod 16 * 16 + v2 div 4)
                         in if c3 = CHR ''='' then (if rest = [] then Some [b0, b1] else None)
                            else (case (b64_value c3, b64_quanta rest) of
                                    (Some v3, Some bs) \<Rightarrow> Some (b0 # b1 # char_of (v2 mod 4 * 64 + v3) # bs)
                                  | _ \<Rightarrow> None))))
      | _ \<Rightarrow> None)"
| "b64_quanta _ = None"

text \<open>DecodeString skips line breaks wherever they stand.\<close>

definition b64_decode :: "string \<Rightarrow> string option" where
  "b64_decode s = b64_quanta (filter (\<lambda>c. c \<noteq> CHR 0x0A \<and> c \<noteq> CHR 0x0D) s)"

definition b64_char_ok :: "nat \<Rightarrow> bool" where
  "b64_char_ok n \<longleftrightarrow> b64_value (b64_char n) = Some n \<and> b64_char n \<noteq> CHR ''=''
     \<and> b64_char n \<noteq> CHR 0x0A \<and> b64_char n \<noteq> CHR 0x0D"

lemma b64_table: "list_all b64_char_ok [0..<64]"
  by code_simp

lemma b64_char:
  assumes "n < 64"
  shows "b64_value (b64_char n) = Some n" "b64_char n \<noteq> CHR ''=''" "b64_char n \<noteq> CHR 0x0A" "b64_char n \<noteq> CHR 0x0D"
  using b64_table assms by (auto simp: list_all_iff b64_char_ok_def)

lemma byte_parts:
  "byte a div 4 < 64" "byte a mod 4 * 16 < 64" "byte a mod 4 * 16 + byte b div 16 < 64" "byte b mod 16 * 4 < 64"
  "byte b mod 16 * 4 + byte c div 64 < 64" "byte c mod 64 < 64"
  using byte_less_256[of a] byte_less_256[of b] byte_less_256[of c] by linarith+

lemma b64_encode_chars: "\<forall>c \<in> set (b64_encode s). c \<noteq> CHR 0x0A \<and> c \<noteq> CHR 0x0D"
  by (induction s rule: b64_encode.induct) (auto simp: b64_char byte_parts)

lemma byte_high:
  "byte b div 16 div 16 = 0" "byte b div 16 mod 16 = byte b div 16"
  "byte c div 64 div 4 = 0" "byte c div 64 mod 4 = byte c div 64"
  using byte_less_256[of b] byte_less_256[of c] by (simp_all add: less_mult_imp_div_less)

lemma b64_quanta_encode: "b64_quanta (b64_encode s) = Some s"
proof (induction s rule: b64_encode.induct)
  case (2 a)
  then show ?case by (simp add: b64_char byte_parts Let_def)
next
  case (3 a b)
  then show ?case by (simp add: b64_char byte_parts Let_def byte_high)
next
  case (4 a b c rest)
  then show ?case by (simp add: b64_char byte_parts Let_def byte_high)
qed simp

lemma b64_roundtrip: "b64_decode (b64_encode s) = Some s"
  using b64_encode_chars[of s] b64_quanta_encode[of s] by (simp add: b64_decode_def filter_id_conv)


section \<open>crypto/aes\<close>

text \<open>
  Bytes as polynomials over GF(2), modulo x^8 + x^4 + x^3 + x + 1. The substitution box is
  computed: the inverse of the byte (its power 254), then the affine map.
\<close>

definition xtime :: "w8 \<Rightarrow> w8" where
  "xtime b = (push_bit 1 b) XOR (if bit b 7 then 0x1B else 0)"

fun gf_mul_bits :: "nat \<Rightarrow> w8 \<Rightarrow> w8 \<Rightarrow> w8" where
  "gf_mul_bits 0 a b = 0"
| "gf_mul_bits (Suc n) a b =
     (if bit b 0 then a else 0) XOR gf_mul_bits n (xtime a) (drop_bit 1 b)"

definition gf_mul :: "w8 \<Rightarrow> w8 \<Rightarrow> w8" where
  "gf_mul a b = gf_mul_bits 8 a b"

definition gf_inverse :: "w8 \<Rightarrow> w8" where
  "gf_inverse a =
     (let a2 = gf_mul a a; a4 = gf_mul a2 a2; a8 = gf_mul a4 a4; a16 = gf_mul a8 a8;
          a32 = gf_mul a16 a16; a64 = gf_mul a32 a32; a128 = gf_mul a64 a64
      in fold gf_mul [a4, a8, a16, a32, a64, a128] a2)"

definition sub_byte :: "w8 \<Rightarrow> w8" where
  "sub_byte a =
     (let i = gf_inverse a
      in i XOR word_rotl 1 i XOR word_rotl 2 i XOR word_rotl 3 i XOR word_rotl 4 i XOR 0x63)"

text \<open>
  The key schedule for a key of 32 bytes: 60 words of 4 bytes, kept with the newest first. The
  arguments are the number of the word to be made and the round constant.
\<close>

definition next_key_word :: "nat \<Rightarrow> w8 \<Rightarrow> w8 list list \<Rightarrow> w8 list" where
  "next_key_word i rcon ws =
     (let temp = ws ! 0;
          temp' = (if i mod 8 = 0 then xor_bytes (map sub_byte (rotate1 temp)) [rcon, 0, 0, 0]
                   else if i mod 8 = 4 then map sub_byte temp
                   else temp)
      in xor_bytes (ws ! 7) temp')"

fun expand_key :: "nat \<Rightarrow> nat \<Rightarrow> w8 \<Rightarrow> w8 list list \<Rightarrow> w8 list list" where
  "expand_key 0 i rcon ws = ws"
| "expand_key (Suc n) i rcon ws =
     expand_key n (Suc i) (if i mod 8 = 0 then xtime rcon else rcon) (next_key_word i rcon ws # ws)"

fun chunks :: "nat \<Rightarrow> nat \<Rightarrow> 'a list \<Rightarrow> 'a list list" where
  "chunks 0 k xs = []"
| "chunks (Suc n) k xs = take k xs # chunks n k (drop k xs)"

definition round_keys :: "w8 list \<Rightarrow> w8 list list" where
  "round_keys key = chunks 15 16 (concat (rev (expand_key 52 8 1 (rev (chunks 8 4 key)))))"

text \<open>A block is read column by column: row r of column c is byte 4 c + r.\<close>

definition shift_rows :: "w8 list \<Rightarrow> w8 list" where
  "shift_rows s = map (\<lambda>i. s ! (5 * i mod 16)) [0..<16]"

fun mix_columns :: "w8 list \<Rightarrow> w8 list" where
  "mix_columns (a # b # c # d # rest) =
     (xtime a XOR (xtime b XOR b) XOR c XOR d)
     # (a XOR xtime b XOR (xtime c XOR c) XOR d)
     # (a XOR b XOR xtime c XOR (xtime d XOR d))
     # ((xtime a XOR a) XOR b XOR c XOR xtime d)
     # mix_columns rest"
| "mix_columns _ = []"

fun aes_rounds :: "w8 list list \<Rightarrow> w8 list \<Rightarrow> w8 list" where
  "aes_rounds [] s = s"
| "aes_rounds [k] s = xor_bytes (shift_rows (map sub_byte s)) k"
| "aes_rounds (k # ks) s = aes_rounds ks (xor_bytes (mix_columns (shift_rows (map sub_byte s))) k)"

definition aes_encrypt :: "w8 list list \<Rightarrow> w8 list \<Rightarrow> w8 list" where
  "aes_encrypt keys block = aes_rounds (tl keys) (xor_bytes block (hd keys))"


section \<open>crypto/cipher: Galois counter mode\<close>

type_synonym w128 = "128 word"

definition block_of :: "w8 list \<Rightarrow> w128" where
  "block_of bs = fold (\<lambda>b acc. push_bit 8 acc OR ucast b) bs 0"

definition bytes_of_block :: "w128 \<Rightarrow> w8 list" where
  "bytes_of_block w = map (\<lambda>i. ucast (drop_bit (120 - 8 * i) w)) [0..<16]"

text \<open>Multiplication in GF(2^128), the first bit of a block being the coefficient of x^0.\<close>

fun ghash_mul_bits :: "nat \<Rightarrow> w128 \<Rightarrow> w128 \<Rightarrow> w128 \<Rightarrow> w128" where
  "ghash_mul_bits 0 x v z = z"
| "ghash_mul_bits (Suc n) x v z =
     ghash_mul_bits n x (if bit v 0 then drop_bit 1 v XOR push_bit 120 0xE1 else drop_bit 1 v)
       (if bit x n then z XOR v else z)"

definition ghash_mul :: "w128 \<Rightarrow> w128 \<Rightarrow> w128" where
  "ghash_mul x y = ghash_mul_bits 128 x y 0"

definition blocks_needed :: "nat \<Rightarrow> nat" where
  "blocks_needed n = (n + 15) div 16"

definition pad_block :: "w8 list \<Rightarrow> w8 list" where
  "pad_block bs = take 16 (bs @ replicate 16 0)"

definition ghash :: "w128 \<Rightarrow> w8 list \<Rightarrow> w128" where
  "ghash h text =
     (let step = (\<lambda>b y. ghash_mul (y XOR b) h);
          y = fold (\<lambda>b. step (block_of (pad_block b))) (chunks (blocks_needed (length text)) 16 text) 0
      in step (word_of_nat (8 * length text)) y)"

definition counter_block :: "w8 list \<Rightarrow> nat \<Rightarrow> w8 list" where
  "counter_block nonce n = nonce @ map (\<lambda>i. ucast (drop_bit (8 * i) (word_of_nat n :: w32))) [3, 2, 1, 0]"

definition key_stream :: "w8 list list \<Rightarrow> w8 list \<Rightarrow> nat \<Rightarrow> w8 list" where
  "key_stream keys nonce n =
     concat (map (\<lambda>i. aes_encrypt keys (counter_block nonce (i + 2))) [0..<blocks_needed n])"

definition gcm_tag :: "w8 list list \<Rightarrow> w8 list \<Rightarrow> w8 list \<Rightarrow> w8 list" where
  "gcm_tag keys nonce text =
     xor_bytes (bytes_of_block (ghash (block_of (aes_encrypt keys (replicate 16 0))) text))
       (aes_encrypt keys (counter_block nonce 1))"

definition gcm_limit :: int where
  "gcm_limit = (2 ^ 32 - 2) * 16"

text \<open>
  Seal appends to its first argument; \<^const>\<open>None\<close> is its panic on a text that is too
  large. Open compares the tags in constant time and gives \<^const>\<open>None\<close> for its error.
\<close>

definition Seal :: "w8 list list \<Rightarrow> w8 list \<Rightarrow> w8 list \<Rightarrow> w8 list \<Rightarrow> w8 list option" where
  "Seal keys dst nonce plaintext =
     (if gcm_limit < int (length plaintext) then None
      else (let c = xor_bytes plaintext (key_stream keys nonce (length plaintext))
            in Some (dst @ c @ gcm_tag keys nonce c)))"

definition Open :: "w8 list list \<Rightarrow> w8 list \<Rightarrow> w8 list \<Rightarrow> w8 list option" where
  "Open keys nonce ciphertext =
     (if length ciphertext < 16 then None
      else if gcm_limit + 16 < int (length ciphertext) then None
      else (let n = length ciphertext - 16; c = take n ciphertext; tag = drop n ciphertext
            in if ConstantTimeEqual (chars (gcm_tag keys nonce c)) (chars tag)
               then Some (xor_bytes c (key_stream keys nonce n)) else None))"


section \<open>Lengths\<close>

lemma length_mix_columns: "4 dvd length s \<Longrightarrow> length (mix_columns s) = length s"
proof (induction s rule: mix_columns.induct)
  case (1 a b c d rest)
  then have "4 dvd Suc (Suc (Suc (Suc (length rest))))" by simp
  then have "4 dvd length rest" by presburger
  with 1 show ?case by simp
qed (simp_all, presburger+)

lemma length_aes_rounds:
  "list_all (\<lambda>k. length k = 16) ks \<Longrightarrow> length s = 16 \<Longrightarrow> length (aes_rounds ks s) = 16"
  by (induction ks s rule: aes_rounds.induct) (simp_all add: length_mix_columns shift_rows_def)

lemma length_aes_encrypt:
  assumes "list_all (\<lambda>k. length k = 16) keys" "keys \<noteq> []" "length block = 16"
  shows "length (aes_encrypt keys block) = 16"
  using assms by (cases keys) (simp_all add: aes_encrypt_def length_aes_rounds)

lemma length_expand_key:
  "length (expand_key n i r ws) = n + length ws"
  by (induction n i r ws rule: expand_key.induct) simp_all

lemma expand_key_words:
  "list_all (\<lambda>w. length w = 4) ws \<Longrightarrow> 8 \<le> length ws
   \<Longrightarrow> list_all (\<lambda>w. length w = 4) (expand_key n i r ws)"
proof (induction n i r ws rule: expand_key.induct)
  case (2 n i rcon ws)
  have "ws ! 0 \<in> set ws" "ws ! 7 \<in> set ws"
    using 2(3) by (auto intro!: nth_mem)
  then have "length (ws ! 0) = 4" "length (ws ! 7) = 4"
    using 2(2) by (simp_all add: list_all_iff)
  then have "length (next_key_word i rcon ws) = 4"
    by (simp add: next_key_word_def Let_def)
  with 2 show ?case by simp
qed simp

lemma chunks_lengths:
  "n * k \<le> length xs \<Longrightarrow> list_all (\<lambda>c. length c = k) (chunks n k xs) \<and> length (chunks n k xs) = n"
  by (induction n k xs rule: chunks.induct) simp_all

lemma round_keys_blocks:
  assumes "length key = 32"
  shows "list_all (\<lambda>k. length k = 16) (round_keys key)" "round_keys key \<noteq> []"
proof -
  define ws where "ws = rev (expand_key 52 8 1 (rev (chunks 8 4 key)))"
  have init: "list_all (\<lambda>w. length w = 4) (chunks 8 4 key)" "length (chunks 8 4 key) = 8"
    using chunks_lengths[of 8 4 key] assms by simp_all
  have ws: "list_all (\<lambda>w. length w = 4) ws" "length ws = 60"
    using init by (simp_all add: ws_def expand_key_words length_expand_key)
  have "map length ws = replicate 60 4"
    using ws by (intro replicate_eqI) (auto simp: list_all_iff)
  then have "length (concat ws) = 240"
    by (simp add: length_concat sum_list_replicate)
  then show "list_all (\<lambda>k. length k = 16) (round_keys key)" "round_keys key \<noteq> []"
    using chunks_lengths[of 15 16 "concat ws"] by (auto simp: round_keys_def ws_def)
qed

lemma length_counter_block [simp]: "length (counter_block nonce n) = length nonce + 4"
  by (simp add: counter_block_def)

lemma length_bytes_of_block [simp]: "length (bytes_of_block w) = 16"
  by (simp add: bytes_of_block_def)

lemma blocks_needed: "n \<le> 16 * blocks_needed n"
  unfolding blocks_needed_def by linarith

lemma length_key_stream:
  assumes "length key = 32" "length nonce = 12"
  shows "length (key_stream (round_keys key) nonce n) = 16 * blocks_needed n"
  using assms
  by (simp add: key_stream_def length_concat comp_def length_aes_encrypt round_keys_blocks sum_list_triv)

lemma length_gcm_tag:
  assumes "length key = 32" "length nonce = 12"
  shows "length (gcm_tag (round_keys key) nonce c) = 16"
  using assms by (simp add: gcm_tag_def length_aes_encrypt round_keys_blocks)


section \<open>Open and Seal\<close>

lemma chars_inject: "chars a = chars b \<longleftrightarrow> a = b"
  by (metis bytes_chars)

lemma bytes_inject: "bytes a = bytes b \<longleftrightarrow> a = b"
  by (metis chars_bytes)

text \<open>Open accepts exactly what Seal makes, and gives back the text that was sealed.\<close>

lemma Open_iff_Seal:
  assumes "length key = 32" "length nonce = 12"
  shows "Open (round_keys key) nonce c = Some p \<longleftrightarrow> Seal (round_keys key) [] nonce p = Some c"
proof -
  let ?ks = "\<lambda>n. key_stream (round_keys key) nonce n"
  let ?tag = "gcm_tag (round_keys key) nonce"
  have ks: "n \<le> length (?ks n)" for n
    using length_key_stream[OF assms] blocks_needed by simp
  have tag: "length (?tag t) = 16" for t
    by (rule length_gcm_tag[OF assms])
  show ?thesis
  proof
    assume "Open (round_keys key) nonce c = Some p"
    then have len: "16 \<le> length c" "int (length c) \<le> gcm_limit + 16"
      and t: "?tag (take (length c - 16) c) = drop (length c - 16) c"
      and p: "p = xor_bytes (take (length c - 16) c) (?ks (length c - 16))"
      by (auto simp: Open_def Let_def ConstantTimeEqual_iff chars_inject split: if_splits)
    have lp: "length p = length c - 16"
      using p ks[of "length c - 16"] by simp
    have "xor_bytes p (?ks (length p)) = take (length c - 16) c"
      unfolding lp unfolding p using ks[of "length c - 16"] by (simp add: xor_bytes_twice)
    then show "Seal (round_keys key) [] nonce p = Some c"
      using lp len t by (simp add: Seal_def Let_def)
  next
    assume "Seal (round_keys key) [] nonce p = Some c"
    then have len: "int (length p) \<le> gcm_limit"
      and c: "c = xor_bytes p (?ks (length p)) @ ?tag (xor_bytes p (?ks (length p)))"
      by (auto simp: Seal_def Let_def split: if_splits)
    have lc: "length c = length p + 16"
      using c ks[of "length p"] tag by simp
    have "take (length p) c = xor_bytes p (?ks (length p))"
      "drop (length p) c = ?tag (xor_bytes p (?ks (length p)))"
      using c ks[of "length p"] by simp_all
    then show "Open (round_keys key) nonce c = Some p"
      using lc len ks[of "length p"]
      by (simp add: Open_def Let_def ConstantTimeEqual_iff xor_bytes_twice)
  qed
qed

lemma chars_append: "chars (a @ b) = chars a @ chars b"
  by (simp add: chars_def)

lemma Seal_dst: "Seal keys dst nonce p = map_option (\<lambda>c. dst @ c) (Seal keys [] nonce p)"
  by (simp add: Seal_def Let_def)


section \<open>internal/util/encryption.go\<close>

text \<open>
  The errors in the order of the code. The two calls that make the cipher and its mode cannot fail
  on a key of 32 bytes, whose length has been checked before. \<^const>\<open>None\<close> is the panic
  of Seal.
\<close>

datatype crypt_error = DecodeKey | KeySize | GenerateNonce | DecodeCiphertext | CiphertextTooShort | OpenFailed

definition nonceSize :: nat where
  "nonceSize = 12"

definition Encrypt :: "string \<Rightarrow> string \<Rightarrow> string \<Rightarrow> (crypt_error + string \<times> string) option" where
  "Encrypt hexKey plaintext entropy =
     (case hex_decode hexKey of
        None \<Rightarrow> Some (Inl DecodeKey)
      | Some key \<Rightarrow>
          if length key \<noteq> 32 then Some (Inl KeySize)
          else (case rand_Read nonceSize entropy of
                  None \<Rightarrow> Some (Inl GenerateNonce)
                | Some (nonce, rest) \<Rightarrow>
                    (case Seal (round_keys (bytes key)) (bytes nonce) (bytes nonce) (bytes plaintext) of
                       None \<Rightarrow> None
                     | Some ciphertext \<Rightarrow> Some (Inr (b64_encode (chars ciphertext), rest)))))"

definition Decrypt :: "string \<Rightarrow> string \<Rightarrow> crypt_error + string" where
  "Decrypt hexKey encoded =
     (case hex_decode hexKey of
        None \<Rightarrow> Inl DecodeKey
      | Some key \<Rightarrow>
          if length key \<noteq> 32 then Inl KeySize
          else (case b64_decode encoded of
                  None \<Rightarrow> Inl DecodeCiphertext
                | Some ciphertext \<Rightarrow>
                    if length ciphertext < nonceSize then Inl CiphertextTooShort
                    else (case Open (round_keys (bytes key)) (bytes (take nonceSize ciphertext))
                                 (bytes (drop nonceSize ciphertext)) of
                            None \<Rightarrow> Inl OpenFailed
                          | Some plaintext \<Rightarrow> Inr (chars plaintext))))"

lemma Decrypt_Inr:
  "Decrypt hexKey e = Inr p \<longleftrightarrow>
   (\<exists>key nonce c. hex_decode hexKey = Some key \<and> length key = 32 \<and> length nonce = 12
      \<and> Seal (round_keys (bytes key)) [] (bytes nonce) (bytes p) = Some c
      \<and> b64_decode e = Some (nonce @ chars c))"
proof -
  have key: "Open (round_keys (bytes key)) (bytes nonce) c = Some t
      \<longleftrightarrow> Seal (round_keys (bytes key)) [] (bytes nonce) t = Some c"
    if "length key = 32" "length nonce = 12" for key nonce c t
    using Open_iff_Seal[of "bytes key" "bytes nonce" c t] that by simp
  show ?thesis
  proof
    assume "Decrypt hexKey e = Inr p"
    then obtain key d t where d: "hex_decode hexKey = Some key" "length key = 32" "b64_decode e = Some d"
        "12 \<le> length d" "Open (round_keys (bytes key)) (bytes (take 12 d)) (bytes (drop 12 d)) = Some t"
        "p = chars t"
      by (auto simp: Decrypt_def nonceSize_def split: option.splits if_splits)
    then have "Seal (round_keys (bytes key)) [] (bytes (take 12 d)) (bytes p) = Some (bytes (drop 12 d))"
      using key[of key "take 12 d" "bytes (drop 12 d)" t] by simp
    moreover have "b64_decode e = Some (take 12 d @ chars (bytes (drop 12 d)))" "length (take 12 d) = 12"
      using d by simp_all
    ultimately show "\<exists>key nonce c. hex_decode hexKey = Some key \<and> length key = 32 \<and> length nonce = 12
      \<and> Seal (round_keys (bytes key)) [] (bytes nonce) (bytes p) = Some c
      \<and> b64_decode e = Some (nonce @ chars c)"
      using d(1,2) by blast
  next
    assume "\<exists>key nonce c. hex_decode hexKey = Some key \<and> length key = 32 \<and> length nonce = 12
      \<and> Seal (round_keys (bytes key)) [] (bytes nonce) (bytes p) = Some c
      \<and> b64_decode e = Some (nonce @ chars c)"
    then obtain key nonce c where k: "hex_decode hexKey = Some key" "length key = 32" "length nonce = 12"
        "Seal (round_keys (bytes key)) [] (bytes nonce) (bytes p) = Some c" "b64_decode e = Some (nonce @ chars c)"
      by blast
    then have "Open (round_keys (bytes key)) (bytes nonce) c = Some (bytes p)"
      using key[of key nonce c "bytes p"] by blast
    with k show "Decrypt hexKey e = Inr p"
      by (simp add: Decrypt_def nonceSize_def)
  qed
qed


lemma Encrypt_Inr:
  "Encrypt hexKey p entropy = Some (Inr (e, rest)) \<longleftrightarrow>
   (\<exists>key c. hex_decode hexKey = Some key \<and> length key = 32 \<and> 12 \<le> length entropy \<and> rest = drop 12 entropy
      \<and> Seal (round_keys (bytes key)) [] (bytes (take 12 entropy)) (bytes p) = Some c
      \<and> e = b64_encode (take 12 entropy @ chars c))"
  by (auto simp: Encrypt_def rand_Read_def nonceSize_def Seal_dst[of _ "bytes (take 12 entropy)"] chars_append
      split: option.splits if_splits)

lemma Decrypt_iff_Encrypt:
  "Decrypt hexKey e = Inr p \<longleftrightarrow>
   (\<exists>nonce c. length nonce = nonceSize \<and> Encrypt hexKey p nonce = Some (Inr (c, []))
      \<and> b64_decode e = b64_decode c)"
  unfolding Decrypt_Inr Encrypt_Inr nonceSize_def
proof
  assume "\<exists>key nonce c. hex_decode hexKey = Some key \<and> length key = 32 \<and> length nonce = 12
      \<and> Seal (round_keys (bytes key)) [] (bytes nonce) (bytes p) = Some c
      \<and> b64_decode e = Some (nonce @ chars c)"
  then obtain key nonce c where "hex_decode hexKey = Some key" "length key = 32" "length nonce = 12"
      "Seal (round_keys (bytes key)) [] (bytes nonce) (bytes p) = Some c" "b64_decode e = Some (nonce @ chars c)"
    by blast
  then show "\<exists>nonce c. length nonce = 12
      \<and> (\<exists>key ca. hex_decode hexKey = Some key \<and> length key = 32 \<and> 12 \<le> length nonce \<and> [] = drop 12 nonce
           \<and> Seal (round_keys (bytes key)) [] (bytes (take 12 nonce)) (bytes p) = Some ca
           \<and> c = b64_encode (take 12 nonce @ chars ca))
      \<and> b64_decode e = b64_decode c"
    by (intro exI[of _ nonce] exI[of _ "b64_encode (nonce @ chars c)"] exI[of _ key] exI[of _ c] conjI)
      (simp_all add: b64_roundtrip)
next
  assume "\<exists>nonce c. length nonce = 12
      \<and> (\<exists>key ca. hex_decode hexKey = Some key \<and> length key = 32 \<and> 12 \<le> length nonce \<and> [] = drop 12 nonce
           \<and> Seal (round_keys (bytes key)) [] (bytes (take 12 nonce)) (bytes p) = Some ca
           \<and> c = b64_encode (take 12 nonce @ chars ca))
      \<and> b64_decode e = b64_decode c"
  then obtain nonce key ca where "length nonce = 12" "hex_decode hexKey = Some key" "length key = 32"
      "Seal (round_keys (bytes key)) [] (bytes nonce) (bytes p) = Some ca"
      "b64_decode e = b64_decode (b64_encode (nonce @ chars ca))"
    by auto
  then show "\<exists>key nonce c. hex_decode hexKey = Some key \<and> length key = 32 \<and> length nonce = 12
      \<and> Seal (round_keys (bytes key)) [] (bytes nonce) (bytes p) = Some c
      \<and> b64_decode e = Some (nonce @ chars c)"
    by (intro exI[of _ key] exI[of _ nonce] exI[of _ ca] conjI) (simp_all add: b64_roundtrip)
qed


section \<open>Properties\<close>

text \<open>
  C40. Encryption at rest. With a key of 64 hexadecimal digits, enough entropy and a text below the
  limit of the mode, Encrypt succeeds and Decrypt gives the text back; and Decrypt accepts a text and
  returns q exactly when the text decodes to the same bytes as what Encrypt makes of q under that
  key with some nonce: everything else is refused.
\<close>

theorem encrypt_decrypt:
  assumes "hex_decode hexKey = Some key" "length key = 32"
    and "nonceSize \<le> length entropy" "int (length p) \<le> gcm_limit"
  shows "(\<exists>e. Encrypt hexKey p entropy = Some (Inr (e, drop nonceSize entropy)) \<and> Decrypt hexKey e = Inr p)
    \<and> (Decrypt hexKey d = Inr q \<longleftrightarrow>
        (\<exists>nonce c. length nonce = nonceSize \<and> Encrypt hexKey q nonce = Some (Inr (c, []))
           \<and> b64_decode d = b64_decode c))"
proof -
  obtain c where c: "Seal (round_keys (bytes key)) [] (bytes (take 12 entropy)) (bytes p) = Some c"
    using assms(4) by (simp add: Seal_def Let_def)
  have "Encrypt hexKey p entropy = Some (Inr (b64_encode (take 12 entropy @ chars c), drop 12 entropy))"
    using assms c by (simp add: Encrypt_Inr nonceSize_def)
  moreover have "Decrypt hexKey (b64_encode (take 12 entropy @ chars c)) = Inr p"
    using assms(1-3) c unfolding Decrypt_Inr nonceSize_def
    by (intro exI[of _ key] exI[of _ "take 12 entropy"] exI[of _ c] conjI) (simp_all add: b64_roundtrip)
  ultimately have "\<exists>e. Encrypt hexKey p entropy = Some (Inr (e, drop nonceSize entropy)) \<and> Decrypt hexKey e = Inr p"
    by (auto simp: nonceSize_def)
  with Decrypt_iff_Encrypt[of hexKey d q] show ?thesis by (rule conjI[rotated])
qed

theorem encrypt_decrypt_witness:
  "(\<exists>e. Encrypt (replicate 64 CHR ''0'') ''relay'' (replicate 12 CHR ''n'')
         = Some (Inr (e, drop nonceSize (replicate 12 CHR ''n'')))
     \<and> Decrypt (replicate 64 CHR ''0'') e = Inr ''relay'')
   \<and> (Decrypt (replicate 64 CHR ''0'') ''AAAA'' = Inr [] \<longleftrightarrow>
        (\<exists>nonce c. length nonce = nonceSize \<and> Encrypt (replicate 64 CHR ''0'') [] nonce = Some (Inr (c, []))
           \<and> b64_decode ''AAAA'' = b64_decode c))"
proof (rule encrypt_decrypt[of _ "replicate 32 (char_of (0::nat))"])
  have "replicate 64 CHR ''0'' = hex_encode (replicate 32 (char_of (0::nat)))"
    by code_simp
  then show "hex_decode (replicate 64 CHR ''0'') = Some (replicate 32 (char_of (0::nat)))"
    by (simp only: hex_decode_encode)
qed (simp_all add: nonceSize_def gcm_limit_def)

end
