(* ===== verification/Startup.thy ===== *)
theory Startup
  imports Server
begin

text \<open>
  The start of the process (cmd/server/main.go up to the routes, with internal/config,
  internal/database and internal/redis), the loop of the cleanup job, and the records the audit log
  writes. What the libraries answer (the parser of the environment, the drivers) is an argument.
\<close>

section \<open>Configuration, database and Redis\<close>

definition Load :: "goerror + Config \<Rightarrow> goerror + Config" where
  "Load parsed = (case parsed of Inl err \<Rightarrow> Inl (Wrapf ''failed to parse config: '' err '''') | Inr cfg \<Rightarrow> Inr cfg)"

definition DBMaxOpenConns :: int where "DBMaxOpenConns = 25"
definition DBMaxIdleConns :: int where "DBMaxIdleConns = 5"
definition DBConnMaxLifetime :: time where "DBConnMaxLifetime = 5 * minute"

record DB =
  db_URL :: string
  db_MaxOpenConns :: int
  db_MaxIdleConns :: int
  db_ConnMaxLifetime :: time

definition Connect :: "string \<Rightarrow> goerror option \<Rightarrow> goerror + DB" where
  "Connect databaseURL refused =
     (case refused of
        Some err \<Rightarrow> Inl err
      | None \<Rightarrow> Inr \<lparr>db_URL = databaseURL, db_MaxOpenConns = DBMaxOpenConns, db_MaxIdleConns = DBMaxIdleConns,
                   db_ConnMaxLifetime = DBConnMaxLifetime\<rparr>)"

text \<open>The arguments are what redis.ParseURL and the PING of the new client answer.\<close>

definition NewRedisClient :: "goerror + 'o \<Rightarrow> goerror option \<Rightarrow> goerror + 'o" where
  "NewRedisClient parsed ping =
     (case parsed of
        Inl err \<Rightarrow> Inl (Wrapf ''parse redis url: '' err '''')
      | Inr opts \<Rightarrow> (case ping of
          Some err \<Rightarrow> Inl (Wrapf ''ping redis: '' err '''')
        | None \<Rightarrow> Inr opts))"


section \<open>The start of the server\<close>

definition ServerReadTimeout :: time where "ServerReadTimeout = 15 * second"
definition ServerIdleTimeout :: time where "ServerIdleTimeout = 120 * second"
definition CleanupJobInterval :: time where "CleanupJobInterval = 5 * minute"

record HTTPServer =
  hs_Addr :: string
  hs_ReadTimeout :: time
  hs_WriteTimeout :: time
  hs_IdleTimeout :: time

text \<open>What the world outside answers during the start.\<close>

record 'o launch =
  la_Config :: "goerror + Config"
  la_K_SERVICE :: string
  la_FLY_APP_NAME :: string
  la_Connect :: "goerror option"
  la_Ping :: "goerror option"
  la_Migrate :: "goerror option"
  la_RedisURL :: "goerror + 'o"
  la_RedisPing :: "goerror option"

text \<open>
  What the start does, in order; \<open>Fatal\<close> writes its message and leaves the process at once, without
  the deferred calls.
\<close>

datatype boot_event =
    LogLevelSet log_level
  | ConfigWarned string
  | DatabaseOpened DB
  | DatabaseReady
  | SchemaReady
  | RedisReady
  | CleanupStarted time
  | Listening HTTPServer
  | Fatal string goerror

definition http_server :: "Config \<Rightarrow> HTTPServer" where
  "http_server cfg = \<lparr>hs_Addr = Addr cfg, hs_ReadTimeout = ServerReadTimeout, hs_WriteTimeout = 0,
     hs_IdleTimeout = ServerIdleTimeout\<rparr>"

text \<open>The part after the migrations, the part after the configuration, and the whole.\<close>

definition boot_redis :: "'o launch \<Rightarrow> Config \<Rightarrow> boot_event list" where
  "boot_redis l cfg =
     (case NewRedisClient (la_RedisURL l) (la_RedisPing l) of
        Inl err \<Rightarrow> [Fatal ''failed to connect to redis'' err]
      | Inr client \<Rightarrow> [RedisReady, CleanupStarted CleanupJobInterval, Listening (http_server cfg)])"

definition boot_database :: "'o launch \<Rightarrow> Config \<Rightarrow> boot_event list" where
  "boot_database l cfg =
     (case Connect (cfg_DatabaseURL cfg) (la_Connect l) of
        Inl err \<Rightarrow> [Fatal ''failed to connect to database'' err]
      | Inr d \<Rightarrow> DatabaseOpened d #
          (case la_Ping l of
             Some err \<Rightarrow> [Fatal ''failed to ping database'' err]
           | None \<Rightarrow> DatabaseReady #
               (case la_Migrate l of
                  Some err \<Rightarrow> [Fatal ''failed to run migrations'' err]
                | None \<Rightarrow> SchemaReady # boot_redis l cfg)))"

definition boot :: "'o launch \<Rightarrow> boot_event list" where
  "boot l =
     (case Load (la_Config l) of
        Inl err \<Rightarrow> [Fatal ''failed to load config'' err]
      | Inr cfg \<Rightarrow>
          (let isProduction = la_K_SERVICE l \<noteq> [] \<or> la_FLY_APP_NAME l \<noteq> [];
               (warnings, bad) = Validate isProduction cfg
           in LogLevelSet (setLogLevel (cfg_LogLevel cfg)) # map ConfigWarned warnings
              @ (case bad of
                   Some err \<Rightarrow> [Fatal ''invalid configuration'' err]
                 | None \<Rightarrow> boot_database l cfg)))"

definition is_fatal :: "boot_event \<Rightarrow> bool" where
  "is_fatal e = (case e of Fatal msg err \<Rightarrow> True | _ \<Rightarrow> False)"

lemmas boot_defs = boot_def boot_database_def boot_redis_def Load_def Connect_def NewRedisClient_def Validate_def
  Let_def is_fatal_def

text \<open>
  The start ends in exactly one of two ways: its last event is the server listening, after
  database, schema and Redis were ready, or it is the first failure, and then nothing listens.
\<close>

lemma boot_ends:
  "(\<exists>cfg pre. boot l = pre @ [RedisReady, CleanupStarted CleanupJobInterval, Listening (http_server cfg)]
      \<and> la_Config l = Inr cfg \<and> list_all (\<lambda>e. \<not> is_fatal e) pre \<and> DatabaseReady \<in> set pre \<and> SchemaReady \<in> set pre)
   \<or> (\<exists>pre msg err. boot l = pre @ [Fatal msg err] \<and> list_all (\<lambda>e. \<not> is_fatal e) pre
      \<and> (\<forall>s. Listening s \<notin> set (boot l)))"
proof (cases "la_Config l")
  case (Inl e)
  then have "boot l = [] @ [Fatal ''failed to load config'' (Wrapf ''failed to parse config: '' e '''')]"
    by (simp add: boot_def Load_def)
  moreover have "\<forall>s. Listening s \<notin> set (boot l)" using calculation by simp
  ultimately show ?thesis by (metis list.pred_inject(1))
next
  case (Inr cfg)
  define start where "start = LogLevelSet (setLogLevel (cfg_LogLevel cfg))
    # map ConfigWarned (fst (Validate (la_K_SERVICE l \<noteq> [] \<or> la_FLY_APP_NAME l \<noteq> []) cfg))"
  define d where "d = \<lparr>db_URL = cfg_DatabaseURL cfg, db_MaxOpenConns = DBMaxOpenConns, db_MaxIdleConns = DBMaxIdleConns,
     db_ConnMaxLifetime = DBConnMaxLifetime\<rparr>"
  have b: "boot l = start @ boot_database l cfg"
    using Inr by (simp add: boot_def Load_def start_def Validate_def Let_def)
  have s: "list_all (\<lambda>e. \<not> is_fatal e) start" "\<forall>s. Listening s \<notin> set start"
    by (auto simp: start_def list_all_iff is_fatal_def)
  note defs = b boot_database_def boot_redis_def Connect_def NewRedisClient_def d_def[symmetric]
  show ?thesis
  proof (cases "la_Connect l = None \<and> la_Ping l = None \<and> la_Migrate l = None \<and> isl (la_RedisURL l) = False
      \<and> la_RedisPing l = None")
    case True
    then obtain opts where "la_RedisURL l = Inr opts" by (cases "la_RedisURL l") auto
    with True s Inr show ?thesis
      by (intro disjI1 exI[of _ cfg] exI[of _ "start @ [DatabaseOpened d, DatabaseReady, SchemaReady]"])
         (simp add: defs is_fatal_def)
  next
    case False
    then show ?thesis
    proof (intro disjI2)
      obtain pre msg err where "boot_database l cfg = pre @ [Fatal msg err]" "list_all (\<lambda>e. \<not> is_fatal e) pre"
        "\<forall>s. Listening s \<notin> set (boot_database l cfg)"
      proof -
        have r: "boot_database l cfg = butlast (boot_database l cfg) @ [last (boot_database l cfg)]
            \<and> list_all (\<lambda>e. \<not> is_fatal e) (butlast (boot_database l cfg)) \<and> is_fatal (last (boot_database l cfg))
            \<and> (\<forall>s. Listening s \<notin> set (boot_database l cfg))"
          using False by (auto simp: defs is_fatal_def split: option.splits sum.splits)
        then obtain msg err where "last (boot_database l cfg) = Fatal msg err"
          by (auto simp: is_fatal_def split: boot_event.splits)
        with r show thesis by (intro that[of "butlast (boot_database l cfg)" msg err]) simp_all
      qed
      with s show "\<exists>pre msg err. boot l = pre @ [Fatal msg err] \<and> list_all (\<lambda>e. \<not> is_fatal e) pre
          \<and> (\<forall>s. Listening s \<notin> set (boot l))"
        unfolding b by (intro exI[of _ "start @ pre"] exI[of _ msg] exI[of _ err]) auto
    qed
  qed
qed



section \<open>The cleanup job (internal/jobs/cleanup.go)\<close>

text \<open>
  The done channel of the job is closed by Stop; closing it twice is a panic (\<^const>\<open>None\<close>). The
  goroutine runs one cleanup at once and then one for each tick it takes, until it sees the channel
  closed: the list says which case of the select was taken in each turn.
\<close>

record CleanupJob =
  cj_Interval :: time
  cj_Done :: bool

definition NewCleanupJob :: "time \<Rightarrow> CleanupJob" where
  "NewCleanupJob interval = \<lparr>cj_Interval = interval, cj_Done = False\<rparr>"

definition Stop :: "CleanupJob \<Rightarrow> CleanupJob option" where
  "Stop j = (if cj_Done j then None else Some (j\<lparr>cj_Done := True\<rparr>))"

datatype job_case = JobDone | JobTick

fun job_loop :: "job_case list \<Rightarrow> (world, bool) state" where
  "job_loop [] = State_Monad.return False"
| "job_loop (JobDone # rest) = State_Monad.return True"
| "job_loop (JobTick # rest) = do { _ \<leftarrow> cleanup; job_loop rest }"

definition job_run :: "job_case list \<Rightarrow> (world, bool) state" where
  "job_run turns = do { _ \<leftarrow> cleanup; job_loop turns }"

text \<open>The job ends when it sees the channel closed, after as many cleanups as there were ticks.\<close>

lemma job_loop_ends:
  "run_state (job_loop (replicate n JobTick @ JobDone # rest)) w
     = (True, ((\<lambda>w. snd (run_state cleanup w)) ^^ n) w)"
proof (induction n arbitrary: w)
  case (Suc n)
  then show ?case by (simp add: split_beta funpow_Suc_right del: funpow.simps)
qed simp

lemma job_run_good: "state_io_rel good (job_run turns)"
proof -
  have "state_io_rel good (job_loop turns)"
    by (induction turns rule: job_loop.induct) (auto intro!: good.eff_rules cleanup_eff)
  then show ?thesis unfolding job_run_def by (auto intro!: good.eff_rules cleanup_eff)
qed

lemma Stop_once: "Stop (NewCleanupJob i) = Some j \<Longrightarrow> Stop j = None"
  by (auto simp: Stop_def NewCleanupJob_def)


section \<open>Audit records (internal/audit/logger.go)\<close>

datatype audit_type = EventTokenRegenerate | EventAccountCreate | EventRateLimitExceed | EventAuthFailure | EventSessionCreate

fun audit_type_text :: "audit_type \<Rightarrow> string" where
  "audit_type_text EventTokenRegenerate = ''token_regenerate''"
| "audit_type_text EventAccountCreate = ''account_create''"
| "audit_type_text EventRateLimitExceed = ''rate_limit_exceeded''"
| "audit_type_text EventAuthFailure = ''auth_failure''"
| "audit_type_text EventSessionCreate = ''session_create''"

text \<open>A value of type any, by the cases the code distinguishes.\<close>

datatype audit_value = AnyString string | AnyInt int | AnyInt64 int | AnyBool bool | AnyOther json

record AuditEvent =
  ae_Type :: audit_type
  ae_UserID :: string
  ae_AccountID :: string
  ae_IP :: string
  ae_UserAgent :: string
  ae_Details :: "(string \<times> audit_value) list"

datatype log_field = StrField string string | TimeField string time | IntField string int | BoolField string bool
  | AnyField string json

definition addField :: "log_field list \<Rightarrow> string \<Rightarrow> audit_value \<Rightarrow> log_field list" where
  "addField e key v = e @ [case v of
     AnyString s \<Rightarrow> StrField key s
   | AnyInt i \<Rightarrow> IntField key i
   | AnyInt64 i \<Rightarrow> IntField key i
   | AnyBool b \<Rightarrow> BoolField key b
   | AnyOther j \<Rightarrow> AnyField key j]"

definition str_unless_empty :: "string \<Rightarrow> string \<Rightarrow> log_field list" where
  "str_unless_empty key s = (if s \<noteq> [] then [StrField key s] else [])"

text \<open>The fields of the record; the details come in the order the loop meets them.\<close>

definition Log :: "time \<Rightarrow> AuditEvent \<Rightarrow> log_field list" where
  "Log now event =
     fold (\<lambda>(k, v) e. addField e k v) (ae_Details event)
       ([StrField ''audit'' ''security'', StrField ''event_type'' (audit_type_text (ae_Type event)), TimeField ''timestamp'' now]
        @ str_unless_empty ''user_id'' (ae_UserID event) @ str_unless_empty ''account_id'' (ae_AccountID event)
        @ str_unless_empty ''ip'' (ae_IP event) @ str_unless_empty ''user_agent'' (ae_UserAgent event))"

definition LogFromRequest :: "time \<Rightarrow> request \<Rightarrow> AuditEvent \<Rightarrow> log_field list" where
  "LogFromRequest now r event =
     Log now (event\<lparr>ae_IP := getClientIP r, ae_UserAgent := get_value ''User-Agent'' (rq_Headers r)\<rparr>)"

lemma Log_fields:
  "Log now event = take 3 (Log now event) @ str_unless_empty ''user_id'' (ae_UserID event)
     @ str_unless_empty ''account_id'' (ae_AccountID event) @ str_unless_empty ''ip'' (ae_IP event)
     @ str_unless_empty ''user_agent'' (ae_UserAgent event) @ concat (map (\<lambda>(k, v). addField [] k v) (ae_Details event))"
proof -
  have "fold (\<lambda>(k, v) e. addField e k v) ds acc = acc @ concat (map (\<lambda>(k, v). addField [] k v) ds)" for ds acc
    by (induction ds arbitrary: acc) (auto simp: addField_def)
  then show ?thesis by (simp add: Log_def)
qed

end
