(* ===== verification/Spec2Isabelle.thy ===== *)
theory Spec2Isabelle
  imports ServerProps Pairing PairingCodes SessionLife Inbox Streams Limits Waiting Shutdown KakaoCodec
    Encryption Startup
begin

text \<open>
  kakao-relay connects KakaoTalk channel bots with OpenClaw agents. Kakao posts every message of a
  user to a webhook; the relay stores it for the account the conversation is paired with and
  announces it on a Redis channel; the agent of the account reads it from an event stream and
  answers through a reply endpoint, which calls back a URL of Kakao. A conversation and an account
  come together by a pairing code that the agent obtains and the user types.

  \<^bold>\<open>How the program is modelled.\<close> A handler is a computation in the library's state monad over one
  record, \<open>world\<close> (theory Model): the database as one list of rows per table, the clock, the broker of
  this process, the Redis bus and its sorted sets, the callbacks sent, what was written to event
  streams, and the environment's supplies: how much time passes between readings of the clock,
  which database, Redis, HTTP and write operations fail, which UUIDs and random bytes are delivered.
  Every run is thus a computation that a witness evaluates, and a theorem about all worlds is a
  theorem about all behaviours of the environment. An error of Go is a value of a sum type, a panic
  is \<open>None\<close>. Where goroutines interleave, the model is an inductive step relation: the broker alone
  (theory Broker), and the whole server (theory Server: requests through the route table, single
  turns of open event streams, listeners of the Redis channels, the cleanup job, publications of
  other processes, shutdown). A handler runs as one step; the interleaving inside the pairing
  transaction is treated by the property on races in theory Pairing.

  \<^bold>\<open>Which theory models what.\<close>
    \<^item> Prelude, GoLib: lemmas on tables and effects; strings, strconv, time, JSON, HTTP responses.
    \<^item> AppErrors: internal/errors, internal/httputil.
    \<^item> Crypto: internal/util/crypto.go and validation.go with SHA-256, HMAC, hex; Encryption:
      internal/util/encryption.go with AES-256, GCM and base64. All compute on words.
    \<^item> Broker: internal/sse/broker.go and the channel names of internal/redis/client.go.
    \<^item> RedisLimiter: the Lua scripts of internal/middleware/ratelimit_redis.go and
      internal/service/rate_limiter.go; MemLimiter: internal/middleware/ratelimit.go.
    \<^item> Model: internal/model, the schema's tables, internal/database WithTx. Repository:
      internal/repository, one definition per statement with the schema's constraints. DbInvariant:
      well-formedness of the database. Effects, Delivery: what each operation may do to the world.
    \<^item> NetUrl, Services: net/url as far as used, the redirections of net/http's client, internal/service.
    \<^item> Middleware: internal/middleware and getClientIP of internal/audit.
    \<^item> KakaoTypes, KakaoHandler: internal/handler/kakao_types.go and kakao.go. ApiHandlers: openclaw.go,
      session.go, events.go. Dashboard: dashboard.go, response.go, the work of the cleanup job and
      internal/config.
    \<^item> Server: the routes and the running server of cmd/server/main.go. Startup: its start, with
      Load, Connect and NewClient, the loop of the cleanup job, and the records of the audit log.

  \<^bold>\<open>The library of proofs.\<close> The locale \<open>effect_order\<close> (Prelude) gives, for any reflexive and transitive
  relation between worlds, the rules that carry it through monadic code. It is interpreted for
  \<open>good\<close> (the database stays well formed, time does not run backwards), \<open>only_db\<close>, \<open>outgoing\<close> (callbacks go to
  permitted URLs), \<open>delivers\<close> and \<open>streams_to\<close> (what happens to the broker and to connections) and \<open>announces\<close>
  (what a webhook publishes); each has a collection of introduction rules, so that a whole handler is
  a proof by \<open>auto intro!\<close>. \<open>server_effect\<close> extends it to the steps of the server. \<open>keyed_update\<close> is the
  contract of an UPDATE by key, interpreted for the twelve updates of the repositories. \<open>limiter\<close> is
  the contract of a sliding window, interpreted for the Redis script and for the in-memory limiter.
  \<open>outcome_shape\<close> (Outcomes) carries a predicate on answers through the route table.

  \<^bold>\<open>What is shown.\<close>
    \<^item> Of every run of the server (ServerProps, Isolation, EndToEnd, Waiting, Shutdown): the database invariant;
      callbacks go to Kakao only (redirections apart); an event stream shows only
      what belongs to the account or session it authenticated as; no panic; the server's broker refines the abstract protocol of Broker;
      a message of a paired user reaches the connected agent, unless it comes before the listener
      of the account has subscribed; Close ends every stream.
    \<^item> Of pairing and sessions (Pairing, PairingCodes, SessionLife): what a successful pairing changes,
      that it is atomic, that a code works once and while it lives, what two concurrent pairings
      do, what a session reports, and that a typed code is understood.
    \<^item> Of messages (Inbox, Streams, Replies, KakaoCodec): what a webhook may store and publish, what the
      queue delivers and in which order, that a reply reaches only the user of an own message, where
      redirections take it, and that the stored payload decodes to the request.
    \<^item> Of the gates and limits (Gates, Limits, Outcomes, RedisLimiter, MemLimiter): authentication,
      signatures, rate limits and their failures, permitted URLs, the form of every answer,
      deletion of accounts, and cleanup.
    \<^item> Of encryption: Decrypt inverts Encrypt and accepts nothing else.

  \<^bold>\<open>Parameters and hypotheses.\<close> Code that is not in the repository is part of the world: the parser of
  encoding/json on bytes (\<open>json_first\<close>, \<open>json_whole\<close>; decoding a parsed document into the program's types is
  defined), the tables of Unicode case mapping, and how PostgreSQL casts texts to UUIDs. The
  hypothesis \<open>uuid_cast_ok\<close> says that the cast leaves a UUID in canonical form as it is; the witnesses
  use a concrete cast that does. SQL LIMIT is modelled on lists; rows that compare equal under
  ORDER BY keep their insertion order. Time stamps keep the nanoseconds of the clock (PostgreSQL
  rounds them to microseconds), and a jsonb column returns the document it was given (PostgreSQL
  reorders its members). Numbers in JSON documents are integers that a 64-bit float holds exactly. A
  callback is recorded in \<open>callbacks\<close>, the requests made to follow its redirections in \<open>hops\<close>, with the
  URL the client resolves the Location header to. Go's int is \<open>int\<close> where the program cannot leave 64 bits. No
  definition uses fuel: all recursion is structural or has a proved measure (the nine redirections
  that \<open>follow\<close> counts are the HTTP client's own limit). Lists of turns
  (\<open>job_loop\<close>) and of steps stand for loops that only the environment ends.

  \<^bold>\<open>Not modelled.\<close> The request logger and all other log lines (they change no state the program
  reads); the constructors of main.go and of each package, which only fill structures with their
  arguments; the embedded HTML page, whose bytes are a parameter; the drivers, the router, the
  environment parser and Redis itself, which are other programs; the request identifier, client
  address and timeout middlewares of the router's package. That the timeout also ends event
  streams is a finding of the manifest, and is covered by the environment's choice to end a
  stream at any time.
\<close>

end
